(* ===== verification/Prelude.thy ===== *)
theory Prelude
  imports Main "HOL-Library.Word" "HOL-Library.Sublist" "HOL-Library.AList"
begin

text \<open>
  What the components share: the result type of Go's \<open>(value, error)\<close> returns, the parts of
  Go's \<open>strings\<close> package the sources call, and the lemmas on lists and strings the
  component proofs rest on.

  A Go \<open>string\<close> and a Go \<open>[]byte\<close> are both lists of 8-bit characters here, so
  \<open>len\<close> is \<^const>\<open>length\<close> and indexing counts bytes, as in Go.
\<close>

named_theorems go_simps \<open>equations of the standard library model, for simp add\<close>
named_theorems handler_defs \<open>unfolding of the http handlers of the components\<close>
named_theorems option_defs \<open>unfolding of the functional options of the components\<close>

type_synonym bytes = string

text \<open>Go's \<open>(T, error)\<close>: \<open>Inl\<close> carries a non-nil error, \<open>Inr\<close> the value.\<close>

type_synonym ('e, 'a) result = "'e + 'a"

definition is_ok :: "('e, 'a) result \<Rightarrow> bool" where
  "is_ok r = (case r of Inl _ \<Rightarrow> False | Inr _ \<Rightarrow> True)"

lemma is_ok_simps [simp]: "is_ok (Inr x)" "\<not> is_ok (Inl e)"
  by (simp_all add: is_ok_def)

lemma is_ok_iff: "is_ok r \<longleftrightarrow> (\<exists>x. r = Inr x)"
  by (cases r) simp_all

text \<open>
  A Go loop that maps over a slice and returns at the first error: the shape of most of the
  parsing loops of the sources.
\<close>

fun map_result :: "('a \<Rightarrow> ('e, 'b) result) \<Rightarrow> 'a list \<Rightarrow> ('e, 'b list) result" where
  "map_result f [] = Inr []"
| "map_result f (x # xs) =
     (case f x of Inl e \<Rightarrow> Inl e
      | Inr y \<Rightarrow> (case map_result f xs of Inl e \<Rightarrow> Inl e | Inr ys \<Rightarrow> Inr (y # ys)))"

lemma map_result_Inr_iff:
  "map_result f xs = Inr ys \<longleftrightarrow> list_all2 (\<lambda>x y. f x = Inr y) xs ys"
proof (induction xs arbitrary: ys)
  case Nil
  then show ?case by auto
next
  case (Cons x xs)
  show ?case
  proof (cases "f x")
    case (Inl e)
    then show ?thesis by (auto simp: list_all2_Cons1)
  next
    case (Inr y)
    show ?thesis
    proof (cases "map_result f xs")
      case (Inl e)
      with Inr Cons.IH show ?thesis by (auto simp: list_all2_Cons1)
    next
      case (Inr zs)
      then have "list_all2 (\<lambda>x y. f x = Inr y) xs us \<longleftrightarrow> us = zs" for us
        by (metis Cons.IH sum.inject(2))
      with \<open>f x = Inr y\<close> Inr show ?thesis by (auto simp: list_all2_Cons1)
    qed
  qed
qed

lemma map_result_length: "map_result f xs = Inr ys \<Longrightarrow> length ys = length xs"
  by (auto simp: map_result_Inr_iff dest: list_all2_lengthD)

lemma map_result_source: "map_result f xs = Inr ys \<Longrightarrow> y \<in> set ys \<Longrightarrow> \<exists>x \<in> set xs. f x = Inr y"
  by (induction xs arbitrary: ys) (auto split: sum.splits)

lemma map_result_InlD:
  "map_result f xs = Inl e \<Longrightarrow> \<exists>x \<in> set xs. f x = Inl e"
  by (induction xs) (auto split: sum.splits)

lemma map_result_Inl_ex:
  "x \<in> set xs \<Longrightarrow> f x = Inl e \<Longrightarrow> \<exists>e'. map_result f xs = Inl e'"
  by (induction xs) (auto split: sum.splits)

lemma map_result_is_ok: "is_ok (map_result f xs) \<longleftrightarrow> (\<forall>x \<in> set xs. is_ok (f x))"
  by (induction xs) (auto simp: is_ok_def split: sum.splits)

lemma map_result_map_id:
  "(\<And>x. x \<in> set xs \<Longrightarrow> f (g x) = Inr x) \<Longrightarrow> map_result f (map g xs) = Inr xs"
  by (induction xs) simp_all

text \<open>Functional options: Go's \<open>for _, opt := range opts { opt(&o) }\<close>.\<close>

definition apply_options :: "('o \<Rightarrow> 'o) list \<Rightarrow> 'o \<Rightarrow> 'o" where
  "apply_options opts o0 = fold (\<lambda>f o1. f o1) opts o0"

lemma apply_options_simps [simp]:
  "apply_options [] o0 = o0"
  "apply_options (f # fs) o0 = apply_options fs (f o0)"
  "apply_options (fs @ gs) o0 = apply_options gs (apply_options fs o0)"
  by (simp_all add: apply_options_def)

lemma apply_options_last: "apply_options (fs @ [f]) o0 = f (apply_options fs o0)"
  by simp

subsection \<open>The strings package\<close>

definition strings_HasPrefix :: "string \<Rightarrow> string \<Rightarrow> bool" where
  "strings_HasPrefix s p = prefix p s"

definition strings_HasSuffix :: "string \<Rightarrow> string \<Rightarrow> bool" where
  "strings_HasSuffix s p = suffix p s"

lemma strings_HasSuffix_eval: "strings_HasSuffix s p = prefix (rev p) (rev s)"
  by (simp add: strings_HasSuffix_def suffix_to_prefix)

fun strings_Index :: "string \<Rightarrow> string \<Rightarrow> nat option" where
  "strings_Index [] sub = (if sub = [] then Some 0 else None)"
| "strings_Index (c # s) sub =
     (if prefix sub (c # s) then Some 0 else map_option Suc (strings_Index s sub))"

definition strings_Contains :: "string \<Rightarrow> string \<Rightarrow> bool" where
  "strings_Contains s sub = (strings_Index s sub \<noteq> None)"

lemma strings_Index_bound:
  "strings_Index s sub = Some i \<Longrightarrow> i + length sub \<le> length s"
  by (induction s arbitrary: i) (auto dest: prefix_length_le split: if_splits)

lemma strings_Contains_iff: "strings_Contains s sub \<longleftrightarrow> (\<exists>u v. s = u @ sub @ v)"
proof (induction s)
  case Nil
  then show ?case by (auto simp: strings_Contains_def)
next
  case (Cons c s)
  have "strings_Contains (c # s) sub \<longleftrightarrow> prefix sub (c # s) \<or> strings_Contains s sub"
    by (simp add: strings_Contains_def)
  also have "\<dots> \<longleftrightarrow> (\<exists>u v. c # s = u @ sub @ v)"
    unfolding Cons.IH prefix_def by (metis (no_types) Cons_eq_append_conv append_Cons append_Nil)
  finally show ?case .
qed

lemma strings_Contains_char: "strings_Contains s [c] \<longleftrightarrow> c \<in> set s"
  by (simp add: strings_Contains_iff in_set_conv_decomp)

text \<open>
  \<open>strings.Split\<close> and \<open>strings.Count\<close>. With an empty separator Go splits after each UTF-8
  sequence; the model has the rule for ASCII strings, one byte per sequence (the sources
  always pass a one-character separator).
\<close>

function strings_Split :: "string \<Rightarrow> string \<Rightarrow> string list" where
  "strings_Split s sep =
     (if sep = [] then map (\<lambda>c. [c]) s
      else case strings_Index s sep of
             None \<Rightarrow> [s]
           | Some i \<Rightarrow> take i s # strings_Split (drop (i + length sep) s) sep)"
  by pat_completeness auto
termination
  by (relation "measure (\<lambda>(s, sep). length s)") (auto dest!: strings_Index_bound simp flip: length_greater_0_conv)

declare strings_Split.simps [simp del]

function strings_Count :: "string \<Rightarrow> string \<Rightarrow> nat" where
  "strings_Count s sep =
     (if sep = [] then length s + 1
      else case strings_Index s sep of
             None \<Rightarrow> 0
           | Some i \<Rightarrow> Suc (strings_Count (drop (i + length sep) s) sep))"
  by pat_completeness auto
termination
  by (relation "measure (\<lambda>(s, sep). length s)") (auto dest!: strings_Index_bound simp flip: length_greater_0_conv)

declare strings_Count.simps [simp del]

lemma strings_Split_length: "sep \<noteq> [] \<Longrightarrow> length (strings_Split s sep) = Suc (strings_Count s sep)"
proof (induction s sep rule: strings_Split.induct)
  case (1 s sep)
  then show ?case
    by (subst strings_Split.simps, subst strings_Count.simps) (auto split: option.splits)
qed

fun strings_Join :: "string list \<Rightarrow> string \<Rightarrow> string" where
  "strings_Join [] sep = []"
| "strings_Join [s] sep = s"
| "strings_Join (s # t # ts) sep = s @ sep @ strings_Join (t # ts) sep"

definition strings_TrimPrefix :: "string \<Rightarrow> string \<Rightarrow> string" where
  "strings_TrimPrefix s p = (if strings_HasPrefix s p then drop (length p) s else s)"

definition strings_TrimSuffix :: "string \<Rightarrow> string \<Rightarrow> string" where
  "strings_TrimSuffix s p = (if strings_HasSuffix s p then take (length s - length p) s else s)"

text \<open>\<open>strings.SplitN(s, sep, 2)\<close>: at most one split.\<close>

definition strings_SplitN2 :: "string \<Rightarrow> string \<Rightarrow> string list" where
  "strings_SplitN2 s sep =
     (case strings_Index s sep of
        None \<Rightarrow> [s]
      | Some i \<Rightarrow> [take i s, drop (i + length sep) s])"

subsection \<open>One-character separators\<close>

fun split_on :: "char \<Rightarrow> string \<Rightarrow> string list" where
  "split_on c [] = [[]]"
| "split_on c (x # xs) =
     (if x = c then [] # split_on c xs
      else (case split_on c xs of [] \<Rightarrow> [[x]] | p # ps \<Rightarrow> (x # p) # ps))"

lemma split_on_not_Nil [simp]: "split_on c s \<noteq> []"
  by (induction s) (auto split: list.splits)

lemma split_on_length: "length (split_on c s) = Suc (count_list s c)"
  by (induction s) (auto split: list.splits)

lemma strings_Index_char_None: "strings_Index s [c] = None \<longleftrightarrow> c \<notin> set s"
  by (induction s) auto

lemma strings_Index_char_Some:
  "strings_Index s [c] = Some i \<longleftrightarrow> (\<exists>u v. s = u @ c # v \<and> length u = i \<and> c \<notin> set u)"
proof (induction s arbitrary: i)
  case Nil
  then show ?case by simp
next
  case (Cons x s)
  show ?case
  proof (cases "x = c")
    case True
    then show ?thesis
      by (auto intro: exI [of _ "[]"] simp: Cons_eq_append_conv)
  next
    case False
    have "strings_Index (x # s) [c] = Some i \<longleftrightarrow>
      (\<exists>j u v. i = Suc j \<and> s = u @ c # v \<and> length u = j \<and> c \<notin> set u)"
      using False Cons.IH by auto
    also have "\<dots> \<longleftrightarrow> (\<exists>u v. x # s = u @ c # v \<and> length u = i \<and> c \<notin> set u)"
      using False by (fastforce simp: Cons_eq_append_conv)
    finally show ?thesis .
  qed
qed

lemma split_on_notin: "c \<notin> set s \<Longrightarrow> split_on c s = [s]"
  by (induction s) auto

lemma split_on_append_sep: "split_on c (u @ c # v) = split_on c u @ split_on c v"
  by (induction u) (auto split: list.splits simp: Cons_eq_append_conv)

lemma split_on_first: "c \<notin> set u \<Longrightarrow> split_on c (u @ c # v) = u # split_on c v"
  by (simp add: split_on_append_sep split_on_notin)

lemma strings_Split_char: "strings_Split s [c] = split_on c s"
proof (induction s "[c]" rule: strings_Split.induct)
  case (1 s)
  show ?case
  proof (cases "strings_Index s [c]")
    case None
    then show ?thesis
      using strings_Index_char_None [of s c]
      by (subst strings_Split.simps) (simp add: split_on_notin)
  next
    case (Some i)
    then obtain u v where s: "s = u @ c # v" "length u = i" "c \<notin> set u"
      by (auto simp: strings_Index_char_Some)
    have IH: "strings_Split v [c] = split_on c v"
      using "1" Some s by simp
    show ?thesis
      by (subst strings_Split.simps) (use Some s IH in \<open>simp add: split_on_first\<close>)
  qed
qed

lemma strings_Count_char: "strings_Count s [c] = count_list s c"
  using strings_Split_length [of "[c]" s] by (simp add: strings_Split_char split_on_length)

lemma split_on_elem_notin: "p \<in> set (split_on c s) \<Longrightarrow> c \<notin> set p"
  by (induction s arbitrary: p) (auto split: list.splits if_splits)

lemma strings_Join_split_on: "strings_Join (split_on c s) [c] = s"
proof (induction s)
  case Nil
  then show ?case by simp
next
  case (Cons x s)
  obtain p ps where ps: "split_on c s = p # ps"
    by (cases "split_on c s") auto
  with Cons show ?case
    by (cases ps) auto
qed

lemma split_on_inj: "split_on c s = split_on c t \<Longrightarrow> s = t"
  by (metis strings_Join_split_on)

lemma split_on_last: "suffix (c # w) s \<Longrightarrow> c \<notin> set w \<Longrightarrow> last (split_on c s) = w"
  by (auto simp: suffix_def split_on_append_sep split_on_notin)

lemma split_on_strings_Join:
  "xs \<noteq> [] \<Longrightarrow> \<forall>x\<in>set xs. c \<notin> set x \<Longrightarrow> split_on c (strings_Join xs [c]) = xs"
  by (induction xs "[c]" rule: strings_Join.induct) (simp_all add: split_on_notin split_on_first)

lemma strings_Join_snoc: "cs \<noteq> [] \<Longrightarrow> strings_Join (cs @ [k]) s = strings_Join cs s @ s @ k"
proof (induction cs rule: induct_list012)
  case (3 x y zs)
  then show ?case by simp
qed simp_all

end
