(* ===== verification/Permissions.thy ===== *)
theory Permissions
  imports Prelude
begin

text \<open>
  Package \<^verbatim>\<open>webauth/permissions\<close>: structured patterns with wildcards
  (\<^verbatim>\<open>permissions_spec.go\<close>) and sets of granted permissions
  (\<^verbatim>\<open>permissions.go\<close>). \<open>Allowed\<close> is the optimised routine of the source, with its
  two fast paths; \<open>pattern_matches\<close> is the component-wise specification it is shown to
  implement.
\<close>

subsection \<open>permissions_spec.go\<close>

type_synonym Pattern = string

text \<open>The package variable \<^verbatim>\<open>DefaultMaxComponentsAllowed\<close>, at its initial value.\<close>

definition DefaultMaxComponentsAllowed :: nat where
  "DefaultMaxComponentsAllowed = 10"

text \<open>
  The component loop at the end of \<^verbatim>\<open>Allowed\<close>: \<open>k\<close> iterations left, at index \<open>i\<close>. An index
  out of range panics in Go, which is \<open>None\<close>.
\<close>

fun components_loop :: "nat \<Rightarrow> nat \<Rightarrow> string list \<Rightarrow> string list \<Rightarrow> bool option" where
  "components_loop 0 i ps qs = Some True"
| "components_loop (Suc k) i ps qs =
     (if i \<ge> length ps then None
      else if ps ! i = ''*'' then components_loop k (Suc i) ps qs
      else if i \<ge> length qs then None
      else if ps ! i \<noteq> qs ! i then Some False
      else components_loop k (Suc i) ps qs)"

definition Allowed :: "Pattern \<Rightarrow> Pattern \<Rightarrow> string \<Rightarrow> bool option" where
  "Allowed request requirement sep =
     (if length request = 0 \<or> length requirement = 0 then Some False
      else
        let requestNumComponents = strings_Count request sep + 1;
            requirementsNumComponents = strings_Count requirement sep + 1
        in if requestNumComponents > DefaultMaxComponentsAllowed \<or>
              requirementsNumComponents > DefaultMaxComponentsAllowed then Some False
        else if request = requirement then Some True
        else
          let wildcardEnd = strings_HasSuffix request (sep @ ''*'')
          in if wildcardEnd \<and>
                strings_HasPrefix requirement (take (length request - 1) request) then Some True
          else if wildcardEnd \<and> requestNumComponents > requirementsNumComponents then Some False
          else if \<not> wildcardEnd \<and> requestNumComponents \<noteq> requirementsNumComponents then Some False
          else components_loop requestNumComponents 0
                 (strings_Split request sep) (strings_Split requirement sep))"

subsection \<open>permissions.go\<close>

type_synonym Resource = Pattern
type_synonym Action = Pattern

record Spec =
  Role :: string
  Method :: string
  SpecResource :: Resource
  SpecAction :: Action

record Set =
  Permissions :: "Spec list"

definition Spec_String :: "Spec \<Rightarrow> string" where
  "Spec_String s = Role s @ '','' @ Method s @ '','' @ SpecResource s @ '','' @ SpecAction s"

definition Valid :: "Spec \<Rightarrow> bool" where
  "Valid s \<longleftrightarrow> Role s \<noteq> [] \<and> Method s \<noteq> [] \<and> SpecResource s \<noteq> [] \<and> SpecAction s \<noteq> []"

text \<open>The loop of \<^verbatim>\<open>Set.Satisfies\<close>; \<open>&&\<close> evaluates \<open>Allowed\<close> only where the left operands hold.\<close>

fun satisfies_loop :: "Spec list \<Rightarrow> Spec \<Rightarrow> bool option" where
  "satisfies_loop [] required = Some False"
| "satisfies_loop (permission # ps) required =
     (if Role permission = Role required \<and> Method permission = Method required then
        (case Allowed (SpecAction permission) (SpecAction required) '':'' of
           None \<Rightarrow> None
         | Some False \<Rightarrow> satisfies_loop ps required
         | Some True \<Rightarrow>
             (case Allowed (SpecResource permission) (SpecResource required) ''/'' of
                None \<Rightarrow> None
              | Some False \<Rightarrow> satisfies_loop ps required
              | Some True \<Rightarrow> Some True))
      else satisfies_loop ps required)"

definition Satisfies :: "Set \<Rightarrow> Spec \<Rightarrow> bool option" where
  "Satisfies s required =
     (if \<not> Valid required then Some False else satisfies_loop (Permissions s) required)"

text \<open>
  The iterator \<^verbatim>\<open>Set.Specs\<close>: the consumer \<open>yield\<close> has a state and answers whether to go on; the
  iterator stops at the first \<open>False\<close>.
\<close>

fun Specs_loop :: "Spec list \<Rightarrow> ('s \<Rightarrow> Spec \<Rightarrow> 's \<times> bool) \<Rightarrow> 's \<Rightarrow> 's" where
  "Specs_loop [] yield st = st"
| "Specs_loop (p # ps) yield st =
     (let (st', more) = yield st p in if more then Specs_loop ps yield st' else st')"

definition Specs :: "Set \<Rightarrow> ('s \<Rightarrow> Spec \<Rightarrow> 's \<times> bool) \<Rightarrow> 's \<Rightarrow> 's" where
  "Specs s yield st = Specs_loop (Permissions s) yield st"

text \<open>
  \<^verbatim>\<open>permissionstestutil\<close>: sets from lists of strings, four for each permission. The loop reads four elements
  at a time; \<open>None\<close> is an index out of range.
\<close>

fun tuples_loop :: "string list \<Rightarrow> Spec list option" where
  "tuples_loop [] = Some []"
| "tuples_loop (role # meth # resource # action # rest) =
     (case tuples_loop rest of
        None \<Rightarrow> None
      | Some ps \<Rightarrow> Some (\<lparr>Role = role, Method = meth, SpecResource = resource, SpecAction = action\<rparr> # ps))"
| "tuples_loop _ = None"

datatype tuples_error = NotAMultipleOfFour

definition perms_New :: "string list \<Rightarrow> (tuples_error, Set) result option" where
  "perms_New tuples =
     (if length tuples mod 4 \<noteq> 0 then Some (Inl NotAMultipleOfFour)
      else map_option (\<lambda>ps. Inr \<lparr>Permissions = ps\<rparr>) (tuples_loop tuples))"

definition perms_NewMust :: "string list \<Rightarrow> Set option" where
  "perms_NewMust tuples = (case perms_New tuples of Some (Inr perms) \<Rightarrow> Some perms | _ \<Rightarrow> None)"

subsection \<open>The specification of pattern matching\<close>

definition wild_tail :: "string list \<Rightarrow> bool" where
  "wild_tail ps \<longleftrightarrow> 1 < length ps \<and> last ps = ''*''"

definition component_ok :: "string \<Rightarrow> string \<Rightarrow> bool" where
  "component_ok p q \<longleftrightarrow> p = ''*'' \<or> p = q"

definition pattern_matches :: "string list \<Rightarrow> string list \<Rightarrow> bool" where
  "pattern_matches ps qs \<longleftrightarrow>
     (if wild_tail ps then length ps \<le> length qs else length ps = length qs) \<and>
     list_all2 component_ok ps (take (length ps) qs)"

definition bounded :: "char \<Rightarrow> string \<Rightarrow> bool" where
  "bounded c s \<longleftrightarrow> s \<noteq> [] \<and> length (split_on c s) \<le> DefaultMaxComponentsAllowed"

definition grants :: "Spec \<Rightarrow> Spec \<Rightarrow> bool" where
  "grants p r \<longleftrightarrow> Role p = Role r \<and> Method p = Method r \<and>
     Allowed (SpecAction p) (SpecAction r) '':'' = Some True \<and>
     Allowed (SpecResource p) (SpecResource r) ''/'' = Some True"

lemma components_loop_total:
  "i + k \<le> length ps \<Longrightarrow> i + k \<le> length qs \<Longrightarrow>
   components_loop k i ps qs = Some (list_all2 component_ok (take k (drop i ps)) (take k (drop i qs)))"
proof (induction k arbitrary: i)
  case 0
  then show ?case by simp
next
  case (Suc k)
  have "drop i ps = ps ! i # drop (Suc i) ps" "drop i qs = qs ! i # drop (Suc i) qs"
    using Suc.prems by (auto simp: Cons_nth_drop_Suc)
  then show ?case
    using Suc.prems Suc.IH [of "Suc i"] by (auto simp: component_ok_def)
qed

lemma wild_tail_iff_suffix:
  assumes "c \<noteq> CHR ''*''"
  shows "strings_HasSuffix s (c # ''*'') \<longleftrightarrow> wild_tail (split_on c s)"
proof
  assume "strings_HasSuffix s (c # ''*'')"
  then obtain u where "s = u @ c # ''*''"
    by (auto simp: strings_HasSuffix_def suffix_def)
  with assms have "split_on c s = split_on c u @ [''*'']"
    by (simp add: split_on_append_sep)
  then show "wild_tail (split_on c s)"
    by (simp add: wild_tail_def)
next
  assume w: "wild_tail (split_on c s)"
  then obtain xs where xs: "split_on c s = xs @ [''*'']" "xs \<noteq> []"
    by (cases "split_on c s" rule: rev_cases) (auto simp: wild_tail_def)
  have "s = strings_Join xs [c] @ [c] @ ''*''"
    using strings_Join_split_on [of c s] xs by (simp add: strings_Join_snoc)
  then show "strings_HasSuffix s (c # ''*'')"
    by (auto simp: strings_HasSuffix_def suffix_def)
qed

lemma list_all2_component_ok_refl: "list_all2 component_ok ps ps"
  by (simp add: list_all2_conv_all_nth component_ok_def)

lemma pattern_matches_refl: "pattern_matches ps ps"
  by (simp add: pattern_matches_def list_all2_component_ok_refl)

lemma pattern_matches_prefix:
  assumes "c \<noteq> CHR ''*''" and "strings_HasSuffix r (c # ''*'')"
    and "strings_HasPrefix q (take (length r - 1) r)"
  shows "pattern_matches (split_on c r) (split_on c q)"
proof -
  from assms(2) obtain u where r: "r = u @ c # ''*''"
    by (auto simp: strings_HasSuffix_def suffix_def)
  with assms(3) obtain v where q: "q = u @ c # v"
    by (auto simp: strings_HasPrefix_def prefix_def)
  have sr: "split_on c r = split_on c u @ [''*'']"
    using assms(1) by (simp add: r split_on_append_sep)
  have sq: "split_on c q = split_on c u @ split_on c v"
    by (simp add: q split_on_append_sep)
  obtain w ws where v: "split_on c v = w # ws"
    by (cases "split_on c v") auto
  show ?thesis
    unfolding sr sq v pattern_matches_def wild_tail_def
    by (auto simp: list_all2_appendI list_all2_component_ok_refl component_ok_def)
qed

text \<open>The two fast paths change nothing: \<open>Allowed\<close> is component-wise matching.\<close>

lemma Allowed_char:
  assumes "c \<noteq> CHR ''*''"
  shows "Allowed r q [c] =
    Some (bounded c r \<and> bounded c q \<and> pattern_matches (split_on c r) (split_on c q))"
proof -
  let ?ps = "split_on c r" and ?qs = "split_on c q"
  have cnt: "strings_Count s [c] + 1 = length (split_on c s)" for s
    by (simp add: strings_Count_char split_on_length)
  have w: "strings_HasSuffix r ([c] @ ''*'') \<longleftrightarrow> wild_tail ?ps"
    using wild_tail_iff_suffix [OF assms, of r] by simp
  have fast: "wild_tail ?ps \<and> strings_HasPrefix q (take (length r - 1) r) \<Longrightarrow> pattern_matches ?ps ?qs"
    using pattern_matches_prefix [OF assms] wild_tail_iff_suffix [OF assms, of r] by simp
  have loop: "length ?ps \<le> length ?qs \<Longrightarrow>
      components_loop (length ?ps) 0 ?ps ?qs = Some (list_all2 component_ok ?ps (take (length ?ps) ?qs))"
    using components_loop_total [of 0 "length ?ps" ?ps ?qs] by simp
  show ?thesis
    using fast loop pattern_matches_refl [of ?ps]
    unfolding Allowed_def cnt strings_Split_char w Let_def
    by (auto simp: bounded_def pattern_matches_def not_less)
qed

lemma Allowed_no_panic: "sep \<noteq> [] \<Longrightarrow> \<exists>b. Allowed r q sep = Some b"
proof -
  assume "sep \<noteq> []"
  then have len: "length (strings_Split s sep) = strings_Count s sep + 1" for s
    by (simp add: strings_Split_length)
  show ?thesis
    unfolding Allowed_def Let_def
    using components_loop_total [of 0 "strings_Count r sep + 1" "strings_Split r sep" "strings_Split q sep"]
    by (auto simp: len not_less)
qed

lemma component_ok_trans: "component_ok p q \<Longrightarrow> component_ok q r \<Longrightarrow> component_ok p r"
  by (auto simp: component_ok_def)

lemma wild_tail_matches:
  assumes "list_all2 component_ok ps qs" and "wild_tail qs"
  shows "wild_tail ps"
proof -
  have len: "length ps = length qs"
    using assms(1) by (rule list_all2_lengthD)
  with assms(2) have ne: "ps \<noteq> []" "qs \<noteq> []" by (auto simp: wild_tail_def)
  with assms(1) len have "component_ok (last ps) (last qs)"
    by (simp add: list_all2_conv_all_nth last_conv_nth)
  with assms(2) len show ?thesis
    by (auto simp: wild_tail_def component_ok_def)
qed

lemma pattern_matches_trans:
  assumes "pattern_matches ps qs" and "pattern_matches qs rs"
  shows "pattern_matches ps rs"
proof -
  have l1: "list_all2 component_ok ps (take (length ps) qs)"
    and l2: "list_all2 component_ok qs (take (length qs) rs)"
    using assms by (simp_all add: pattern_matches_def)
  have lens: "length ps \<le> length qs" "length qs \<le> length rs"
    using assms by (auto simp: pattern_matches_def split: if_splits)
  have "list_all2 component_ok (take (length ps) qs) (take (length ps) rs)"
    using list_all2_takeI [OF l2, of "length ps"] lens by (simp add: min_absorb1)
  then have all: "list_all2 component_ok ps (take (length ps) rs)"
    using l1 by (auto simp: list_all2_conv_all_nth intro: component_ok_trans)
  show ?thesis
  proof (cases "wild_tail ps")
    case True
    with all lens show ?thesis by (simp add: pattern_matches_def)
  next
    case False
    with assms(1) have "length ps = length qs" by (simp add: pattern_matches_def)
    moreover from this have "\<not> wild_tail qs"
      using False l1 wild_tail_matches by auto
    ultimately show ?thesis
      using False all assms(2) by (simp add: pattern_matches_def)
  qed
qed

lemma Allowed_True_iff:
  "c \<noteq> CHR ''*'' \<Longrightarrow> Allowed r q [c] = Some True \<longleftrightarrow>
     bounded c r \<and> bounded c q \<and> pattern_matches (split_on c r) (split_on c q)"
  by (simp add: Allowed_char)

lemma satisfies_loop_eq: "satisfies_loop ps r = Some (\<exists>p \<in> set ps. grants p r)"
proof (induction ps)
  case Nil
  then show ?case by simp
next
  case (Cons p ps)
  obtain a b where "Allowed (SpecAction p) (SpecAction r) '':'' = Some a"
    and "Allowed (SpecResource p) (SpecResource r) ''/'' = Some b"
    using Allowed_no_panic by (metis list.distinct(1))
  with Cons show ?case
    by (cases a; cases b) (auto simp: grants_def)
qed

lemma Satisfies_eq: "Satisfies s r = Some (Valid r \<and> (\<exists>p \<in> set (Permissions s). grants p r))"
  by (simp add: Satisfies_def satisfies_loop_eq)

lemma Allowed_trans_char:
  "c \<noteq> CHR ''*'' \<Longrightarrow> Allowed r q [c] = Some True \<Longrightarrow> Allowed q t [c] = Some True \<Longrightarrow>
   Allowed r t [c] = Some True"
  using pattern_matches_trans by (auto simp: Allowed_True_iff)

lemma grants_trans: "grants p q \<Longrightarrow> grants q r \<Longrightarrow> grants p r"
  by (auto simp: grants_def intro: Allowed_trans_char)

subsection \<open>Properties\<close>

text \<open>
  C1. For a one-character separator other than the wildcard, \<^verbatim>\<open>Allowed\<close> (with its exact-match and
  prefix fast paths) decides exactly component-wise matching: both patterns non-empty and of at
  most ten components, every component of the request equal to the requirement's or a
  wildcard, and a requirement of the same length, or at least the same length when the request
  ends in a wildcard component.
\<close>

theorem Allowed_matches_spec:
  assumes "c \<noteq> CHR ''*''"
  shows "Allowed request requirement [c] =
    Some (bounded c request \<and> bounded c requirement \<and>
          pattern_matches (split_on c request) (split_on c requirement))"
  using assms by (rule Allowed_char)

theorem Allowed_matches_spec_witness:
  "CHR '':'' \<noteq> CHR ''*'' \<and> Allowed ''a:*'' ''a:b:c'' '':'' = Some True \<and>
   Allowed ''a:*'' ''a'' '':'' = Some False"
proof -
  have h: "CHR '':'' \<noteq> CHR ''*''" by simp
  show ?thesis
    unfolding Allowed_matches_spec [OF h]
    by (simp add: bounded_def pattern_matches_def wild_tail_def component_ok_def
          DefaultMaxComponentsAllowed_def)
qed

text \<open>
  C5. A permission that grants what another permission grants is never stronger than its source:
  if a set satisfies a permission \<open>p\<close> and the set holding only \<open>p\<close> satisfies a requirement, the
  first set satisfies the requirement. The answer of \<^verbatim>\<open>Satisfies\<close> is always defined (no index of
  the component loop is out of range).
\<close>

theorem Satisfies_delegation:
  assumes "Satisfies s p = Some True"
    and "Satisfies \<lparr>Permissions = [p]\<rparr> required = Some True"
  shows "Satisfies s required = Some True"
proof -
  from assms(2) have "grants p required" "Valid required"
    by (simp_all add: Satisfies_eq)
  with assms(1) show ?thesis
    by (auto simp: Satisfies_eq intro: grants_trans)
qed

theorem Satisfies_delegation_witness:
  "Satisfies \<lparr>Permissions = [\<lparr>Role = ''admin'', Method = ''GET'', SpecResource = ''/a/*'', SpecAction = ''doc:*''\<rparr>]\<rparr>
     \<lparr>Role = ''admin'', Method = ''GET'', SpecResource = ''/a/b/c'', SpecAction = ''doc:read''\<rparr> = Some True"
proof -
  let ?s = "\<lparr>Permissions = [\<lparr>Role = ''admin'', Method = ''GET'', SpecResource = ''/a/*'', SpecAction = ''doc:*''\<rparr>]\<rparr>"
  let ?p = "\<lparr>Role = ''admin'', Method = ''GET'', SpecResource = ''/a/b/*'', SpecAction = ''doc:*''\<rparr>"
  let ?r = "\<lparr>Role = ''admin'', Method = ''GET'', SpecResource = ''/a/b/c'', SpecAction = ''doc:read''\<rparr>"
  note ev = Satisfies_eq grants_def Valid_def Allowed_char bounded_def pattern_matches_def
    wild_tail_def component_ok_def DefaultMaxComponentsAllowed_def
  have "Satisfies ?s ?p = Some True" and "Satisfies \<lparr>Permissions = [?p]\<rparr> ?r = Some True"
    by (simp_all add: ev)
  then show ?thesis
    by (rule Satisfies_delegation)
qed

text \<open>
  \<^verbatim>\<open>New\<close> of the test utilities never indexes out of range: it answers an error exactly for lists whose length is
  no multiple of four, and otherwise the set whose fields, in order, are the list.
\<close>

definition spec_tuple :: "Spec \<Rightarrow> string list" where
  "spec_tuple p = [Role p, Method p, SpecResource p, SpecAction p]"

lemma tuples_loop_concat: "tuples_loop (concat (map spec_tuple ps)) = Some ps"
  by (induction ps) (simp_all add: spec_tuple_def)

lemma tuples_loop_iff: "tuples_loop ts = Some ps \<longleftrightarrow> ts = concat (map spec_tuple ps)"
proof
  show "tuples_loop ts = Some ps \<Longrightarrow> ts = concat (map spec_tuple ps)"
    by (induction ts arbitrary: ps rule: tuples_loop.induct) (auto simp: spec_tuple_def split: option.splits)
qed (simp add: tuples_loop_concat)

lemma tuples_loop_defined: "length ts mod 4 = 0 \<Longrightarrow> \<exists>ps. tuples_loop ts = Some ps"
  by (induction ts rule: tuples_loop.induct) auto

lemma perms_New_roundtrip:
  "perms_New ts = Some (Inr s) \<longleftrightarrow> ts = concat (map spec_tuple (Permissions s))"
  "perms_New ts = Some (Inl e) \<longleftrightarrow> length ts mod 4 \<noteq> 0"
  "perms_New ts \<noteq> None"
proof -
  have four: "length (concat (map spec_tuple ps)) mod 4 = 0" for ps by (induction ps) (simp_all add: spec_tuple_def)
  show "perms_New ts = Some (Inr s) \<longleftrightarrow> ts = concat (map spec_tuple (Permissions s))"
    using four by (cases s) (auto simp: perms_New_def tuples_loop_iff)
  show "perms_New ts = Some (Inl e) \<longleftrightarrow> length ts mod 4 \<noteq> 0" by (cases e) (auto simp: perms_New_def)
  show "perms_New ts \<noteq> None" using tuples_loop_defined [of ts] by (auto simp: perms_New_def)
qed

end
