(* ===== verification/GoHttp.thy ===== *)
theory GoHttp
  imports Prelude
begin

text \<open>
  The parts of Go's \<open>net/http\<close> the handlers of the repository use: header maps with
  canonical keys, requests, response writers with their commit point, cookies, \<open>http.Error\<close>,
  and body readers with a byte limit.

  Conventions. A header maps a key to its values, the absent key to no values. A response
  writer commits its status and a snapshot of its headers at the first \<open>WriteHeader\<close> or
  \<open>Write\<close>; later changes of the header do not reach the client. Status codes passed to
  \<open>WriteHeader\<close> are final ones (200 to 999). Times and durations are integers in nanoseconds.
\<close>

subsection \<open>Status codes\<close>

definition StatusOK :: int where "StatusOK = 200"
definition StatusAccepted :: int where "StatusAccepted = 202"
definition StatusMovedPermanently :: int where "StatusMovedPermanently = 301"
definition StatusTemporaryRedirect :: int where "StatusTemporaryRedirect = 307"
definition StatusBadRequest :: int where "StatusBadRequest = 400"
definition StatusUnauthorized :: int where "StatusUnauthorized = 401"
definition StatusForbidden :: int where "StatusForbidden = 403"
definition StatusNotFound :: int where "StatusNotFound = 404"
definition StatusMethodNotAllowed :: int where "StatusMethodNotAllowed = 405"
definition StatusConflict :: int where "StatusConflict = 409"
definition StatusRequestEntityTooLarge :: int where "StatusRequestEntityTooLarge = 413"
definition StatusUnsupportedMediaType :: int where "StatusUnsupportedMediaType = 415"
definition StatusInternalServerError :: int where "StatusInternalServerError = 500"

lemmas status_defs [go_simps] =
  StatusOK_def StatusAccepted_def StatusMovedPermanently_def StatusTemporaryRedirect_def
  StatusBadRequest_def StatusUnauthorized_def StatusForbidden_def StatusNotFound_def
  StatusMethodNotAllowed_def StatusConflict_def StatusRequestEntityTooLarge_def
  StatusUnsupportedMediaType_def StatusInternalServerError_def

subsection \<open>Status texts\<close>

definition status_texts :: "(int \<times> string) list" where
  "status_texts =
     [(100, ''Continue''),
      (101, ''Switching Protocols''),
      (102, ''Processing''),
      (103, ''Early Hints''),
      (200, ''OK''),
      (201, ''Created''),
      (202, ''Accepted''),
      (203, ''Non-Authoritative Information''),
      (204, ''No Content''),
      (205, ''Reset Content''),
      (206, ''Partial Content''),
      (207, ''Multi-Status''),
      (208, ''Already Reported''),
      (226, ''IM Used''),
      (300, ''Multiple Choices''),
      (301, ''Moved Permanently''),
      (302, ''Found''),
      (303, ''See Other''),
      (304, ''Not Modified''),
      (305, ''Use Proxy''),
      (307, ''Temporary Redirect''),
      (308, ''Permanent Redirect''),
      (400, ''Bad Request''),
      (401, ''Unauthorized''),
      (402, ''Payment Required''),
      (403, ''Forbidden''),
      (404, ''Not Found''),
      (405, ''Method Not Allowed''),
      (406, ''Not Acceptable''),
      (407, ''Proxy Authentication Required''),
      (408, ''Request Timeout''),
      (409, ''Conflict''),
      (410, ''Gone''),
      (411, ''Length Required''),
      (412, ''Precondition Failed''),
      (413, ''Request Entity Too Large''),
      (414, ''Request URI Too Long''),
      (415, ''Unsupported Media Type''),
      (416, ''Requested Range Not Satisfiable''),
      (417, ''Expectation Failed''),
      (418, ''I'' @ [CHR 0x27] @ ''m a teapot''),
      (421, ''Misdirected Request''),
      (422, ''Unprocessable Entity''),
      (423, ''Locked''),
      (424, ''Failed Dependency''),
      (425, ''Too Early''),
      (426, ''Upgrade Required''),
      (428, ''Precondition Required''),
      (429, ''Too Many Requests''),
      (431, ''Request Header Fields Too Large''),
      (451, ''Unavailable For Legal Reasons''),
      (500, ''Internal Server Error''),
      (501, ''Not Implemented''),
      (502, ''Bad Gateway''),
      (503, ''Service Unavailable''),
      (504, ''Gateway Timeout''),
      (505, ''HTTP Version Not Supported''),
      (506, ''Variant Also Negotiates''),
      (507, ''Insufficient Storage''),
      (508, ''Loop Detected''),
      (510, ''Not Extended''),
      (511, ''Network Authentication Required'')]"

definition StatusText :: "int \<Rightarrow> string" where
  "StatusText code = (case map_of status_texts code of None \<Rightarrow> [] | Some s \<Rightarrow> s)"

subsection \<open>Header keys\<close>

definition char_between :: "char \<Rightarrow> char \<Rightarrow> char \<Rightarrow> bool" where
  "char_between lo hi c \<longleftrightarrow> (of_char lo :: nat) \<le> of_char c \<and> (of_char c :: nat) \<le> of_char hi"

definition is_lower :: "char \<Rightarrow> bool" where
  "is_lower c = char_between CHR ''a'' CHR ''z'' c"

definition is_upper :: "char \<Rightarrow> bool" where
  "is_upper c = char_between CHR ''A'' CHR ''Z'' c"

definition is_digit :: "char \<Rightarrow> bool" where
  "is_digit c = char_between CHR ''0'' CHR ''9'' c"

definition to_upper :: "char \<Rightarrow> char" where
  "to_upper c = (if is_lower c then char_of ((of_char c :: nat) - 32) else c)"

definition to_lower :: "char \<Rightarrow> char" where
  "to_lower c = (if is_upper c then char_of ((of_char c :: nat) + 32) else c)"

text \<open>The token characters of RFC 7230, \<open>validHeaderFieldByte\<close> and \<open>isToken\<close> in Go.\<close>

definition is_tchar :: "char \<Rightarrow> bool" where
  "is_tchar c \<longleftrightarrow> is_lower c \<or> is_upper c \<or> is_digit c \<or>
     c \<in> set ''!#$%&*+-.^_|~'' \<or> c = CHR 0x27 \<or> c = CHR 0x60"

fun canonical_bytes :: "bool \<Rightarrow> string \<Rightarrow> string" where
  "canonical_bytes up [] = []"
| "canonical_bytes up (c # cs) =
     (if up then to_upper c else to_lower c) # canonical_bytes (c = CHR ''-'') cs"

definition CanonicalHeaderKey :: "string \<Rightarrow> string" where
  "CanonicalHeaderKey s = (if list_all is_tchar s then canonical_bytes True s else s)"

lemma is_upper_to_upper: "is_lower c \<Longrightarrow> is_upper (to_upper c) \<and> \<not> is_lower (to_upper c)"
  by (auto simp: is_lower_def is_upper_def to_upper_def char_between_def of_char_of)

lemma is_lower_to_lower: "is_upper c \<Longrightarrow> is_lower (to_lower c) \<and> \<not> is_upper (to_lower c)"
  by (auto simp: is_lower_def is_upper_def to_lower_def char_between_def of_char_of)

lemma to_upper_idem [simp]: "to_upper (to_upper c) = to_upper c"
  using is_upper_to_upper [of c] by (cases "is_lower c") (auto simp: to_upper_def)

lemma to_lower_idem [simp]: "to_lower (to_lower c) = to_lower c"
  using is_lower_to_lower [of c] by (cases "is_upper c") (auto simp: to_lower_def)

lemma is_tchar_to_upper: "is_tchar c \<Longrightarrow> is_tchar (to_upper c)"
  using is_upper_to_upper [of c] by (cases "is_lower c") (auto simp: is_tchar_def to_upper_def)

lemma is_tchar_to_lower: "is_tchar c \<Longrightarrow> is_tchar (to_lower c)"
  using is_lower_to_lower [of c] by (cases "is_upper c") (auto simp: is_tchar_def to_lower_def)

lemma to_upper_dash: "to_upper c = CHR ''-'' \<longleftrightarrow> c = CHR ''-''"
proof (cases "is_lower c")
  case True
  then have "is_upper (to_upper c)" using is_upper_to_upper by blast
  then have "to_upper c \<noteq> CHR ''-''" by (auto simp: is_upper_def char_between_def)
  moreover from True have "c \<noteq> CHR ''-''" by (auto simp: is_lower_def char_between_def)
  ultimately show ?thesis by simp
qed (simp add: to_upper_def)

lemma to_lower_dash: "to_lower c = CHR ''-'' \<longleftrightarrow> c = CHR ''-''"
proof (cases "is_upper c")
  case True
  then have "is_lower (to_lower c)" using is_lower_to_lower by blast
  then have "to_lower c \<noteq> CHR ''-''" by (auto simp: is_lower_def char_between_def)
  moreover from True have "c \<noteq> CHR ''-''" by (auto simp: is_upper_def char_between_def)
  ultimately show ?thesis by simp
qed (simp add: to_lower_def)

lemma canonical_bytes_idem: "canonical_bytes up (canonical_bytes up s) = canonical_bytes up s"
  by (induction up s rule: canonical_bytes.induct) (auto simp: to_upper_dash to_lower_dash)

lemma canonical_bytes_tchar: "list_all is_tchar s \<Longrightarrow> list_all is_tchar (canonical_bytes up s)"
  by (induction up s rule: canonical_bytes.induct) (auto simp: is_tchar_to_upper is_tchar_to_lower)

lemma CanonicalHeaderKey_idem [simp]:
  "CanonicalHeaderKey (CanonicalHeaderKey s) = CanonicalHeaderKey s"
  by (simp add: CanonicalHeaderKey_def canonical_bytes_tchar canonical_bytes_idem)

subsection \<open>Header maps\<close>

type_synonym header = "string \<Rightarrow> string list"

definition header_Values :: "header \<Rightarrow> string \<Rightarrow> string list" where
  "header_Values h k = h (CanonicalHeaderKey k)"

definition header_Get :: "header \<Rightarrow> string \<Rightarrow> string" where
  "header_Get h k = (case header_Values h k of [] \<Rightarrow> [] | v # _ \<Rightarrow> v)"

definition header_Set :: "header \<Rightarrow> string \<Rightarrow> string \<Rightarrow> header" where
  "header_Set h k v = h(CanonicalHeaderKey k := [v])"

definition header_Add :: "header \<Rightarrow> string \<Rightarrow> string \<Rightarrow> header" where
  "header_Add h k v = h(CanonicalHeaderKey k := h (CanonicalHeaderKey k) @ [v])"

definition header_Del :: "header \<Rightarrow> string \<Rightarrow> header" where
  "header_Del h k = h(CanonicalHeaderKey k := [])"

lemmas header_defs [go_simps] =
  header_Values_def header_Get_def header_Set_def header_Add_def header_Del_def

lemma header_Get_Set [simp]: "header_Get (header_Set h k v) k = v"
  by (simp add: header_defs)

text \<open>Adding every value of one key: the inner loop of the header-copying loops.\<close>

definition header_AddAll :: "string \<Rightarrow> string list \<Rightarrow> header \<Rightarrow> header" where
  "header_AddAll k vs h = fold (\<lambda>v h. header_Add h k v) vs h"

lemma header_AddAll_eq:
  "header_AddAll k vs h = h(CanonicalHeaderKey k := h (CanonicalHeaderKey k) @ vs)"
  by (induction vs arbitrary: h) (auto simp: header_AddAll_def header_Add_def fun_eq_iff)

subsection \<open>Cookies\<close>

datatype SameSite = SameSiteUnset | SameSiteDefaultMode | SameSiteLaxMode | SameSiteStrictMode | SameSiteNoneMode

record cookie =
  ck_Name :: string
  ck_Value :: string
  ck_Path :: string
  ck_Domain :: string
  ck_Expires :: "int option" \<comment> \<open>None: the zero time, no Expires attribute\<close>
  ck_MaxAge :: int
  ck_Secure :: bool
  ck_HttpOnly :: bool
  ck_SameSite :: SameSite

text \<open>The cookie a request carries: only its name and its value are known to the server.\<close>

definition request_cookie :: "string \<Rightarrow> string \<Rightarrow> cookie" where
  "request_cookie n v = \<lparr>ck_Name = n, ck_Value = v, ck_Path = [], ck_Domain = [], ck_Expires = None,
     ck_MaxAge = 0, ck_Secure = False, ck_HttpOnly = False, ck_SameSite = SameSiteUnset\<rparr>"

definition isToken :: "string \<Rightarrow> bool" where
  "isToken s \<longleftrightarrow> s \<noteq> [] \<and> list_all is_tchar s"

lemmas token_defs = isToken_def is_tchar_def is_lower_def is_upper_def is_digit_def char_between_def

subsection \<open>Requests and bodies\<close>

record body =
  rd_data :: bytes
  rd_fail :: bool \<comment> \<open>the connection fails after the data instead of ending\<close>
  rd_limit :: "int option" \<comment> \<open>the limit of an enclosing MaxBytesReader\<close>

definition plain_body :: "bytes \<Rightarrow> body" where
  "plain_body d = \<lparr>rd_data = d, rd_fail = False, rd_limit = None\<rparr>"

datatype read_error = MaxBytesError | ReadFailed

text \<open>\<open>http.MaxBytesReader\<close> (a negative limit is treated as zero) and \<open>io.ReadAll\<close>.\<close>

definition MaxBytesReader :: "body \<Rightarrow> int \<Rightarrow> body" where
  "MaxBytesReader b limit =
     b\<lparr>rd_limit := Some (case rd_limit b of None \<Rightarrow> max 0 limit | Some n \<Rightarrow> min n (max 0 limit))\<rparr>"

definition within_limit :: "body \<Rightarrow> bool" where
  "within_limit b = (case rd_limit b of None \<Rightarrow> True | Some n \<Rightarrow> int (length (rd_data b)) \<le> n)"

definition io_ReadAll :: "body \<Rightarrow> (read_error, bytes) result" where
  "io_ReadAll b =
     (if \<not> within_limit b then Inl MaxBytesError
      else if rd_fail b then Inl ReadFailed else Inr (rd_data b))"

lemma io_ReadAll_MaxBytes_bound:
  "io_ReadAll (MaxBytesReader b n) = Inr d \<Longrightarrow> int (length d) \<le> max 0 n"
  by (auto simp: io_ReadAll_def MaxBytesReader_def within_limit_def split: if_splits option.splits)

lemma io_ReadAll_plain [simp]: "io_ReadAll (plain_body d) = Inr d"
  by (simp add: io_ReadAll_def plain_body_def within_limit_def)

record request =
  req_Method :: string
  req_Path :: string \<comment> \<open>URL.Path\<close>
  req_URLHost :: string \<comment> \<open>URL.Hostname()\<close>
  req_Query :: "string \<Rightarrow> string" \<comment> \<open>URL.Query().Get\<close>
  req_Header :: header
  req_Host :: string
  req_RemoteAddr :: string
  req_Cookies :: "(string \<times> string) list"
  req_ContentLength :: int
  req_Body :: "body option"
  req_ctx_err :: bool \<comment> \<open>the request's context is cancelled\<close>

fun find_cookie :: "(string \<times> string) list \<Rightarrow> string \<Rightarrow> string option" where
  "find_cookie [] name = None"
| "find_cookie ((n, v) # cs) name = (if n = name then Some v else find_cookie cs name)"

definition req_Cookie :: "request \<Rightarrow> string \<Rightarrow> cookie option" where
  "req_Cookie r name =
     (if name = [] then None else map_option (request_cookie name) (find_cookie (req_Cookies r) name))"

subsection \<open>Response writers\<close>

record response =
  rw_header :: header
  rw_cookies :: "cookie list" \<comment> \<open>the Set-Cookie lines, in order\<close>
  rw_commit :: "(int \<times> header \<times> cookie list) option"
  rw_body :: bytes

definition new_response :: response where
  "new_response = \<lparr>rw_header = (\<lambda>_. []), rw_cookies = [], rw_commit = None, rw_body = []\<rparr>"

definition rw_Set :: "response \<Rightarrow> string \<Rightarrow> string \<Rightarrow> response" where
  "rw_Set w k v = w\<lparr>rw_header := header_Set (rw_header w) k v\<rparr>"

definition WriteHeader :: "response \<Rightarrow> int \<Rightarrow> response" where
  "WriteHeader w code =
     (if rw_commit w = None
      then w\<lparr>rw_commit := Some (code, rw_header w, rw_cookies w)\<rparr> else w)"

definition Write :: "response \<Rightarrow> bytes \<Rightarrow> response" where
  "Write w data = (let w = WriteHeader w StatusOK in w\<lparr>rw_body := rw_body w @ data\<rparr>)"

definition http_Error :: "response \<Rightarrow> string \<Rightarrow> int \<Rightarrow> response" where
  "http_Error w msg code =
     (let h = header_Set (header_Set (header_Del (rw_header w) ''Content-Length'')
                ''Content-Type'' ''text/plain; charset=utf-8'') ''X-Content-Type-Options'' ''nosniff''
      in Write (WriteHeader (w\<lparr>rw_header := h\<rparr>) code) (msg @ [CHR 0x0A]))"

definition http_NotFound :: "response \<Rightarrow> response" where
  "http_NotFound w = http_Error w ''404 page not found'' StatusNotFound"

definition http_SetCookie :: "response \<Rightarrow> cookie \<Rightarrow> response" where
  "http_SetCookie w ck =
     (if isToken (ck_Name ck) then w\<lparr>rw_cookies := rw_cookies w @ [ck]\<rparr> else w)"

lemmas rw_defs [go_simps] =
  rw_Set_def WriteHeader_def Write_def http_Error_def http_NotFound_def http_SetCookie_def Let_def

text \<open>What the client sees: a handler that commits nothing answers 200 at its return.\<close>

definition sent_status :: "response \<Rightarrow> int" where
  "sent_status w = (case rw_commit w of None \<Rightarrow> StatusOK | Some (c, _, _) \<Rightarrow> c)"

definition sent_header :: "response \<Rightarrow> header" where
  "sent_header w = (case rw_commit w of None \<Rightarrow> rw_header w | Some (_, h, _) \<Rightarrow> h)"

definition sent_cookies :: "response \<Rightarrow> cookie list" where
  "sent_cookies w = (case rw_commit w of None \<Rightarrow> rw_cookies w | Some (_, _, cs) \<Rightarrow> cs)"

definition fresh :: "response \<Rightarrow> bool" where
  "fresh w \<longleftrightarrow> rw_commit w = None \<and> rw_body w = []"

lemma fresh_new [simp]: "fresh new_response"
  by (simp add: fresh_def new_response_def)

lemma sent_uncommitted:
  "rw_commit w = None \<Longrightarrow> sent_status w = StatusOK"
  "rw_commit w = None \<Longrightarrow> sent_cookies w = rw_cookies w"
  by (simp_all add: sent_status_def sent_cookies_def)

lemma WriteHeader_commit [simp]: "rw_commit (WriteHeader w c) \<noteq> None"
  by (simp add: WriteHeader_def)

lemma WriteHeader_body [simp]: "rw_body (WriteHeader w c) = rw_body w"
  by (simp add: WriteHeader_def)

lemma WriteHeader_twice [simp]: "WriteHeader (WriteHeader w a) b = WriteHeader w a"
  by (simp add: WriteHeader_def)

lemma sent_WriteHeader:
  "rw_commit w = None \<Longrightarrow> sent_status (WriteHeader w c) = c"
  "rw_commit w = None \<Longrightarrow> sent_header (WriteHeader w c) = rw_header w"
  "rw_commit w = None \<Longrightarrow> sent_cookies (WriteHeader w c) = rw_cookies w"
  by (simp_all add: WriteHeader_def sent_status_def sent_header_def sent_cookies_def)

lemma Write_body [simp]: "rw_body (Write w d) = rw_body w @ d"
  by (simp add: Write_def Let_def)

lemma rw_commit_Write: "rw_commit (Write w d) = rw_commit (WriteHeader w StatusOK)"
  by (simp add: Write_def Let_def)

lemma sent_Write:
  "sent_status (Write w d) = sent_status (WriteHeader w StatusOK)"
  "sent_header (Write w d) = sent_header (WriteHeader w StatusOK)"
  "sent_cookies (Write w d) = sent_cookies (WriteHeader w StatusOK)"
  by (simp_all add: sent_status_def sent_header_def sent_cookies_def Write_def Let_def split: option.splits)

lemma http_Error_status: "rw_commit w = None \<Longrightarrow> sent_status (http_Error w m c) = c"
  by (simp add: http_Error_def Let_def sent_Write sent_WriteHeader)

lemma http_Error_body [simp]: "rw_body (http_Error w m c) = rw_body w @ m @ [CHR 0x0A]"
  by (simp add: http_Error_def Let_def)

lemma http_Error_cookies: "rw_commit w = None \<Longrightarrow> sent_cookies (http_Error w m c) = rw_cookies w"
  by (simp add: http_Error_def Let_def sent_Write sent_WriteHeader)

lemma http_NotFound_status: "rw_commit w = None \<Longrightarrow> sent_status (http_NotFound w) = StatusNotFound"
  by (simp add: http_NotFound_def http_Error_status)

lemmas http_sent = sent_WriteHeader sent_Write http_Error_status http_Error_cookies http_NotFound_status

text \<open>A plain GET request, for the concrete instances of the theorems.\<close>

definition example_request :: request where
  "example_request = \<lparr>req_Method = ''GET'', req_Path = ''/'', req_URLHost = [], req_Query = (\<lambda>_. []),
     req_Header = (\<lambda>_. []), req_Host = ''example.com'', req_RemoteAddr = ''10.0.0.1:1234'',
     req_Cookies = [], req_ContentLength = 0, req_Body = None, req_ctx_err = False\<rparr>"

subsection \<open>Metrics\<close>

text \<open>
  \<^verbatim>\<open>webapp.CounterInc\<close> (\<^verbatim>\<open>metrics.go\<close>): a function value that may be nil. Its calls are recorded per
  counter name; calling a nil function panics, which is \<open>None\<close>.
\<close>

datatype CounterInc = NilCounter | NoopCounter | Counter string

type_synonym counts = "string \<Rightarrow> nat"

definition counter_call :: "CounterInc \<Rightarrow> counts \<Rightarrow> counts option" where
  "counter_call c k = (case c of NilCounter \<Rightarrow> None | NoopCounter \<Rightarrow> Some k
     | Counter n \<Rightarrow> Some (k(n := Suc (k n))))"

lemma counter_call_not_nil: "c \<noteq> NilCounter \<Longrightarrow> \<exists>k'. counter_call c k = Some k'"
  by (cases c) (simp_all add: counter_call_def)

type_synonym handler = "request \<Rightarrow> response \<Rightarrow> response"

end
