(* ===== verification/Cookies.thy ===== *)
theory Cookies
  imports GoHttp
begin

text \<open>
  Package \<^verbatim>\<open>cookies\<close> (\<^verbatim>\<open>cookies/cookies.go\<close>): named cookies \<open>T\<close> and \<open>Secure\<close>, and the scope and
  duration settings. \<open>time.Now\<close> is the argument \<open>now\<close>.
\<close>

type_synonym T = string
type_synonym Secure = string

definition readAndClearCookie :: "response \<Rightarrow> request \<Rightarrow> string \<Rightarrow> response \<times> string \<times> bool" where
  "readAndClearCookie rw r name =
     (case req_Cookie r name of
        None \<Rightarrow> (rw, [], False)
      | Some ck \<Rightarrow>
          let val = ck_Value ck
          in (http_SetCookie rw (ck\<lparr>ck_MaxAge := -1, ck_Value := []\<rparr>), val, True))"

definition T_Set :: "T \<Rightarrow> response \<Rightarrow> cookie \<Rightarrow> response" where
  "T_Set c rw ck = http_SetCookie rw (ck\<lparr>ck_Name := c\<rparr>)"

definition T_ReadAndClear :: "T \<Rightarrow> response \<Rightarrow> request \<Rightarrow> response \<times> string \<times> bool" where
  "T_ReadAndClear c rw r = readAndClearCookie rw r c"

definition T_Read :: "T \<Rightarrow> request \<Rightarrow> string \<times> bool" where
  "T_Read c r = (case req_Cookie r c of None \<Rightarrow> ([], False) | Some ck \<Rightarrow> (ck_Value ck, True))"

definition Secure_Set :: "Secure \<Rightarrow> response \<Rightarrow> cookie \<Rightarrow> response" where
  "Secure_Set c rw ck = http_SetCookie rw
     (ck\<lparr>ck_Name := c, ck_HttpOnly := True, ck_Secure := True, ck_SameSite := SameSiteStrictMode\<rparr>)"

definition Secure_ReadAndClear :: "Secure \<Rightarrow> response \<Rightarrow> request \<Rightarrow> response \<times> string \<times> bool" where
  "Secure_ReadAndClear c rw r = readAndClearCookie rw r c"

definition Secure_Read :: "Secure \<Rightarrow> request \<Rightarrow> string \<times> bool" where
  "Secure_Read c r = (case req_Cookie r c of None \<Rightarrow> ([], False) | Some ck \<Rightarrow> (ck_Value ck, True))"

record ScopeAndDuration =
  Domain :: string
  Path :: string
  Duration :: int

definition SetDefaults :: "ScopeAndDuration \<Rightarrow> string \<Rightarrow> string \<Rightarrow> int \<Rightarrow> ScopeAndDuration" where
  "SetDefaults d domain path duration =
     (let d = (if Domain d = [] then d\<lparr>Domain := domain\<rparr> else d);
          d = (if Path d = [] then d\<lparr>Path := path\<rparr> else d);
          d = (if Duration d = 0 then d\<lparr>Duration := duration\<rparr> else d)
      in d)"

definition ScopeAndDuration_Cookie :: "int \<Rightarrow> ScopeAndDuration \<Rightarrow> string \<Rightarrow> cookie" where
  "ScopeAndDuration_Cookie now d v =
     \<lparr>ck_Name = [], ck_Value = v, ck_Path = Path d, ck_Domain = Domain d,
      ck_Expires = Some (now + Duration d), ck_MaxAge = 0, ck_Secure = True, ck_HttpOnly = True,
      ck_SameSite = SameSiteStrictMode\<rparr>"

subsection \<open>Lemmas\<close>

definition secure_cookie :: "cookie \<Rightarrow> bool" where
  "secure_cookie ck \<longleftrightarrow> ck_Secure ck \<and> ck_HttpOnly ck \<and> ck_SameSite ck = SameSiteStrictMode"

lemma SetDefaults_eq:
  "SetDefaults d m p t =
     \<lparr>Domain = if Domain d = [] then m else Domain d, Path = if Path d = [] then p else Path d,
      Duration = if Duration d = 0 then t else Duration d\<rparr>"
  by (cases d) (simp add: SetDefaults_def Let_def)

lemma SetDefaults_idem:
  "SetDefaults (SetDefaults d m p t) m' p' t' =
   SetDefaults d (if m = [] then m' else m) (if p = [] then p' else p) (if t = 0 then t' else t)"
  unfolding SetDefaults_eq by simp

lemma req_Cookie_fields:
  "req_Cookie r n = Some ck \<Longrightarrow> ck = request_cookie n (ck_Value ck) \<and> (n, ck_Value ck) \<in> set (req_Cookies r)"
proof -
  have *: "find_cookie cs n = Some v \<Longrightarrow> (n, v) \<in> set cs" for cs v
    by (induction cs n rule: find_cookie.induct) (auto split: if_splits)
  assume "req_Cookie r n = Some ck"
  then show ?thesis
    using * by (auto simp: req_Cookie_def request_cookie_def split: if_splits)
qed

lemma readAndClear_no_cookie:
  "find_cookie (req_Cookies r) name = None \<Longrightarrow> readAndClearCookie rw r name = (rw, [], False)"
  by (simp add: readAndClearCookie_def req_Cookie_def)

lemma readAndClear_keeps:
  "rw_commit (fst (readAndClearCookie rw r n)) = rw_commit rw \<and>
   rw_body (fst (readAndClearCookie rw r n)) = rw_body rw \<and>
   rw_header (fst (readAndClearCookie rw r n)) = rw_header rw"
  by (auto simp: readAndClearCookie_def http_SetCookie_def Let_def split: option.splits)

lemma Secure_Set_keeps:
  "rw_commit (Secure_Set c rw ck) = rw_commit rw \<and> rw_body (Secure_Set c rw ck) = rw_body rw \<and>
   rw_header (Secure_Set c rw ck) = rw_header rw"
  by (simp add: Secure_Set_def http_SetCookie_def)

lemma Secure_Set_cookies:
  "isToken c \<Longrightarrow> rw_cookies (Secure_Set c rw ck) = rw_cookies rw @
     [ck\<lparr>ck_Name := c, ck_HttpOnly := True, ck_Secure := True, ck_SameSite := SameSiteStrictMode\<rparr>]"
  by (simp add: Secure_Set_def http_SetCookie_def)

text \<open>A set followed by a read: the client returns the cookie it was sent, by name.\<close>

definition client_returns :: "cookie list \<Rightarrow> (string \<times> string) list" where
  "client_returns cks = map (\<lambda>ck. (ck_Name ck, ck_Value ck)) cks"

subsection \<open>Properties\<close>

text \<open>
  Every cookie that \<^verbatim>\<open>Secure.Set\<close> adds is \<open>Secure\<close>, \<open>HttpOnly\<close> and \<open>SameSite=Strict\<close> whatever the
  caller put in those fields, carries the receiver's name, and a later request that returns
  it reads the same value; all other fields are the caller's.
\<close>

theorem Secure_Set_Read_roundtrip:
  assumes "isToken c" and "rw_cookies rw = []"
    and "req_Cookies r = client_returns (rw_cookies (Secure_Set c rw ck))"
  shows "list_all (\<lambda>k. secure_cookie k \<and> ck_Name k = c \<and> ck_Path k = ck_Path ck \<and>
            ck_Domain k = ck_Domain ck \<and> ck_Expires k = ck_Expires ck \<and> ck_MaxAge k = ck_MaxAge ck)
            (rw_cookies (Secure_Set c rw ck)) \<and>
         Secure_Read c r = (ck_Value ck, True)"
  using assms
  by (auto simp: Secure_Set_cookies secure_cookie_def Secure_Read_def req_Cookie_def
        client_returns_def request_cookie_def isToken_def)

theorem Secure_Set_Read_roundtrip_witness:
  "Secure_Read ''sid'' (example_request\<lparr>req_Cookies := client_returns
     (rw_cookies (Secure_Set ''sid'' new_response (request_cookie [] ''v1'')))\<rparr>) = (''v1'', True)"
proof -
  let ?r = "example_request\<lparr>req_Cookies := client_returns
     (rw_cookies (Secure_Set ''sid'' new_response (request_cookie [] ''v1'')))\<rparr>"
  have "isToken ''sid''" by (simp add: token_defs)
  moreover have "rw_cookies new_response = []" by (simp add: new_response_def)
  moreover have "req_Cookies ?r = client_returns
     (rw_cookies (Secure_Set ''sid'' new_response (request_cookie [] ''v1'')))" by simp
  ultimately show ?thesis
    using Secure_Set_Read_roundtrip [of "''sid''" new_response ?r "request_cookie [] ''v1''"]
    by (simp add: request_cookie_def)
qed

text \<open>
  \<^verbatim>\<open>ReadAndClear\<close> returns the value the request carries and answers with one clearing
  cookie of the same name: empty value, \<open>Max-Age\<close> -1, and no \<open>Path\<close> or \<open>Domain\<close>, whatever scope the
  cookie was set with. Without the cookie nothing is written.
\<close>

theorem ReadAndClear_clears:
  assumes "isToken c"
  shows "Secure_ReadAndClear c rw r =
    (case find_cookie (req_Cookies r) c of
       None \<Rightarrow> (rw, [], False)
     | Some v \<Rightarrow> (rw\<lparr>rw_cookies := rw_cookies rw @ [(request_cookie c [])\<lparr>ck_MaxAge := -1\<rparr>]\<rparr>, v, True))"
  using assms
  by (auto simp: Secure_ReadAndClear_def readAndClearCookie_def req_Cookie_def request_cookie_def
        http_SetCookie_def isToken_def Let_def split: option.splits)

theorem ReadAndClear_clears_witness:
  "isToken ''sid'' \<and> snd (Secure_ReadAndClear ''sid'' new_response
     (example_request\<lparr>req_Cookies := [(''sid'', ''v1'')]\<rparr>)) = (''v1'', True)"
proof -
  have h: "isToken ''sid''" by (simp add: token_defs)
  show ?thesis
    using h by (simp add: ReadAndClear_clears [OF h])
qed

end
