(* ===== verification/JsonApi.thy ===== *)
theory JsonApi
  imports GoHttp
begin

text \<open>
  Package \<^verbatim>\<open>jsonapi\<close> (\<^verbatim>\<open>jsonapi/jsonapi.go\<close>). Decoding and encoding of the request and response types
  is \<open>encoding/json\<close> driven by the Go types: \<open>decode\<close> and \<open>encode\<close> are arguments. The encoding of
  an error response, a struct of one string, is written out.
\<close>

subsection \<open>encoding/json of a string\<close>

definition hex_digit_lower :: "nat \<Rightarrow> char" where
  "hex_digit_lower n = ''0123456789abcdef'' ! n"

definition json_escape_char :: "char \<Rightarrow> string" where
  "json_escape_char c =
     (let n = (of_char c :: nat) in
      if n = 34 \<or> n = 92 then [CHR 0x5C, c]
      else if n = 10 then CHR 0x5C # ''n''
      else if n = 13 then CHR 0x5C # ''r''
      else if n = 9 then CHR 0x5C # ''t''
      else if n = 8 then CHR 0x5C # ''b''
      else if n = 12 then CHR 0x5C # ''f''
      else if n < 32 \<or> n = 60 \<or> n = 62 \<or> n = 38
        then CHR 0x5C # ''u00'' @ [hex_digit_lower (n div 16), hex_digit_lower (n mod 16)]
      else [c])"

definition json_string :: "string \<Rightarrow> string" where
  "json_string s = [CHR 0x22] @ concat (map json_escape_char s) @ [CHR 0x22]"

subsection \<open>jsonapi.go\<close>

record ErrorResponse =
  Message :: string

definition ErrorResponse_json :: "ErrorResponse \<Rightarrow> bytes" where
  "ErrorResponse_json e = ''{'' @ json_string ''message'' @ '':'' @ json_string (Message e) @ ''}'' @ [CHR 0x0A]"

definition WriteErrorMsg :: "response \<Rightarrow> string \<Rightarrow> int \<Rightarrow> response" where
  "WriteErrorMsg rw msg status =
     (let rw = rw_Set rw ''Content-Type'' ''application/json'';
          rw = WriteHeader rw status
      in Write rw (ErrorResponse_json \<lparr>Message = msg\<rparr>))"

definition WriteError :: "response \<Rightarrow> ErrorResponse \<Rightarrow> int \<Rightarrow> response" where
  "WriteError rw err status =
     (let rw = rw_Set rw ''Content-Type'' ''application/json'';
          rw = WriteHeader rw status
      in Write rw (ErrorResponse_json err))"

datatype jsonapi_error = FailedToDecode | TrailingData | FailedToEncode

text \<open>
  \<open>decode\<close> is \<open>decoder.Decode(req)\<close> with unknown fields disallowed: \<open>None\<close> on an error, else the
  value and whether \<open>decoder.Token()\<close> then reports \<open>io.EOF\<close>. The decoder reads the request's
  body; closing it has no effect the model can see.
\<close>

definition ParseRequest ::
    "(bytes \<Rightarrow> ('req \<times> bool) option) \<Rightarrow> response \<Rightarrow> request \<Rightarrow> response \<times> (jsonapi_error, 'req) result" where
  "ParseRequest decode rw r =
     (case (case req_Body r of None \<Rightarrow> None | Some b \<Rightarrow>
              (case io_ReadAll b of Inl _ \<Rightarrow> None | Inr d \<Rightarrow> decode d)) of
        None \<Rightarrow> (WriteErrorMsg rw ''failed to decode request body'' StatusBadRequest, Inl FailedToDecode)
      | Some (req, eof) \<Rightarrow>
          if \<not> eof then (WriteErrorMsg rw ''body contains trailing data'' StatusBadRequest, Inl TrailingData)
          else (rw, Inr req))"

definition WriteResponse ::
    "('resp \<Rightarrow> bytes option) \<Rightarrow> response \<Rightarrow> 'resp \<Rightarrow> response \<times> (jsonapi_error, unit) result" where
  "WriteResponse encode rw resp =
     (let rw = rw_Set rw ''Content-Type'' ''application/json''
      in case encode resp of
           None \<Rightarrow> (WriteErrorMsg rw ''failed to encode response'' StatusInternalServerError, Inl FailedToEncode)
         | Some d \<Rightarrow> (Write rw d, Inr ()))"

subsection \<open>Lemmas\<close>

lemma WriteErrorMsg_eq: "WriteErrorMsg rw msg status = WriteError rw \<lparr>Message = msg\<rparr> status"
  by (simp add: WriteErrorMsg_def WriteError_def)

lemma WriteErrorMsg_body [simp]:
  "rw_body (WriteErrorMsg rw m s) = rw_body rw @ ErrorResponse_json \<lparr>Message = m\<rparr>"
  by (simp add: WriteErrorMsg_def Let_def rw_Set_def)

lemma WriteErrorMsg_status: "rw_commit rw = None \<Longrightarrow> sent_status (WriteErrorMsg rw m s) = s"
  by (simp add: WriteErrorMsg_def Let_def http_sent rw_Set_def)

lemma WriteErrorMsg_commit_None [simp]: "rw_commit (WriteErrorMsg rw m s) \<noteq> None"
  by (simp add: WriteErrorMsg_def Let_def rw_commit_Write)

lemma WriteErrorMsg_commit:
  "rw_commit rw = Some x \<Longrightarrow> rw_commit (WriteErrorMsg rw m s) = Some x"
  by (simp add: WriteErrorMsg_def Let_def rw_commit_Write WriteHeader_def rw_Set_def)

lemma WriteErrorMsg_cookies:
  "rw_commit rw = None \<Longrightarrow> sent_cookies (WriteErrorMsg rw m s) = rw_cookies rw"
  by (simp add: WriteErrorMsg_def Let_def http_sent rw_Set_def)

lemma WriteErrorMsg_keeps_cookies [simp]: "rw_cookies (WriteErrorMsg rw m s) = rw_cookies rw"
  by (simp add: WriteErrorMsg_def Let_def Write_def WriteHeader_def rw_Set_def)

lemma ParseRequest_error_status:
  "rw_commit rw = None \<Longrightarrow> snd (ParseRequest decode rw r) = Inl e \<Longrightarrow>
     sent_status (fst (ParseRequest decode rw r)) = StatusBadRequest"
  by (auto simp: ParseRequest_def WriteErrorMsg_status split: option.splits prod.splits if_splits)

lemma ParseRequest_ok:
  "snd (ParseRequest decode rw r) = Inr req \<Longrightarrow> fst (ParseRequest decode rw r) = rw"
  by (auto simp: ParseRequest_def split: option.splits prod.splits if_splits)

lemma WriteResponse_ok_status:
  "rw_commit rw = None \<Longrightarrow> snd (WriteResponse encode rw x) = Inr () \<Longrightarrow>
     sent_status (fst (WriteResponse encode rw x)) = StatusOK"
  by (auto simp: WriteResponse_def Let_def http_sent rw_Set_def split: option.splits)

lemma WriteResponse_cookies:
  "rw_commit rw = None \<Longrightarrow> sent_cookies (fst (WriteResponse encode rw x)) = rw_cookies rw"
  by (auto simp: WriteResponse_def Let_def http_sent rw_Set_def WriteErrorMsg_cookies split: option.splits)

definition jsonapi_error_message :: "jsonapi_error \<Rightarrow> string" where
  "jsonapi_error_message e =
     (case e of FailedToDecode \<Rightarrow> ''failed to decode request body''
      | TrailingData \<Rightarrow> ''body contains trailing data''
      | FailedToEncode \<Rightarrow> ''failed to encode response'')"

lemma WriteErrorMsg_content_type:
  "rw_commit rw = None \<Longrightarrow>
     header_Get (sent_header (WriteErrorMsg rw m s)) ''Content-Type'' = ''application/json''"
  by (simp add: WriteErrorMsg_def Let_def http_sent rw_Set_def)

subsection \<open>Properties\<close>

text \<open>
  \<^verbatim>\<open>ParseRequest\<close> on a fresh response either returns the decoded value and writes nothing, or
  returns an error and has sent exactly one JSON error object, with status 400 and content type
  \<^verbatim>\<open>application/json\<close>, whose message says whether decoding failed or data trailed the value.
\<close>

theorem ParseRequest_outcome:
  assumes "fresh rw"
  shows "case snd (ParseRequest decode rw r) of
           Inr req \<Rightarrow> fst (ParseRequest decode rw r) = rw
         | Inl e \<Rightarrow>
             sent_status (fst (ParseRequest decode rw r)) = StatusBadRequest \<and>
             rw_body (fst (ParseRequest decode rw r)) =
               ErrorResponse_json \<lparr>Message = jsonapi_error_message e\<rparr> \<and>
             header_Get (sent_header (fst (ParseRequest decode rw r))) ''Content-Type'' = ''application/json''"
  using assms
  by (auto simp: ParseRequest_def fresh_def jsonapi_error_message_def WriteErrorMsg_status
        WriteErrorMsg_content_type split: option.splits prod.splits)

theorem ParseRequest_outcome_witness:
  "sent_status (fst (ParseRequest (\<lambda>d. Some (d, False)) new_response
     (example_request\<lparr>req_Body := Some (plain_body ''{}x'')\<rparr>))) = StatusBadRequest"
proof -
  let ?r = "example_request\<lparr>req_Body := Some (plain_body ''{}x'')\<rparr>"
  have "snd (ParseRequest (\<lambda>d. Some (d, False)) new_response ?r) = Inl TrailingData"
    by (simp add: ParseRequest_def)
  then show ?thesis
    using ParseRequest_outcome [OF fresh_new, of "\<lambda>d. Some (d, False)" ?r] by simp
qed

end
