(* ===== verification/GoEncoding.thy ===== *)
theory GoEncoding
  imports GoHttp
begin

text \<open>
  Go's encodings the sources use: \<open>encoding/hex\<close>, \<open>encoding/base64\<close> (URL alphabet),
  \<open>strconv.ParseUint\<close>, \<open>strconv.Itoa\<close> and the hexadecimal verbs of \<open>fmt\<close>, with their round trips.
\<close>

subsection \<open>Digits\<close>

definition digit_lower :: "nat \<Rightarrow> char" where
  "digit_lower n = char_of (if n < 10 then 48 + n else 87 + n)"

definition digit_upper :: "nat \<Rightarrow> char" where
  "digit_upper n = char_of (if n < 10 then 48 + n else 55 + n)"

definition digit_val :: "char \<Rightarrow> nat option" where
  "digit_val c = (let n = (of_char c :: nat) in
     if 48 \<le> n \<and> n \<le> 57 then Some (n - 48)
     else if 97 \<le> n \<and> n \<le> 122 then Some (n - 87)
     else if 65 \<le> n \<and> n \<le> 90 then Some (n - 55)
     else None)"

lemma digit_val_lower [simp]: "n < 36 \<Longrightarrow> digit_val (digit_lower n) = Some n"
  by (auto simp: digit_val_def digit_lower_def of_char_of Let_def)

lemma digit_val_upper [simp]: "n < 36 \<Longrightarrow> digit_val (digit_upper n) = Some n"
  by (auto simp: digit_val_def digit_upper_def of_char_of Let_def)

definition hex_val :: "char \<Rightarrow> nat option" where
  "hex_val c = (case digit_val c of Some d \<Rightarrow> if d < 16 then Some d else None | None \<Rightarrow> None)"

lemma hex_val_lower [simp]: "n < 16 \<Longrightarrow> hex_val (digit_lower n) = Some n"
  by (simp add: hex_val_def)

lemma hex_val_upper [simp]: "n < 16 \<Longrightarrow> hex_val (digit_upper n) = Some n"
  by (simp add: hex_val_def)

subsection \<open>encoding/hex\<close>

definition hex_byte :: "char \<Rightarrow> string" where
  "hex_byte c = (let n = (of_char c :: nat) in [digit_lower (n div 16), digit_lower (n mod 16)])"

definition hex_EncodeToString :: "bytes \<Rightarrow> string" where
  "hex_EncodeToString bs = concat (map hex_byte bs)"

fun hex_DecodeString :: "string \<Rightarrow> bytes option" where
  "hex_DecodeString [] = Some []"
| "hex_DecodeString [x] = None"
| "hex_DecodeString (x # y # r) =
     (case (hex_val x, hex_val y, hex_DecodeString r) of
        (Some a, Some b, Some bs) \<Rightarrow> Some (char_of (16 * a + b) # bs)
      | _ \<Rightarrow> None)"

lemma hex_byte_length [simp]: "length (hex_byte c) = 2"
  by (simp add: hex_byte_def Let_def)

lemma hex_roundtrip [simp]: "hex_DecodeString (hex_EncodeToString bs) = Some bs"
proof (induction bs)
  case Nil
  then show ?case by (simp add: hex_EncodeToString_def)
next
  case (Cons c bs)
  have "(of_char c :: nat) div 16 < 16" by (rule less_mult_imp_div_less) simp
  with Cons show ?case
    by (simp add: hex_EncodeToString_def hex_byte_def Let_def)
qed

lemma hex_EncodeToString_length: "length (hex_EncodeToString bs) = 2 * length bs"
  by (induction bs) (simp_all add: hex_EncodeToString_def)

lemma hex_EncodeToString_inj: "hex_EncodeToString a = hex_EncodeToString b \<Longrightarrow> a = b"
  by (metis hex_roundtrip option.inject)

subsection \<open>strconv and fmt\<close>

fun parse_digits :: "nat \<Rightarrow> nat \<Rightarrow> string \<Rightarrow> nat option" where
  "parse_digits base acc [] = Some acc"
| "parse_digits base acc (c # cs) =
     (case digit_val c of
        Some d \<Rightarrow> if d < base then parse_digits base (base * acc + d) cs else None
      | None \<Rightarrow> None)"

definition ParseUint16 :: "string \<Rightarrow> nat \<Rightarrow> (16 word) option" where
  "ParseUint16 s base =
     (if s = [] then None
      else case parse_digits base 0 s of
             Some n \<Rightarrow> if n < 65536 then Some (of_nat n) else None
           | None \<Rightarrow> None)"

text \<open>\<open>fmt.Sprintf("%04X", v)\<close> of a 16-bit value.\<close>

definition fmt_04X :: "16 word \<Rightarrow> string" where
  "fmt_04X v = (let n = unat v in
     [digit_upper (n div 4096), digit_upper (n div 256 mod 16), digit_upper (n div 16 mod 16),
      digit_upper (n mod 16)])"

lemma unat_word16: "unat (v :: 16 word) < 65536"
proof -
  have "unat v < 2 ^ LENGTH(16)" by (rule unsigned_less)
  then show ?thesis by simp
qed

lemma ParseUint16_fmt: "ParseUint16 (fmt_04X v) 16 = Some v"
proof -
  let ?n = "unat v"
  have n: "?n < 65536" by (rule unat_word16)
  then have "?n div 4096 < 16" by simp
  moreover have "?n div 256 = ?n div 16 div 16" "?n div 4096 = ?n div 16 div 16 div 16"
    by (simp_all add: div_mult2_eq [symmetric])
  then have "16 * (16 * (16 * (?n div 4096) + ?n div 256 mod 16) + ?n div 16 mod 16) + ?n mod 16 = ?n"
    by simp
  ultimately show ?thesis
    using n by (simp add: ParseUint16_def fmt_04X_def Let_def)
qed

function itoa_nat :: "nat \<Rightarrow> string" where
  "itoa_nat n = (if n < 10 then [digit_lower n] else itoa_nat (n div 10) @ [digit_lower (n mod 10)])"
  by pat_completeness auto
termination
  by (relation "measure id") auto

declare itoa_nat.simps [simp del]

definition strconv_Itoa :: "int \<Rightarrow> string" where
  "strconv_Itoa i = (if i < 0 then ''-'' @ itoa_nat (nat (- i)) else itoa_nat (nat i))"

lemma parse_digits_append:
  "parse_digits b acc (xs @ ys) =
     (case parse_digits b acc xs of Some n \<Rightarrow> parse_digits b n ys | None \<Rightarrow> None)"
  by (induction b acc xs rule: parse_digits.induct) (auto split: option.splits)

lemma itoa_nat_parse: "parse_digits 10 0 (itoa_nat n) = Some n"
proof (induction n rule: itoa_nat.induct)
  case (1 n)
  then show ?case
    by (subst itoa_nat.simps) (auto simp: parse_digits_append)
qed

lemma itoa_nat_inj: "itoa_nat a = itoa_nat b \<Longrightarrow> a = b"
  by (metis itoa_nat_parse option.inject)

subsection \<open>encoding/base64, URL alphabet\<close>

definition b64_char :: "nat \<Rightarrow> char" where
  "b64_char n = (if n < 26 then char_of (65 + n) else if n < 52 then char_of (71 + n)
     else if n < 62 then char_of (n - 4) else if n = 62 then CHR ''-'' else CHR ''_'')"

definition b64_val :: "char \<Rightarrow> nat option" where
  "b64_val c = (let n = (of_char c :: nat) in
     if 65 \<le> n \<and> n \<le> 90 then Some (n - 65)
     else if 97 \<le> n \<and> n \<le> 122 then Some (n - 71)
     else if 48 \<le> n \<and> n \<le> 57 then Some (n + 4)
     else if n = 45 then Some 62
     else if n = 95 then Some 63
     else None)"

lemma b64_val_char [simp]: "n < 64 \<Longrightarrow> b64_val (b64_char n) = Some n"
  by (auto simp: b64_val_def b64_char_def of_char_of Let_def)

lemma b64_val_bound: "b64_val c = Some n \<Longrightarrow> n < 64"
  by (auto simp: b64_val_def Let_def split: if_splits)

definition b64_1 :: "char \<Rightarrow> nat" where "b64_1 a = (of_char a :: nat) div 4"
definition b64_2 :: "char \<Rightarrow> nat \<Rightarrow> nat" where "b64_2 a b = (of_char a mod 4) * 16 + b div 16"
definition b64_3 :: "nat \<Rightarrow> nat \<Rightarrow> nat" where "b64_3 b c = (b mod 16) * 4 + c div 64"

text \<open>\<open>RawURLEncoding\<close>: no padding.\<close>

fun RawURLEncoding :: "bytes \<Rightarrow> string" where
  "RawURLEncoding [] = []"
| "RawURLEncoding [a] = [b64_char (b64_1 a), b64_char (b64_2 a 0)]"
| "RawURLEncoding [a, b] =
     [b64_char (b64_1 a), b64_char (b64_2 a (of_char b)), b64_char (b64_3 (of_char b) 0)]"
| "RawURLEncoding (a # b # c # r) =
     b64_char (b64_1 a) # b64_char (b64_2 a (of_char b)) # b64_char (b64_3 (of_char b) (of_char c)) #
     b64_char (of_char c mod 64) # RawURLEncoding r"

text \<open>\<open>URLEncoding\<close>: padded with \<open>=\<close> to a multiple of four.\<close>

definition URLEncoding :: "bytes \<Rightarrow> string" where
  "URLEncoding bs = (let s = RawURLEncoding bs in
     s @ replicate ((4 - length s mod 4) mod 4) CHR ''='')"

text \<open>
  \<open>RawURLEncoding.Decode(dst, src)\<close> into a buffer with \<open>cap\<close> bytes left. Carriage returns and
  newlines are skipped; bytes are written quantum by quantum and a write past the end of the
  buffer panics.
\<close>

datatype b64_result = B64Ok bytes | B64Corrupt | B64Panic

fun b64_cons :: "bytes \<Rightarrow> b64_result \<Rightarrow> b64_result" where
  "b64_cons bs (B64Ok cs) = B64Ok (bs @ cs)"
| "b64_cons bs r = r"

fun b64_quanta :: "nat \<Rightarrow> string \<Rightarrow> b64_result" where
  "b64_quanta cap [] = B64Ok []"
| "b64_quanta cap [x] = B64Corrupt"
| "b64_quanta cap [x, y] =
     (case (b64_val x, b64_val y) of
        (Some p, Some q) \<Rightarrow> if cap < 1 then B64Panic else B64Ok [char_of (4 * p + q div 16)]
      | _ \<Rightarrow> B64Corrupt)"
| "b64_quanta cap [x, y, z] =
     (case (b64_val x, b64_val y, b64_val z) of
        (Some p, Some q, Some r) \<Rightarrow>
          if cap < 2 then B64Panic
          else B64Ok [char_of (4 * p + q div 16), char_of ((q mod 16) * 16 + r div 4)]
      | _ \<Rightarrow> B64Corrupt)"
| "b64_quanta cap (x # y # z # w # rest) =
     (case (b64_val x, b64_val y, b64_val z, b64_val w) of
        (Some p, Some q, Some r, Some t) \<Rightarrow>
          if cap < 3 then B64Panic
          else b64_cons [char_of (4 * p + q div 16), char_of ((q mod 16) * 16 + r div 4),
                         char_of ((r mod 4) * 64 + t)] (b64_quanta (cap - 3) rest)
      | _ \<Rightarrow> B64Corrupt)"

definition RawURLEncoding_Decode :: "nat \<Rightarrow> string \<Rightarrow> b64_result" where
  "RawURLEncoding_Decode cap s = b64_quanta cap (filter (\<lambda>c. c \<noteq> CHR 0x0A \<and> c \<noteq> CHR 0x0D) s)"

lemma b64_index_bounds:
  "b64_1 a < 64" "b < 256 \<Longrightarrow> b64_2 a b < 64" "c < 256 \<Longrightarrow> b64_3 b c < 64"
proof -
  show "b64_1 a < 64" unfolding b64_1_def by (rule less_mult_imp_div_less) simp
  show "b < 256 \<Longrightarrow> b64_2 a b < 64" by (simp add: b64_2_def)
  show "c < 256 \<Longrightarrow> b64_3 b c < 64" by (simp add: b64_3_def)
qed

lemma b64_recover1: "b < 256 \<Longrightarrow> 4 * b64_1 a + b64_2 a b div 16 = of_char a"
  by (simp add: b64_1_def b64_2_def)

lemma b64_recover2: "b < 256 \<Longrightarrow> c < 256 \<Longrightarrow> (b64_2 a b mod 16) * 16 + b64_3 b c div 4 = b"
  by (simp add: b64_2_def b64_3_def)

lemma b64_recover3: "(b64_3 b c mod 4) * 64 + c mod 64 = c" if "c < 256"
  using that by (simp add: b64_3_def)

lemmas b64_recover = b64_recover1 b64_recover2 b64_recover3

lemma b64_quanta_encode: "length bs \<le> cap \<Longrightarrow> b64_quanta cap (RawURLEncoding bs) = B64Ok bs"
proof (induction bs arbitrary: cap rule: RawURLEncoding.induct)
  case (2 a)
  then show ?case
    using b64_recover1 [of 0 a] by (simp add: b64_index_bounds)
next
  case (3 a b)
  then show ?case
    using b64_recover1 [of "of_char b" a] b64_recover2 [of "of_char b" 0 a]
    by (simp add: b64_index_bounds)
next
  case (4 a b c r)
  then show ?case
    using b64_recover1 [of "of_char b" a] b64_recover2 [of "of_char b" "of_char c" a]
      b64_recover3 [of "of_char c" "of_char b"]
    by (simp add: b64_index_bounds)
qed simp

lemma RawURLEncoding_alphabet: "c \<in> set (RawURLEncoding bs) \<Longrightarrow> b64_val c \<noteq> None"
  by (induction bs rule: RawURLEncoding.induct) (auto simp: b64_index_bounds)

lemma RawURLEncoding_no_newline:
  "filter (\<lambda>c. c \<noteq> CHR 0x0A \<and> c \<noteq> CHR 0x0D) (RawURLEncoding bs) = RawURLEncoding bs"
proof (rule filter_True)
  have "b64_val CHR 0x0A = None" "b64_val CHR 0x0D = None"
    by (simp_all add: b64_val_def)
  then show "\<forall>c \<in> set (RawURLEncoding bs). c \<noteq> CHR 0x0A \<and> c \<noteq> CHR 0x0D"
    using RawURLEncoding_alphabet by metis
qed

lemma RawURLEncoding_roundtrip:
  "length bs \<le> cap \<Longrightarrow> RawURLEncoding_Decode cap (RawURLEncoding bs) = B64Ok bs"
  by (simp add: RawURLEncoding_Decode_def RawURLEncoding_no_newline b64_quanta_encode)

lemma RawURLEncoding_inj: "RawURLEncoding a = RawURLEncoding b \<Longrightarrow> a = b"
  by (metis RawURLEncoding_roundtrip b64_result.inject(1) max.cobounded1 max.cobounded2)

end
