(* ===== verification/GoNet.thy ===== *)
theory GoNet
  imports GoEncoding
begin

unbundle bit_operations_syntax

text \<open>
  The parts of Go's \<open>net\<close> and \<open>net/netip\<close> the sources use: splitting and joining host and port,
  parsing addresses, prefixes and address-port pairs, and the private and loopback ranges.
  The error values are not told apart: \<open>None\<close> is a non-nil error.
\<close>

subsection \<open>Byte searches\<close>

definition IndexByte :: "string \<Rightarrow> char \<Rightarrow> nat option" where
  "IndexByte s c = strings_Index s [c]"

fun LastIndexByte :: "string \<Rightarrow> char \<Rightarrow> nat option" where
  "LastIndexByte [] c = None"
| "LastIndexByte (x # xs) c =
     (case LastIndexByte xs c of
        Some i \<Rightarrow> Some (Suc i)
      | None \<Rightarrow> if x = c then Some 0 else None)"

lemma IndexByte_None: "IndexByte s c = None \<longleftrightarrow> c \<notin> set s"
  by (simp add: IndexByte_def strings_Index_char_None)

lemma IndexByte_first [simp]: "c \<notin> set u \<Longrightarrow> IndexByte (u @ c # v) c = Some (length u)"
  by (auto simp: IndexByte_def strings_Index_char_Some)

lemma LastIndexByte_None: "LastIndexByte s c = None \<longleftrightarrow> c \<notin> set s"
  by (induction s) (auto split: option.splits)

lemma LastIndexByte_last [simp]: "c \<notin> set v \<Longrightarrow> LastIndexByte (u @ c # v) c = Some (length u)"
proof (induction u)
  case Nil
  then have "LastIndexByte v c = None" by (simp add: LastIndexByte_None)
  then show ?case by simp
qed simp

lemma LastIndexByte_SomeD:
  "LastIndexByte s c = Some i \<Longrightarrow> s = take i s @ c # drop (Suc i) s \<and> c \<notin> set (drop (Suc i) s) \<and> i < length s"
proof (induction s arbitrary: i)
  case (Cons x xs)
  show ?case
  proof (cases "LastIndexByte xs c")
    case None
    then have "c \<notin> set xs" by (simp add: LastIndexByte_None)
    with Cons.prems None show ?thesis by (auto split: if_splits)
  next
    case (Some j)
    with Cons.IH [of j] Cons.prems show ?thesis by auto
  qed
qed simp

definition trim_space :: "char \<Rightarrow> bool" where
  "trim_space c \<longleftrightarrow> (of_char c :: nat) \<in> {9, 10, 11, 12, 13, 32}"

text \<open>\<open>strings.TrimSpace\<close> on ASCII text.\<close>

definition strings_TrimSpace :: "string \<Rightarrow> string" where
  "strings_TrimSpace s = rev (dropWhile trim_space (rev (dropWhile trim_space s)))"

subsection \<open>Hosts and ports\<close>

definition SplitHostPort :: "string \<Rightarrow> (string \<times> string) option" where
  "SplitHostPort hostport =
     (case LastIndexByte hostport CHR '':'' of
        None \<Rightarrow> None
      | Some i \<Rightarrow>
          (case (if hd hostport = CHR ''[''
                 then (case IndexByte hostport CHR '']'' of
                         None \<Rightarrow> None
                       | Some end \<Rightarrow> if end + 1 = i then Some (drop 1 (take end hostport), 1, end + 1) else None)
                 else (let host = take i hostport in
                       if CHR '':'' \<in> set host then None else Some (host, 0, 0))) of
             None \<Rightarrow> None
           | Some (host, j, k) \<Rightarrow>
               if CHR ''['' \<in> set (drop j hostport) then None
               else if CHR '']'' \<in> set (drop k hostport) then None
               else Some (host, drop (i + 1) hostport)))"

definition JoinHostPort :: "string \<Rightarrow> string \<Rightarrow> string" where
  "JoinHostPort host port =
     (if CHR '':'' \<in> set host then ''['' @ host @ '']:'' @ port else host @ '':'' @ port)"

definition host_ok :: "string \<Rightarrow> bool" where
  "host_ok h \<longleftrightarrow> CHR ''['' \<notin> set h \<and> CHR '']'' \<notin> set h"

definition port_ok :: "string \<Rightarrow> bool" where
  "port_ok p \<longleftrightarrow> CHR ''['' \<notin> set p \<and> CHR '']'' \<notin> set p \<and> CHR '':'' \<notin> set p"

lemma SplitHostPort_Join:
  assumes "host_ok h" and "port_ok p"
  shows "SplitHostPort (JoinHostPort h p) = Some (h, p)"
proof (cases "CHR '':'' \<in> set h")
  case True
  let ?s = "(CHR ''['' # h @ [CHR '']'']) @ CHR '':'' # p"
  have s: "JoinHostPort h p = ?s" using True by (simp add: JoinHostPort_def)
  have l: "LastIndexByte ?s CHR '':'' = Some (length h + 2)"
    using assms by (subst LastIndexByte_last) (auto simp: port_ok_def)
  have "?s = (CHR ''['' # h) @ CHR '']'' # CHR '':'' # p" by simp
  then have i: "IndexByte ?s CHR '']'' = Some (length h + 1)"
    using assms IndexByte_first [of "CHR '']''" "CHR ''['' # h" "CHR '':'' # p"] by (simp add: host_ok_def)
  show ?thesis
    unfolding s SplitHostPort_def l i using assms by (simp add: host_ok_def port_ok_def)
next
  case False
  then have s: "JoinHostPort h p = h @ CHR '':'' # p" by (simp add: JoinHostPort_def)
  have l: "LastIndexByte (h @ CHR '':'' # p) CHR '':'' = Some (length h)"
    using assms by (subst LastIndexByte_last) (auto simp: port_ok_def)
  have "hd (h @ CHR '':'' # p) \<noteq> CHR ''[''"
    using assms by (cases h) (auto simp: host_ok_def)
  then show ?thesis
    unfolding s SplitHostPort_def l using assms False by (simp add: host_ok_def port_ok_def)
qed

lemma SplitHostPort_no_colon: "CHR '':'' \<notin> set s \<Longrightarrow> SplitHostPort s = None"
proof -
  assume "CHR '':'' \<notin> set s"
  then have "LastIndexByte s CHR '':'' = None" by (simp add: LastIndexByte_None)
  then show ?thesis by (simp add: SplitHostPort_def)
qed

lemma SplitHostPort_plain_SomeD:
  assumes "SplitHostPort s = Some (h, p)" and "hd s \<noteq> CHR ''[''"
  shows "s = h @ CHR '':'' # p \<and> host_ok h \<and> port_ok p \<and> CHR '':'' \<notin> set h"
proof -
  obtain i where i: "LastIndexByte s CHR '':'' = Some i"
    using assms(1) by (cases "LastIndexByte s CHR '':''") (auto simp: SplitHostPort_def)
  note d = LastIndexByte_SomeD [OF i]
  from assms i have *: "h = take i s" "p = drop (Suc i) s" "CHR '':'' \<notin> set h" "CHR ''['' \<notin> set s" "CHR '']'' \<notin> set s"
    by (auto simp: SplitHostPort_def Let_def split: if_splits)
  then have "set h \<subseteq> set s" "set p \<subseteq> set s" by (auto dest: in_set_takeD in_set_dropD)
  with * d show ?thesis by (auto simp: host_ok_def port_ok_def)
qed

subsection \<open>Addresses\<close>

datatype Addr = Addr4 "32 word" | Addr6 "128 word" string \<comment> \<open>the zone, empty for none\<close>

definition Is4 :: "Addr \<Rightarrow> bool" where
  "Is4 a = (case a of Addr4 _ \<Rightarrow> True | Addr6 _ _ \<Rightarrow> False)"

definition Is6 :: "Addr \<Rightarrow> bool" where
  "Is6 a = (\<not> Is4 a)"

definition BitLen :: "Addr \<Rightarrow> nat" where
  "BitLen a = (if Is4 a then 32 else 128)"

definition addr_Zone :: "Addr \<Rightarrow> string" where
  "addr_Zone a = (case a of Addr4 _ \<Rightarrow> [] | Addr6 _ z \<Rightarrow> z)"

definition Is4In6 :: "Addr \<Rightarrow> bool" where
  "Is4In6 a = (case a of Addr4 _ \<Rightarrow> False | Addr6 w _ \<Rightarrow> drop_bit 32 w = 0xffff)"

definition Unmap :: "Addr \<Rightarrow> Addr" where
  "Unmap a = (case a of Addr6 w _ \<Rightarrow> if Is4In6 a then Addr4 (ucast w) else a | Addr4 _ \<Rightarrow> a)"

definition IsPrivate :: "Addr \<Rightarrow> bool" where
  "IsPrivate a = (case Unmap a of
      Addr4 w \<Rightarrow> drop_bit 24 w = 10 \<or> drop_bit 20 w = 0xac1 \<or> drop_bit 16 w = 0xc0a8
    | Addr6 w _ \<Rightarrow> drop_bit 121 w = 0x7e)"

definition IsLoopback :: "Addr \<Rightarrow> bool" where
  "IsLoopback a = (case Unmap a of Addr4 w \<Rightarrow> drop_bit 24 w = 127 | Addr6 w _ \<Rightarrow> w = 1)"

definition word_of_bytes :: "nat list \<Rightarrow> 'a::len word" where
  "word_of_bytes bs = fold (\<lambda>b w. push_bit 8 w OR of_nat b) bs 0"

subsection \<open>netip.ParseAddr\<close>

text \<open>
  \<open>parseIPv4Fields\<close>: its loop state is the value and digit count of the current octet and the
  octets so far; \<open>prev\<close> is the previous byte, \<open>None\<close> at the start.
\<close>

fun ipv4_loop :: "string \<Rightarrow> char option \<Rightarrow> nat \<Rightarrow> nat \<Rightarrow> nat list \<Rightarrow> nat list option" where
  "ipv4_loop [] prev val digLen octets = (if length octets < 3 then None else Some (octets @ [val]))"
| "ipv4_loop (c # s) prev val digLen octets =
     (if is_digit c
      then if digLen = 1 \<and> val = 0 then None
           else let val = val * 10 + (of_char c - 48) in
                if val > 255 then None else ipv4_loop s (Some c) val (digLen + 1) octets
      else if c = CHR ''.''
      then if prev = None \<or> s = [] \<or> prev = Some CHR ''.'' then None
           else if length octets = 3 then None
           else ipv4_loop s (Some c) 0 0 (octets @ [val])
      else None)"

definition parseIPv4Fields :: "string \<Rightarrow> nat list option" where
  "parseIPv4Fields s = ipv4_loop s None 0 0 []"

definition parseIPv4 :: "string \<Rightarrow> Addr option" where
  "parseIPv4 s = map_option (\<lambda>bs. Addr4 (word_of_bytes bs)) (parseIPv4Fields s)"

text \<open>The hexadecimal digits at the start of a group: at most four.\<close>

fun hex_group :: "string \<Rightarrow> nat \<Rightarrow> nat \<Rightarrow> (nat \<times> nat \<times> string) option" where
  "hex_group [] off acc = Some (off, acc, [])"
| "hex_group (c # s) off acc =
     (case hex_val c of
        None \<Rightarrow> Some (off, acc, c # s)
      | Some d \<Rightarrow> if off > 3 then None else hex_group s (off + 1) (16 * acc + d))"

text \<open>
  The loop of \<open>parseIPv6\<close> over the remaining text, the bytes so far and the position of the
  ellipsis. Each round consumes two bytes of the sixteen, so eight rounds are enough: the fuel
  is nine.
\<close>

fun ipv6_loop :: "nat \<Rightarrow> string \<Rightarrow> nat list \<Rightarrow> nat option \<Rightarrow> (string \<times> nat list \<times> nat option) option" where
  "ipv6_loop 0 s ip ell = Some (s, ip, ell)"
| "ipv6_loop (Suc n) s ip ell =
     (if length ip \<ge> 16 then Some (s, ip, ell)
      else case hex_group s 0 0 of
        None \<Rightarrow> None
      | Some (off, acc, rest) \<Rightarrow>
          if off = 0 then None
          else if rest \<noteq> [] \<and> hd rest = CHR ''.''
          then if ell = None \<and> length ip \<noteq> 12 then None
               else if length ip + 4 > 16 then None
               else map_option (\<lambda>fs. ([], ip @ fs, ell)) (parseIPv4Fields s)
          else let ip = ip @ [acc div 256, acc mod 256] in
               case rest of
                 [] \<Rightarrow> Some ([], ip, ell)
               | c # rest \<Rightarrow>
                   if c \<noteq> CHR '':'' then None
                   else (case rest of
                           [] \<Rightarrow> None
                         | d # rest' \<Rightarrow>
                             if d = CHR '':''
                             then if ell \<noteq> None then None
                                  else if rest' = [] then Some ([], ip, Some (length ip))
                                  else ipv6_loop n rest' ip (Some (length ip))
                             else ipv6_loop n rest ip ell))"

definition parseIPv6 :: "string \<Rightarrow> Addr option" where
  "parseIPv6 inp =
     (case (case IndexByte inp CHR ''%'' of
              None \<Rightarrow> Some (inp, [])
            | Some i \<Rightarrow> let zone = drop (i + 1) inp in if zone = [] then None else Some (take i inp, zone)) of
        None \<Rightarrow> None
      | Some (s, zone) \<Rightarrow>
          (let lead = prefix ''::'' s; s = (if lead then drop 2 s else s) in
           if lead \<and> s = [] then Some (Addr6 0 zone)
           else case ipv6_loop 9 s [] (if lead then Some 0 else None) of
                  None \<Rightarrow> None
                | Some (rest, ip, ell) \<Rightarrow>
                    if rest \<noteq> [] then None
                    else if length ip < 16
                    then (case ell of
                            None \<Rightarrow> None
                          | Some e \<Rightarrow> Some (Addr6 (word_of_bytes
                              (take e ip @ replicate (16 - length ip) 0 @ drop e ip)) zone))
                    else if ell \<noteq> None then None
                    else Some (Addr6 (word_of_bytes ip) zone)))"

fun addr_kind :: "string \<Rightarrow> char option" where
  "addr_kind [] = None"
| "addr_kind (c # s) = (if c \<in> {CHR ''.'', CHR '':'', CHR ''%''} then Some c else addr_kind s)"

definition ParseAddr :: "string \<Rightarrow> Addr option" where
  "ParseAddr s =
     (case addr_kind s of
        Some c \<Rightarrow> if c = CHR ''.'' then parseIPv4 s else if c = CHR '':'' then parseIPv6 s else None
      | None \<Rightarrow> None)"

definition splitAddrPort :: "string \<Rightarrow> (string \<times> string \<times> bool) option" where
  "splitAddrPort s =
     (case LastIndexByte s CHR '':'' of
        None \<Rightarrow> None
      | Some i \<Rightarrow>
          let ip = take i s; port = drop (i + 1) s in
          if ip = [] then None
          else if port = [] then None
          else if hd ip = CHR ''[''
          then if length ip < 2 \<or> last ip \<noteq> CHR '']'' then None
               else Some (butlast (tl ip), port, True)
          else Some (ip, port, False))"

definition ParseAddrPort :: "string \<Rightarrow> (Addr \<times> 16 word) option" where
  "ParseAddrPort s =
     (case splitAddrPort s of
        None \<Rightarrow> None
      | Some (ip, port, ipv6) \<Rightarrow>
          (case ParseUint16 port 10 of
             None \<Rightarrow> None
           | Some port16 \<Rightarrow>
               (case ParseAddr ip of
                  None \<Rightarrow> None
                | Some a \<Rightarrow>
                    if ipv6 \<and> Is4 a then None
                    else if \<not> ipv6 \<and> Is6 a then None
                    else Some (a, port16))))"

subsection \<open>Prefixes\<close>

record Prefix =
  pfx_addr :: Addr
  pfx_bits :: nat

definition ParsePrefix :: "string \<Rightarrow> Prefix option" where
  "ParsePrefix s =
     (case LastIndexByte s CHR ''/'' of
        None \<Rightarrow> None
      | Some i \<Rightarrow>
          (case ParseAddr (take i s) of
             None \<Rightarrow> None
           | Some ip \<Rightarrow>
               let bitsStr = drop (i + 1) s in
               if addr_Zone ip \<noteq> [] then None
               else if length bitsStr > 1 \<and> (\<not> is_digit (hd bitsStr) \<or> hd bitsStr = CHR ''0'') then None
               else if bitsStr = [] then None
               else case parse_digits 10 0 bitsStr of
                      None \<Rightarrow> None
                    | Some bits \<Rightarrow>
                        if bits > BitLen ip then None
                        else Some \<lparr>pfx_addr = ip, pfx_bits = bits\<rparr>))"

text \<open>
  The addresses of a prefix: same family and the same leading bits. A 4-in-6 address is an
  IPv6 address here, as in \<open>netip\<close>.
\<close>

definition prefix_contains :: "Prefix \<Rightarrow> Addr \<Rightarrow> bool" where
  "prefix_contains p a =
     (case (pfx_addr p, a) of
        (Addr4 w, Addr4 v) \<Rightarrow> drop_bit (32 - pfx_bits p) (w XOR v) = 0
      | (Addr6 w _, Addr6 v _) \<Rightarrow> drop_bit (128 - pfx_bits p) (w XOR v) = 0
      | _ \<Rightarrow> False)"

definition single_prefix :: "Addr \<Rightarrow> Prefix" where
  "single_prefix a = \<lparr>pfx_addr = a, pfx_bits = BitLen a\<rparr>"

lemma word_xor_eq_0 [simp]: "a XOR b = 0 \<longleftrightarrow> a = (b :: 'a::len word)"
  by (metis xor_self_eq xor.assoc xor.right_neutral xor.left_neutral)

lemma prefix_contains_Addr4:
  "prefix_contains p a \<Longrightarrow> pfx_addr p = Addr4 w \<Longrightarrow>
     \<exists>v. a = Addr4 v \<and> drop_bit (32 - pfx_bits p) w = drop_bit (32 - pfx_bits p) v"
  by (auto simp: prefix_contains_def split: Addr.splits)

lemma drop_bit_mono_eq:
  assumes "drop_bit m w = drop_bit m (v :: 'a::len word)" and "m \<le> n"
  shows "drop_bit n w = drop_bit n v"
proof -
  have "drop_bit n x = drop_bit (n - m) (drop_bit m x)" for x :: "'a word"
    using assms(2) by simp
  then show ?thesis using assms(1) by metis
qed

lemma single_prefix_contains4: "prefix_contains (single_prefix (Addr4 w)) a \<longleftrightarrow> a = Addr4 w"
  by (auto simp: prefix_contains_def single_prefix_def BitLen_def Is4_def split: Addr.splits)

end
