(* ===== verification/IpAcl.thy ===== *)
theory IpAcl
  imports GoNet
begin

text \<open>
  Package \<^verbatim>\<open>ipacl\<close>: access control lists over IP addresses (\<^verbatim>\<open>ipacl/allow.go\<close>) and private subnets
  (\<^verbatim>\<open>ipacl/private.go\<close>).

  Two libraries are arguments. \<open>parse\<close> is \<open>netutil.ParseAddrOrPrefix\<close>; \<open>parse_laws\<close> states that it
  takes an address as its full-length prefix and otherwise parses a CIDR prefix. The routing
  table \<open>bart.Lite\<close> is the record \<open>lite_ops\<close>; \<open>lite_laws\<close> states that it contains an address iff an inserted
  prefix does. A request's counters are recorded in \<open>counts\<close>; \<open>None\<close> is the panic of
  a call of a nil counter.
\<close>

record 't lite_ops =
  bart_empty :: 't
  bart_insert :: "Prefix \<Rightarrow> 't \<Rightarrow> 't"
  bart_contains :: "'t \<Rightarrow> Addr \<Rightarrow> bool"

definition lite_laws :: "'t lite_ops \<Rightarrow> bool" where
  "lite_laws b \<longleftrightarrow>
     (\<forall>ip. \<not> bart_contains b (bart_empty b) ip) \<and>
     (\<forall>p t ip. addr_Zone ip = [] \<longrightarrow>
        bart_contains b (bart_insert b p t) ip = (prefix_contains p ip \<or> bart_contains b t ip))"

definition parse_laws :: "(string \<Rightarrow> Prefix option) \<Rightarrow> bool" where
  "parse_laws parse \<longleftrightarrow>
     (\<forall>s. parse s = (case ParseAddr s of Some a \<Rightarrow> Some (single_prefix a) | None \<Rightarrow> ParsePrefix s))"

subsection \<open>allow.go\<close>

datatype acl_error = NoAddresses | BadAddress string | NotPrivate string | ExtractFailed
  | DirectAndProxy | NoDirectNorProxy

type_synonym 't ACL = 't

fun insert_addrs :: "(string \<Rightarrow> Prefix option) \<Rightarrow> 't lite_ops \<Rightarrow> string list \<Rightarrow> 't \<Rightarrow> (acl_error, 't) result" where
  "insert_addrs parse b [] acl = Inr acl"
| "insert_addrs parse b (addr # addrs) acl =
     (case parse addr of
        None \<Rightarrow> Inl (BadAddress addr)
      | Some p \<Rightarrow> insert_addrs parse b addrs (bart_insert b p acl))"

definition NewACL :: "(string \<Rightarrow> Prefix option) \<Rightarrow> 't lite_ops \<Rightarrow> string list \<Rightarrow> (acl_error, 't ACL) result" where
  "NewACL parse b addrs =
     (if addrs = [] then Inl NoAddresses else insert_addrs parse b addrs (bart_empty b))"

definition ACL_Contains :: "'t lite_ops \<Rightarrow> 't ACL \<Rightarrow> Addr \<Rightarrow> bool" where
  "ACL_Contains b a ip = bart_contains b a ip"

type_synonym AddressExtractor = "request \<Rightarrow> string \<times> (acl_error, Addr) result"

record acl_options =
  ao_extractor :: "AddressExtractor option"
  ao_deniedCounter :: CounterInc
  ao_notAllowedCounter :: CounterInc
  ao_errorCounter :: CounterInc

type_synonym AclOption = "acl_options \<Rightarrow> acl_options"

definition WithAddressExtractor :: "AddressExtractor option \<Rightarrow> AclOption" where
  "WithAddressExtractor extractor opts = opts\<lparr>ao_extractor := extractor\<rparr>"

definition acl_WithCounters :: "CounterInc \<Rightarrow> CounterInc \<Rightarrow> CounterInc \<Rightarrow> AclOption" where
  "acl_WithCounters deniedCounter notAllowedCounter errorCounter opts =
     opts\<lparr>ao_deniedCounter := deniedCounter, ao_notAllowedCounter := notAllowedCounter,
          ao_errorCounter := errorCounter\<rparr>"

definition parseOptionalPort :: "string \<Rightarrow> Addr option" where
  "parseOptionalPort addr =
     (case ParseAddrPort addr of Some (a, _) \<Rightarrow> Some a | None \<Rightarrow> ParseAddr addr)"

definition extract_result :: "Addr option \<Rightarrow> (acl_error, Addr) result" where
  "extract_result r = (case r of None \<Rightarrow> Inl ExtractFailed | Some a \<Rightarrow> Inr a)"

definition RemoteAddrExtractor :: AddressExtractor where
  "RemoteAddrExtractor r = (req_RemoteAddr r, extract_result (parseOptionalPort (req_RemoteAddr r)))"

definition XForwardedForExtractor :: AddressExtractor where
  "XForwardedForExtractor r =
     (let xf = header_Get (req_Header r) ''X-Forwarded-For'' in
      if xf = [] then ([], Inl ExtractFailed)
      else let parts = strings_Split xf '','';
               clientIP = strings_TrimSpace (hd parts)
           in (clientIP, extract_result (parseOptionalPort clientIP)))"

type_synonym Contains = "Addr \<Rightarrow> bool"

text \<open>The handler an ACL guards acts on the response and the counters.\<close>

type_synonym counted_handler = "request \<Rightarrow> response \<times> counts \<Rightarrow> (response \<times> counts) option"

record aclHandler =
  ah_opts :: acl_options
  ah_allowed :: Contains
  ah_denied :: Contains
  ah_handler :: counted_handler

definition noop_acl_options :: acl_options where
  "noop_acl_options = \<lparr>ao_extractor = None, ao_deniedCounter = NoopCounter,
     ao_notAllowedCounter = NoopCounter, ao_errorCounter = NoopCounter\<rparr>"

definition default_extractor :: "acl_options \<Rightarrow> acl_options" where
  "default_extractor opts =
     (if ao_extractor opts = None then opts\<lparr>ao_extractor := Some RemoteAddrExtractor\<rparr> else opts)"

definition allow_or_all :: "Contains option \<Rightarrow> Contains" where
  "allow_or_all allow = (case allow of None \<Rightarrow> (\<lambda>_. True) | Some c \<Rightarrow> c)"

definition deny_or_none :: "Contains option \<Rightarrow> Contains" where
  "deny_or_none deny = (case deny of None \<Rightarrow> (\<lambda>_. False) | Some c \<Rightarrow> c)"

definition NewHandler ::
    "counted_handler \<Rightarrow> Contains option \<Rightarrow> Contains option \<Rightarrow> AclOption list \<Rightarrow> aclHandler" where
  "NewHandler handler allow deny opts =
     \<lparr>ah_opts = default_extractor (apply_options opts noop_acl_options),
      ah_allowed = allow_or_all allow, ah_denied = deny_or_none deny, ah_handler = handler\<rparr>"

definition run_extractor :: "acl_options \<Rightarrow> request \<Rightarrow> (string \<times> (acl_error, Addr) result) option" where
  "run_extractor opts r = (case ao_extractor opts of None \<Rightarrow> None | Some ext \<Rightarrow> Some (ext r))"

definition aclHandler_ServeHTTP :: "aclHandler \<Rightarrow> counted_handler" where
  "aclHandler_ServeHTTP h r wk =
     (case wk of (w, k) \<Rightarrow>
      case run_extractor (ah_opts h) r of
        None \<Rightarrow> None
      | Some (clientIP, Inl err) \<Rightarrow>
          (case counter_call (ao_errorCounter (ah_opts h)) k of
             None \<Rightarrow> None
           | Some k \<Rightarrow> Some (http_Error w ''forbidden'' StatusForbidden, k))
      | Some (clientIP, Inr ip) \<Rightarrow>
          (case (if ah_denied h ip
                 then map_option (Pair True) (counter_call (ao_deniedCounter (ah_opts h)) k)
                 else Some (False, k)) of
             None \<Rightarrow> None
           | Some (forbidden, k) \<Rightarrow>
               (case (if \<not> forbidden \<and> \<not> ah_allowed h ip
                      then map_option (Pair True) (counter_call (ao_notAllowedCounter (ah_opts h)) k)
                      else Some (forbidden, k)) of
                  None \<Rightarrow> None
                | Some (forbidden, k) \<Rightarrow>
                    if forbidden then Some (http_Error w ''forbidden'' StatusForbidden, k)
                    else ah_handler h r (w, k))))"

record SkipHandler =
  sh_allowed :: Contains
  sh_denied :: Contains
  sh_opts :: acl_options

definition NewSkipHandler :: "Contains option \<Rightarrow> Contains option \<Rightarrow> AclOption list \<Rightarrow> SkipHandler" where
  "NewSkipHandler allow deny opts =
     \<lparr>sh_allowed = allow_or_all allow, sh_denied = deny_or_none deny,
      sh_opts = default_extractor (apply_options opts noop_acl_options)\<rparr>"

definition Skip :: "SkipHandler \<Rightarrow> request \<Rightarrow> counts \<Rightarrow> (bool \<times> counts) option" where
  "Skip h r k =
     (case run_extractor (sh_opts h) r of
        None \<Rightarrow> None
      | Some (clientIP, Inl err) \<Rightarrow> map_option (Pair False) (counter_call (ao_errorCounter (sh_opts h)) k)
      | Some (clientIP, Inr ip) \<Rightarrow>
          if sh_denied h ip then map_option (Pair True) (counter_call (ao_deniedCounter (sh_opts h)) k)
          else if \<not> sh_allowed h ip
          then map_option (Pair True) (counter_call (ao_notAllowedCounter (sh_opts h)) k)
          else Some (False, k))"

record acl_Config =
  cfg_Addresses :: "string list"
  cfg_Direct :: bool
  cfg_Proxy :: bool

definition Config_NewACL ::
    "(string \<Rightarrow> Prefix option) \<Rightarrow> 't lite_ops \<Rightarrow> acl_Config \<Rightarrow> (acl_error, 't ACL) result" where
  "Config_NewACL parse b c = NewACL parse b (cfg_Addresses c)"

definition Config_AddressExtractor :: "acl_Config \<Rightarrow> (acl_error, AddressExtractor) result" where
  "Config_AddressExtractor c =
     (if cfg_Direct c \<and> cfg_Proxy c then Inl DirectAndProxy
      else if cfg_Direct c then Inr RemoteAddrExtractor
      else if cfg_Proxy c then Inr XForwardedForExtractor
      else Inl NoDirectNorProxy)"

subsection \<open>private.go\<close>

definition strip_brackets :: "string \<Rightarrow> string" where
  "strip_brackets s =
     (if length s > 1 \<and> hd s = CHR ''['' \<and> last s = CHR '']'' then butlast (tl s) else s)"

definition IsPrivateIP :: "string \<Rightarrow> bool" where
  "IsPrivateIP ipStr =
     (let cleaned = strip_brackets ipStr;
          cleaned = (case SplitHostPort cleaned of Some (host, _) \<Rightarrow> host | None \<Rightarrow> cleaned)
      in case ParsePrefix cleaned of
           Some p \<Rightarrow> IsPrivate (pfx_addr p) \<or> IsLoopback (pfx_addr p)
         | None \<Rightarrow>
             (case ParseAddr cleaned of
                None \<Rightarrow> False
              | Some addr \<Rightarrow> IsPrivate addr \<or> IsLoopback addr))"

type_synonym 't PrivateSubnet = 't

fun private_addrs :: "(string \<Rightarrow> Prefix option) \<Rightarrow> 't lite_ops \<Rightarrow> string list \<Rightarrow> 't \<Rightarrow> (acl_error, 't) result" where
  "private_addrs parse b [] acl = Inr acl"
| "private_addrs parse b (addr # addrs) acl =
     (if \<not> IsPrivateIP addr then Inl (NotPrivate addr)
      else case parse addr of
             None \<Rightarrow> Inl (BadAddress addr)
           | Some p \<Rightarrow> private_addrs parse b addrs (bart_insert b p acl))"

definition NewPrivateSubnet ::
    "(string \<Rightarrow> Prefix option) \<Rightarrow> 't lite_ops \<Rightarrow> string list \<Rightarrow> (acl_error, 't PrivateSubnet) result" where
  "NewPrivateSubnet parse b addrs = private_addrs parse b addrs (bart_empty b)"

definition PrivateSubnet_Contains :: "'t lite_ops \<Rightarrow> 't PrivateSubnet \<Rightarrow> string \<Rightarrow> bool" where
  "PrivateSubnet_Contains b ps addr =
     (case parseOptionalPort addr of None \<Rightarrow> False | Some ip \<Rightarrow> bart_contains b ps ip)"

subsection \<open>Verdicts\<close>

text \<open>
  What an allow and a deny list decide for a request: the specification both handlers
  implement. A rejection names the counter that records it.
\<close>

datatype verdict = Pass | Unidentified CounterInc | Rejected CounterInc

definition verdict_of :: "acl_options \<Rightarrow> Contains \<Rightarrow> Contains \<Rightarrow> request \<Rightarrow> verdict" where
  "verdict_of opts allowed denied r =
     (case snd ((case ao_extractor opts of None \<Rightarrow> RemoteAddrExtractor | Some e \<Rightarrow> e) r) of
        Inl _ \<Rightarrow> Unidentified (ao_errorCounter opts)
      | Inr ip \<Rightarrow>
          if denied ip then Rejected (ao_deniedCounter opts)
          else if allowed ip then Pass else Rejected (ao_notAllowedCounter opts))"

lemma run_default_extractor:
  "run_extractor (default_extractor opts) r =
     Some ((case ao_extractor opts of None \<Rightarrow> RemoteAddrExtractor | Some e \<Rightarrow> e) r)"
  by (simp add: run_extractor_def default_extractor_def split: option.splits)

lemma default_extractor_counters [simp]:
  "ao_deniedCounter (default_extractor opts) = ao_deniedCounter opts"
  "ao_notAllowedCounter (default_extractor opts) = ao_notAllowedCounter opts"
  "ao_errorCounter (default_extractor opts) = ao_errorCounter opts"
  by (simp_all add: default_extractor_def)

lemma ServeHTTP_verdict:
  "aclHandler_ServeHTTP (NewHandler handler allow deny opts) r (w, k) =
     (case verdict_of (apply_options opts noop_acl_options) (allow_or_all allow) (deny_or_none deny) r of
        Pass \<Rightarrow> handler r (w, k)
      | Unidentified c \<Rightarrow> map_option (Pair (http_Error w ''forbidden'' StatusForbidden)) (counter_call c k)
      | Rejected c \<Rightarrow> map_option (Pair (http_Error w ''forbidden'' StatusForbidden)) (counter_call c k))"
  by (simp add: aclHandler_ServeHTTP_def NewHandler_def run_default_extractor verdict_of_def prod.case_eq_if
        split: sum.splits option.splits)

lemma Skip_verdict:
  "Skip (NewSkipHandler allow deny opts) r k =
     (case verdict_of (apply_options opts noop_acl_options) (allow_or_all allow) (deny_or_none deny) r of
        Pass \<Rightarrow> Some (False, k)
      | Unidentified c \<Rightarrow> map_option (Pair False) (counter_call c k)
      | Rejected c \<Rightarrow> map_option (Pair True) (counter_call c k))"
  by (simp add: Skip_def NewSkipHandler_def run_default_extractor verdict_of_def prod.case_eq_if
        split: sum.splits option.splits)

lemmas acl_option_defs [option_defs] = WithAddressExtractor_def acl_WithCounters_def noop_acl_options_def

subsection \<open>The contract of an address extractor\<close>

text \<open>
  An extractor reports the text it found and, when it succeeds, the address that text
  parses to. Both extractors of the package satisfy it.
\<close>

locale address_extractor =
  fixes ext :: AddressExtractor
  assumes parsed: "snd (ext r) = Inr a \<Longrightarrow> parseOptionalPort (fst (ext r)) = Some a"
begin

lemma passes_only_parsed:
  assumes "verdict_of (opts\<lparr>ao_extractor := Some ext\<rparr>) allowed denied r = Pass"
  shows "\<exists>ip. parseOptionalPort (fst (ext r)) = Some ip \<and> allowed ip \<and> \<not> denied ip"
  using assms parsed [of r] by (auto simp: verdict_of_def split: sum.splits if_splits)

lemma unparsed_unidentified:
  assumes "parseOptionalPort (fst (ext r)) = None"
  shows "\<exists>c. verdict_of (opts\<lparr>ao_extractor := Some ext\<rparr>) allowed denied r = Unidentified c"
  using assms parsed [of r] by (auto simp: verdict_of_def split: sum.splits)

end

interpretation remote_addr: address_extractor RemoteAddrExtractor
  by unfold_locales (auto simp: RemoteAddrExtractor_def extract_result_def split: option.splits)

interpretation x_forwarded_for: address_extractor XForwardedForExtractor
  by unfold_locales (auto simp: XForwardedForExtractor_def extract_result_def Let_def split: option.splits if_splits)

subsection \<open>Table lemmas\<close>

lemma insert_addrs_ok:
  "is_ok (insert_addrs parse b addrs t) \<longleftrightarrow> (\<forall>s \<in> set addrs. parse s \<noteq> None)"
  by (induction addrs arbitrary: t) (auto split: option.splits)

lemma insert_addrs_contains:
  assumes "lite_laws b" and "addr_Zone ip = []"
  shows "insert_addrs parse b addrs t = Inr t' \<Longrightarrow> bart_contains b t' ip \<longleftrightarrow>
     (\<exists>s \<in> set addrs. \<exists>p. parse s = Some p \<and> prefix_contains p ip) \<or> bart_contains b t ip"
  using assms by (induction addrs arbitrary: t) (auto simp: lite_laws_def split: option.splits)

lemma private_addrs_insert:
  "private_addrs parse b addrs t = Inr t' \<Longrightarrow>
     insert_addrs parse b addrs t = Inr t' \<and> (\<forall>s \<in> set addrs. IsPrivateIP s)"
  by (induction addrs arbitrary: t) (auto split: option.splits if_splits)

subsection \<open>IPv4 text\<close>

lemma ipv4_loop_chars:
  "ipv4_loop s prev v d fs = Some bs \<Longrightarrow> c \<in> set s \<Longrightarrow> is_digit c \<or> c = CHR ''.''"
proof (induction s prev v d fs rule: ipv4_loop.induct)
  case (2 x s prev v d fs)
  then show ?case by (auto simp: Let_def split: if_splits)
qed simp

lemma digits_chars: "parse_digits 10 acc s = Some n \<Longrightarrow> c \<in> set s \<Longrightarrow> is_digit c"
proof (induction "10::nat" acc s rule: parse_digits.induct)
  case (2 acc x s)
  then show ?case
    by (auto simp: digit_val_def is_digit_def char_between_def Let_def split: option.splits if_splits)
qed simp

lemma ParseAddr_Addr4: "ParseAddr s = Some (Addr4 w) \<Longrightarrow> \<exists>bs. ipv4_loop s None 0 0 [] = Some bs"
  by (auto simp: ParseAddr_def parseIPv4_def parseIPv4Fields_def parseIPv6_def Let_def
      split: option.splits if_splits prod.splits)

definition plain_text :: "string \<Rightarrow> bool" where
  "plain_text s \<longleftrightarrow> CHR ''['' \<notin> set s \<and> CHR '':'' \<notin> set s"

lemma not_digits [simp]: "\<not> is_digit CHR ''[''" "\<not> is_digit CHR '':''"
  by (simp_all add: is_digit_def char_between_def)

lemma ParseAddr_plain: "ParseAddr s = Some (Addr4 w) \<Longrightarrow> plain_text s"
  using ipv4_loop_chars by (fastforce dest: ParseAddr_Addr4 simp: plain_text_def)

lemma ParsePrefix_plain:
  assumes "ParsePrefix s = Some p" and "pfx_addr p = Addr4 w"
  shows "plain_text s"
proof -
  obtain i where i: "LastIndexByte s CHR ''/'' = Some i"
    using assms by (auto simp: ParsePrefix_def split: option.splits)
  then have *: "ParseAddr (take i s) = Some (Addr4 w)" "parse_digits 10 0 (drop (i + 1) s) = Some (pfx_bits p)"
    using assms by (auto simp: ParsePrefix_def Let_def split: option.splits if_splits)
  have s: "s = take i s @ CHR ''/'' # drop (Suc i) s"
    using LastIndexByte_SomeD [OF i] by blast
  have "plain_text (drop (Suc i) s)"
    using digits_chars [OF *(2)] by (fastforce simp: plain_text_def)
  then show ?thesis
    using ParseAddr_plain [OF *(1)] by (subst s) (simp add: plain_text_def)
qed

lemma IsPrivateIP_plain:
  assumes "plain_text s"
  shows "IsPrivateIP s = (case ParsePrefix s of
           Some p \<Rightarrow> IsPrivate (pfx_addr p) \<or> IsLoopback (pfx_addr p)
         | None \<Rightarrow> (case ParseAddr s of None \<Rightarrow> False | Some a \<Rightarrow> IsPrivate a \<or> IsLoopback a))"
proof -
  have "SplitHostPort s = None" using assms by (simp add: SplitHostPort_no_colon plain_text_def)
  moreover have "strip_brackets s = s"
    using assms by (cases s) (auto simp: strip_brackets_def plain_text_def)
  ultimately show ?thesis by (auto simp: IsPrivateIP_def Let_def split: option.splits)
qed

lemma private_block:
  assumes "prefix_contains p (Addr4 v)" and "pfx_addr p = Addr4 w" and "16 \<le> pfx_bits p"
    and "IsPrivate (Addr4 w) \<or> IsLoopback (Addr4 w)"
  shows "IsPrivate (Addr4 v) \<or> IsLoopback (Addr4 v)"
proof -
  have eq: "drop_bit (32 - pfx_bits p) w = drop_bit (32 - pfx_bits p) v"
    using prefix_contains_Addr4 [OF assms(1,2)] by simp
  have "drop_bit n w = drop_bit n v" if "16 \<le> n" for n
    using drop_bit_mono_eq [OF eq, of n] assms(3) that by simp
  with assms(4) show ?thesis by (simp add: IsPrivate_def IsLoopback_def Unmap_def)
qed

text \<open>A routing table as a list of prefixes: an instance of the laws.\<close>

definition list_lite :: "Prefix list lite_ops" where
  "list_lite = \<lparr>bart_empty = [], bart_insert = (#), bart_contains = (\<lambda>t ip. \<exists>p \<in> set t. prefix_contains p ip)\<rparr>"

lemma list_lite_laws: "lite_laws list_lite"
  by (simp add: lite_laws_def list_lite_def)

definition netutil_parse :: "string \<Rightarrow> Prefix option" where
  "netutil_parse s = (case ParseAddr s of Some a \<Rightarrow> Some (single_prefix a) | None \<Rightarrow> ParsePrefix s)"

lemma netutil_parse_laws: "parse_laws netutil_parse"
  by (simp add: parse_laws_def netutil_parse_def)

lemmas addr_eval = ParseAddr_def parseIPv4_def parseIPv4Fields_def word_of_bytes_def is_digit_def
  char_between_def ParsePrefix_def ParseAddrPort_def splitAddrPort_def ParseUint16_def digit_val_def
  single_prefix_def BitLen_def Is4_def Is6_def addr_Zone_def

subsection \<open>Properties\<close>

text \<open>
  C14. Access control is enforced: \<^verbatim>\<open>aclHandler.ServeHTTP\<close> of a handler made by \<^verbatim>\<open>NewHandler\<close> runs the guarded
  handler exactly when the extractor finds an address that the deny list does not contain and
  the allow list does. In every other case it does not run it: the response is 403 with the body
  \<^verbatim>\<open>forbidden\<close>, and one counter, the error, denied or not-allowed one, records why, the deny list
  coming first.
\<close>

theorem aclHandler_enforces:
  assumes "ao_extractor (apply_options opts noop_acl_options) = Some ext" and "rw_commit w = None"
    and "aclHandler_ServeHTTP (NewHandler handler allow deny opts) r (w, k) = Some (w', k')"
  shows "case snd (ext r) of
      Inr ip \<Rightarrow>
        (if \<not> deny_or_none deny ip \<and> allow_or_all allow ip then handler r (w, k) = Some (w', k')
         else sent_status w' = StatusForbidden \<and> rw_body w' = rw_body w @ ''forbidden'' @ [CHR 0x0A] \<and>
           counter_call (if deny_or_none deny ip then ao_deniedCounter (apply_options opts noop_acl_options)
             else ao_notAllowedCounter (apply_options opts noop_acl_options)) k = Some k')
    | Inl _ \<Rightarrow>
        sent_status w' = StatusForbidden \<and> rw_body w' = rw_body w @ ''forbidden'' @ [CHR 0x0A] \<and>
        counter_call (ao_errorCounter (apply_options opts noop_acl_options)) k = Some k'"
  using assms
  by (auto simp: ServeHTTP_verdict verdict_of_def http_Error_status split: sum.splits if_splits)

theorem aclHandler_enforces_witness:
  "\<exists>w' k'. aclHandler_ServeHTTP (NewHandler (\<lambda>r wk. Some wk) None (Some (\<lambda>_. True))
       [WithAddressExtractor (Some (\<lambda>r. (''x'', Inr (Addr4 1)))), acl_WithCounters (Counter ''d'') NoopCounter NoopCounter])
       example_request (new_response, \<lambda>_. 0) = Some (w', k') \<and> sent_status w' = 403 \<and> k' ''d'' = 1"
proof -
  let ?ext = "\<lambda>r. (''x'', Inr (Addr4 1))"
  let ?opts = "[WithAddressExtractor (Some ?ext), acl_WithCounters (Counter ''d'') NoopCounter NoopCounter]"
  let ?h = "NewHandler (\<lambda>r wk. Some wk) None (Some (\<lambda>_. True)) ?opts"
  obtain w' k' where r: "aclHandler_ServeHTTP ?h example_request (new_response, \<lambda>_. 0) = Some (w', k')"
    by (simp add: ServeHTTP_verdict option_defs verdict_of_def deny_or_none_def counter_call_def)
  have "rw_commit new_response = None" by (simp add: new_response_def)
  from aclHandler_enforces [OF _ this r, of ?ext] r show ?thesis
    by (auto simp: option_defs deny_or_none_def counter_call_def StatusForbidden_def)
qed

text \<open>
  \<^verbatim>\<open>SkipHandler.Skip\<close> and \<^verbatim>\<open>aclHandler.ServeHTTP\<close> with the same lists and options agree on every request
  whose address is found: \<^verbatim>\<open>Skip\<close> reports true exactly when the handler would answer 403, with the same
  counter. When no address is found the handler answers 403 but \<^verbatim>\<open>Skip\<close> reports false.
\<close>

theorem Skip_agrees_with_handler:
  assumes "ao_extractor (apply_options opts noop_acl_options) = Some ext"
    and "Skip (NewSkipHandler allow deny opts) r k = Some (b, k')"
  shows "aclHandler_ServeHTTP (NewHandler handler allow deny opts) r (w, k) =
           (if b \<or> \<not> is_ok (snd (ext r)) then Some (http_Error w ''forbidden'' StatusForbidden, k')
            else handler r (w, k)) \<and>
         (\<not> is_ok (snd (ext r)) \<longrightarrow> \<not> b)"
  using assms
  by (auto simp: ServeHTTP_verdict Skip_verdict verdict_of_def is_ok_def split: sum.splits if_splits)

theorem Skip_agrees_with_handler_witness:
  "aclHandler_ServeHTTP (NewHandler (\<lambda>r wk. Some wk) (Some (\<lambda>_. False)) None
       [WithAddressExtractor (Some (\<lambda>r. (''x'', Inr (Addr4 1))))]) example_request (new_response, \<lambda>_. 0) =
     Some (http_Error new_response ''forbidden'' StatusForbidden, \<lambda>_. 0)"
proof -
  let ?ext = "\<lambda>r. (''x'', Inr (Addr4 1))"
  let ?opts = "[WithAddressExtractor (Some ?ext)]"
  have "Skip (NewSkipHandler (Some (\<lambda>_. False)) None ?opts) example_request (\<lambda>_. 0) = Some (True, \<lambda>_. 0)"
    by (simp add: Skip_verdict option_defs verdict_of_def deny_or_none_def allow_or_all_def counter_call_def)
  from Skip_agrees_with_handler [OF _ this, of ?ext] show ?thesis by (simp add: option_defs)
qed

text \<open>
  C15. \<^verbatim>\<open>NewACL\<close> accepts exactly the non-empty lists of well-formed addresses and prefixes, and the ACL it
  builds contains an address iff one of them covers it: a plain address covers itself only.
\<close>

theorem NewACL_Contains:
  assumes "lite_laws b" and "parse_laws parse"
  shows "(is_ok (NewACL parse b addrs) \<longleftrightarrow>
            addrs \<noteq> [] \<and> (\<forall>s \<in> set addrs. ParseAddr s \<noteq> None \<or> ParsePrefix s \<noteq> None)) \<and>
         (\<forall>acl ip. NewACL parse b addrs = Inr acl \<and> addr_Zone ip = [] \<longrightarrow>
            ACL_Contains b acl ip =
              (\<exists>s \<in> set addrs. case ParseAddr s of
                 Some a \<Rightarrow> prefix_contains (single_prefix a) ip
               | None \<Rightarrow> (\<exists>p. ParsePrefix s = Some p \<and> prefix_contains p ip)))"
proof -
  have p: "parse s = (case ParseAddr s of Some a \<Rightarrow> Some (single_prefix a) | None \<Rightarrow> ParsePrefix s)" for s
    using assms(2) by (simp add: parse_laws_def)
  have ok: "(\<exists>y. parse s = Some y) \<longleftrightarrow> (\<exists>y. ParseAddr s = Some y) \<or> (\<exists>y. ParsePrefix s = Some y)" for s
    by (simp add: p split: option.splits)
  have "ACL_Contains b acl ip = (\<exists>s \<in> set addrs. \<exists>q. parse s = Some q \<and> prefix_contains q ip)"
    if "NewACL parse b addrs = Inr acl" "addr_Zone ip = []" for acl ip
    using that insert_addrs_contains [OF assms(1) that(2), of parse addrs "bart_empty b" acl] assms(1)
    by (simp add: NewACL_def ACL_Contains_def lite_laws_def split: if_splits)
  moreover have "(\<exists>q. parse s = Some q \<and> prefix_contains q ip) = (case ParseAddr s of
       Some a \<Rightarrow> prefix_contains (single_prefix a) ip
     | None \<Rightarrow> (\<exists>p. ParsePrefix s = Some p \<and> prefix_contains p ip))" for s ip
    by (simp add: p split: option.splits)
  moreover have "is_ok (NewACL parse b addrs) \<longleftrightarrow> addrs \<noteq> [] \<and> (\<forall>s \<in> set addrs. parse s \<noteq> None)"
    by (simp add: NewACL_def insert_addrs_ok)
  ultimately show ?thesis by (simp add: ok)
qed

theorem NewACL_Contains_witness:
  "\<exists>acl. NewACL netutil_parse list_lite [''10.1.2.3''] = Inr acl \<and>
     ACL_Contains list_lite acl (Addr4 0x0a010203)"
proof -
  have a: "ParseAddr ''10.1.2.3'' = Some (Addr4 0x0a010203)"
    by (simp add: addr_eval Let_def)
  note t = NewACL_Contains [OF list_lite_laws netutil_parse_laws, of "[''10.1.2.3'']"]
  obtain acl where acl: "NewACL netutil_parse list_lite [''10.1.2.3''] = Inr acl"
    using t a by (auto simp: is_ok_iff)
  then have "ACL_Contains list_lite acl (Addr4 0x0a010203)"
    using t a by (simp add: single_prefix_contains4 addr_Zone_def)
  with acl show ?thesis by blast
qed

text \<open>
  C16. A private subnet of IPv4 addresses and prefixes of at least 16 bits admits private and
  loopback addresses only: whatever \<^verbatim>\<open>Contains\<close> accepts parses, with or without a port, to such
  an address.
\<close>

theorem PrivateSubnet_private:
  assumes "lite_laws b" and "parse_laws parse" and "NewPrivateSubnet parse b addrs = Inr ps"
    and "\<forall>s \<in> set addrs. \<forall>p. parse s = Some p \<longrightarrow> Is4 (pfx_addr p) \<and> 16 \<le> pfx_bits p"
    and "PrivateSubnet_Contains b ps addr"
    and "\<forall>ip. parseOptionalPort addr = Some ip \<longrightarrow> addr_Zone ip = []"
  shows "\<exists>v. parseOptionalPort addr = Some (Addr4 v) \<and> (IsPrivate (Addr4 v) \<or> IsLoopback (Addr4 v))"
proof -
  obtain ip where ip: "parseOptionalPort addr = Some ip" "bart_contains b ps ip" "addr_Zone ip = []"
    using assms(5,6) by (auto simp: PrivateSubnet_Contains_def split: option.splits)
  have ins: "insert_addrs parse b addrs (bart_empty b) = Inr ps" "\<forall>s \<in> set addrs. IsPrivateIP s"
    using assms(3) private_addrs_insert [of parse b addrs "bart_empty b" ps] by (simp_all add: NewPrivateSubnet_def)
  obtain s p where s: "s \<in> set addrs" "parse s = Some p" "prefix_contains p ip"
    using insert_addrs_contains [OF assms(1) ip(3) ins(1)] ip(2) assms(1) by (auto simp: lite_laws_def)
  with assms(4) have p: "Is4 (pfx_addr p)" "16 \<le> pfx_bits p" by auto
  then obtain w where w: "pfx_addr p = Addr4 w" "16 \<le> pfx_bits p"
    by (cases "pfx_addr p") (auto simp: Is4_def)
  have "parse s = (case ParseAddr s of Some a \<Rightarrow> Some (single_prefix a) | None \<Rightarrow> ParsePrefix s)"
    using assms(2) by (simp add: parse_laws_def)
  with s(2) consider "ParseAddr s = Some (Addr4 w)" | "ParseAddr s = None" "ParsePrefix s = Some p"
    using w by (auto simp: single_prefix_def split: option.splits)
  then have "IsPrivate (Addr4 w) \<or> IsLoopback (Addr4 w)"
  proof cases
    case 1
    have "ParsePrefix s = None \<or> (\<exists>q. ParsePrefix s = Some q)" by auto
    moreover have "CHR ''/'' \<notin> set s"
      using ParseAddr_Addr4 [OF 1] ipv4_loop_chars [of s None 0 0 "[]" _ "CHR ''/''"]
      by (auto simp: is_digit_def char_between_def)
    then have "ParsePrefix s = None"
      using LastIndexByte_None [of s "CHR ''/''"] by (simp add: ParsePrefix_def)
    ultimately show ?thesis
      using ins(2) s(1) 1 IsPrivateIP_plain [OF ParseAddr_plain [OF 1]] by auto
  next
    case 2
    then show ?thesis
      using ins(2) s(1) w IsPrivateIP_plain [OF ParsePrefix_plain [OF 2(2) w(1)]] by auto
  qed
  moreover obtain v where "ip = Addr4 v"
    using prefix_contains_Addr4 [OF s(3) w(1)] by blast
  ultimately show ?thesis
    using ip(1) private_block s(3) w by blast
qed

lemma private_example:
  "netutil_parse ''10.1.0.0/16'' = Some \<lparr>pfx_addr = Addr4 0x0a010000, pfx_bits = 16\<rparr>"
  "NewPrivateSubnet netutil_parse list_lite [''10.1.0.0/16''] = Inr [\<lparr>pfx_addr = Addr4 0x0a010000, pfx_bits = 16\<rparr>]"
  "parseOptionalPort ''10.1.2.3:80'' = Some (Addr4 0x0a010203)"
proof -
  show a: "netutil_parse ''10.1.0.0/16'' = Some \<lparr>pfx_addr = Addr4 0x0a010000, pfx_bits = 16\<rparr>"
    by (simp add: netutil_parse_def addr_eval Let_def)
  have p: "ParsePrefix ''10.1.0.0/16'' = Some \<lparr>pfx_addr = Addr4 0x0a010000, pfx_bits = 16\<rparr>"
    by (simp add: addr_eval Let_def)
  have "IsPrivateIP ''10.1.0.0/16''"
    by (simp add: IsPrivateIP_plain plain_text_def p) (simp add: IsPrivate_def Unmap_def)
  then show "NewPrivateSubnet netutil_parse list_lite [''10.1.0.0/16''] =
      Inr [\<lparr>pfx_addr = Addr4 0x0a010000, pfx_bits = 16\<rparr>]"
    by (simp add: NewPrivateSubnet_def a list_lite_def)
  show "parseOptionalPort ''10.1.2.3:80'' = Some (Addr4 0x0a010203)"
    by (simp add: parseOptionalPort_def addr_eval Let_def)
qed

theorem PrivateSubnet_private_witness:
  "PrivateSubnet_Contains list_lite [\<lparr>pfx_addr = Addr4 0x0a010000, pfx_bits = 16\<rparr>] ''10.1.2.3:80'' \<and>
   (\<exists>v. parseOptionalPort ''10.1.2.3:80'' = Some (Addr4 v) \<and> (IsPrivate (Addr4 v) \<or> IsLoopback (Addr4 v)))"
proof -
  have c: "PrivateSubnet_Contains list_lite [\<lparr>pfx_addr = Addr4 0x0a010000, pfx_bits = 16\<rparr>] ''10.1.2.3:80''"
    by (simp add: PrivateSubnet_Contains_def private_example list_lite_def prefix_contains_def)
  show ?thesis
    using PrivateSubnet_private [OF list_lite_laws netutil_parse_laws private_example(2) _ c] c
    by (simp add: private_example Is4_def addr_Zone_def)
qed


end
