(* ===== verification/PasskeyStore.thy ===== *)
theory PasskeyStore
  imports GoEncoding
begin

text \<open>
  Users, user identifiers, the session manager and the user database of package \<^verbatim>\<open>passkeys\<close>
  (\<^verbatim>\<open>user.go\<close>, \<^verbatim>\<open>session.go\<close>, \<^verbatim>\<open>user_db.go\<close> under \<^verbatim>\<open>webauth/webauthn/passkeys\<close>).

  The two interfaces the passkey handler calls, \<open>SessionManager\<close> and \<open>UserDatabase\<close>, are records of
  operations; their contracts are the locales \<open>session_manager\<close> and \<open>user_database\<close>, interpreted
  on the in-memory implementations of the package. Randomness is an argument: the bytes
  \<open>rand.Read\<close> delivers, or \<open>None\<close> when it fails. A result \<open>None\<close> of type \<open>_ result option\<close> is a panic.
  Locks are held for the whole of each operation, so an operation is one step.
\<close>

datatype pk_error = RandFailed | SessionNotFound | UserNotFound | BadUserID | StoreFailed
  | MissingCookie | TokenBuildFailed | TokenSignFailed | TokenInvalid | MissingSubject

subsection \<open>user.go\<close>

type_synonym uuidUserID = bytes \<comment> \<open>64 bytes\<close>

definition uid_String :: "uuidUserID \<Rightarrow> string" where
  "uid_String u = RawURLEncoding u"

definition uid_MarshalText :: "uuidUserID \<Rightarrow> bytes" where
  "uid_MarshalText u = RawURLEncoding u"

definition uid_UnmarshalText :: "bytes \<Rightarrow> (pk_error, uuidUserID) result option" where
  "uid_UnmarshalText txt =
     (case RawURLEncoding_Decode 64 txt of
        B64Panic \<Rightarrow> None
      | B64Corrupt \<Rightarrow> Some (Inl BadUserID)
      | B64Ok bs \<Rightarrow> if length bs \<noteq> 64 then Some (Inl BadUserID) else Some (Inr bs))"

definition uid_UnmarshalBinary :: "bytes \<Rightarrow> (pk_error, uuidUserID) result" where
  "uid_UnmarshalBinary b = (if length b \<noteq> 64 then Inl BadUserID else Inr b)"

definition UserIDFromBytes :: "bytes \<Rightarrow> (pk_error, uuidUserID) result" where
  "UserIDFromBytes b = uid_UnmarshalBinary b"

definition UserIDFromString :: "string \<Rightarrow> (pk_error, uuidUserID) result option" where
  "UserIDFromString s = uid_UnmarshalText s"

text \<open>A \<open>webauthn.Credential\<close>: its identifier, and the rest of it kept as it is.\<close>

record Credential =
  cred_ID :: bytes
  cred_rest :: bytes

record User =
  us_id :: bytes
  us_email :: string
  us_displayName :: string
  us_credentials :: "Credential list"

definition NewUser :: "bytes option \<Rightarrow> string \<Rightarrow> string \<Rightarrow> (pk_error, User) result" where
  "NewUser rnd email displayName =
     (case rnd of
        None \<Rightarrow> Inl RandFailed
      | Some bs \<Rightarrow>
          if length bs \<noteq> 64 then Inl RandFailed
          else Inr \<lparr>us_id = bs, us_email = email, us_displayName = displayName, us_credentials = []\<rparr>)"

definition User_ID :: "User \<Rightarrow> uuidUserID" where
  "User_ID u = us_id u"

fun update_credentials :: "Credential list \<Rightarrow> Credential \<Rightarrow> Credential list \<times> bool" where
  "update_credentials [] cred = ([], False)"
| "update_credentials (c # cs) cred =
     (if cred_ID c = cred_ID cred then (cred # cs, True)
      else case update_credentials cs cred of (cs', ok) \<Rightarrow> (c # cs', ok))"

definition UpdateCredential :: "User \<Rightarrow> Credential \<Rightarrow> User \<times> bool" where
  "UpdateCredential u cred =
     (case update_credentials (us_credentials u) cred of (cs, ok) \<Rightarrow> (u\<lparr>us_credentials := cs\<rparr>, ok))"

definition ParseUID :: "User \<Rightarrow> string \<Rightarrow> (pk_error, uuidUserID) result option" where
  "ParseUID u uid = uid_UnmarshalText uid"

definition WebAuthnID :: "User \<Rightarrow> bytes" where
  "WebAuthnID u = us_id u"

definition WebAuthnName :: "User \<Rightarrow> string" where
  "WebAuthnName u = us_email u"

definition WebAuthnDisplayName :: "User \<Rightarrow> string" where
  "WebAuthnDisplayName u = us_displayName u"

definition WebAuthnCredentials :: "User \<Rightarrow> Credential list" where
  "WebAuthnCredentials u = us_credentials u"

definition AddCredential :: "User \<Rightarrow> Credential \<Rightarrow> User" where
  "AddCredential u cred = u\<lparr>us_credentials := us_credentials u @ [cred]\<rparr>"

subsection \<open>session.go\<close>

text \<open>The interface \<open>SessionManager\<close>; a nil pointer is \<open>None\<close>.\<close>

record ('s, 'sd) SessionManager =
  sm_Registering :: "User \<Rightarrow> 'sd option \<Rightarrow> 's \<Rightarrow> 's \<times> (pk_error, string \<times> bool) result"
  sm_Registered :: "string \<Rightarrow> 's \<Rightarrow> 's \<times> (pk_error, User option \<times> 'sd option) result"
  sm_Authenticating :: "'sd option \<Rightarrow> 's \<Rightarrow> 's \<times> (pk_error, string) result"
  sm_Authenticated :: "string \<Rightarrow> 's \<Rightarrow> 's \<times> (pk_error, 'sd option) result"

record 'sd sessionState =
  ss_user :: "User option"
  ss_session :: "'sd option"

type_synonym 'sd sessionManager = "string \<rightharpoonup> 'sd sessionState"

text \<open>The slice \<open>[:length]\<close> of the encoding is in range: an encoding is longer than its input.\<close>

definition generateSecureRandomString :: "nat \<Rightarrow> bytes option \<Rightarrow> (pk_error, string) result" where
  "generateSecureRandomString n rnd =
     (case rnd of None \<Rightarrow> Inl RandFailed | Some b \<Rightarrow> Inr (take n (URLEncoding b)))"

definition Registering ::
    "bytes option \<Rightarrow> User \<Rightarrow> 'sd option \<Rightarrow> 'sd sessionManager \<Rightarrow> 'sd sessionManager \<times> (pk_error, string \<times> bool) result" where
  "Registering rnd user sessionData sm =
     (case generateSecureRandomString 32 rnd of
        Inl e \<Rightarrow> (sm, Inl e)
      | Inr tmpKey \<Rightarrow>
          (sm(tmpKey \<mapsto> \<lparr>ss_user = Some user, ss_session = sessionData\<rparr>), Inr (tmpKey, False)))"

definition Registered ::
    "string \<Rightarrow> 'sd sessionManager \<Rightarrow> 'sd sessionManager \<times> (pk_error, User option \<times> 'sd option) result" where
  "Registered tmpKey sm =
     (case sm tmpKey of
        None \<Rightarrow> (sm, Inl SessionNotFound)
      | Some d \<Rightarrow> (sm(tmpKey := None), Inr (ss_user d, ss_session d)))"

definition Authenticating ::
    "bytes option \<Rightarrow> 'sd option \<Rightarrow> 'sd sessionManager \<Rightarrow> 'sd sessionManager \<times> (pk_error, string) result" where
  "Authenticating rnd sessionData sm =
     (case generateSecureRandomString 32 rnd of
        Inl e \<Rightarrow> (sm, Inl e)
      | Inr tmpKey \<Rightarrow> (sm(tmpKey \<mapsto> \<lparr>ss_user = None, ss_session = sessionData\<rparr>), Inr tmpKey))"

definition Authenticated :: "string \<Rightarrow> 'sd sessionManager \<Rightarrow> 'sd sessionManager \<times> (pk_error, 'sd option) result" where
  "Authenticated tmpKey sm =
     (case sm tmpKey of
        None \<Rightarrow> (sm, Inl SessionNotFound)
      | Some d \<Rightarrow> (sm(tmpKey := None), Inr (ss_session d)))"

subsection \<open>user_db.go\<close>

record 'd UserDatabase =
  um_Store :: "User \<Rightarrow> 'd \<Rightarrow> 'd \<times> (pk_error, unit) result"
  um_Lookup :: "uuidUserID \<Rightarrow> 'd \<Rightarrow> (pk_error, User) result"

type_synonym userDatabase = "string \<rightharpoonup> User"

definition Store :: "User \<Rightarrow> userDatabase \<Rightarrow> userDatabase \<times> (pk_error, unit) result" where
  "Store user um = (um(uid_String (User_ID user) \<mapsto> user), Inr ())"

definition Lookup :: "uuidUserID \<Rightarrow> userDatabase \<Rightarrow> (pk_error, User) result" where
  "Lookup userID um = (case um (uid_String userID) of None \<Rightarrow> Inl UserNotFound | Some user \<Rightarrow> Inr user)"

record 'sd RAMUserDatabase =
  ram_sessions :: "'sd sessionManager"
  ram_users :: userDatabase

definition NewRAMUserDatabase :: "'sd RAMUserDatabase" where
  "NewRAMUserDatabase = \<lparr>ram_sessions = Map.empty, ram_users = Map.empty\<rparr>"

definition ram_SessionManager :: "bytes option \<Rightarrow> ('sd sessionManager, 'sd) SessionManager" where
  "ram_SessionManager rnd = \<lparr>sm_Registering = Registering rnd, sm_Registered = Registered,
     sm_Authenticating = Authenticating rnd, sm_Authenticated = Authenticated\<rparr>"

definition ram_UserDatabase :: "userDatabase UserDatabase" where
  "ram_UserDatabase = \<lparr>um_Store = Store, um_Lookup = Lookup\<rparr>"

subsection \<open>The contract of a session manager\<close>

text \<open>
  \<open>live\<close> is the abstract state: the pending ceremonies by key. Starting a ceremony adds an entry
  or fails; finishing one takes it out. The clients see that a key is good for one use.
\<close>

locale session_manager =
  fixes ops :: "('s, 'sd) SessionManager"
    and live :: "'s \<Rightarrow> string \<rightharpoonup> (User option \<times> 'sd option)"
  assumes registering: "sm_Registering ops u sd s = (s', Inr (k, False)) \<Longrightarrow>
      live s' = (live s)(k \<mapsto> (Some u, sd))"
    and registering_fails: "sm_Registering ops u sd s = (s', Inl e) \<Longrightarrow> live s' = live s"
    and registered: "sm_Registered ops k s = (s', res) \<Longrightarrow>
      live s' = (live s)(k := None) \<and>
      (case live s k of None \<Rightarrow> \<not> is_ok res | Some d \<Rightarrow> res = Inr d)"
    and authenticating: "sm_Authenticating ops sd s = (s', Inr k) \<Longrightarrow>
      live s' = (live s)(k \<mapsto> (None, sd))"
    and authenticating_fails: "sm_Authenticating ops sd s = (s', Inl e) \<Longrightarrow> live s' = live s"
    and authenticated: "sm_Authenticated ops k s = (s', ares) \<Longrightarrow>
      live s' = (live s)(k := None) \<and>
      (case live s k of None \<Rightarrow> \<not> is_ok ares | Some d \<Rightarrow> ares = Inr (snd d))"
begin

lemma registered_once:
  assumes "sm_Registered ops k s = (s', res)"
  shows "\<not> is_ok (snd (sm_Registered ops k s')) \<and> \<not> is_ok (snd (sm_Authenticated ops k s'))"
proof -
  have "live s' k = None" using registered [OF assms] by simp
  then show ?thesis
    using registered [of k s' "fst (sm_Registered ops k s')" "snd (sm_Registered ops k s')"]
      authenticated [of k s' "fst (sm_Authenticated ops k s')" "snd (sm_Authenticated ops k s')"] by simp
qed

lemma authenticated_once:
  assumes "sm_Authenticated ops k s = (s', res)"
  shows "\<not> is_ok (snd (sm_Registered ops k s')) \<and> \<not> is_ok (snd (sm_Authenticated ops k s'))"
proof -
  have "live s' k = None" using authenticated [OF assms] by simp
  then show ?thesis
    using registered [of k s' "fst (sm_Registered ops k s')" "snd (sm_Registered ops k s')"]
      authenticated [of k s' "fst (sm_Authenticated ops k s')" "snd (sm_Authenticated ops k s')"] by simp
qed

lemma register_then_finish:
  assumes "sm_Registering ops u sd s = (s', Inr (k, False))"
  shows "snd (sm_Registered ops k s') = Inr (Some u, sd) \<and>
         live (fst (sm_Registered ops k s')) = (live s)(k := None)"
  using registering [OF assms] registered [of k s' "fst (sm_Registered ops k s')" "snd (sm_Registered ops k s')"]
  by (simp split: option.splits)

lemma authenticate_then_finish:
  assumes "sm_Authenticating ops sd s = (s', Inr k)"
  shows "snd (sm_Authenticated ops k s') = Inr sd \<and>
         live (fst (sm_Authenticated ops k s')) = (live s)(k := None) \<and>
         snd (sm_Registered ops k s') = Inr (None, sd)"
  using authenticating [OF assms] registered [of k s' "fst (sm_Registered ops k s')" "snd (sm_Registered ops k s')"]
    authenticated [of k s' "fst (sm_Authenticated ops k s')" "snd (sm_Authenticated ops k s')"]
  by (simp split: option.splits)

end

definition ram_live :: "'sd sessionManager \<Rightarrow> string \<rightharpoonup> (User option \<times> 'sd option)" where
  "ram_live sm k = map_option (\<lambda>d. (ss_user d, ss_session d)) (sm k)"

lemma ram_live_simps [simp]:
  "ram_live (sm(k \<mapsto> d)) = (ram_live sm)(k \<mapsto> (ss_user d, ss_session d))"
  "ram_live (sm(k := None)) = (ram_live sm)(k := None)"
  by (auto simp: ram_live_def)

lemma map_upd_None_idle: "m k = None \<Longrightarrow> m(k := None) = m"
  by auto

interpretation ram_sm: session_manager "ram_SessionManager rnd" ram_live
proof unfold_locales
qed (auto simp: ram_SessionManager_def Registering_def Registered_def Authenticating_def Authenticated_def
       ram_live_def map_upd_None_idle split: sum.splits option.splits)

subsection \<open>The contract of a user database\<close>

locale user_database =
  fixes ops :: "'d UserDatabase"
    and users :: "'d \<Rightarrow> uuidUserID \<rightharpoonup> User"
  assumes stored: "um_Store ops u d = (d', Inr ()) \<Longrightarrow> users d' = (users d)(User_ID u \<mapsto> u)"
    and not_stored: "um_Store ops u d = (d', Inl e) \<Longrightarrow> users d' = users d"
    and lookup: "um_Lookup ops uid d = Inr u \<longleftrightarrow> users d uid = Some u"
begin

lemma lookup_stored: "um_Store ops u d = (d', Inr ()) \<Longrightarrow> um_Lookup ops (User_ID u) d' = Inr u"
  by (simp add: lookup stored)

lemma lookup_other:
  "um_Store ops u d = (d', res) \<Longrightarrow> uid \<noteq> User_ID u \<Longrightarrow>
     um_Lookup ops uid d' = Inr v \<longleftrightarrow> um_Lookup ops uid d = Inr v"
  by (cases res) (auto simp: lookup dest: stored not_stored)

end

definition ram_users_of :: "userDatabase \<Rightarrow> uuidUserID \<rightharpoonup> User" where
  "ram_users_of um uid = um (uid_String uid)"

lemma uid_String_inj: "uid_String a = uid_String b \<longleftrightarrow> a = b"
  using RawURLEncoding_inj by (auto simp: uid_String_def)

lemma ram_users_of_Store: "ram_users_of (um(uid_String uid \<mapsto> u)) = (ram_users_of um)(uid \<mapsto> u)"
  by (auto simp: ram_users_of_def uid_String_inj)

interpretation ram_um: user_database ram_UserDatabase ram_users_of
  by unfold_locales
    (auto simp: ram_UserDatabase_def Store_def ram_users_of_Store Lookup_def ram_users_of_def split: option.splits)

subsection \<open>Lemmas\<close>

lemma RawURLEncoding_length: "length (RawURLEncoding bs) = (4 * length bs + 2) div 3"
  by (induction bs rule: RawURLEncoding.induct) simp_all

lemma RawURLEncoding_append:
  "length a mod 3 = 0 \<Longrightarrow> RawURLEncoding (a @ b) = RawURLEncoding a @ RawURLEncoding b"
  by (induction a rule: RawURLEncoding.induct) auto

lemma take_URLEncoding_24:
  assumes "length b = 32"
  shows "take 32 (URLEncoding b) = RawURLEncoding (take 24 b)"
proof -
  have "RawURLEncoding b = RawURLEncoding (take 24 b) @ RawURLEncoding (drop 24 b)"
    using assms RawURLEncoding_append [of "take 24 b" "drop 24 b"] by simp
  moreover have "length (RawURLEncoding (take 24 b)) = 32"
    using assms by (simp add: RawURLEncoding_length)
  ultimately show ?thesis by (simp add: URLEncoding_def Let_def)
qed

lemma update_credentials_iff: "snd (update_credentials cs c) \<longleftrightarrow> cred_ID c \<in> cred_ID ` set cs"
  by (induction cs) (auto split: prod.splits)

lemma update_credentials_ids: "map cred_ID (fst (update_credentials cs c)) = map cred_ID cs"
  by (induction cs) (auto split: prod.splits)

lemma update_credentials_in:
  "snd (update_credentials cs c) \<Longrightarrow> c \<in> set (fst (update_credentials cs c))"
  by (induction cs) (auto split: prod.splits)

lemma UpdateCredential_id [simp]: "us_id (fst (UpdateCredential u c)) = us_id u"
  by (simp add: UpdateCredential_def split: prod.splits)

lemma AddCredential_id [simp]: "us_id (AddCredential u c) = us_id u"
  by (simp add: AddCredential_def)

subsection \<open>Properties\<close>

text \<open>
  A user identifier of 64 bytes survives its text form: \<^verbatim>\<open>UserIDFromString\<close> and \<^verbatim>\<open>ParseUID\<close> of \<^verbatim>\<open>String\<close> and of
  \<^verbatim>\<open>MarshalText\<close> give it back, and whatever text they accept denotes 64 bytes.
\<close>

theorem UserID_text_roundtrip:
  assumes "length uid = 64"
  shows "UserIDFromString (uid_String uid) = Some (Inr uid) \<and> ParseUID u (uid_MarshalText uid) = Some (Inr uid) \<and>
         UserIDFromBytes uid = Inr uid \<and> (\<forall>s v. UserIDFromString s = Some (Inr v) \<longrightarrow> length v = 64)"
  using assms
  by (auto simp: UserIDFromString_def ParseUID_def uid_UnmarshalText_def uid_String_def uid_MarshalText_def
      RawURLEncoding_roundtrip UserIDFromBytes_def uid_UnmarshalBinary_def split: b64_result.splits if_splits)

theorem UserID_text_roundtrip_witness:
  "UserIDFromString (uid_String (replicate 64 CHR ''a'')) = Some (Inr (replicate 64 CHR ''a''))"
  using UserID_text_roundtrip [of "replicate 64 CHR ''a''"] by (simp only: length_replicate)

lemma b64_quanta_panics: "cap < length bs \<Longrightarrow> b64_quanta cap (RawURLEncoding bs) = B64Panic"
proof (induction bs arbitrary: cap rule: RawURLEncoding.induct)
  case (4 a b c r)
  show ?case
  proof (cases "cap < 3")
    case False
    then have "cap - 3 < length r" using "4.prems" by auto
    with False "4.IH" show ?thesis by (simp add: b64_index_bounds)
  qed (simp add: b64_index_bounds)
qed (auto simp: b64_index_bounds)

text \<open>
  Text that decodes to more than 64 bytes is not rejected with an error: decoding writes past
  the end of the identifier's array and panics, for the encoding of any such byte string.
\<close>

theorem UserIDFromString_panics:
  assumes "64 < length bs"
  shows "UserIDFromString (RawURLEncoding bs) = None"
  using b64_quanta_panics [OF assms]
  by (simp add: UserIDFromString_def uid_UnmarshalText_def RawURLEncoding_Decode_def RawURLEncoding_no_newline)

theorem UserIDFromString_panics_witness:
  "UserIDFromString (RawURLEncoding (replicate 65 CHR ''a'')) = None"
  by (rule UserIDFromString_panics) simp

text \<open>
  A session key drawn from 32 random bytes has 32 characters and is the encoding of the first 24
  bytes: it is never truncated out of range, and two keys are equal iff those 24 bytes are.
\<close>

theorem session_key_entropy:
  assumes "length a = 32" and "length b = 32"
  shows "generateSecureRandomString 32 (Some a) = Inr (RawURLEncoding (take 24 a)) \<and>
         length (RawURLEncoding (take 24 a)) = 32 \<and>
         (generateSecureRandomString 32 (Some a) = generateSecureRandomString 32 (Some b) \<longleftrightarrow> take 24 a = take 24 b)"
  using assms RawURLEncoding_inj [of "take 24 a" "take 24 b"]
  by (auto simp: generateSecureRandomString_def take_URLEncoding_24 RawURLEncoding_length)

theorem session_key_entropy_witness:
  "length (RawURLEncoding (take 24 (replicate 32 CHR ''a''))) = 32"
  using session_key_entropy [of "replicate 32 CHR ''a''" "replicate 32 CHR ''a''"] by (simp only: length_replicate)

end
