(* ===== verification/JwtUtil.thy ===== *)
theory JwtUtil
  imports GoEncoding
begin

text \<open>
  Package \<^verbatim>\<open>webauth/jwtutil\<close> (\<^verbatim>\<open>signer.go\<close>, \<^verbatim>\<open>jwt_url.go\<close>).

  The JWT library \<open>jwx\<close> is the record \<open>jwx_ops\<close> of arguments: importing and setting up keys, building,
  signing, parsing and validating tokens. \<open>jwx_laws\<close> states what its documentation promises: keys are
  added to sets, a signed token determines its claims, a token is accepted by \<open>Parse\<close> with a key set iff it is the signature of a valid
  token by a key of the set, and \<open>Validate\<close> checks the times and the requested claims.
  Tokens are records of the registered claims the sources use and of the private claims.
\<close>

record jwt_token =
  tk_iss :: "string option"
  tk_aud :: "string list"
  tk_sub :: "string option"
  tk_exp :: "int option"
  tk_nbf :: "int option"
  tk_iat :: "int option"
  tk_claims :: "string \<rightharpoonup> string"

definition empty_token :: jwt_token where
  "empty_token = \<lparr>tk_iss = None, tk_aud = [], tk_sub = None, tk_exp = None, tk_nbf = None, tk_iat = None,
     tk_claims = Map.empty\<rparr>"

datatype validate_option = WithIssuer string | WithAudience string | WithSubject string

record ('k, 'set) jwx_ops =
  jwk_Import :: "bytes \<Rightarrow> 'k option"
  jwk_Set :: "string \<Rightarrow> string \<Rightarrow> 'k \<Rightarrow> 'k option"
  jwk_PublicKey :: "'k \<Rightarrow> 'k option"
  jwk_NewSet :: 'set
  jwk_AddKey :: "'k \<Rightarrow> 'set \<Rightarrow> 'set option"
  jwk_keys :: "'set \<Rightarrow> 'k set"
  jwt_Build :: "jwt_token \<Rightarrow> jwt_token option"
  jwt_Sign :: "jwt_token \<Rightarrow> string \<Rightarrow> 'k \<Rightarrow> bytes option"
  jwt_Parse :: "int \<Rightarrow> bytes \<Rightarrow> 'set \<Rightarrow> jwt_token option"
  jwt_Validate :: "int \<Rightarrow> jwt_token \<Rightarrow> validate_option list \<Rightarrow> bool"

fun option_holds :: "jwt_token \<Rightarrow> validate_option \<Rightarrow> bool" where
  "option_holds t (WithIssuer i) = (tk_iss t = Some i)"
| "option_holds t (WithAudience a) = (a \<in> set (tk_aud t))"
| "option_holds t (WithSubject s) = (tk_sub t = Some s)"

definition timely :: "int \<Rightarrow> jwt_token \<Rightarrow> bool" where
  "timely now t \<longleftrightarrow>
     (case tk_exp t of None \<Rightarrow> True | Some e \<Rightarrow> now < e) \<and>
     (case tk_nbf t of None \<Rightarrow> True | Some n \<Rightarrow> n \<le> now) \<and>
     (case tk_iat t of None \<Rightarrow> True | Some i \<Rightarrow> i \<le> now)"

definition jwx_laws :: "('k, 'set) jwx_ops \<Rightarrow> bool" where
  "jwx_laws j \<longleftrightarrow>
     jwk_keys j (jwk_NewSet j) = {} \<and>
     (\<forall>k s s'. jwk_AddKey j k s = Some s' \<longrightarrow> jwk_keys j s' = insert k (jwk_keys j s)) \<and>
     (\<forall>t t'. jwt_Build j t = Some t' \<longrightarrow> t' = t) \<and>
     (\<forall>now b s t. jwt_Parse j now b s = Some t \<longleftrightarrow>
        timely now t \<and> (\<exists>k \<in> jwk_keys j s. \<exists>alg. jwt_Sign j t alg k = Some b)) \<and>
     (\<forall>t t' a a' k k' b. jwt_Sign j t a k = Some b \<and> jwt_Sign j t' a' k' = Some b \<longrightarrow> t = t') \<and>
     (\<forall>now t os. jwt_Validate j now t os \<longleftrightarrow> timely now t \<and> list_all (option_holds t) os)"

subsection \<open>signer.go\<close>

datatype jwt_error = KeyError | SignFailed | ParseFailed | ValidateFailed | BuildFailed | MissingClaim string

record 'set jwt_validator =
  vl_set :: 'set

record ('k, 'set) signer =
  sg_alg :: string \<comment> \<open>opt: jwt.WithKey(algo, jwkKey)\<close>
  sg_key :: 'k
  sg_pk :: 'k
  sg_validator :: "'set jwt_validator"

fun set_all :: "('k, 'set) jwx_ops \<Rightarrow> (string \<times> string) list \<Rightarrow> 'k \<Rightarrow> 'k option" where
  "set_all j [] key = Some key"
| "set_all j ((k, v) # kvs) key = (case jwk_Set j k v key of None \<Rightarrow> None | Some key \<Rightarrow> set_all j kvs key)"

definition NewSigner ::
    "('k, 'set) jwx_ops \<Rightarrow> 'k \<Rightarrow> string \<Rightarrow> string \<Rightarrow> (jwt_error, ('k, 'set) signer) result" where
  "NewSigner j jwkKey kid algo =
     (case set_all j [(''alg'', algo), (''use'', ''sig''), (''kid'', kid)] jwkKey of
        None \<Rightarrow> Inl KeyError
      | Some jwkKey \<Rightarrow>
          (case jwk_PublicKey j jwkKey of
             None \<Rightarrow> Inl KeyError
           | Some pk \<Rightarrow>
               (case jwk_AddKey j jwkKey (jwk_NewSet j) of
                  None \<Rightarrow> Inl KeyError
                | Some ks \<Rightarrow>
                    Inr \<lparr>sg_alg = algo, sg_key = jwkKey, sg_pk = pk, sg_validator = \<lparr>vl_set = ks\<rparr>\<rparr>)))"

definition NewED25519Signer ::
    "('k, 'set) jwx_ops \<Rightarrow> bytes \<Rightarrow> string \<Rightarrow> (jwt_error, ('k, 'set) signer) result" where
  "NewED25519Signer j priv kid =
     (case jwk_Import j priv of None \<Rightarrow> Inl KeyError | Some jwkKey \<Rightarrow> NewSigner j jwkKey kid ''EdDSA'')"

definition signer_Sign :: "('k, 'set) jwx_ops \<Rightarrow> ('k, 'set) signer \<Rightarrow> jwt_token \<Rightarrow> (jwt_error, bytes) result" where
  "signer_Sign j s token =
     (case jwt_Sign j token (sg_alg s) (sg_key s) of None \<Rightarrow> Inl SignFailed | Some b \<Rightarrow> Inr b)"

definition signer_PublicKey :: "('k, 'set) signer \<Rightarrow> (jwt_error, 'k) result" where
  "signer_PublicKey s = Inr (sg_pk s)"

definition NewValidator :: "'set \<Rightarrow> 'set jwt_validator" where
  "NewValidator ks = \<lparr>vl_set = ks\<rparr>"

definition validator_Parse ::
    "('k, 'set) jwx_ops \<Rightarrow> 'set jwt_validator \<Rightarrow> int \<Rightarrow> bytes \<Rightarrow> (jwt_error, jwt_token) result" where
  "validator_Parse j v now tokenBytes =
     (case jwt_Parse j now tokenBytes (vl_set v) of None \<Rightarrow> Inl ParseFailed | Some t \<Rightarrow> Inr t)"

definition validator_Validate ::
    "('k, 'set) jwx_ops \<Rightarrow> 'set jwt_validator \<Rightarrow> int \<Rightarrow> jwt_token \<Rightarrow> validate_option list \<Rightarrow> (jwt_error, unit) result" where
  "validator_Validate j v now token validators =
     (if jwt_Validate j now token validators then Inr () else Inl ValidateFailed)"

definition ParseAndValidate ::
    "('k, 'set) jwx_ops \<Rightarrow> 'set jwt_validator \<Rightarrow> int \<Rightarrow> bytes \<Rightarrow> validate_option list \<Rightarrow> (jwt_error, jwt_token) result" where
  "ParseAndValidate j v now tokenBytes validators =
     (case validator_Parse j v now tokenBytes of
        Inl e \<Rightarrow> Inl e
      | Inr token \<Rightarrow>
          (case validator_Validate j v now token validators of
             Inl e \<Rightarrow> Inl e
           | Inr _ \<Rightarrow> Inr token))"

subsection \<open>jwt_url.go\<close>

definition CreateVerificationToken ::
    "('k, 'set) jwx_ops \<Rightarrow> ('k, 'set) signer \<Rightarrow> int \<Rightarrow> string \<Rightarrow> string \<Rightarrow> string \<Rightarrow> int \<Rightarrow> string \<Rightarrow> string \<Rightarrow>
       (jwt_error, bytes) result" where
  "CreateVerificationToken j s now subject claimKey claimValue expiresIn issuer audience =
     (let b = empty_token\<lparr>tk_sub := Some subject, tk_iat := Some now, tk_exp := Some (now + expiresIn),
                tk_claims := [claimKey \<mapsto> claimValue]\<rparr>;
          b = (if issuer \<noteq> [] then b\<lparr>tk_iss := Some issuer\<rparr> else b);
          b = (if audience \<noteq> [] then b\<lparr>tk_aud := [audience]\<rparr> else b)
      in case jwt_Build j b of
           None \<Rightarrow> Inl BuildFailed
         | Some tok \<Rightarrow> signer_Sign j s tok)"

definition ValidateVerificationToken ::
    "('k, 'set) jwx_ops \<Rightarrow> 'set jwt_validator \<Rightarrow> int \<Rightarrow> bytes \<Rightarrow> string \<Rightarrow> string \<Rightarrow> string \<Rightarrow> string \<Rightarrow>
       (jwt_error, string) result" where
  "ValidateVerificationToken j v now tokenString expectedSubject expectedIssuer expectedAudience claimKey =
     (let validators = [WithSubject expectedSubject];
          validators = (if expectedIssuer \<noteq> [] then validators @ [WithIssuer expectedIssuer] else validators);
          validators = (if expectedAudience \<noteq> [] then validators @ [WithAudience expectedAudience] else validators)
      in case ParseAndValidate j v now tokenString validators of
           Inl e \<Rightarrow> Inl e
         | Inr tok \<Rightarrow>
             (case tk_claims tok claimKey of None \<Rightarrow> Inl (MissingClaim claimKey) | Some v \<Rightarrow> Inr v))"

subsection \<open>Lemmas\<close>

lemma jwx_lawsD:
  assumes "jwx_laws j"
  shows "jwt_Parse j now b ks = Some t \<longleftrightarrow>
      timely now t \<and> (\<exists>k \<in> jwk_keys j ks. \<exists>alg. jwt_Sign j t alg k = Some b)"
    and "jwt_Validate j now t os \<longleftrightarrow> timely now t \<and> list_all (option_holds t) os"
    and "jwt_Build j t = Some t' \<Longrightarrow> t' = t"
    and "jwt_Sign j t a k = Some b \<Longrightarrow> jwt_Sign j t' a' k' = Some b \<Longrightarrow> t' = t"
  using assms unfolding jwx_laws_def by blast+

lemma ParseAndValidate_iff:
  assumes "jwx_laws j"
  shows "ParseAndValidate j v now b os = Inr t \<longleftrightarrow>
    timely now t \<and> (\<exists>k \<in> jwk_keys j (vl_set v). \<exists>alg. jwt_Sign j t alg k = Some b) \<and> list_all (option_holds t) os"
proof -
  have "ParseAndValidate j v now b os = Inr t \<longleftrightarrow>
      jwt_Parse j now b (vl_set v) = Some t \<and> jwt_Validate j now t os"
    by (auto simp: ParseAndValidate_def validator_Parse_def validator_Validate_def split: option.splits)
  then show ?thesis by (auto simp: jwx_lawsD [OF assms])
qed

lemma NewSigner_keys:
  assumes "jwx_laws j" and "NewSigner j key kid algo = Inr s"
  shows "jwk_keys j (vl_set (sg_validator s)) = {sg_key s}"
  using assms by (auto simp: NewSigner_def jwx_laws_def split: option.splits)

lemma signed_validates:
  assumes "jwx_laws j" and "NewSigner j key kid algo = Inr s" and "signer_Sign j s t = Inr b"
    and "timely now t" and "list_all (option_holds t) os"
  shows "ParseAndValidate j (sg_validator s) now b os = Inr t"
  using assms(3-) unfolding ParseAndValidate_iff [OF assms(1)] NewSigner_keys [OF assms(1,2)]
  by (auto simp: signer_Sign_def split: option.splits)

lemma signed_token_only:
  assumes "jwx_laws j" and "signer_Sign j s t = Inr b" and "ParseAndValidate j v now b os = Inr t'"
  shows "t' = t \<and> timely now t"
proof -
  have "jwt_Sign j t (sg_alg s) (sg_key s) = Some b"
    using assms(2) by (auto simp: signer_Sign_def split: option.splits)
  then show ?thesis
    using assms(3) jwx_lawsD(4) [OF assms(1)] unfolding ParseAndValidate_iff [OF assms(1)] by blast
qed

text \<open>The claims of a verification token.\<close>

definition verification_claims ::
    "int \<Rightarrow> string \<Rightarrow> string \<Rightarrow> string \<Rightarrow> int \<Rightarrow> string \<Rightarrow> string \<Rightarrow> jwt_token" where
  "verification_claims now sub ck cv d iss aud =
     empty_token\<lparr>tk_sub := Some sub, tk_iat := Some now, tk_exp := Some (now + d), tk_claims := [ck \<mapsto> cv],
       tk_iss := (if iss \<noteq> [] then Some iss else None), tk_aud := (if aud \<noteq> [] then [aud] else [])\<rparr>"

lemma CreateVerificationToken_claims:
  "CreateVerificationToken j s now sub ck cv d iss aud =
     (case jwt_Build j (verification_claims now sub ck cv d iss aud) of
        None \<Rightarrow> Inl BuildFailed | Some tok \<Rightarrow> signer_Sign j s tok)"
  by (simp add: CreateVerificationToken_def verification_claims_def empty_token_def)

text \<open>An instance of the laws: one key signs one token.\<close>

definition single_jwx :: "jwt_token \<Rightarrow> bytes \<Rightarrow> (string, string set) jwx_ops" where
  "single_jwx t0 b0 = \<lparr>jwk_Import = Some, jwk_Set = (\<lambda>_ _ k. Some k), jwk_PublicKey = Some, jwk_NewSet = {},
     jwk_AddKey = (\<lambda>k s. Some (insert k s)), jwk_keys = id, jwt_Build = Some,
     jwt_Sign = (\<lambda>t alg k. if t = t0 \<and> k = ''key'' then Some b0 else None),
     jwt_Parse = (\<lambda>now b s. if b = b0 \<and> ''key'' \<in> s \<and> timely now t0 then Some t0 else None),
     jwt_Validate = (\<lambda>now t os. timely now t \<and> list_all (option_holds t) os)\<rparr>"

lemma single_jwx_laws: "jwx_laws (single_jwx t0 b0)"
  by (auto simp: jwx_laws_def single_jwx_def)

subsection \<open>Properties\<close>

text \<open>
  A verification token is accepted, until it expires, by the validator of the signer that
  made it when the subject, issuer and audience are the expected ones, and yields the claim's value;
  from its expiry on it is rejected.
\<close>

theorem verification_token_roundtrip:
  assumes "jwx_laws j" and "NewSigner j key kid algo = Inr s"
    and "CreateVerificationToken j s now sub ck cv d iss aud = Inr b" and "now \<le> t"
  shows "if t < now + d then ValidateVerificationToken j (sg_validator s) t b sub iss aud ck = Inr cv
         else \<not> is_ok (ValidateVerificationToken j (sg_validator s) t b sub' iss' aud' ck')"
proof -
  let ?t = "verification_claims now sub ck cv d iss aud"
  have s: "signer_Sign j s ?t = Inr b"
    using assms(3) by (auto simp: CreateVerificationToken_claims split: option.splits dest: jwx_lawsD(3) [OF assms(1)])
  have "ValidateVerificationToken j (sg_validator s) t b sub iss aud ck = Inr cv" if "t < now + d"
  proof -
    have "timely t ?t" using that assms(4) by (simp add: timely_def verification_claims_def empty_token_def)
    from signed_validates [OF assms(1,2) s this] show ?thesis
      by (simp add: ValidateVerificationToken_def Let_def)
        (simp add: verification_claims_def)
  qed
  moreover have "\<not> is_ok (ValidateVerificationToken j (sg_validator s) t b sub' iss' aud' ck')" if "\<not> t < now + d"
    using that signed_token_only [OF assms(1) s, of "sg_validator s" t]
    by (fastforce simp: ValidateVerificationToken_def Let_def is_ok_def timely_def verification_claims_def empty_token_def
        split: sum.splits option.splits)
  ultimately show ?thesis by simp
qed

theorem verification_token_roundtrip_witness:
  "\<exists>s b. NewSigner (single_jwx (verification_claims 0 ''u'' ''k'' ''v'' 10 ''i'' ''a'') ''T'') ''key'' ''id'' ''EdDSA'' = Inr s \<and>
     CreateVerificationToken (single_jwx (verification_claims 0 ''u'' ''k'' ''v'' 10 ''i'' ''a'') ''T'') s 0 ''u'' ''k'' ''v'' 10 ''i'' ''a'' = Inr b \<and>
     ValidateVerificationToken (single_jwx (verification_claims 0 ''u'' ''k'' ''v'' 10 ''i'' ''a'') ''T'')
       (sg_validator s) 5 b ''u'' ''i'' ''a'' ''k'' = Inr ''v''"
proof -
  let ?j = "single_jwx (verification_claims 0 ''u'' ''k'' ''v'' 10 ''i'' ''a'') ''T''"
  obtain s where s: "NewSigner ?j ''key'' ''id'' ''EdDSA'' = Inr s" "sg_key s = ''key''"
    by (simp add: NewSigner_def single_jwx_def)
  have b: "CreateVerificationToken ?j s 0 ''u'' ''k'' ''v'' 10 ''i'' ''a'' = Inr ''T''"
    unfolding CreateVerificationToken_claims using s by (simp add: single_jwx_def signer_Sign_def)
  show ?thesis
    using verification_token_roundtrip [OF single_jwx_laws s(1) b, of 5] s(1) b by auto
qed



end
