(* ===== verification/Passkeys.thy ===== *)
theory Passkeys
  imports PasskeyStore JwtUtil Cookies JsonApi
begin

text \<open>
  The passkey handler and its login manager (\<^verbatim>\<open>middleware.go\<close>, \<^verbatim>\<open>cookies.go\<close>, \<^verbatim>\<open>passkeys.go\<close> under
  \<^verbatim>\<open>webauth/webauthn/passkeys\<close>).

  The WebAuthn library is the record \<open>webauthn_ops\<close> of arguments; the JSON codecs of its option types and
  of the registration request are arguments too. The handler calls the \<open>SessionManager\<close>,
  \<open>UserDatabase\<close> and \<open>LoginManager\<close> interfaces through records of operations, and its methods return the
  new states of the two stores with the response. Logging is left out. \<open>None\<close> is a panic.
  \<open>UpdateCredential\<close> writes into the slice of the user \<open>Lookup\<close> returned, which shares its array with the
  stored user; the write is followed by the \<open>Store\<close> of that user, so values are enough here.
\<close>

subsection \<open>cookies.go\<close>

definition AuthenticationCookie :: Secure where
  "AuthenticationCookie = ''webauthn_authentication''"

definition RegistrationCookie :: Secure where
  "RegistrationCookie = ''webauthn_registration''"

subsection \<open>middleware.go\<close>

record ('k, 'set) JWTCookieLoginManager =
  lgm_signer :: "('k, 'set) signer"
  lgm_issuer :: string
  lgm_audience :: "string list"
  lgm_loginCookie :: ScopeAndDuration
  lgm_LoginCookie :: Secure

definition minutes :: "int \<Rightarrow> int" where
  "minutes n = n * 60 * 1000000000"

definition NewJWTCookieLoginManager ::
    "('k, 'set) signer \<Rightarrow> string \<Rightarrow> ScopeAndDuration \<Rightarrow> ('k, 'set) JWTCookieLoginManager" where
  "NewJWTCookieLoginManager s issuer ck =
     \<lparr>lgm_signer = s, lgm_issuer = issuer, lgm_audience = [''webauthn''],
      lgm_loginCookie = SetDefaults ck [] ''/'' (minutes 10), lgm_LoginCookie = ''webauthn_login''\<rparr>"

definition UserAuthenticated ::
    "('k, 'set) jwx_ops \<Rightarrow> ('k, 'set) JWTCookieLoginManager \<Rightarrow> int \<Rightarrow> request \<Rightarrow> response \<Rightarrow> uuidUserID \<Rightarrow>
       response \<times> (pk_error, unit) result" where
  "UserAuthenticated j m now r rw user =
     (let b = empty_token\<lparr>tk_iss := Some (lgm_issuer m), tk_aud := lgm_audience m, tk_sub := Some (uid_String user),
                tk_exp := Some (now + Duration (lgm_loginCookie m)), tk_nbf := Some now\<rparr>
      in case jwt_Build j b of
           None \<Rightarrow> (rw, Inl TokenBuildFailed)
         | Some token \<Rightarrow>
             (case signer_Sign j (lgm_signer m) token of
                Inl _ \<Rightarrow> (rw, Inl TokenSignFailed)
              | Inr tokenString \<Rightarrow>
                  (Secure_Set (lgm_LoginCookie m) rw
                     (ScopeAndDuration_Cookie now (lgm_loginCookie m) tokenString), Inr ())))"

definition AuthenticateUser ::
    "('k, 'set) jwx_ops \<Rightarrow> ('k, 'set) JWTCookieLoginManager \<Rightarrow> int \<Rightarrow> request \<Rightarrow>
       (pk_error, uuidUserID) result option" where
  "AuthenticateUser j m now r =
     (case Secure_Read (lgm_LoginCookie m) r of
        (tokenString, ok) \<Rightarrow>
          if \<not> ok then Some (Inl MissingCookie)
          else
            let validationOptions = WithIssuer (lgm_issuer m) # map WithAudience (lgm_audience m)
            in case ParseAndValidate j (sg_validator (lgm_signer m)) now tokenString validationOptions of
                 Inl _ \<Rightarrow> Some (Inl TokenInvalid)
               | Inr token \<Rightarrow>
                   (case tk_sub token of
                      None \<Rightarrow> Some (Inl MissingSubject)
                    | Some subject \<Rightarrow> UserIDFromString subject))"

subsection \<open>passkeys.go\<close>

text \<open>A \<open>webauthn.User\<close> returned by the library is the package's own type or another one.\<close>

datatype webauthn_user = OwnUser User | ForeignUser

record ('sd, 'opt, 'creds, 'asrt) webauthn_ops =
  wa_BeginMediatedRegistration :: "User \<Rightarrow> string \<Rightarrow> 'opt list \<Rightarrow> ('creds \<times> 'sd option) option"
  wa_FinishRegistration :: "User \<Rightarrow> 'sd \<Rightarrow> request \<Rightarrow> Credential option"
  wa_BeginDiscoverableMediatedLogin :: "string \<Rightarrow> ('asrt \<times> 'sd option) option"
  wa_FinishPasskeyLogin :: "(bytes \<Rightarrow> bytes \<Rightarrow> User option) \<Rightarrow> 'sd \<Rightarrow> request \<Rightarrow> (webauthn_user \<times> Credential) option"

record LoginManager =
  lm_UserAuthenticated :: "int \<Rightarrow> request \<Rightarrow> response \<Rightarrow> uuidUserID \<Rightarrow> response \<times> (pk_error, unit) result"
  lm_AuthenticateUser :: "int \<Rightarrow> request \<Rightarrow> (pk_error, uuidUserID) result option"

definition jwt_LoginManager :: "('k, 'set) jwx_ops \<Rightarrow> ('k, 'set) JWTCookieLoginManager \<Rightarrow> LoginManager" where
  "jwt_LoginManager j m = \<lparr>lm_UserAuthenticated = UserAuthenticated j m, lm_AuthenticateUser = AuthenticateUser j m\<rparr>"

type_synonym EmailValidator = "string \<Rightarrow> bool" \<comment> \<open>Validate returned no error\<close>

record 'opt pk_options =
  po_sessionCookie :: ScopeAndDuration
  po_emailValidator :: "EmailValidator option"
  po_mediationRequirement :: string
  po_registrationOptions :: "'opt list"

type_synonym 'opt HandlerOption = "'opt pk_options \<Rightarrow> 'opt pk_options"

definition WithEmailValidator :: "EmailValidator \<Rightarrow> 'opt HandlerOption" where
  "WithEmailValidator validator opts = opts\<lparr>po_emailValidator := Some validator\<rparr>"

definition WithMediation :: "string \<Rightarrow> 'opt HandlerOption" where
  "WithMediation mediation opts = opts\<lparr>po_mediationRequirement := mediation\<rparr>"

definition WithRegistrationOptions :: "'opt list \<Rightarrow> 'opt HandlerOption" where
  "WithRegistrationOptions ros opts = opts\<lparr>po_registrationOptions := ros\<rparr>"

definition WithSessionCookieScopeAndDuration :: "ScopeAndDuration \<Rightarrow> 'opt HandlerOption" where
  "WithSessionCookieScopeAndDuration ck opts = opts\<lparr>po_sessionCookie := ck\<rparr>"

record ('s, 'd, 'sd, 'opt, 'creds, 'asrt) Handler =
  hd_w :: "('sd, 'opt, 'creds, 'asrt) webauthn_ops"
  hd_sm :: "('s, 'sd) SessionManager"
  hd_um :: "'d UserDatabase"
  hd_lm :: LoginManager
  hd_opts :: "'opt pk_options"

definition zero_pk_options :: "'opt pk_options" where
  "zero_pk_options = \<lparr>po_sessionCookie = \<lparr>Domain = [], Path = [], Duration = 0\<rparr>, po_emailValidator = None,
     po_mediationRequirement = [], po_registrationOptions = []\<rparr>"

definition pk_NewHandler ::
    "('sd, 'opt, 'creds, 'asrt) webauthn_ops \<Rightarrow> ('s, 'sd) SessionManager \<Rightarrow> 'd UserDatabase \<Rightarrow> LoginManager \<Rightarrow>
       'opt HandlerOption list \<Rightarrow> ('s, 'd, 'sd, 'opt, 'creds, 'asrt) Handler" where
  "pk_NewHandler w sm um lm opts =
     (let h = \<lparr>hd_w = w, hd_sm = sm, hd_um = um, hd_lm = lm, hd_opts = apply_options opts zero_pk_options\<rparr>
      in h\<lparr>hd_opts := (hd_opts h)\<lparr>po_sessionCookie :=
             SetDefaults (po_sessionCookie (hd_opts h)) [] ''/'' (minutes 10)\<rparr>\<rparr>)"

record BeginRegistrationRequest =
  brq_Email :: string
  brq_DisplayName :: string

text \<open>
  \<open>decode\<close> is the JSON codec of the request and \<open>encode\<close> that of the response; \<open>rnd\<close> are the random
  bytes of \<open>NewUser\<close>.
\<close>

definition BeginRegistration ::
    "(bytes \<Rightarrow> (BeginRegistrationRequest \<times> bool) option) \<Rightarrow> ('creds \<Rightarrow> bytes option) \<Rightarrow> bytes option \<Rightarrow> int \<Rightarrow>
       ('s, 'd, 'sd, 'opt, 'creds, 'asrt) Handler \<Rightarrow> response \<Rightarrow> request \<Rightarrow> 's \<Rightarrow> response \<times> 's" where
  "BeginRegistration decode encode rnd now h rw r sm =
     (case ParseRequest decode rw r of
        (rw, Inl _) \<Rightarrow> (WriteErrorMsg rw ''failed to parse request'' StatusBadRequest, sm)
      | (rw, Inr req) \<Rightarrow>
          if (case po_emailValidator (hd_opts h) of None \<Rightarrow> False | Some v \<Rightarrow> \<not> v (brq_Email req))
          then (WriteErrorMsg rw ''invalid email address'' StatusBadRequest, sm)
          else case NewUser rnd (brq_Email req) (brq_DisplayName req) of
            Inl _ \<Rightarrow> (WriteErrorMsg rw ''failed to create user'' StatusInternalServerError, sm)
          | Inr user \<Rightarrow>
              (case wa_BeginMediatedRegistration (hd_w h) user (po_mediationRequirement (hd_opts h))
                      (po_registrationOptions (hd_opts h)) of
                 None \<Rightarrow> (WriteErrorMsg rw ''failed to begin mediated registration'' StatusInternalServerError, sm)
               | Some (creds, session) \<Rightarrow>
                   (case sm_Registering (hd_sm h) user session sm of
                      (sm, Inl _) \<Rightarrow> (WriteErrorMsg rw ''failed to begin registration'' StatusInternalServerError, sm)
                    | (sm, Inr (tmpKey, exists)) \<Rightarrow>
                        if exists then (WriteErrorMsg rw ''user already registered'' StatusConflict, sm)
                        else
                          let rw = Secure_Set RegistrationCookie rw
                                     (ScopeAndDuration_Cookie now (po_sessionCookie (hd_opts h)) tmpKey)
                          in (fst (WriteResponse encode rw creds), sm))))"

definition FinishRegistration ::
    "('s, 'd, 'sd, 'opt, 'creds, 'asrt) Handler \<Rightarrow> response \<Rightarrow> request \<Rightarrow> 's \<Rightarrow> 'd \<Rightarrow> response \<times> 's \<times> 'd" where
  "FinishRegistration h rw r sm um =
     (case Secure_ReadAndClear RegistrationCookie rw r of
        (rw, sessionKey, ok) \<Rightarrow>
          if \<not> ok then (WriteErrorMsg rw ''missing registration cookie'' StatusBadRequest, sm, um)
          else case sm_Registered (hd_sm h) sessionKey sm of
            (sm, Inl _) \<Rightarrow> (WriteErrorMsg rw ''failed to retrieve session data'' StatusInternalServerError, sm, um)
          | (sm, Inr (Some user, Some sessionData)) \<Rightarrow>
              (case wa_FinishRegistration (hd_w h) user sessionData r of
                 None \<Rightarrow> (WriteErrorMsg rw ''failed to finish registration'' StatusBadRequest, sm, um)
               | Some cred \<Rightarrow>
                   let user = AddCredential user cred in
                   (case um_Store (hd_um h) user um of
                      (um, Inl _) \<Rightarrow> (WriteErrorMsg rw ''failed to store user'' StatusInternalServerError, sm, um)
                    | (um, Inr _) \<Rightarrow> (rw, sm, um)))
          | (sm, Inr _) \<Rightarrow> (WriteErrorMsg rw ''invalid session data'' StatusBadRequest, sm, um))"

definition BeginDiscoverableAuthentication ::
    "('asrt \<Rightarrow> bytes option) \<Rightarrow> int \<Rightarrow> ('s, 'd, 'sd, 'opt, 'creds, 'asrt) Handler \<Rightarrow> response \<Rightarrow> 's \<Rightarrow> response \<times> 's" where
  "BeginDiscoverableAuthentication encode now h rw sm =
     (case wa_BeginDiscoverableMediatedLogin (hd_w h) [] of
        None \<Rightarrow> (WriteErrorMsg rw ''failed to begin discoverable authentication'' StatusInternalServerError, sm)
      | Some (options, session) \<Rightarrow>
          (case sm_Authenticating (hd_sm h) session sm of
             (sm, Inl _) \<Rightarrow> (WriteErrorMsg rw ''failed to begin authenticating'' StatusInternalServerError, sm)
           | (sm, Inr tmpKey) \<Rightarrow>
               let rw = Secure_Set AuthenticationCookie rw
                          (ScopeAndDuration_Cookie now (po_sessionCookie (hd_opts h)) tmpKey)
               in (fst (WriteResponse encode rw options), sm)))"

text \<open>The callback \<open>FinishAuthentication\<close> gives the library to find the user.\<close>

definition discover_user :: "'d UserDatabase \<Rightarrow> 'd \<Rightarrow> bytes \<Rightarrow> bytes \<Rightarrow> User option" where
  "discover_user ops um rawID userHandle =
     (case UserIDFromBytes userHandle of
        Inl _ \<Rightarrow> None
      | Inr uid \<Rightarrow> (case um_Lookup ops uid um of Inl _ \<Rightarrow> None | Inr user \<Rightarrow> Some user))"

definition FinishAuthentication ::
    "int \<Rightarrow> ('s, 'd, 'sd, 'opt, 'creds, 'asrt) Handler \<Rightarrow> response \<Rightarrow> request \<Rightarrow> 's \<Rightarrow> 'd \<Rightarrow>
       (response \<times> 's \<times> 'd) option" where
  "FinishAuthentication now h rw r sm um =
     (case Secure_ReadAndClear AuthenticationCookie rw r of
        (rw, sessionKey, ok) \<Rightarrow>
          if \<not> ok then Some (WriteErrorMsg rw ''missing authentication cookie'' StatusBadRequest, sm, um)
          else case sm_Authenticated (hd_sm h) sessionKey sm of
            (sm, Inl _) \<Rightarrow>
              Some (WriteErrorMsg rw ''failed to retrieve session data'' StatusInternalServerError, sm, um)
          | (sm, Inr None) \<Rightarrow> None
          | (sm, Inr (Some session)) \<Rightarrow>
              (case wa_FinishPasskeyLogin (hd_w h) (discover_user (hd_um h) um) session r of
                 None \<Rightarrow>
                   Some (WriteErrorMsg rw ''failed to finish discoverable login'' StatusInternalServerError, sm, um)
               | Some (ForeignUser, cred) \<Rightarrow>
                   Some (WriteErrorMsg rw ''internal server error'' StatusInternalServerError, sm, um)
               | Some (OwnUser pu, cred) \<Rightarrow>
                   (case UpdateCredential pu cred of
                      (pu, ok) \<Rightarrow>
                        if \<not> ok
                        then Some (WriteErrorMsg rw ''failed to update credential'' StatusInternalServerError, sm, um)
                        else case um_Store (hd_um h) pu um of
                          (um, Inl _) \<Rightarrow>
                            Some (WriteErrorMsg rw ''failed to store user'' StatusInternalServerError, sm, um)
                        | (um, Inr _) \<Rightarrow>
                            (case lm_UserAuthenticated (hd_lm h) now r rw (User_ID pu) of
                               (rw, Inl _) \<Rightarrow>
                                 Some (WriteErrorMsg rw ''failed to set authenticated session''
                                         StatusInternalServerError, sm, um)
                             | (rw, Inr _) \<Rightarrow> Some (rw, sm, um)))))"

definition VerifyAuthentication ::
    "int \<Rightarrow> ('s, 'd, 'sd, 'opt, 'creds, 'asrt) Handler \<Rightarrow> response \<Rightarrow> request \<Rightarrow> 'd \<Rightarrow> response option" where
  "VerifyAuthentication now h rw r um =
     (case lm_AuthenticateUser (hd_lm h) now r of
        None \<Rightarrow> None
      | Some (Inl _) \<Rightarrow> Some (WriteErrorMsg rw ''failed to authenticate user'' StatusUnauthorized)
      | Some (Inr uid) \<Rightarrow>
          (case um_Lookup (hd_um h) uid um of
             Inl _ \<Rightarrow> Some (WriteErrorMsg rw ''failed to lookup user'' StatusInternalServerError)
           | Inr user \<Rightarrow> Some rw))"

subsection \<open>Lemmas\<close>

lemma cookie_names_are_tokens [simp]:
  "isToken RegistrationCookie" "isToken AuthenticationCookie" "isToken ''webauthn_login''"
  by (simp_all add: RegistrationCookie_def AuthenticationCookie_def token_defs)

lemma WriteErrorMsg_committed [simp]: "rw_commit (WriteErrorMsg w m s) = None \<longleftrightarrow> False"
  using WriteErrorMsg_commit_None [of w m s] by blast

lemma ReadAndClear_parts:
  assumes "Secure_ReadAndClear c rw r = (rw', k, ok)"
  shows "rw_commit rw' = rw_commit rw" "rw_body rw' = rw_body rw"
    "ok \<longleftrightarrow> Secure_Read c r = (k, True)"
  using assms by (auto simp: Secure_ReadAndClear_def readAndClearCookie_def Secure_Read_def http_SetCookie_def Let_def
      split: option.splits if_splits)

lemma ReadAndClear_present:
  assumes "Secure_Read c r = (k, True)"
  obtains rw' where "Secure_ReadAndClear c rw r = (rw', k, True)" "rw_commit rw' = rw_commit rw" "rw_body rw' = rw_body rw"
  using assms by (auto simp: Secure_ReadAndClear_def readAndClearCookie_def Secure_Read_def http_SetCookie_def Let_def
      split: option.splits if_splits)

text \<open>The claims of a login token, and what the login manager sends and accepts.\<close>

definition login_claims :: "('k, 'set) JWTCookieLoginManager \<Rightarrow> int \<Rightarrow> uuidUserID \<Rightarrow> jwt_token" where
  "login_claims m now uid = empty_token\<lparr>tk_iss := Some (lgm_issuer m), tk_aud := lgm_audience m,
     tk_sub := Some (uid_String uid), tk_exp := Some (now + Duration (lgm_loginCookie m)), tk_nbf := Some now\<rparr>"

lemma UserAuthenticated_claims:
  "UserAuthenticated j m now r rw uid =
     (case jwt_Build j (login_claims m now uid) of
        None \<Rightarrow> (rw, Inl TokenBuildFailed)
      | Some token \<Rightarrow>
          (case signer_Sign j (lgm_signer m) token of
             Inl _ \<Rightarrow> (rw, Inl TokenSignFailed)
           | Inr b \<Rightarrow> (Secure_Set (lgm_LoginCookie m) rw (ScopeAndDuration_Cookie now (lgm_loginCookie m) b), Inr ())))"
  by (simp add: UserAuthenticated_def login_claims_def)

lemma UserAuthenticated_ok:
  assumes "jwx_laws j" and "UserAuthenticated j m now r rw uid = (rw', Inr ())"
  shows "\<exists>b. signer_Sign j (lgm_signer m) (login_claims m now uid) = Inr b \<and>
     rw' = Secure_Set (lgm_LoginCookie m) rw (ScopeAndDuration_Cookie now (lgm_loginCookie m) b)"
  using assms(2) jwx_lawsD(3) [OF assms(1)]
  by (auto simp: UserAuthenticated_claims split: option.splits sum.splits)

lemma login_claims_valid:
  "timely t (login_claims m now uid) \<longleftrightarrow> now \<le> t \<and> t < now + Duration (lgm_loginCookie m)"
  "list_all (option_holds (login_claims m now uid)) (WithIssuer (lgm_issuer m) # map WithAudience (lgm_audience m))"
  by (auto simp: timely_def login_claims_def empty_token_def list_all_iff)

lemma pk_NewHandler_sel [simp]:
  "hd_w (pk_NewHandler w sm um lm opts) = w" "hd_sm (pk_NewHandler w sm um lm opts) = sm"
  "hd_um (pk_NewHandler w sm um lm opts) = um" "hd_lm (pk_NewHandler w sm um lm opts) = lm"
  by (simp_all add: pk_NewHandler_def)

subsection \<open>The handler over any stores\<close>

locale passkey_stores =
  sm: session_manager smo live + um: user_database umo users
  for smo :: "('s, 'sd) SessionManager" and live :: "'s \<Rightarrow> string \<rightharpoonup> (User option \<times> 'sd option)"
    and umo :: "'d UserDatabase" and users :: "'d \<Rightarrow> uuidUserID \<rightharpoonup> User"
begin

lemma authenticated_cases:
  assumes "sm_Authenticated smo k s = (s', res)"
  shows "live s' = (live s)(k := None)"
    and "res = Inr sd \<Longrightarrow> \<exists>u. live s k = Some (u, sd)"
  using sm.authenticated [OF assms] by (auto split: option.splits)

lemma registered_cases:
  assumes "sm_Registered smo k s = (s', res)"
  shows "live s' = (live s)(k := None)"
    and "res = Inr d \<Longrightarrow> live s k = Some d"
  using sm.registered [OF assms] by (auto split: option.splits)

text \<open>A login succeeds only through a live ceremony and the library's verdict on it.\<close>

lemma FinishAuthentication_success:
  assumes h: "hd_sm h = smo" "hd_um h = umo" and rw: "rw_commit rw = None"
    and f: "FinishAuthentication now h rw r s d = Some (rw', s', d')" and ok: "rw_commit rw' = None"
  shows "\<exists>k sd u0 pu cred rw1.
     Secure_Read AuthenticationCookie r = (k, True) \<and> live s k = Some (u0, Some sd) \<and> live s' = (live s)(k := None) \<and>
     wa_FinishPasskeyLogin (hd_w h) (discover_user umo d) sd r = Some (OwnUser pu, cred) \<and>
     snd (UpdateCredential pu cred) \<and> users d' = (users d)(us_id pu \<mapsto> fst (UpdateCredential pu cred)) \<and>
     rw_commit rw1 = None \<and> rw1 = fst (Secure_ReadAndClear AuthenticationCookie rw r) \<and>
     lm_UserAuthenticated (hd_lm h) now r rw1 (us_id pu) = (rw', Inr ())"
proof -
  obtain rw1 k ck where rc: "Secure_ReadAndClear AuthenticationCookie rw r = (rw1, k, ck)"
    using prod_cases3 by blast
  note c = ReadAndClear_parts [OF rc]
  obtain s1 res where a: "sm_Authenticated smo k s = (s1, res)" by force
  note red = FinishAuthentication_def rc a h
  from f ok have ck: "ck" by (cases ck) (auto simp: red)
  with f ok obtain sd where sd: "res = Inr (Some sd)"
    by (auto simp: red split: sum.splits option.splits)
  with f ok ck obtain pu cred where
    pu: "wa_FinishPasskeyLogin (hd_w h) (discover_user umo d) sd r = Some (OwnUser pu, cred)"
    by (auto simp: red split: option.splits webauthn_user.splits)
  moreover obtain pu' upd where u: "UpdateCredential pu cred = (pu', upd)" by force
  moreover obtain d1 st where st: "um_Store umo pu' d = (d1, st)" by force
  moreover obtain rw2 lr where l: "lm_UserAuthenticated (hd_lm h) now r rw1 (User_ID pu') = (rw2, lr)" by force
  ultimately have z: "upd" "st = Inr ()" "lr = Inr ()" "rw' = rw2" "s' = s1" "d' = d1"
    using f ok ck sd pu by (auto simp: red split: if_splits sum.splits)
  have "us_id pu' = us_id pu" using u by (metis UpdateCredential_id fst_conv)
  moreover have "users d' = (users d)(us_id pu' \<mapsto> pu')"
    using um.stored st z by (simp add: User_ID_def)
  ultimately show ?thesis
    using c ck rw authenticated_cases [OF a] sd pu u z l rc
    by (intro exI [of _ k] exI [of _ sd]) (auto simp: User_ID_def)
qed

text \<open>Whatever the outcome, the ceremony of the request's cookie is over.\<close>

lemma FinishAuthentication_consumes:
  assumes h: "hd_sm h = smo" and f: "FinishAuthentication now h rw r s d = Some (rw', s', d')"
    and k: "Secure_Read AuthenticationCookie r = (k, True)"
  shows "live s' = (live s)(k := None)"
proof -
  obtain rw1 where rc: "Secure_ReadAndClear AuthenticationCookie rw r = (rw1, k, True)"
    using k by (rule ReadAndClear_present)
  obtain s1 res where a: "sm_Authenticated smo k s = (s1, res)" by force
  then have "s' = s1"
    using f by (auto simp: FinishAuthentication_def rc h split: sum.splits option.splits webauthn_user.splits prod.splits if_splits)
  then show ?thesis using authenticated_cases [OF a] by simp
qed

lemma FinishAuthentication_dead_key:
  assumes h: "hd_sm h = smo" and k: "Secure_Read AuthenticationCookie r = (k, True)" and dead: "live s k = None"
    and rw: "rw_commit rw = None"
  shows "\<exists>rw' s'. FinishAuthentication now h rw r s d = Some (rw', s', d) \<and> sent_status rw' = StatusInternalServerError \<and>
     live s' = live s"
proof -
  obtain rw1 where rc: "Secure_ReadAndClear AuthenticationCookie rw r = (rw1, k, True)" and c: "rw_commit rw1 = None"
    using k rw by (auto intro: ReadAndClear_present [of _ r k rw])
  obtain s1 res where a: "sm_Authenticated smo k s = (s1, res)" by force
  from sm.authenticated [OF a] dead obtain e where "res = Inl e" "live s1 = live s"
    by (cases res) (auto simp: map_upd_None_idle)
  then show ?thesis
    using c by (auto simp: FinishAuthentication_def rc a h WriteErrorMsg_status)
qed

lemma FinishRegistration_live:
  assumes h: "hd_sm h = smo" "hd_um h = umo" and k: "Secure_Read RegistrationCookie r = (k, True)"
    and lv: "live s k = Some (Some u, Some sd)" and w: "wa_FinishRegistration (hd_w h) u sd r = Some cred"
    and rw: "rw_commit rw = None" and f: "FinishRegistration h rw r s d = (rw', s', d')"
  shows "live s' = (live s)(k := None) \<and>
    (if rw_commit rw' = None then users d' = (users d)(us_id u \<mapsto> AddCredential u cred) \<and> rw_body rw' = rw_body rw
     else users d' = users d \<and> sent_status rw' = StatusInternalServerError)"
proof -
  obtain rw1 where rc: "Secure_ReadAndClear RegistrationCookie rw r = (rw1, k, True)"
      and c: "rw_commit rw1 = None" "rw_body rw1 = rw_body rw"
    using k rw by (auto intro: ReadAndClear_present [of _ r k rw])
  obtain s1 res where a: "sm_Registered smo k s = (s1, res)" by force
  with sm.registered [OF a] lv have res: "res = Inr (Some u, Some sd)" by simp
  obtain d1 st where st: "um_Store umo (AddCredential u cred) d = (d1, st)" by force
  have "users d1 = (case st of Inl _ \<Rightarrow> users d | Inr _ \<Rightarrow> (users d)(us_id u \<mapsto> AddCredential u cred))"
    using um.stored um.not_stored st by (auto simp: User_ID_def split: sum.splits)
  then show ?thesis
    using f c res registered_cases(1) [OF a] rw
    by (auto simp: FinishRegistration_def rc a h w st Let_def WriteErrorMsg_status split: sum.splits)
qed

end

interpretation ram_stores: passkey_stores "ram_SessionManager rnd" ram_live ram_UserDatabase ram_users_of
  by unfold_locales

subsection \<open>Properties\<close>

text \<open>What the library promises: the user it returns is one the callback gave it.\<close>

definition webauthn_laws :: "('sd, 'opt, 'creds, 'asrt) webauthn_ops \<Rightarrow> bool" where
  "webauthn_laws w \<longleftrightarrow>
     (\<forall>f sd r u cred. wa_FinishPasskeyLogin w f sd r = Some (OwnUser u, cred) \<longrightarrow> (\<exists>rawID uh. f rawID uh = Some u))"

lemma discover_user_ram: "discover_user ram_UserDatabase um rawID uh = Some u \<Longrightarrow> ram_users_of um uh = Some u"
  by (auto simp: discover_user_def UserIDFromBytes_def uid_UnmarshalBinary_def ram_UserDatabase_def Lookup_def
      ram_users_of_def split: if_splits option.splits)

definition all_keyed :: "userDatabase \<Rightarrow> bool" where
  "all_keyed um \<longleftrightarrow> (\<forall>uid u. ram_users_of um uid = Some u \<longrightarrow> us_id u = uid)"

lemma all_keyed_Store: "all_keyed um \<Longrightarrow> all_keyed (fst (Store u um))"
  by (auto simp: all_keyed_def Store_def ram_users_of_Store User_ID_def)

text \<open>A library that accepts every login by the user whose handle the request's path names.\<close>

definition demo_webauthn :: "(unit, unit, unit, unit) webauthn_ops" where
  "demo_webauthn = \<lparr>wa_BeginMediatedRegistration = (\<lambda>u m os. Some ((), Some ())),
     wa_FinishRegistration = (\<lambda>u sd r. Some \<lparr>cred_ID = ''c1'', cred_rest = []\<rparr>),
     wa_BeginDiscoverableMediatedLogin = (\<lambda>m. Some ((), Some ())),
     wa_FinishPasskeyLogin = (\<lambda>f sd r. case f [] (req_Path r) of None \<Rightarrow> None
        | Some u \<Rightarrow> (case us_credentials u of [] \<Rightarrow> None | c # _ \<Rightarrow> Some (OwnUser u, c)))\<rparr>"

lemma demo_webauthn_laws: "webauthn_laws demo_webauthn"
  by (auto simp: webauthn_laws_def demo_webauthn_def split: option.splits list.splits)

definition demo_lm :: LoginManager where
  "demo_lm = \<lparr>lm_UserAuthenticated = (\<lambda>now r rw uid. (rw, Inr ())), lm_AuthenticateUser = (\<lambda>now r. Some (Inl MissingCookie))\<rparr>"

definition demo_id :: bytes where "demo_id = replicate 64 CHR ''u''"

definition demo_user :: User where
  "demo_user = \<lparr>us_id = demo_id, us_email = ''e'', us_displayName = ''d'', us_credentials = [\<lparr>cred_ID = ''c1'', cred_rest = []\<rparr>]\<rparr>"

definition demo_db :: userDatabase where
  "demo_db = fst (Store demo_user Map.empty)"

definition demo_sessions :: "unit sessionManager" where
  "demo_sessions = [''k1'' \<mapsto> \<lparr>ss_user = None, ss_session = Some ()\<rparr>]"

definition demo_login :: request where
  "demo_login = example_request\<lparr>req_Path := demo_id, req_Cookies := [(''webauthn_authentication'', ''k1'')]\<rparr>"

lemma demo_db_lookup [simp]: "ram_users_of demo_db demo_id = Some demo_user" "all_keyed demo_db"
  by (simp_all add: demo_db_def Store_def ram_users_of_Store User_ID_def demo_user_def all_keyed_def ram_users_of_def)

lemma demo_login_cookie [simp]: "Secure_Read AuthenticationCookie demo_login = (''k1'', True)"
  by (simp add: Secure_Read_def req_Cookie_def AuthenticationCookie_def demo_login_def request_cookie_def)

lemma demo_login_runs_with:
  assumes lm: "\<And>rw. rw_commit rw = None \<Longrightarrow> \<exists>rw'. lm_UserAuthenticated lm 0 demo_login rw demo_id = (rw', Inr ()) \<and> rw_commit rw' = None"
  shows "\<exists>rw' s' d'. FinishAuthentication 0 (pk_NewHandler demo_webauthn (ram_SessionManager rnd) ram_UserDatabase lm [])
      new_response demo_login demo_sessions demo_db = Some (rw', s', d') \<and> rw_commit rw' = None"
proof -
  obtain rw1 k ck where rc: "Secure_ReadAndClear AuthenticationCookie new_response demo_login = (rw1, k, ck)"
    using prod_cases3 by blast
  have k: "k = ''k1''" "ck" and rw1: "rw_commit rw1 = None"
    using rc ReadAndClear_parts [OF rc]
    by (auto simp: Secure_ReadAndClear_def readAndClearCookie_def req_Cookie_def AuthenticationCookie_def demo_login_def
        request_cookie_def Let_def new_response_def http_SetCookie_def)
  have a: "sm_Authenticated (ram_SessionManager rnd) ''k1'' demo_sessions = (Map.empty, Inr (Some ()))"
    by (auto simp: ram_SessionManager_def Authenticated_def demo_sessions_def)
  have d: "discover_user ram_UserDatabase demo_db [] demo_id = Some demo_user"
    using ram_um.lookup [of demo_id demo_db demo_user]
    by (simp add: discover_user_def UserIDFromBytes_def uid_UnmarshalBinary_def demo_id_def [symmetric])
      (simp add: demo_id_def)
  have w: "wa_FinishPasskeyLogin demo_webauthn (discover_user ram_UserDatabase demo_db) () demo_login =
      Some (OwnUser demo_user, \<lparr>cred_ID = ''c1'', cred_rest = []\<rparr>)"
    using d by (simp add: demo_webauthn_def demo_login_def demo_user_def)
  have u: "UpdateCredential demo_user \<lparr>cred_ID = ''c1'', cred_rest = []\<rparr> = (demo_user, True)"
    by (simp add: UpdateCredential_def demo_user_def)
  have st: "um_Store ram_UserDatabase demo_user demo_db = Store demo_user demo_db"
    by (simp add: ram_UserDatabase_def)
  obtain rw2 where "lm_UserAuthenticated lm 0 demo_login rw1 demo_id = (rw2, Inr ())" "rw_commit rw2 = None"
    using lm [OF rw1] by blast
  moreover have "User_ID demo_user = demo_id" by (simp add: User_ID_def demo_user_def)
  ultimately show ?thesis by (simp add: FinishAuthentication_def rc k a w u st Store_def)
qed

lemma demo_login_runs:
  "\<exists>rw' s' d'. FinishAuthentication 0 (pk_NewHandler demo_webauthn (ram_SessionManager rnd) ram_UserDatabase demo_lm [])
      new_response demo_login demo_sessions demo_db = Some (rw', s', d') \<and> rw_commit rw' = None"
  by (rule demo_login_runs_with) (simp add: demo_lm_def)

text \<open>
  C10. No login without a ceremony: when \<^verbatim>\<open>FinishAuthentication\<close> ends without an error response, the
  request's cookie names a pending session, which is now used up, the WebAuthn library accepted
  the assertion for a user stored in the database, whose stored credential with that identifier is
  replaced by the returned one, and the login manager set the login for exactly that user.
\<close>

theorem FinishAuthentication_sound:
  assumes "webauthn_laws w" and "all_keyed um" and "rw_commit rw = None"
    and "FinishAuthentication now (pk_NewHandler w (ram_SessionManager rnd) ram_UserDatabase lm opts) rw r s um =
           Some (rw', s', um')"
    and "rw_commit rw' = None"
  shows "\<exists>k st sd u cred rw1.
     Secure_Read AuthenticationCookie r = (k, True) \<and> s k = Some st \<and> ss_session st = Some sd \<and> s' k = None \<and>
     wa_FinishPasskeyLogin w (discover_user ram_UserDatabase um) sd r = Some (OwnUser u, cred) \<and>
     Lookup (us_id u) um = Inr u \<and> cred_ID cred \<in> cred_ID ` set (us_credentials u) \<and>
     Lookup (us_id u) um' = Inr (fst (UpdateCredential u cred)) \<and>
     lm_UserAuthenticated lm now r rw1 (us_id u) = (rw', Inr ())"
proof -
  let ?h = "pk_NewHandler w (ram_SessionManager rnd) ram_UserDatabase lm opts"
  obtain k sd u0 pu cred rw1 where *: "Secure_Read AuthenticationCookie r = (k, True)" "ram_live s k = Some (u0, Some sd)"
      "ram_live s' = (ram_live s)(k := None)"
      "wa_FinishPasskeyLogin w (discover_user ram_UserDatabase um) sd r = Some (OwnUser pu, cred)"
      "snd (UpdateCredential pu cred)" "ram_users_of um' = (ram_users_of um)(us_id pu \<mapsto> fst (UpdateCredential pu cred))"
      "lm_UserAuthenticated lm now r rw1 (us_id pu) = (rw', Inr ())"
    using ram_stores.FinishAuthentication_success [of ?h rnd, OF _ _ assms(3,4,5)] by auto
  obtain rawID uh where "discover_user ram_UserDatabase um rawID uh = Some pu"
    using assms(1) *(4) unfolding webauthn_laws_def by blast
  then have "ram_users_of um (us_id pu) = Some pu"
    using discover_user_ram assms(2) by (metis all_keyed_def)
  moreover have "s' k = None" using *(3) by (auto simp: ram_live_def fun_eq_iff dest: spec [of _ k])
  moreover have "cred_ID cred \<in> cred_ID ` set (us_credentials pu)"
    using *(5) by (simp add: UpdateCredential_def prod.case_eq_if update_credentials_iff)
  ultimately show ?thesis
    using * ram_um.lookup [of "us_id pu"] by (auto simp: ram_live_def ram_UserDatabase_def)
qed

theorem FinishAuthentication_sound_witness:
  "\<exists>u cred. wa_FinishPasskeyLogin demo_webauthn (discover_user ram_UserDatabase demo_db) () demo_login = Some (OwnUser u, cred) \<and>
     Lookup (us_id u) demo_db = Inr u"
proof -
  obtain rw' s' d' where r: "FinishAuthentication 0 (pk_NewHandler demo_webauthn (ram_SessionManager None) ram_UserDatabase demo_lm [])
      new_response demo_login demo_sessions demo_db = Some (rw', s', d')" "rw_commit rw' = None"
    using demo_login_runs by blast
  have n: "rw_commit new_response = None" by (simp add: new_response_def)
  from FinishAuthentication_sound [OF demo_webauthn_laws demo_db_lookup(2) n r] show ?thesis by auto
qed

text \<open>
  C3. A ceremony key is good for one use: after \<^verbatim>\<open>FinishAuthentication\<close> has run on a request, whatever it
  answered, a second run with the same cookie answers 500 and changes neither store.
\<close>

theorem FinishAuthentication_no_replay:
  assumes "Secure_Read AuthenticationCookie r = (k, True)" and "Secure_Read AuthenticationCookie r2 = (k, True)"
    and "FinishAuthentication now (pk_NewHandler w (ram_SessionManager rnd) ram_UserDatabase lm opts) rw r s um =
           Some (rw', s', um')"
    and "rw_commit rw2 = None"
  shows "\<exists>rw2' s2. FinishAuthentication now2 (pk_NewHandler w (ram_SessionManager rnd) ram_UserDatabase lm opts) rw2 r2 s' um' =
           Some (rw2', s2, um') \<and> sent_status rw2' = StatusInternalServerError \<and> ram_live s2 = ram_live s'"
proof -
  let ?h = "pk_NewHandler w (ram_SessionManager rnd) ram_UserDatabase lm opts"
  have h: "hd_sm ?h = ram_SessionManager rnd" by simp
  have "ram_live s' k = None"
    using ram_stores.FinishAuthentication_consumes [OF h assms(3,1)] by simp
  from ram_stores.FinishAuthentication_dead_key [OF h assms(2) this assms(4)] show ?thesis by simp
qed

theorem FinishAuthentication_no_replay_witness:
  "\<exists>s' um' rw2' s2.
     FinishAuthentication 1 (pk_NewHandler demo_webauthn (ram_SessionManager None) ram_UserDatabase demo_lm [])
       new_response demo_login s' um' = Some (rw2', s2, um') \<and> sent_status rw2' = StatusInternalServerError"
proof -
  obtain rw' s' d' where r: "FinishAuthentication 0 (pk_NewHandler demo_webauthn (ram_SessionManager None) ram_UserDatabase demo_lm [])
      new_response demo_login demo_sessions demo_db = Some (rw', s', d')"
    using demo_login_runs by blast
  have n: "rw_commit new_response = None" by (simp add: new_response_def)
  from FinishAuthentication_no_replay [OF demo_login_cookie demo_login_cookie r n, of 1] show ?thesis by blast
qed

text \<open>
  C11. Registration: a user that \<^verbatim>\<open>BeginRegistration\<close> registered under a key is stored by \<^verbatim>\<open>FinishRegistration\<close>
  when the client returns the key and the library accepts the attestation: the database maps the user's
  identifier to the user with the new credential and nothing else changes, the response is an empty
  200, and the key is used up.
\<close>

theorem registration_stores_user:
  assumes "Registering rnd u (Some sd) s0 = (s, Inr (k, False))"
    and "Secure_Read RegistrationCookie r = (k, True)" and "wa_FinishRegistration w u sd r = Some cred"
    and "fresh rw"
    and "FinishRegistration (pk_NewHandler w (ram_SessionManager rnd) ram_UserDatabase lm opts) rw r s um = (rw', s', um')"
  shows "Lookup (us_id u) um' = Inr (AddCredential u cred) \<and>
         (\<forall>uid. uid \<noteq> us_id u \<longrightarrow> Lookup uid um' = Lookup uid um) \<and>
         sent_status rw' = StatusOK \<and> rw_body rw' = [] \<and> s' k = None"
proof -
  let ?h = "pk_NewHandler w (ram_SessionManager rnd) ram_UserDatabase lm opts"
  have "sm_Registering (ram_SessionManager rnd) u (Some sd) s0 = (s, Inr (k, False))"
    using assms(1) by (simp add: ram_SessionManager_def)
  from ram_sm.registering [OF this] have lv: "ram_live s k = Some (Some u, Some sd)" by simp
  have rw: "rw_commit rw = None" using assms(4) by (simp add: fresh_def)
  have w: "wa_FinishRegistration (hd_w ?h) u sd r = Some cred" using assms(3) by simp
  note f = ram_stores.FinishRegistration_live [of ?h rnd, OF _ _ assms(2) lv w rw assms(5), simplified]
  obtain rw1 where "Secure_ReadAndClear RegistrationCookie rw r = (rw1, k, True)" and "rw_commit rw1 = None"
    using assms(2) rw by (auto intro: ReadAndClear_present [of _ r k rw])
  then have c: "rw_commit rw' = None"
    using assms(5) lv assms(3)
    by (auto simp: FinishRegistration_def ram_SessionManager_def Registered_def ram_live_def ram_UserDatabase_def Store_def Let_def)
  have "Lookup uid um' = (if uid = us_id u then Inr (AddCredential u cred) else Lookup uid um)" for uid
  proof -
    have "um' (uid_String uid) = (if uid = us_id u then Some (AddCredential u cred) else um (uid_String uid))"
      using f c by (auto simp: ram_users_of_def fun_eq_iff dest: spec [of _ uid])
    then show ?thesis by (simp add: Lookup_def)
  qed
  moreover have "s' k = None" using f by (auto simp: ram_live_def fun_eq_iff dest: spec [of _ k])
  ultimately show ?thesis
    using f c assms(4) by (simp add: fresh_def sent_status_def)
qed

theorem registration_stores_user_witness:
  "\<exists>s k rw' s' um'. Registering (Some (replicate 32 CHR ''r'')) demo_user (Some ()) Map.empty = (s, Inr (k, False)) \<and>
     FinishRegistration (pk_NewHandler demo_webauthn (ram_SessionManager (Some (replicate 32 CHR ''r''))) ram_UserDatabase demo_lm [])
       new_response (example_request\<lparr>req_Cookies := [(RegistrationCookie, k)]\<rparr>) s Map.empty = (rw', s', um') \<and>
     is_ok (Lookup demo_id um')"
proof -
  let ?rnd = "Some (replicate 32 CHR ''r'')"
  obtain s k where s: "Registering ?rnd demo_user (Some ()) Map.empty = (s, Inr (k, False))"
    by (simp add: Registering_def generateSecureRandomString_def)
  let ?r = "example_request\<lparr>req_Cookies := [(RegistrationCookie, k)]\<rparr>"
  have r: "Secure_Read RegistrationCookie ?r = (k, True)"
    by (simp add: Secure_Read_def req_Cookie_def request_cookie_def RegistrationCookie_def)
  have w: "wa_FinishRegistration demo_webauthn demo_user () ?r = Some \<lparr>cred_ID = ''c1'', cred_rest = []\<rparr>"
    by (simp add: demo_webauthn_def)
  obtain rw' s' um' where f: "FinishRegistration (pk_NewHandler demo_webauthn (ram_SessionManager ?rnd) ram_UserDatabase demo_lm [])
      new_response ?r s Map.empty = (rw', s', um')"
    using prod_cases3 by blast
  from registration_stores_user [OF s r w fresh_new f] s f show ?thesis
    by (auto simp: demo_user_def)
qed

text \<open>A request with a token the manager signed authenticates its user while the token is valid, and nobody afterwards.\<close>

lemma login_token_authenticates:
  assumes "jwx_laws j" and "NewSigner j key kid algo = Inr (lgm_signer m)" and "length uid = 64"
    and b: "signer_Sign j (lgm_signer m) (login_claims m now uid) = Inr b"
    and rd: "Secure_Read (lgm_LoginCookie m) r = (b, True)" and "now \<le> t"
  shows "AuthenticateUser j m t r = Some (if t < now + Duration (lgm_loginCookie m) then Inr uid else Inl TokenInvalid)"
proof -
  let ?os = "WithIssuer (lgm_issuer m) # map WithAudience (lgm_audience m)"
  have id: "UserIDFromString (uid_String uid) = Some (Inr uid)"
    using assms(3) by (simp add: UserIDFromString_def uid_UnmarshalText_def uid_String_def RawURLEncoding_roundtrip)
  show ?thesis
  proof (cases "t < now + Duration (lgm_loginCookie m)")
    case True
    with assms(6) have "timely t (login_claims m now uid)" by (simp add: login_claims_valid)
    from signed_validates [OF assms(1,2) _ this login_claims_valid(2)] b
    have "ParseAndValidate j (sg_validator (lgm_signer m)) t b ?os = Inr (login_claims m now uid)" by simp
    then show ?thesis using True rd id by (simp add: AuthenticateUser_def login_claims_def)
  next
    case False
    have "ParseAndValidate j (sg_validator (lgm_signer m)) t b ?os \<noteq> Inr t'" for t'
      using signed_token_only [OF assms(1) b] False by (auto simp: login_claims_valid)
    then obtain e where "ParseAndValidate j (sg_validator (lgm_signer m)) t b ?os = Inl e"
      by (cases "ParseAndValidate j (sg_validator (lgm_signer m)) t b ?os") auto
    then show ?thesis using False rd by (simp add: AuthenticateUser_def)
  qed
qed

text \<open>
  Login round trip: the cookie \<^verbatim>\<open>UserAuthenticated\<close> sets authenticates the same user in every later
  request that returns it until the configured duration has passed, and no user from then on.
\<close>

theorem login_roundtrip:
  assumes "jwx_laws j" and "NewSigner j key kid algo = Inr sg" and "m = NewJWTCookieLoginManager sg iss sc"
    and "length uid = 64" and "UserAuthenticated j m now r rw uid = (rw', Inr ())" and "rw_cookies rw = []"
    and "req_Cookies r2 = client_returns (rw_cookies rw')" and "now \<le> t"
  shows "if t < now + Duration (lgm_loginCookie m) then AuthenticateUser j m t r2 = Some (Inr uid)
         else AuthenticateUser j m t r2 = Some (Inl TokenInvalid)"
proof -
  obtain b where b: "signer_Sign j (lgm_signer m) (login_claims m now uid) = Inr b"
      "rw' = Secure_Set (lgm_LoginCookie m) rw (ScopeAndDuration_Cookie now (lgm_loginCookie m) b)"
    using UserAuthenticated_ok [OF assms(1,5)] by blast
  have m: "lgm_signer m = sg" "lgm_LoginCookie m = ''webauthn_login''" using assms(3) by (simp_all add: NewJWTCookieLoginManager_def)
  have "Secure_Read (lgm_LoginCookie m) r2 = (b, True)"
    using assms(6,7) b(2) m
    by (simp add: Secure_Read_def req_Cookie_def Secure_Set_cookies client_returns_def ScopeAndDuration_Cookie_def request_cookie_def)
  with login_token_authenticates [OF assms(1) _ assms(4) b(1) _ assms(8)] assms(2) m show ?thesis by simp
qed

theorem login_roundtrip_witness:
  "\<exists>j sg rw' r2. UserAuthenticated j (NewJWTCookieLoginManager (sg :: (string, string set) signer) ''iss'' \<lparr>Domain = [], Path = [], Duration = 0\<rparr>) 0
       example_request new_response demo_id = (rw', Inr ()) \<and>
     AuthenticateUser j (NewJWTCookieLoginManager sg ''iss'' \<lparr>Domain = [], Path = [], Duration = 0\<rparr>) 5 r2 = Some (Inr demo_id)"
proof -
  define sg :: "(string, string set) signer" where
    "sg = \<lparr>sg_alg = ''EdDSA'', sg_key = ''key'', sg_pk = ''key'', sg_validator = \<lparr>vl_set = {''key''}\<rparr>\<rparr>"
  define m where "m = NewJWTCookieLoginManager sg ''iss'' \<lparr>Domain = [], Path = [], Duration = 0\<rparr>"
  let ?j = "single_jwx (login_claims m 0 demo_id) ''T''"
  have sg_key: "sg_key (lgm_signer m) = ''key''"
    by (simp add: m_def NewJWTCookieLoginManager_def sg_def)
  have s: "NewSigner ?j ''key'' ''id'' ''EdDSA'' = Inr sg"
    by (simp add: NewSigner_def single_jwx_def sg_def)
  obtain rw' where u: "UserAuthenticated ?j m 0 example_request new_response demo_id = (rw', Inr ())"
    using sg_key by (simp add: UserAuthenticated_claims single_jwx_def signer_Sign_def)
  let ?r2 = "example_request\<lparr>req_Cookies := client_returns (rw_cookies rw')\<rparr>"
  have "length demo_id = 64" "rw_cookies new_response = []"
      "req_Cookies ?r2 = client_returns (rw_cookies rw')" "(0::int) \<le> 5"
    by (simp_all add: demo_id_def new_response_def)
  from login_roundtrip [OF single_jwx_laws s m_def this(1) u this(2-4)] u show ?thesis
    by (auto simp: m_def NewJWTCookieLoginManager_def SetDefaults_def minutes_def)
qed



text \<open>
  \<^verbatim>\<open>VerifyAuthentication\<close> answers an empty 200 exactly when the login manager authenticates the request as
  a user the database knows, 401 when it does not authenticate it, and 500 for an authenticated but
  unknown user.
\<close>

theorem VerifyAuthentication_status:
  assumes "fresh rw"
    and "VerifyAuthentication now (pk_NewHandler w sm ram_UserDatabase lm opts) rw r um = Some rw'"
  shows "\<exists>res. lm_AuthenticateUser lm now r = Some res \<and>
    sent_status rw' = (case res of Inl _ \<Rightarrow> StatusUnauthorized
      | Inr uid \<Rightarrow> if is_ok (Lookup uid um) then StatusOK else StatusInternalServerError) \<and>
    (sent_status rw' = StatusOK \<longrightarrow> rw_body rw' = [])"
  using assms
  by (auto simp: VerifyAuthentication_def fresh_def ram_UserDatabase_def WriteErrorMsg_status sent_uncommitted
      status_defs split: option.splits sum.splits)

theorem VerifyAuthentication_status_witness:
  "\<exists>rw'. VerifyAuthentication 0 (pk_NewHandler demo_webauthn (ram_SessionManager None) ram_UserDatabase demo_lm [])
     new_response example_request demo_db = Some rw' \<and> sent_status rw' = StatusUnauthorized"
proof -
  obtain rw' where v: "VerifyAuthentication 0 (pk_NewHandler demo_webauthn (ram_SessionManager None) ram_UserDatabase demo_lm [])
     new_response example_request demo_db = Some rw'"
    by (simp add: VerifyAuthentication_def demo_lm_def)
  from VerifyAuthentication_status [OF fresh_new v] v show ?thesis by (auto simp: demo_lm_def)
qed

text \<open>
  A successful \<^verbatim>\<open>BeginRegistration\<close> has parsed a request with an acceptable email, made a user with a
  new random 64-byte identifier and no credentials, recorded that user and the library's session data
  under the new key, and sent the key in one secure registration cookie with the encoded options.
\<close>

theorem BeginRegistration_starts:
  assumes "fresh rw" and "rw_cookies rw = []"
    and "BeginRegistration decode encode rnd now (pk_NewHandler w (ram_SessionManager rnd2) um lm opts) rw r s = (rw', s')"
    and "sent_status rw' = StatusOK"
  shows "\<exists>req u creds sd k d.
    snd (ParseRequest decode rw r) = Inr req \<and> us_email u = brq_Email req \<and> us_displayName u = brq_DisplayName req \<and>
    rnd = Some (us_id u) \<and> length (us_id u) = 64 \<and> us_credentials u = [] \<and>
    generateSecureRandomString 32 rnd2 = Inr k \<and> s' = s(k \<mapsto> \<lparr>ss_user = Some u, ss_session = sd\<rparr>) \<and>
    wa_BeginMediatedRegistration w u (po_mediationRequirement (apply_options opts zero_pk_options))
      (po_registrationOptions (apply_options opts zero_pk_options)) = Some (creds, sd) \<and>
    encode creds = Some d \<and> rw_body rw' = d \<and>
    (\<exists>ck. sent_cookies rw' = [ck] \<and> ck_Name ck = RegistrationCookie \<and> ck_Value ck = k \<and> secure_cookie ck)"
proof -
  let ?h = "pk_NewHandler w (ram_SessionManager rnd2) um lm opts"
  have rw: "rw_commit rw = None" "rw_body rw = []" using assms(1) by (simp_all add: fresh_def)
  obtain req where p: "ParseRequest decode rw r = (rw, Inr req)"
    using assms(3,4) ParseRequest_ok [of decode rw r] ParseRequest_error_status [OF rw(1), of decode r]
      WriteErrorMsg_commit
    by (cases "ParseRequest decode rw r"; cases "snd (ParseRequest decode rw r)")
      (auto simp: BeginRegistration_def sent_status_def status_defs split: option.splits)
  have m: "po_mediationRequirement (hd_opts ?h) = po_mediationRequirement (apply_options opts zero_pk_options)"
      "po_registrationOptions (hd_opts ?h) = po_registrationOptions (apply_options opts zero_pk_options)"
    by (simp_all add: pk_NewHandler_def)
  obtain u creds sd k where u: "NewUser rnd (brq_Email req) (brq_DisplayName req) = Inr u"
      "wa_BeginMediatedRegistration w u (po_mediationRequirement (hd_opts ?h)) (po_registrationOptions (hd_opts ?h)) = Some (creds, sd)"
      "generateSecureRandomString 32 rnd2 = Inr k"
      "s' = s(k \<mapsto> \<lparr>ss_user = Some u, ss_session = sd\<rparr>)"
      "rw' = fst (WriteResponse encode (Secure_Set RegistrationCookie rw
          (ScopeAndDuration_Cookie now (po_sessionCookie (hd_opts ?h)) k)) creds)"
    using assms(3,4) p rw(1)
    by (auto simp: BeginRegistration_def WriteErrorMsg_status status_defs ram_SessionManager_def Registering_def Let_def
        split: if_splits sum.splits option.splits prod.splits)
  let ?w1 = "Secure_Set RegistrationCookie rw (ScopeAndDuration_Cookie now (po_sessionCookie (hd_opts ?h)) k)"
  have w1: "rw_commit ?w1 = None" "rw_body ?w1 = []" using Secure_Set_keeps rw by simp_all
  obtain d where d: "encode creds = Some d" "rw_body rw' = d"
    using u(5) assms(4) w1
    by (cases "encode creds") (auto simp: WriteResponse_def Let_def rw_Set_def WriteErrorMsg_status status_defs)
  have nu: "us_email u = brq_Email req" "us_displayName u = brq_DisplayName req" "rnd = Some (us_id u)"
      "length (us_id u) = 64" "us_credentials u = []"
    using u(1) by (auto simp: NewUser_def split: option.splits if_splits)
  have "sent_cookies rw' = rw_cookies ?w1"
    using u(5) WriteResponse_cookies [OF w1(1)] by simp
  then have "\<exists>ck. sent_cookies rw' = [ck] \<and> ck_Name ck = RegistrationCookie \<and> ck_Value ck = k \<and> secure_cookie ck"
    using assms(2) by (simp add: Secure_Set_cookies secure_cookie_def ScopeAndDuration_Cookie_def)
  with u(2-4) d p m nu show ?thesis
    by (intro exI [of _ req] exI [of _ u] exI [of _ creds] exI [of _ sd] exI [of _ k] exI [of _ d]) simp
qed

definition demo_decode :: "bytes \<Rightarrow> (BeginRegistrationRequest \<times> bool) option" where
  "demo_decode d = (if d = ''{}'' then Some (\<lparr>brq_Email = ''e'', brq_DisplayName = ''d''\<rparr>, True) else None)"

theorem BeginRegistration_starts_witness:
  "\<exists>rw' s' ck. BeginRegistration demo_decode (\<lambda>_. Some ''{}'') (Some demo_id) 0
       (pk_NewHandler demo_webauthn (ram_SessionManager (Some (replicate 32 CHR ''r''))) ram_UserDatabase demo_lm [])
       new_response (example_request\<lparr>req_Body := Some (plain_body ''{}'')\<rparr>) Map.empty = (rw', s') \<and>
     sent_cookies rw' = [ck] \<and> ck_Name ck = RegistrationCookie"
proof -
  let ?h = "pk_NewHandler demo_webauthn (ram_SessionManager (Some (replicate 32 CHR ''r''))) ram_UserDatabase demo_lm []"
  let ?r = "example_request\<lparr>req_Body := Some (plain_body ''{}'')\<rparr>"
  obtain rw' s' where b: "BeginRegistration demo_decode (\<lambda>_. Some ''{}'') (Some demo_id) 0 ?h new_response ?r Map.empty = (rw', s')"
    by force
  have c: "rw_cookies new_response = []" "rw_commit new_response = None" by (simp_all add: new_response_def)
  have p: "ParseRequest demo_decode new_response ?r = (new_response, Inr \<lparr>brq_Email = ''e'', brq_DisplayName = ''d''\<rparr>)"
    by (simp add: ParseRequest_def demo_decode_def)
  have v: "po_emailValidator (hd_opts ?h) = None" by (simp add: pk_NewHandler_def zero_pk_options_def)
  have n: "\<exists>u. NewUser (Some demo_id) ''e'' ''d'' = Inr u" by (simp add: NewUser_def demo_id_def)
  have w: "wa_BeginMediatedRegistration demo_webauthn u mr os = Some ((), Some ())" for u mr os
    by (simp add: demo_webauthn_def)
  have g: "\<exists>s1 k. sm_Registering (ram_SessionManager (Some x)) u sd s0 = (s1, Inr (k, False))" for x u and sd :: "unit option" and s0
    by (simp add: ram_SessionManager_def Registering_def generateSecureRandomString_def)
  obtain u where u: "NewUser (Some demo_id) ''e'' ''d'' = Inr u" using n by blast
  obtain s1 k where k: "sm_Registering (ram_SessionManager (Some (replicate 32 CHR ''r''))) u (Some ()) Map.empty = (s1, Inr (k, False))"
    using g by blast
  have "sent_status rw' = StatusOK"
    using b c(2) Secure_Set_keeps
    by (auto simp: BeginRegistration_def p v u w k Let_def WriteResponse_def http_sent rw_Set_def)
  from BeginRegistration_starts [OF fresh_new c(1) b this] b show ?thesis by blast
qed

text \<open>
  On a request it cannot parse, \<^verbatim>\<open>BeginRegistration\<close> answers 400 with two JSON error objects in one body:
  \<^verbatim>\<open>ParseRequest\<close> has already written one when the handler writes its own. No session is recorded.
\<close>

theorem BeginRegistration_double_error:
  assumes "fresh rw" and "snd (ParseRequest decode rw r) = Inl e"
    and "BeginRegistration decode encode rnd now h rw r s = (rw', s')"
  shows "sent_status rw' = StatusBadRequest \<and> s' = s \<and>
     rw_body rw' = ErrorResponse_json \<lparr>Message = jsonapi_error_message e\<rparr> @
                   ErrorResponse_json \<lparr>Message = ''failed to parse request''\<rparr>"
proof -
  obtain rw1 where p: "ParseRequest decode rw r = (rw1, Inl e)"
    using assms(2) by (cases "ParseRequest decode rw r") simp
  then have "rw_body rw1 = ErrorResponse_json \<lparr>Message = jsonapi_error_message e\<rparr> \<and> sent_status rw1 = StatusBadRequest"
      and nc: "rw_commit rw1 = None \<Longrightarrow> False"
    using assms(1)
    by (auto simp: ParseRequest_def fresh_def jsonapi_error_message_def WriteErrorMsg_status
        split: option.splits prod.splits if_splits)
  moreover obtain c where c: "rw_commit rw1 = Some c" using nc by (cases "rw_commit rw1") auto
  ultimately show ?thesis
    using assms(3) p WriteErrorMsg_commit [OF c] c by (auto simp: BeginRegistration_def sent_status_def)
qed

theorem BeginRegistration_double_error_witness:
  "\<exists>rw' s'. BeginRegistration demo_decode (\<lambda>_. Some ''{}'') (Some demo_id) 0
       (pk_NewHandler demo_webauthn (ram_SessionManager None) ram_UserDatabase demo_lm [])
       new_response (example_request\<lparr>req_Body := Some (plain_body ''x'')\<rparr>) Map.empty = (rw', s') \<and>
     rw_body rw' = ErrorResponse_json \<lparr>Message = ''failed to decode request body''\<rparr> @
                   ErrorResponse_json \<lparr>Message = ''failed to parse request''\<rparr>"
proof -
  let ?r = "example_request\<lparr>req_Body := Some (plain_body ''x'')\<rparr>"
  obtain rw' s' where b: "BeginRegistration demo_decode (\<lambda>_. Some ''{}'') (Some demo_id) 0
      (pk_NewHandler demo_webauthn (ram_SessionManager None) ram_UserDatabase demo_lm []) new_response ?r Map.empty = (rw', s')"
    by force
  have e: "snd (ParseRequest demo_decode new_response ?r) = Inl FailedToDecode"
    by (simp add: ParseRequest_def demo_decode_def)
  from BeginRegistration_double_error [OF fresh_new e b] b show ?thesis
    by (auto simp: jsonapi_error_message_def)
qed

end
