(* ===== verification/TlsNames.thy ===== *)
theory TlsNames
  imports GoEncoding
begin

text \<open>
  Names of TLS parameters (\<^verbatim>\<open>cipher_suites.go\<close>, \<^verbatim>\<open>tls_capabilities.go\<close>): parsing a name to its constant, and the
  YAML and text forms of lists of them.

  The tables of \<open>crypto/tls\<close> and \<open>crypto/x509\<close> are those of the standard library. \<open>yaml.Node\<close> belongs to another
  module: the argument \<open>decode\<close> of the \<open>UnmarshalYAML\<close> functions is its \<open>Decode\<close> into a list of strings (or a
  string), \<open>None\<close> when it fails. The contract every list type shares is the locale \<open>name_list_codec\<close>.
\<close>

datatype tls_error = UnmarshalFailed | UnknownName string

subsection \<open>The tables of the standard library\<close>

type_synonym names = "(string \<times> 16 word) list"

definition tls_CipherSuites :: names where
  "tls_CipherSuites =
    [(''TLS_AES_128_GCM_SHA256'', 0x1301), (''TLS_AES_256_GCM_SHA384'', 0x1302),
     (''TLS_CHACHA20_POLY1305_SHA256'', 0x1303),
     (''TLS_ECDHE_ECDSA_WITH_AES_128_CBC_SHA'', 0xc009), (''TLS_ECDHE_ECDSA_WITH_AES_256_CBC_SHA'', 0xc00a),
     (''TLS_ECDHE_RSA_WITH_AES_128_CBC_SHA'', 0xc013), (''TLS_ECDHE_RSA_WITH_AES_256_CBC_SHA'', 0xc014),
     (''TLS_ECDHE_ECDSA_WITH_AES_128_GCM_SHA256'', 0xc02b), (''TLS_ECDHE_ECDSA_WITH_AES_256_GCM_SHA384'', 0xc02c),
     (''TLS_ECDHE_RSA_WITH_AES_128_GCM_SHA256'', 0xc02f), (''TLS_ECDHE_RSA_WITH_AES_256_GCM_SHA384'', 0xc030),
     (''TLS_ECDHE_RSA_WITH_CHACHA20_POLY1305_SHA256'', 0xcca8),
     (''TLS_ECDHE_ECDSA_WITH_CHACHA20_POLY1305_SHA256'', 0xcca9)]"

definition tls_InsecureCipherSuites :: names where
  "tls_InsecureCipherSuites =
    [(''TLS_RSA_WITH_RC4_128_SHA'', 0x0005), (''TLS_RSA_WITH_3DES_EDE_CBC_SHA'', 0x000a),
     (''TLS_RSA_WITH_AES_128_CBC_SHA'', 0x002f), (''TLS_RSA_WITH_AES_256_CBC_SHA'', 0x0035),
     (''TLS_RSA_WITH_AES_128_CBC_SHA256'', 0x003c), (''TLS_RSA_WITH_AES_128_GCM_SHA256'', 0x009c),
     (''TLS_RSA_WITH_AES_256_GCM_SHA384'', 0x009d), (''TLS_ECDHE_ECDSA_WITH_RC4_128_SHA'', 0xc007),
     (''TLS_ECDHE_RSA_WITH_RC4_128_SHA'', 0xc011), (''TLS_ECDHE_RSA_WITH_3DES_EDE_CBC_SHA'', 0xc012),
     (''TLS_ECDHE_ECDSA_WITH_AES_128_CBC_SHA256'', 0xc023), (''TLS_ECDHE_RSA_WITH_AES_128_CBC_SHA256'', 0xc027)]"

fun id_name :: "names \<Rightarrow> 16 word \<Rightarrow> string option" where
  "id_name [] v = None"
| "id_name ((n, w) # t) v = (if w = v then Some n else id_name t v)"

fun name_id :: "names \<Rightarrow> string \<Rightarrow> (16 word) option" where
  "name_id [] s = None"
| "name_id ((n, w) # t) s = (if n = s then Some w else name_id t s)"

definition tls_CipherSuiteName :: "16 word \<Rightarrow> string" where
  "tls_CipherSuiteName v =
     (case id_name tls_CipherSuites v of
        Some n \<Rightarrow> n
      | None \<Rightarrow> (case id_name tls_InsecureCipherSuites v of Some n \<Rightarrow> n | None \<Rightarrow> ''0x'' @ fmt_04X v))"

datatype SignatureAlgorithm = UnknownSignatureAlgorithm | MD2WithRSA | MD5WithRSA | SHA1WithRSA | SHA256WithRSA
  | SHA384WithRSA | SHA512WithRSA | DSAWithSHA1 | DSAWithSHA256 | ECDSAWithSHA1 | ECDSAWithSHA256 | ECDSAWithSHA384
  | ECDSAWithSHA512 | SHA256WithRSAPSS | SHA384WithRSAPSS | SHA512WithRSAPSS | PureEd25519

fun SignatureAlgorithm_String :: "SignatureAlgorithm \<Rightarrow> string" where
  "SignatureAlgorithm_String UnknownSignatureAlgorithm = ''0''"
| "SignatureAlgorithm_String MD2WithRSA = ''1''"
| "SignatureAlgorithm_String MD5WithRSA = ''MD5-RSA''"
| "SignatureAlgorithm_String SHA1WithRSA = ''SHA1-RSA''"
| "SignatureAlgorithm_String SHA256WithRSA = ''SHA256-RSA''"
| "SignatureAlgorithm_String SHA384WithRSA = ''SHA384-RSA''"
| "SignatureAlgorithm_String SHA512WithRSA = ''SHA512-RSA''"
| "SignatureAlgorithm_String DSAWithSHA1 = ''DSA-SHA1''"
| "SignatureAlgorithm_String DSAWithSHA256 = ''DSA-SHA256''"
| "SignatureAlgorithm_String ECDSAWithSHA1 = ''ECDSA-SHA1''"
| "SignatureAlgorithm_String ECDSAWithSHA256 = ''ECDSA-SHA256''"
| "SignatureAlgorithm_String ECDSAWithSHA384 = ''ECDSA-SHA384''"
| "SignatureAlgorithm_String ECDSAWithSHA512 = ''ECDSA-SHA512''"
| "SignatureAlgorithm_String SHA256WithRSAPSS = ''SHA256-RSAPSS''"
| "SignatureAlgorithm_String SHA384WithRSAPSS = ''SHA384-RSAPSS''"
| "SignatureAlgorithm_String SHA512WithRSAPSS = ''SHA512-RSAPSS''"
| "SignatureAlgorithm_String PureEd25519 = ''Ed25519''"

definition tls_SignatureSchemes :: names where
  "tls_SignatureSchemes =
    [(''PKCS1WithSHA256'', 0x0401), (''PKCS1WithSHA384'', 0x0501), (''PKCS1WithSHA512'', 0x0601),
     (''PSSWithSHA256'', 0x0804), (''PSSWithSHA384'', 0x0805), (''PSSWithSHA512'', 0x0806),
     (''ECDSAWithP256AndSHA256'', 0x0403), (''ECDSAWithP384AndSHA384'', 0x0503), (''ECDSAWithP521AndSHA512'', 0x0603),
     (''Ed25519'', 0x0807), (''PKCS1WithSHA1'', 0x0201), (''ECDSAWithSHA1'', 0x0203)]"

definition SignatureScheme_String :: "16 word \<Rightarrow> string" where
  "SignatureScheme_String v = (case id_name tls_SignatureSchemes v of
     Some n \<Rightarrow> n | None \<Rightarrow> ''SignatureScheme('' @ strconv_Itoa (uint v) @ '')'')"

definition tls_CurveIDs :: names where
  "tls_CurveIDs =
    [(''CurveP256'', 23), (''CurveP384'', 24), (''CurveP521'', 25), (''X25519'', 29), (''X25519MLKEM768'', 4588),
     (''SecP256r1MLKEM768'', 4587), (''SecP384r1MLKEM1024'', 4589)]"

definition CurveID_String :: "16 word \<Rightarrow> string" where
  "CurveID_String v = (case id_name tls_CurveIDs v of
     Some n \<Rightarrow> n | None \<Rightarrow> ''CurveID('' @ strconv_Itoa (uint v) @ '')'')"

definition tls_VersionName :: "16 word \<Rightarrow> string" where
  "tls_VersionName v =
     (if v = 0x0300 then ''SSLv3'' else if v = 0x0301 then ''TLS 1.0'' else if v = 0x0302 then ''TLS 1.1''
      else if v = 0x0303 then ''TLS 1.2'' else if v = 0x0304 then ''TLS 1.3'' else ''0x'' @ fmt_04X v)"

subsection \<open>cipher_suites.go\<close>

definition ParseCipherSuite :: "string \<Rightarrow> (tls_error, 16 word) result" where
  "ParseCipherSuite name =
     (case name_id tls_CipherSuites name of
        Some v \<Rightarrow> Inr v
      | None \<Rightarrow>
          (case name_id tls_InsecureCipherSuites name of
             Some v \<Rightarrow> Inr v
           | None \<Rightarrow> Inl (UnknownName name)))"

definition signatureAlgorithms :: "SignatureAlgorithm list" where
  "signatureAlgorithms = [MD5WithRSA, SHA1WithRSA, SHA256WithRSA, SHA384WithRSA, SHA512WithRSA, DSAWithSHA1,
     DSAWithSHA256, ECDSAWithSHA1, ECDSAWithSHA256, ECDSAWithSHA384, ECDSAWithSHA512, SHA256WithRSAPSS,
     SHA384WithRSAPSS, SHA512WithRSAPSS, PureEd25519]"

text \<open>The loop of the remaining parsers: the first element whose name matches.\<close>

fun first_named :: "('a \<Rightarrow> string) \<Rightarrow> 'a list \<Rightarrow> string \<Rightarrow> 'a option" where
  "first_named str [] name = None"
| "first_named str (x # xs) name = (if str x = name then Some x else first_named str xs name)"

definition ParseSignatureAlgorithm :: "string \<Rightarrow> (tls_error, SignatureAlgorithm) result" where
  "ParseSignatureAlgorithm name =
     (case first_named SignatureAlgorithm_String signatureAlgorithms name of
        Some alg \<Rightarrow> Inr alg | None \<Rightarrow> Inl (UnknownName name))"

type_synonym CipherSuites = "(16 word) list"

fun cipher_suites_loop :: "string list \<Rightarrow> CipherSuites \<Rightarrow> (tls_error, CipherSuites) result" where
  "cipher_suites_loop [] suites = Inr suites"
| "cipher_suites_loop (name # names) suites =
     (if name = ''insecure'' then cipher_suites_loop names (suites @ map snd tls_InsecureCipherSuites)
      else case ParseCipherSuite name of
             Inl e \<Rightarrow> Inl e
           | Inr v \<Rightarrow> cipher_suites_loop names (suites @ [v]))"

definition CipherSuites_UnmarshalYAML :: "('n \<Rightarrow> string list option) \<Rightarrow> 'n \<Rightarrow> (tls_error, CipherSuites) result" where
  "CipherSuites_UnmarshalYAML decode node =
     (case decode node of None \<Rightarrow> Inl UnmarshalFailed | Some names \<Rightarrow> cipher_suites_loop names [])"

definition CipherSuites_MarshalYAML :: "CipherSuites \<Rightarrow> string list" where
  "CipherSuites_MarshalYAML c = map tls_CipherSuiteName c"

definition CipherSuites_String :: "CipherSuites \<Rightarrow> string" where
  "CipherSuites_String c = strings_Join (map tls_CipherSuiteName c) '',''"

type_synonym SignatureAlgorithms = "SignatureAlgorithm list"

definition algorithm_group :: "string \<Rightarrow> SignatureAlgorithms option" where
  "algorithm_group name =
     (if name = ''rsa'' then Some [SHA256WithRSA, SHA384WithRSA, SHA512WithRSA]
      else if name = ''dsa'' then Some [DSAWithSHA1, DSAWithSHA256]
      else if name = ''ecdsa'' then Some [ECDSAWithSHA1, ECDSAWithSHA256, ECDSAWithSHA384, ECDSAWithSHA512]
      else if name = ''ed25519'' then Some [PureEd25519]
      else if name = ''rsa-pss'' then Some [SHA256WithRSAPSS, SHA384WithRSAPSS, SHA512WithRSAPSS]
      else None)"

fun signature_algorithms_loop :: "string list \<Rightarrow> SignatureAlgorithms \<Rightarrow> (tls_error, SignatureAlgorithms) result" where
  "signature_algorithms_loop [] algs = Inr algs"
| "signature_algorithms_loop (name # names) algs =
     (case algorithm_group name of
        Some g \<Rightarrow> signature_algorithms_loop names (algs @ g)
      | None \<Rightarrow>
          (case ParseSignatureAlgorithm name of
             Inl e \<Rightarrow> Inl e
           | Inr alg \<Rightarrow> signature_algorithms_loop names (algs @ [alg])))"

definition SignatureAlgorithms_UnmarshalYAML ::
    "('n \<Rightarrow> string list option) \<Rightarrow> 'n \<Rightarrow> (tls_error, SignatureAlgorithms) result" where
  "SignatureAlgorithms_UnmarshalYAML decode node =
     (case decode node of None \<Rightarrow> Inl UnmarshalFailed | Some names \<Rightarrow> signature_algorithms_loop names [])"

definition SignatureAlgorithms_MarshalYAML :: "SignatureAlgorithms \<Rightarrow> string list" where
  "SignatureAlgorithms_MarshalYAML s = map SignatureAlgorithm_String s"

definition SignatureAlgorithms_String :: "SignatureAlgorithms \<Rightarrow> string" where
  "SignatureAlgorithms_String s = strings_Join (map SignatureAlgorithm_String s) '',''"

subsection \<open>tls_capabilities.go\<close>

definition signatureSchemes :: "(16 word) list" where
  "signatureSchemes = [0x0401, 0x0501, 0x0601, 0x0804, 0x0805, 0x0806, 0x0403, 0x0503, 0x0603, 0x0807, 0x0201, 0x0203]"

definition ParseSignatureScheme :: "string \<Rightarrow> (tls_error, 16 word) result" where
  "ParseSignatureScheme name =
     (case first_named SignatureScheme_String signatureSchemes name of
        Some s \<Rightarrow> Inr s | None \<Rightarrow> Inl (UnknownName name))"

type_synonym TLSSignatureSchemes = "(16 word) list"

definition TLSSignatureSchemes_UnmarshalYAML ::
    "('n \<Rightarrow> string list option) \<Rightarrow> 'n \<Rightarrow> (tls_error, TLSSignatureSchemes) result" where
  "TLSSignatureSchemes_UnmarshalYAML decode node =
     (case decode node of None \<Rightarrow> Inl UnmarshalFailed | Some names \<Rightarrow> map_result ParseSignatureScheme names)"

definition TLSSignatureSchemes_MarshalYAML :: "TLSSignatureSchemes \<Rightarrow> string list" where
  "TLSSignatureSchemes_MarshalYAML s = map SignatureScheme_String s"

definition TLSSignatureSchemes_String :: "TLSSignatureSchemes \<Rightarrow> string" where
  "TLSSignatureSchemes_String s = strings_Join (map SignatureScheme_String s) '',''"

definition curveIDs :: "(16 word) list" where
  "curveIDs = [23, 24, 25, 29, 4588, 4587, 4589]"

definition ParseCurveID :: "string \<Rightarrow> (tls_error, 16 word) result" where
  "ParseCurveID name =
     (case first_named CurveID_String curveIDs name of Some c \<Rightarrow> Inr c | None \<Rightarrow> Inl (UnknownName name))"

type_synonym TLSCurves = "(16 word) list"

definition TLSCurves_UnmarshalYAML :: "('n \<Rightarrow> string list option) \<Rightarrow> 'n \<Rightarrow> (tls_error, TLSCurves) result" where
  "TLSCurves_UnmarshalYAML decode node =
     (case decode node of None \<Rightarrow> Inl UnmarshalFailed | Some names \<Rightarrow> map_result ParseCurveID names)"

definition TLSCurves_MarshalYAML :: "TLSCurves \<Rightarrow> string list" where
  "TLSCurves_MarshalYAML c = map CurveID_String c"

definition TLSCurves_String :: "TLSCurves \<Rightarrow> string" where
  "TLSCurves_String c = strings_Join (map CurveID_String c) '',''"

definition tlsVersions :: "(16 word) list" where
  "tlsVersions = [0x0301, 0x0302, 0x0303, 0x0304]"

definition ParseTLSVersion :: "string \<Rightarrow> (tls_error, 16 word) result" where
  "ParseTLSVersion name =
     (case first_named tls_VersionName tlsVersions name of
        Some v \<Rightarrow> Inr v
      | None \<Rightarrow>
          (case (if strings_HasPrefix name ''0x'' then ParseUint16 (drop 2 name) 16 else None) of
             Some v \<Rightarrow> Inr v
           | None \<Rightarrow>
               (case ParseUint16 name 10 of
                  Some v \<Rightarrow> Inr v
                | None \<Rightarrow> Inl (UnknownName name))))"

type_synonym TLSVersion = "16 word"

definition TLSVersion_UnmarshalYAML :: "('n \<Rightarrow> string option) \<Rightarrow> 'n \<Rightarrow> (tls_error, TLSVersion) result" where
  "TLSVersion_UnmarshalYAML decode node =
     (case decode node of None \<Rightarrow> Inl UnmarshalFailed | Some name \<Rightarrow> ParseTLSVersion name)"

definition TLSVersion_MarshalYAML :: "TLSVersion \<Rightarrow> string" where
  "TLSVersion_MarshalYAML v = tls_VersionName v"

definition TLSVersion_String :: "TLSVersion \<Rightarrow> string" where
  "TLSVersion_String v = tls_VersionName v"

type_synonym TLSVersions = "(16 word) list"

definition TLSVersions_UnmarshalYAML :: "('n \<Rightarrow> string list option) \<Rightarrow> 'n \<Rightarrow> (tls_error, TLSVersions) result" where
  "TLSVersions_UnmarshalYAML decode node =
     (case decode node of None \<Rightarrow> Inl UnmarshalFailed | Some names \<Rightarrow> map_result ParseTLSVersion names)"

definition TLSVersions_MarshalYAML :: "TLSVersions \<Rightarrow> string list" where
  "TLSVersions_MarshalYAML v = map tls_VersionName v"

definition TLSVersions_String :: "TLSVersions \<Rightarrow> string" where
  "TLSVersions_String v = strings_Join (map tls_VersionName v) '',''"

subsection \<open>The contract of a list of names\<close>

text \<open>
  A list type of these files turns good values into names and names into values; reading back what was
  written gives the same list, and names of good values are never confused.
\<close>

locale name_list_codec =
  fixes good :: "'v \<Rightarrow> bool" and name :: "'v \<Rightarrow> string"
    and unmarshal :: "string list \<Rightarrow> (tls_error, 'v list) result"
  assumes unmarshal_Nil: "unmarshal [] = Inr []"
    and unmarshal_name: "good v \<Longrightarrow> unmarshal (name v # ns) =
      (case unmarshal ns of Inl e \<Rightarrow> Inl e | Inr vs \<Rightarrow> Inr (v # vs))"
begin

lemma roundtrip: "list_all good vs \<Longrightarrow> unmarshal (map name vs) = Inr vs"
  by (induction vs) (simp_all add: unmarshal_Nil unmarshal_name)

lemma names_distinct: "good v \<Longrightarrow> good w \<Longrightarrow> name v = name w \<Longrightarrow> v = w"
proof -
  assume "good v" "good w" "name v = name w"
  moreover have "unmarshal [name u] = Inr [u]" if "good u" for u
    using roundtrip [of "[u]"] that by simp
  ultimately show "v = w" by (metis sum.inject(2) list.inject)
qed

lemma marshal_inj: "list_all good vs \<Longrightarrow> list_all good ws \<Longrightarrow> map name vs = map name ws \<Longrightarrow> vs = ws"
  by (metis roundtrip sum.inject(2))

end

lemma first_named_self:
  "v \<in> set xs \<Longrightarrow> distinct (map str xs) \<Longrightarrow> first_named str xs (str v) = Some v"
  by (induction xs) auto

lemma name_id_self: "(n, v) \<in> set t \<Longrightarrow> distinct (map fst t) \<Longrightarrow> name_id t n = Some v"
  by (induction t) (auto simp: rev_image_eqI)

lemma id_name_self: "(n, v) \<in> set t \<Longrightarrow> distinct (map snd t) \<Longrightarrow> id_name t v = Some n"
  by (induction t) (auto simp: rev_image_eqI)

lemma name_id_None: "name_id t n = None \<longleftrightarrow> n \<notin> fst ` set t"
  by (induction t n rule: name_id.induct) (auto split: if_splits)

lemma id_name_None: "id_name t v = None \<longleftrightarrow> v \<notin> snd ` set t"
  by (induction t v rule: id_name.induct) (auto split: if_splits)

lemma id_name_append: "id_name (s @ t) v = (case id_name s v of Some n \<Rightarrow> Some n | None \<Rightarrow> id_name t v)"
  by (induction s) auto

lemma name_id_append: "name_id (s @ t) v = (case name_id s v of Some n \<Rightarrow> Some n | None \<Rightarrow> name_id t v)"
  by (induction s) auto

definition all_suites :: names where
  "all_suites = tls_CipherSuites @ tls_InsecureCipherSuites"

lemma all_suites_distinct: "distinct (map fst all_suites)" "distinct (map snd all_suites)" "''insecure'' \<notin> fst ` set all_suites"
  by (simp_all add: all_suites_def tls_CipherSuites_def tls_InsecureCipherSuites_def)

definition known_suite :: "16 word \<Rightarrow> bool" where
  "known_suite v \<longleftrightarrow> v \<in> snd ` set all_suites"

lemma ParseCipherSuite_eq:
  "ParseCipherSuite s = (case name_id all_suites s of Some v \<Rightarrow> Inr v | None \<Rightarrow> Inl (UnknownName s))"
  by (simp add: ParseCipherSuite_def all_suites_def name_id_append split: option.splits)

lemma CipherSuiteName_eq:
  "tls_CipherSuiteName v = (case id_name all_suites v of Some n \<Rightarrow> n | None \<Rightarrow> ''0x'' @ fmt_04X v)"
  by (simp add: tls_CipherSuiteName_def all_suites_def id_name_append split: option.splits)

lemma ParseCipherSuite_name:
  assumes "known_suite v"
  shows "ParseCipherSuite (tls_CipherSuiteName v) = Inr v" "tls_CipherSuiteName v \<noteq> ''insecure''"
proof -
  obtain n where n: "(n, v) \<in> set all_suites" using assms by (auto simp: known_suite_def)
  then have "tls_CipherSuiteName v = n"
    using id_name_self all_suites_distinct(2) by (simp add: CipherSuiteName_eq)
  moreover have "name_id all_suites n = Some v"
    using n name_id_self all_suites_distinct(1) by simp
  moreover have "n \<noteq> ''insecure''" using n all_suites_distinct(3) by force
  ultimately show "ParseCipherSuite (tls_CipherSuiteName v) = Inr v" "tls_CipherSuiteName v \<noteq> ''insecure''"
    by (simp_all add: ParseCipherSuite_eq)
qed

lemma cipher_suites_loop_acc:
  "cipher_suites_loop ns (a @ b) = (case cipher_suites_loop ns b of Inl e \<Rightarrow> Inl e | Inr vs \<Rightarrow> Inr (a @ vs))"
proof (induction ns arbitrary: b)
  case (Cons n ns)
  then show ?case
    using Cons.IH [of "b @ map snd tls_InsecureCipherSuites"] Cons.IH [of "b @ [v]" for v]
    by (auto split: sum.splits)
qed simp

lemma signature_algorithms_loop_acc:
  "signature_algorithms_loop ns (a @ b) =
     (case signature_algorithms_loop ns b of Inl e \<Rightarrow> Inl e | Inr vs \<Rightarrow> Inr (a @ vs))"
proof (induction ns arbitrary: b)
  case (Cons n ns)
  then show ?case
    using Cons.IH [of "b @ g" for g] by (auto split: sum.splits option.splits)
qed simp

interpretation suites: name_list_codec known_suite tls_CipherSuiteName "\<lambda>ns. cipher_suites_loop ns []"
  by unfold_locales
    (simp_all add: ParseCipherSuite_name cipher_suites_loop_acc [of _ "[v]" "[]" for v, simplified] split: sum.splits)

lemma signatureAlgorithms_distinct: "distinct (map SignatureAlgorithm_String signatureAlgorithms)"
  by (simp add: signatureAlgorithms_def)

lemma algorithm_names: "v \<in> set signatureAlgorithms \<Longrightarrow> algorithm_group (SignatureAlgorithm_String v) = None"
  by (auto simp: signatureAlgorithms_def algorithm_group_def)

interpretation algorithms: name_list_codec "\<lambda>v. v \<in> set signatureAlgorithms" SignatureAlgorithm_String
    "\<lambda>ns. signature_algorithms_loop ns []"
  by unfold_locales
    (simp_all add: algorithm_names ParseSignatureAlgorithm_def first_named_self signatureAlgorithms_distinct
      signature_algorithms_loop_acc [of _ "[v]" "[]" for v, simplified] split: sum.splits)

interpretation schemes: name_list_codec "\<lambda>v. v \<in> set signatureSchemes" SignatureScheme_String
    "map_result ParseSignatureScheme"
proof unfold_locales
  have "distinct (map SignatureScheme_String signatureSchemes)"
    by (simp add: signatureSchemes_def SignatureScheme_String_def tls_SignatureSchemes_def)
  then show "v \<in> set signatureSchemes \<Longrightarrow> map_result ParseSignatureScheme (SignatureScheme_String v # ns) =
      (case map_result ParseSignatureScheme ns of Inl e \<Rightarrow> Inl e | Inr vs \<Rightarrow> Inr (v # vs))" for v ns
    by (simp add: ParseSignatureScheme_def first_named_self)
qed simp

interpretation curves: name_list_codec "\<lambda>v. v \<in> set curveIDs" CurveID_String "map_result ParseCurveID"
proof unfold_locales
  have "distinct (map CurveID_String curveIDs)"
    by (simp add: curveIDs_def CurveID_String_def tls_CurveIDs_def)
  then show "v \<in> set curveIDs \<Longrightarrow> map_result ParseCurveID (CurveID_String v # ns) =
      (case map_result ParseCurveID ns of Inl e \<Rightarrow> Inl e | Inr vs \<Rightarrow> Inr (v # vs))" for v ns
    by (simp add: ParseCurveID_def first_named_self)
qed simp

lemma ParseTLSVersion_name: "v \<noteq> 0x0300 \<Longrightarrow> ParseTLSVersion (tls_VersionName v) = Inr v"
proof (cases "v \<in> set tlsVersions")
  case True
  moreover have "distinct (map tls_VersionName tlsVersions)"
    by (simp add: tlsVersions_def tls_VersionName_def)
  ultimately show ?thesis by (simp add: ParseTLSVersion_def first_named_self)
next
  case False
  moreover assume "v \<noteq> 0x0300"
  ultimately have n: "tls_VersionName v = ''0x'' @ fmt_04X v"
    by (auto simp: tls_VersionName_def tlsVersions_def)
  have "first_named tls_VersionName tlsVersions (''0x'' @ s) = None" for s
    by (simp add: tlsVersions_def tls_VersionName_def)
  then show ?thesis
    unfolding n ParseTLSVersion_def by (simp add: strings_HasPrefix_def ParseUint16_fmt)
qed

interpretation versions: name_list_codec "\<lambda>v. v \<noteq> 0x0300" tls_VersionName "map_result ParseTLSVersion"
  by unfold_locales (simp_all add: ParseTLSVersion_name)

subsection \<open>Properties\<close>

text \<open>
  Cipher suites survive YAML: a list of identifiers known to \<^verbatim>\<open>crypto/tls\<close>, secure and insecure ones,
  is read back from the names \<^verbatim>\<open>MarshalYAML\<close> writes, different lists have different names, and a name that
  is neither known nor \<^verbatim>\<open>insecure\<close> is rejected.
\<close>

theorem CipherSuites_roundtrip:
  assumes "list_all known_suite cs" and "decode n = Some (CipherSuites_MarshalYAML cs)"
  shows "CipherSuites_UnmarshalYAML decode n = Inr cs \<and>
    (\<forall>cs'. list_all known_suite cs' \<and> CipherSuites_MarshalYAML cs' = CipherSuites_MarshalYAML cs \<longrightarrow> cs' = cs) \<and>
    (\<forall>m names s. decode m = Some names \<and> s \<in> set names \<and> s \<noteq> ''insecure'' \<and> s \<notin> fst ` set all_suites \<longrightarrow>
       \<not> is_ok (CipherSuites_UnmarshalYAML decode m))"
proof -
  have bad: "\<not> is_ok (cipher_suites_loop names acc)"
    if "s \<in> set names" "s \<noteq> ''insecure''" "s \<notin> fst ` set all_suites" for names acc s
    using that by (induction names arbitrary: acc)
      (auto simp: ParseCipherSuite_eq name_id_None [symmetric] split: option.splits)
  show ?thesis
    using suites.roundtrip [OF assms(1)] suites.marshal_inj assms bad
    by (auto simp: CipherSuites_UnmarshalYAML_def CipherSuites_MarshalYAML_def)
qed

theorem CipherSuites_roundtrip_witness:
  "CipherSuites_UnmarshalYAML (\<lambda>n. Some n) (CipherSuites_MarshalYAML [0x1301, 0x0005]) = Inr [0x1301, 0x0005]"
proof -
  have "list_all known_suite [0x1301, 0x0005]"
    by (simp add: known_suite_def all_suites_def tls_CipherSuites_def tls_InsecureCipherSuites_def)
  from CipherSuites_roundtrip [OF this, of "\<lambda>n. Some n"] show ?thesis by blast
qed

text \<open>
  Signature algorithms, signature schemes and curves survive YAML: every list of values of their
  tables is read back from the names written for it.
\<close>

theorem tls_lists_roundtrip:
  assumes "set algs \<subseteq> set signatureAlgorithms" and "set scs \<subseteq> set signatureSchemes" and "set cvs \<subseteq> set curveIDs"
  shows "SignatureAlgorithms_UnmarshalYAML Some (SignatureAlgorithms_MarshalYAML algs) = Inr algs \<and>
    TLSSignatureSchemes_UnmarshalYAML Some (TLSSignatureSchemes_MarshalYAML scs) = Inr scs \<and>
    TLSCurves_UnmarshalYAML Some (TLSCurves_MarshalYAML cvs) = Inr cvs"
  using assms algorithms.roundtrip [of algs] schemes.roundtrip [of scs] curves.roundtrip [of cvs]
  by (auto simp: SignatureAlgorithms_UnmarshalYAML_def SignatureAlgorithms_MarshalYAML_def
      TLSSignatureSchemes_UnmarshalYAML_def TLSSignatureSchemes_MarshalYAML_def TLSCurves_UnmarshalYAML_def
      TLSCurves_MarshalYAML_def list_all_iff subset_iff)

theorem tls_lists_roundtrip_witness:
  "SignatureAlgorithms_UnmarshalYAML Some (SignatureAlgorithms_MarshalYAML [PureEd25519, MD5WithRSA]) = Inr [PureEd25519, MD5WithRSA]"
  using tls_lists_roundtrip [of "[PureEd25519, MD5WithRSA]" "[0x0807]" "[29]"]
  by (simp add: signatureAlgorithms_def signatureSchemes_def curveIDs_def)

text \<open>
  Every 16-bit TLS version but one survives its text form, named or as \<^verbatim>\<open>0x%04X\<close>: \<^verbatim>\<open>ParseTLSVersion\<close> of
  the name gives it back, for single versions and for lists. The exception is SSL 3.0: its name
  \<^verbatim>\<open>SSLv3\<close> is written but not accepted.
\<close>

theorem TLSVersions_roundtrip:
  "(ParseTLSVersion (TLSVersion_String v) = Inr v \<longleftrightarrow> v \<noteq> 0x0300) \<and>
   (0x0300 \<notin> set vs \<longrightarrow> TLSVersions_UnmarshalYAML Some (TLSVersions_MarshalYAML vs) = Inr vs) \<and>
   ParseTLSVersion (TLSVersion_String 0x0300) = Inl (UnknownName ''SSLv3'')"
proof -
  have ssl: "ParseTLSVersion (tls_VersionName 0x0300) = Inl (UnknownName ''SSLv3'')"
    by (simp add: ParseTLSVersion_def tls_VersionName_def tlsVersions_def strings_HasPrefix_def ParseUint16_def digit_val_def)
  moreover have "0x0300 \<notin> set vs \<Longrightarrow> list_all (\<lambda>v. v \<noteq> 0x0300) vs" by (auto simp: list_all_iff)
  ultimately show ?thesis
    using ParseTLSVersion_name versions.roundtrip [of vs]
    by (auto simp: TLSVersion_String_def TLSVersions_UnmarshalYAML_def TLSVersions_MarshalYAML_def)
qed

theorem TLSVersions_roundtrip_witness:
  "TLSVersions_UnmarshalYAML Some (TLSVersions_MarshalYAML [0x0304, 0x7f1c]) = Inr [0x0304, 0x7f1c]"
  using TLSVersions_roundtrip [of 0 "[0x0304, 0x7f1c]"] by simp

end
