(* ===== verification/GoPath.thy ===== *)
theory GoPath
  imports Prelude
begin

text \<open>
  Go's \<open>path.Clean\<close> and \<open>path.Join\<close> (\<open>filepath\<close> is the same on Unix), and a file system of plain files
  with \<open>os.ReadFile\<close>, \<open>os.WriteFile\<close> and \<open>os.Remove\<close>. A path may be inaccessible, which makes every operation
  on it fail; a failing operation leaves the file as it was.
\<close>

subsection \<open>Paths\<close>

text \<open>One component applied to the components so far, as the lexical rules of \<open>Clean\<close> do.\<close>

definition clean_step :: "bool \<Rightarrow> string \<Rightarrow> string list \<Rightarrow> string list" where
  "clean_step rooted c stack =
     (if c = [] \<or> c = ''.'' then stack
      else if c = ''..''
      then if stack \<noteq> [] \<and> last stack \<noteq> ''..'' then butlast stack
           else if rooted then stack else stack @ [c]
      else stack @ [c])"

definition clean_comps :: "bool \<Rightarrow> string list \<Rightarrow> string list" where
  "clean_comps rooted cs = fold (clean_step rooted) cs []"

definition is_rooted :: "string \<Rightarrow> bool" where
  "is_rooted p \<longleftrightarrow> p \<noteq> [] \<and> hd p = CHR ''/''"

definition path_Clean :: "string \<Rightarrow> string" where
  "path_Clean p =
     (if p = [] then ''.''
      else let rooted = is_rooted p; cs = clean_comps rooted (split_on CHR ''/'' p) in
           if rooted then ''/'' @ strings_Join cs ''/''
           else if cs = [] then ''.'' else strings_Join cs ''/'')"

text \<open>\<open>Join\<close> of two elements: empty ones are ignored.\<close>

definition path_Join :: "string \<Rightarrow> string \<Rightarrow> string" where
  "path_Join a b =
     (if a = [] then if b = [] then [] else path_Clean b
      else if b = [] then path_Clean a else path_Clean (a @ ''/'' @ b))"

definition plain_name :: "string \<Rightarrow> bool" where
  "plain_name k \<longleftrightarrow> k \<noteq> [] \<and> k \<noteq> ''.'' \<and> k \<noteq> ''..'' \<and> CHR ''/'' \<notin> set k"

lemma clean_comps_append:
  "clean_comps r (a @ b) = fold (clean_step r) b (clean_comps r a)"
  by (simp add: clean_comps_def)

lemma clean_comps_plain: "plain_name k \<Longrightarrow> clean_comps r (cs @ [k]) = clean_comps r cs @ [k]"
  by (simp add: clean_comps_append clean_step_def plain_name_def)

lemma path_Join_plain:
  assumes "plain_name k"
  shows "path_Join a k = (if a = [] then k
     else let cs = clean_comps (is_rooted a) (split_on CHR ''/'' a) in
          (if is_rooted a then ''/'' else []) @ (if cs = [] then k else strings_Join cs ''/'' @ ''/'' @ k))"
proof -
  have k: "split_on CHR ''/'' k = [k]" using assms by (simp add: plain_name_def split_on_notin)
  have "\<not> is_rooted k" using assms by (cases k) (auto simp: plain_name_def is_rooted_def)
  moreover have "clean_comps r [k] = [k]" for r
    using clean_comps_plain [OF assms, of r "[]"] by (simp add: clean_comps_def)
  moreover have "split_on CHR ''/'' (a @ ''/'' @ k) = split_on CHR ''/'' a @ [k]"
    using k by (simp add: split_on_append_sep)
  moreover have "a \<noteq> [] \<Longrightarrow> is_rooted (a @ ''/'' @ k) = is_rooted a" by (simp add: is_rooted_def)
  ultimately show ?thesis
    using assms k by (auto simp: path_Join_def path_Clean_def Let_def clean_comps_plain strings_Join_snoc plain_name_def)
qed

lemma path_Join_inj:
  assumes "plain_name k" and "plain_name k'" and "path_Join a k = path_Join a k'"
  shows "k = k'"
proof (cases "a = []")
  case True
  then show ?thesis using assms by (simp add: path_Join_plain)
next
  case False
  then show ?thesis using assms by (simp add: path_Join_plain Let_def split: if_splits)
qed

subsection \<open>Files\<close>

record fs_state =
  fs_files :: "string \<rightharpoonup> bytes"
  fs_denied :: "string \<Rightarrow> bool"

datatype io_error = NotExist | IOFailed

definition os_ReadFile :: "string \<Rightarrow> fs_state \<Rightarrow> (io_error, bytes) result" where
  "os_ReadFile p s =
     (if fs_denied s p then Inl IOFailed
      else case fs_files s p of None \<Rightarrow> Inl NotExist | Some d \<Rightarrow> Inr d)"

definition os_WriteFile :: "string \<Rightarrow> bytes \<Rightarrow> fs_state \<Rightarrow> fs_state \<times> (io_error, unit) result" where
  "os_WriteFile p d s =
     (if fs_denied s p then (s, Inl IOFailed) else (s\<lparr>fs_files := (fs_files s)(p \<mapsto> d)\<rparr>, Inr ()))"

definition os_Remove :: "string \<Rightarrow> fs_state \<Rightarrow> fs_state \<times> (io_error, unit) result" where
  "os_Remove p s =
     (if fs_denied s p then (s, Inl IOFailed)
      else case fs_files s p of
             None \<Rightarrow> (s, Inl NotExist)
           | Some _ \<Rightarrow> (s\<lparr>fs_files := (fs_files s)(p := None)\<rparr>, Inr ()))"

end
