(* ===== verification/CertCache.thy ===== *)
theory CertCache
  imports GoPath GoNet
begin

text \<open>
  Package \<^verbatim>\<open>webauth/acme/certcache\<close>: the caching store that keeps certificates in a shared backing store and
  local data on the host (\<^verbatim>\<open>cache.go\<close>), the account key and revocation reasons (\<^verbatim>\<open>account_key.go\<close>), and
  the host policy wrapper (\<^verbatim>\<open>util.go\<close>).

  \<open>StoreFS\<close> and \<open>autocert.Cache\<close> are the record \<open>store_ops\<close> of operations on a state; their contract is the
  locale \<open>key_store\<close>, interpreted on the package's own \<open>localCache\<close>. The lock file may fail, which is an argument
  of the operations; a held lock makes each one a single step. The metrics function is the list
  of its calls. Logging is left out.
\<close>

subsection \<open>Stores\<close>

record 's store_ops =
  st_Read :: "string \<Rightarrow> 's \<Rightarrow> (io_error, bytes) result"
  st_Write :: "string \<Rightarrow> bytes \<Rightarrow> 's \<Rightarrow> 's \<times> (io_error, unit) result"
  st_Delete :: "string \<Rightarrow> 's \<Rightarrow> 's \<times> (io_error, unit) result"

record localCache =
  lc_root :: string

definition localCache_path :: "localCache \<Rightarrow> string \<Rightarrow> string" where
  "localCache_path lc name = path_Join (lc_root lc) name"

definition localCache_ReadFileCtx :: "localCache \<Rightarrow> string \<Rightarrow> fs_state \<Rightarrow> (io_error, bytes) result" where
  "localCache_ReadFileCtx lc name s = os_ReadFile (localCache_path lc name) s"

definition localCache_ReadFile :: "localCache \<Rightarrow> string \<Rightarrow> fs_state \<Rightarrow> (io_error, bytes) result" where
  "localCache_ReadFile lc name s = localCache_ReadFileCtx lc name s"

definition localCache_WriteFileCtx :: "localCache \<Rightarrow> string \<Rightarrow> bytes \<Rightarrow> fs_state \<Rightarrow> fs_state \<times> (io_error, unit) result" where
  "localCache_WriteFileCtx lc name data s = os_WriteFile (localCache_path lc name) data s"

definition localCache_Delete :: "localCache \<Rightarrow> string \<Rightarrow> fs_state \<Rightarrow> fs_state \<times> (io_error, unit) result" where
  "localCache_Delete lc name s = os_Remove (localCache_path lc name) s"

text \<open>\<open>mkdir\<close> is whether \<open>os.MkdirAll\<close> succeeds.\<close>

definition NewLocalStore :: "bool \<Rightarrow> string \<Rightarrow> (io_error, localCache) result" where
  "NewLocalStore mkdir dir = (if \<not> mkdir then Inl IOFailed else Inr \<lparr>lc_root = dir\<rparr>)"

definition local_store :: "localCache \<Rightarrow> fs_state store_ops" where
  "local_store lc = \<lparr>st_Read = localCache_ReadFileCtx lc, st_Write = localCache_WriteFileCtx lc,
     st_Delete = localCache_Delete lc\<rparr>"

subsection \<open>cache.go\<close>

datatype cache_error = ErrCacheMiss | ErrReadonlyCache | ErrLocalOperation | ErrBackingOperation | ErrLockFailed | ErrMkdir

record cc_options =
  co_readonly :: bool
  co_saveAccountKeyName :: string
  co_allowRSAKeys :: bool

type_synonym CCOption = "cc_options \<Rightarrow> cc_options"

definition WithReadonly :: "bool \<Rightarrow> CCOption" where
  "WithReadonly readonly opts = opts\<lparr>co_readonly := readonly\<rparr>"

definition WithSaveAccountKey :: "string \<Rightarrow> CCOption" where
  "WithSaveAccountKey name opts = opts\<lparr>co_saveAccountKeyName := name\<rparr>"

definition WithAllowRSAKeys :: "bool \<Rightarrow> CCOption" where
  "WithAllowRSAKeys allow opts = opts\<lparr>co_allowRSAKeys := allow\<rparr>"

definition zero_cc_options :: cc_options where
  "zero_cc_options = \<lparr>co_readonly = False, co_saveAccountKeyName = [], co_allowRSAKeys = False\<rparr>"

definition HasReadonlyOption :: "CCOption list \<Rightarrow> bool" where
  "HasReadonlyOption opts = co_readonly (apply_options opts zero_cc_options)"

definition MetricsColumns :: "string list" where
  "MetricsColumns = [''name'', ''operation'']"

definition MetricsOperationValues :: "string list" where
  "MetricsOperationValues = [''get'', ''put'', ''delete'', ''get-backing'', ''put-backing'', ''delete-backing'']"

text \<open>The state of a caching store: the two stores and the metric calls so far.\<close>

record ('l, 'b) CachingStore =
  cs_localCache :: 'l
  cs_backingStore :: 'b
  cs_opts :: cc_options
  cs_metrics :: "(string \<times> string) list"

definition metric :: "string \<Rightarrow> string \<Rightarrow> ('l, 'b) CachingStore \<Rightarrow> ('l, 'b) CachingStore" where
  "metric name op dc = dc\<lparr>cs_metrics := cs_metrics dc @ [(name, op)]\<rparr>"

definition NewCachingStore ::
    "bool \<Rightarrow> bool \<Rightarrow> 'l \<Rightarrow> 'b \<Rightarrow> CCOption list \<Rightarrow> (cache_error, ('l, 'b) CachingStore) result" where
  "NewCachingStore mkdir lock localCache0 backingStore opts =
     (let ops = apply_options opts zero_cc_options in
      if \<not> mkdir then Inl ErrMkdir
      else if co_readonly ops \<and> \<not> lock then Inl ErrLockFailed
      else Inr \<lparr>cs_localCache = localCache0, cs_backingStore = backingStore, cs_opts = ops, cs_metrics = []\<rparr>)"

definition IsAcmeAccountKey :: "string \<Rightarrow> bool" where
  "IsAcmeAccountKey name \<longleftrightarrow> name = ''acme_account+key'' \<or> name = ''acme_account.key''"

definition IsLocalName :: "string \<Rightarrow> bool \<Rightarrow> bool" where
  "IsLocalName name allowRSAKeys \<longleftrightarrow>
     strings_HasSuffix name ''+token'' \<or> (strings_HasSuffix name ''+rsa'' \<and> \<not> allowRSAKeys) \<or>
     strings_Contains name ''http-01'' \<or> IsAcmeAccountKey name"

definition isRSAKeyAllowed :: "cc_options \<Rightarrow> string \<Rightarrow> bool" where
  "isRSAKeyAllowed opts name = (if \<not> strings_HasSuffix name ''+rsa'' then True else co_allowRSAKeys opts)"

definition Delete ::
    "'l store_ops \<Rightarrow> 'b store_ops \<Rightarrow> bool \<Rightarrow> string \<Rightarrow> ('l, 'b) CachingStore \<Rightarrow>
       ('l, 'b) CachingStore \<times> (cache_error, unit) result" where
  "Delete lops bops lock name dc =
     (if co_readonly (cs_opts dc) then (dc, Inl ErrReadonlyCache)
      else
        let dc = metric name ''delete'' dc in
        if \<not> IsLocalName name (co_allowRSAKeys (cs_opts dc))
        then
          let dc = metric name ''delete-backing'' dc in
          (case st_Delete bops name (cs_backingStore dc) of
             (b, Inl _) \<Rightarrow> (dc\<lparr>cs_backingStore := b\<rparr>, Inl ErrBackingOperation)
           | (b, Inr _) \<Rightarrow> (dc\<lparr>cs_backingStore := b\<rparr>, Inr ()))
        else if \<not> lock then (dc, Inl ErrLockFailed)
        else case st_Delete lops name (cs_localCache dc) of
               (l, Inl _) \<Rightarrow> (dc\<lparr>cs_localCache := l\<rparr>, Inl ErrLocalOperation)
             | (l, Inr _) \<Rightarrow> (dc\<lparr>cs_localCache := l\<rparr>, Inr ()))"

text \<open>Every not-found error becomes \<open>ErrCacheMiss\<close>; \<open>None\<close> is any other error.\<close>

definition translateCacheMiss :: "io_error \<Rightarrow> cache_error option" where
  "translateCacheMiss e = (case e of NotExist \<Rightarrow> Some ErrCacheMiss | IOFailed \<Rightarrow> None)"

definition useBackingStore :: "cc_options \<Rightarrow> string \<Rightarrow> string \<times> bool" where
  "useBackingStore opts name =
     (if \<not> IsLocalName name (co_allowRSAKeys opts) then (name, True)
      else if length (co_saveAccountKeyName opts) > 0 \<and> IsAcmeAccountKey name
      then (co_saveAccountKeyName opts, True)
      else (name, False))"

definition Get ::
    "'l store_ops \<Rightarrow> 'b store_ops \<Rightarrow> bool \<Rightarrow> string \<Rightarrow> ('l, 'b) CachingStore \<Rightarrow>
       ('l, 'b) CachingStore \<times> (cache_error, bytes) result" where
  "Get lops bops lock name dc =
     (let dc = metric name ''get'' dc in
      case useBackingStore (cs_opts dc) name of
        (bname, backing) \<Rightarrow>
          if backing
          then
            let dc = metric bname ''get-backing'' dc in
            (dc, case st_Read bops bname (cs_backingStore dc) of
                   Inl e \<Rightarrow> (case translateCacheMiss e of Some m \<Rightarrow> Inl m | None \<Rightarrow> Inl ErrBackingOperation)
                 | Inr d \<Rightarrow> Inr d)
          else if \<not> lock then (dc, Inl ErrLockFailed)
          else (dc, case st_Read lops name (cs_localCache dc) of
                      Inl e \<Rightarrow> (case translateCacheMiss e of Some m \<Rightarrow> Inl m | None \<Rightarrow> Inl ErrLocalOperation)
                    | Inr d \<Rightarrow> Inr d))"

definition Put ::
    "'l store_ops \<Rightarrow> 'b store_ops \<Rightarrow> bool \<Rightarrow> string \<Rightarrow> bytes \<Rightarrow> ('l, 'b) CachingStore \<Rightarrow>
       ('l, 'b) CachingStore \<times> (cache_error, unit) result" where
  "Put lops bops lock name data dc =
     (let dc = metric name ''put'' dc in
      if \<not> isRSAKeyAllowed (cs_opts dc) name then (dc, Inl ErrBackingOperation)
      else if co_readonly (cs_opts dc) then (dc, Inl ErrReadonlyCache)
      else case useBackingStore (cs_opts dc) name of
        (bname, backing) \<Rightarrow>
          if backing
          then
            let dc = metric bname ''put-backing'' dc in
            (case st_Write bops bname data (cs_backingStore dc) of
               (b, Inl _) \<Rightarrow> (dc\<lparr>cs_backingStore := b\<rparr>, Inl ErrBackingOperation)
             | (b, Inr _) \<Rightarrow> (dc\<lparr>cs_backingStore := b\<rparr>, Inr ()))
          else if \<not> lock then (dc, Inl ErrLockFailed)
          else case st_Write lops name data (cs_localCache dc) of
                 (l, Inl _) \<Rightarrow> (dc\<lparr>cs_localCache := l\<rparr>, Inl ErrLocalOperation)
               | (l, Inr _) \<Rightarrow> (dc\<lparr>cs_localCache := l\<rparr>, Inr ()))"

definition ReadFileCtx ::
    "'l store_ops \<Rightarrow> 'b store_ops \<Rightarrow> bool \<Rightarrow> string \<Rightarrow> ('l, 'b) CachingStore \<Rightarrow>
       ('l, 'b) CachingStore \<times> (cache_error, bytes) result" where
  "ReadFileCtx lops bops lock name dc = Get lops bops lock name dc"

definition ReadFile ::
    "'l store_ops \<Rightarrow> 'b store_ops \<Rightarrow> bool \<Rightarrow> string \<Rightarrow> ('l, 'b) CachingStore \<Rightarrow>
       ('l, 'b) CachingStore \<times> (cache_error, bytes) result" where
  "ReadFile lops bops lock name dc = ReadFileCtx lops bops lock name dc"

definition WriteFileCtx ::
    "'l store_ops \<Rightarrow> 'b store_ops \<Rightarrow> bool \<Rightarrow> string \<Rightarrow> bytes \<Rightarrow> ('l, 'b) CachingStore \<Rightarrow>
       ('l, 'b) CachingStore \<times> (cache_error, unit) result" where
  "WriteFileCtx lops bops lock name data dc = Put lops bops lock name data dc"

definition WriteFile ::
    "'l store_ops \<Rightarrow> 'b store_ops \<Rightarrow> bool \<Rightarrow> string \<Rightarrow> bytes \<Rightarrow> ('l, 'b) CachingStore \<Rightarrow>
       ('l, 'b) CachingStore \<times> (cache_error, unit) result" where
  "WriteFile lops bops lock name data dc = WriteFileCtx lops bops lock name data dc"

subsection \<open>account_key.go\<close>

datatype key_error = NoAccountKey | InvalidAccountKey | BadPrivateKey

fun account_key_loop ::
    "'l store_ops \<Rightarrow> 'b store_ops \<Rightarrow> bool \<Rightarrow> string list \<Rightarrow> ('l, 'b) CachingStore \<Rightarrow>
       ('l, 'b) CachingStore \<times> bytes option" where
  "account_key_loop lops bops lock [] dc = (dc, None)"
| "account_key_loop lops bops lock (kn # kns) dc =
     (case Get lops bops lock kn dc of
        (dc, Inr data) \<Rightarrow> (dc, Some data)
      | (dc, Inl _) \<Rightarrow> account_key_loop lops bops lock kns dc)"

text \<open>\<open>pem_Decode\<close> gives the type and bytes of the first PEM block; \<open>parse\<close> is \<open>webapp.ParsePrivateKeyDER\<close>.\<close>

definition GetAccountKey ::
    "(bytes \<Rightarrow> (string \<times> bytes) option) \<Rightarrow> (bytes \<Rightarrow> 'key option) \<Rightarrow> 'l store_ops \<Rightarrow> 'b store_ops \<Rightarrow> bool \<Rightarrow>
       ('l, 'b) CachingStore \<Rightarrow> ('l, 'b) CachingStore \<times> (key_error, 'key) result" where
  "GetAccountKey pem_Decode parse lops bops lock dc =
     (case account_key_loop lops bops lock [''acme_account+key'', ''acme_account.key''] dc of
        (dc, None) \<Rightarrow> (dc, Inl NoAccountKey)
      | (dc, Some keyData) \<Rightarrow>
          (dc, case pem_Decode keyData of
                 None \<Rightarrow> Inl InvalidAccountKey
               | Some (typ, bs) \<Rightarrow>
                   if \<not> strings_Contains typ ''PRIVATE'' then Inl InvalidAccountKey
                   else (case parse bs of None \<Rightarrow> Inl BadPrivateKey | Some k \<Rightarrow> Inr k)))"

datatype CRLReasonCode = CRLReasonUnspecified | CRLReasonKeyCompromise | CRLReasonAffiliationChanged
  | CRLReasonSuperseded | CRLReasonCessationOfOperation | CRLReasonCertificateHold

definition ParseRevocationReason :: "string \<Rightarrow> (string, CRLReasonCode) result" where
  "ParseRevocationReason reason =
     (if reason = [] \<or> reason = ''unspecified'' then Inr CRLReasonUnspecified
      else if reason = ''keyCompromise'' then Inr CRLReasonKeyCompromise
      else if reason = ''affiliationChanged'' then Inr CRLReasonAffiliationChanged
      else if reason = ''superseded'' then Inr CRLReasonSuperseded
      else if reason = ''cessationOfOperation'' then Inr CRLReasonCessationOfOperation
      else if reason = ''certificateHold'' then Inr CRLReasonCertificateHold
      else Inl reason)"

subsection \<open>util.go\<close>

definition WrapHostPolicyNoPort :: "(string \<Rightarrow> ('e, unit) result) \<Rightarrow> string \<Rightarrow> ('e, unit) result" where
  "WrapHostPolicyNoPort existing host =
     (let host = (case SplitHostPort host of Some (h, _) \<Rightarrow> h | None \<Rightarrow> host)
      in case existing host of Inl e \<Rightarrow> Inl e | Inr _ \<Rightarrow> Inr ())"

subsection \<open>The contract of a store\<close>

text \<open>
  What a caching store relies on, for the names \<open>ok\<close>: what was written can be read, what was deleted is
  missing, other names and failed operations change nothing a reader sees.
\<close>

locale key_store =
  fixes ops :: "'s store_ops" and ok :: "string \<Rightarrow> bool"
  assumes read_written: "ok k \<Longrightarrow> st_Write ops k d s = (s', Inr ()) \<Longrightarrow> st_Read ops k s' = Inr d"
    and write_frame: "ok k \<Longrightarrow> ok k' \<Longrightarrow> k' \<noteq> k \<Longrightarrow> st_Write ops k d s = (s', r) \<Longrightarrow> st_Read ops k' s' = st_Read ops k' s"
    and write_failed: "st_Write ops k d s = (s', Inl e) \<Longrightarrow> s' = s"
    and read_deleted: "ok k \<Longrightarrow> st_Delete ops k s = (s', Inr ()) \<Longrightarrow> st_Read ops k s' = Inl NotExist"
    and delete_frame: "ok k \<Longrightarrow> ok k' \<Longrightarrow> k' \<noteq> k \<Longrightarrow> st_Delete ops k s = (s', r) \<Longrightarrow> st_Read ops k' s' = st_Read ops k' s"
    and delete_failed: "st_Delete ops k s = (s', Inl e) \<Longrightarrow> s' = s"

interpretation local_files: key_store "local_store lc" plain_name
  by unfold_locales
    (auto simp: local_store_def localCache_ReadFileCtx_def localCache_WriteFileCtx_def localCache_Delete_def
      localCache_path_def os_ReadFile_def os_WriteFile_def os_Remove_def dest: path_Join_inj
      split: if_splits option.splits)

subsection \<open>A caching store over two stores\<close>

definition reads :: "cache_error \<Rightarrow> (io_error, bytes) result \<Rightarrow> (cache_error, bytes) result" where
  "reads err r = (case r of Inr d \<Rightarrow> Inr d | Inl NotExist \<Rightarrow> Inl ErrCacheMiss | Inl IOFailed \<Rightarrow> Inl err)"

lemma Get_value:
  "snd (Get lops bops lock name dc) =
     (case useBackingStore (cs_opts dc) name of
        (bname, backing) \<Rightarrow>
          if backing then reads ErrBackingOperation (st_Read bops bname (cs_backingStore dc))
          else if \<not> lock then Inl ErrLockFailed
          else reads ErrLocalOperation (st_Read lops name (cs_localCache dc)))"
  by (simp add: Get_def reads_def metric_def translateCacheMiss_def Let_def split: prod.splits sum.splits io_error.splits)

lemma Get_metric: "snd (Get lops bops lk n (metric a b dc)) = snd (Get lops bops lk n dc)"
  by (simp add: Get_value metric_def split: prod.splits)

lemma Get_keeps:
  "cs_localCache (fst (Get lops bops lock name dc)) = cs_localCache dc"
  "cs_backingStore (fst (Get lops bops lock name dc)) = cs_backingStore dc"
  "cs_opts (fst (Get lops bops lock name dc)) = cs_opts dc"
  by (simp_all add: Get_def metric_def Let_def split: prod.splits)

text \<open>A successful \<open>Put\<close> writes exactly one store, under the name \<open>useBackingStore\<close> gives.\<close>

lemma Put_ok:
  assumes "Put lops bops lock name d dc = (dc', Inr ())"
  shows "cs_opts dc' = cs_opts dc \<and> \<not> co_readonly (cs_opts dc) \<and> isRSAKeyAllowed (cs_opts dc) name \<and>
    (case useBackingStore (cs_opts dc) name of
       (bname, backing) \<Rightarrow>
         if backing
         then cs_localCache dc' = cs_localCache dc \<and> st_Write bops bname d (cs_backingStore dc) = (cs_backingStore dc', Inr ())
         else lock \<and> cs_backingStore dc' = cs_backingStore dc \<and> st_Write lops name d (cs_localCache dc) = (cs_localCache dc', Inr ()))"
  using assms by (auto simp: Put_def metric_def Let_def split: prod.splits if_splits sum.splits)

lemma Put_readonly:
  assumes "co_readonly (cs_opts dc)"
  shows "\<exists>e. Put lops bops lk name d dc = (metric name ''put'' dc, Inl e)"
  using assms by (simp add: Put_def metric_def Let_def)

lemma Delete_readonly: "co_readonly (cs_opts dc) \<Longrightarrow> Delete lops bops lk name dc = (dc, Inl ErrReadonlyCache)"
  by (simp add: Delete_def)

lemma Delete_ok:
  assumes "Delete lops bops lock name dc = (dc', Inr ())"
  shows "cs_opts dc' = cs_opts dc \<and> \<not> co_readonly (cs_opts dc) \<and>
    (if \<not> IsLocalName name (co_allowRSAKeys (cs_opts dc))
     then cs_localCache dc' = cs_localCache dc \<and> st_Delete bops name (cs_backingStore dc) = (cs_backingStore dc', Inr ())
     else lock \<and> cs_backingStore dc' = cs_backingStore dc \<and> st_Delete lops name (cs_localCache dc) = (cs_localCache dc', Inr ()))"
  using assms by (auto simp: Delete_def metric_def Let_def split: prod.splits if_splits sum.splits)

text \<open>The names a request for \<open>name\<close> may touch are acceptable to the stores.\<close>

definition usable :: "(string \<Rightarrow> bool) \<Rightarrow> (string \<Rightarrow> bool) \<Rightarrow> cc_options \<Rightarrow> string \<Rightarrow> bool" where
  "usable lok bok opts name \<longleftrightarrow> lok name \<and> bok (fst (useBackingStore opts name))"

locale caching_store =
  l: key_store lops lok + b: key_store bops bok
  for lops :: "'l store_ops" and lok and bops :: "'b store_ops" and bok
begin

lemma put_get:
  assumes "Put lops bops lk name d dc = (dc', Inr ())" and "usable lok bok (cs_opts dc) name"
  shows "snd (Get lops bops True name dc') = Inr d"
  using Put_ok [OF assms(1)] assms(2) l.read_written b.read_written
  by (auto simp: Get_value reads_def usable_def split: prod.splits if_splits)

lemma put_frame:
  assumes "Put lops bops lk name d dc = (dc', Inr ())" and "usable lok bok (cs_opts dc) name" and "usable lok bok (cs_opts dc) name'"
    and "useBackingStore (cs_opts dc) name' \<noteq> useBackingStore (cs_opts dc) name"
  shows "snd (Get lops bops lk' name' dc') = snd (Get lops bops lk' name' dc)"
proof -
  have n: "useBackingStore o1 x = (y, False) \<Longrightarrow> y = x" for o1 x y
    by (auto simp: useBackingStore_def split: if_splits)
  obtain m bk m' bk' where u: "useBackingStore (cs_opts dc) name = (m, bk)" "useBackingStore (cs_opts dc) name' = (m', bk')"
    by force
  show ?thesis
    using Put_ok [OF assms(1)] assms u l.write_frame b.write_frame n
    by (cases bk; cases bk'; auto simp: Get_value usable_def; metis)
qed

lemma delete_get:
  assumes "Delete lops bops lk name dc = (dc', Inr ())" and "usable lok bok (cs_opts dc) name"
    and "co_saveAccountKeyName (cs_opts dc) = [] \<or> \<not> IsAcmeAccountKey name"
  shows "snd (Get lops bops True name dc') = Inl ErrCacheMiss"
  using Delete_ok [OF assms(1)] assms(2,3) l.read_deleted b.read_deleted
  by (auto simp: Get_value reads_def usable_def useBackingStore_def split: if_splits)

end

interpretation local_caching: caching_store "local_store lc" plain_name "local_store bc" plain_name
  by unfold_locales

subsection \<open>Properties\<close>

text \<open>
  Whatever stores are behind it, a caching store returns what was put: after a successful \<^verbatim>\<open>Put\<close> the same
  name yields the data, and every name with another destination yields what it yielded before.
\<close>

theorem Put_Get_roundtrip:
  assumes "key_store lops lok" and "key_store bops bok"
    and "Put lops bops lk name d dc = (dc', Inr ())" and "usable lok bok (cs_opts dc) name"
  shows "snd (Get lops bops True name dc') = Inr d \<and>
    (\<forall>name' lk'. usable lok bok (cs_opts dc) name' \<and>
        useBackingStore (cs_opts dc) name' \<noteq> useBackingStore (cs_opts dc) name \<longrightarrow>
        snd (Get lops bops lk' name' dc') = snd (Get lops bops lk' name' dc))"
  using caching_store.put_get [OF caching_store.intro [OF assms(1,2)] assms(3,4)]
    caching_store.put_frame [OF caching_store.intro [OF assms(1,2)] assms(3,4)] by blast

definition empty_files :: fs_state where
  "empty_files = \<lparr>fs_files = Map.empty, fs_denied = (\<lambda>_. False)\<rparr>"

definition demo_store :: "CCOption list \<Rightarrow> (fs_state, fs_state) CachingStore" where
  "demo_store opts = \<lparr>cs_localCache = empty_files, cs_backingStore = empty_files,
     cs_opts = apply_options opts zero_cc_options, cs_metrics = []\<rparr>"

lemmas store_eval = Put_def Delete_def Let_def metric_def isRSAKeyAllowed_def useBackingStore_def IsLocalName_def
  IsAcmeAccountKey_def strings_HasSuffix_eval strings_Contains_def local_store_def localCache_WriteFileCtx_def
  localCache_Delete_def os_WriteFile_def os_Remove_def zero_cc_options_def WithReadonly_def WithSaveAccountKey_def
  WithAllowRSAKeys_def

theorem Put_Get_roundtrip_witness:
  "\<exists>dc'. Put (local_store \<lparr>lc_root = ''/l''\<rparr>) (local_store \<lparr>lc_root = ''/b''\<rparr>) True ''example.com'' ''CERT'' (demo_store []) = (dc', Inr ()) \<and>
     snd (Get (local_store \<lparr>lc_root = ''/l''\<rparr>) (local_store \<lparr>lc_root = ''/b''\<rparr>) True ''example.com'' dc') = Inr ''CERT''"
proof -
  let ?l = "local_store \<lparr>lc_root = ''/l''\<rparr>" and ?b = "local_store \<lparr>lc_root = ''/b''\<rparr>"
  obtain dc' where p: "Put ?l ?b True ''example.com'' ''CERT'' (demo_store []) = (dc', Inr ())"
    by (simp add: demo_store_def store_eval empty_files_def)
  have u: "usable plain_name plain_name (cs_opts (demo_store [])) ''example.com''"
    by (simp add: usable_def demo_store_def store_eval plain_name_def)
  from Put_Get_roundtrip [OF local_files.key_store_axioms local_files.key_store_axioms p u] p show ?thesis by blast
qed



text \<open>
  A store made read-only stays as it is: \<^verbatim>\<open>Put\<close> and \<^verbatim>\<open>Delete\<close> fail and change neither store, while \<^verbatim>\<open>Get\<close>
  still reads both.
\<close>

theorem readonly_store_unchanged:
  assumes "NewCachingStore mkdir lock l b opts = Inr dc" and "HasReadonlyOption opts"
  shows "\<not> is_ok (snd (Put lops bops lk name d dc)) \<and> snd (Delete lops bops lk name dc) = Inl ErrReadonlyCache \<and>
    cs_localCache (fst (Put lops bops lk name d dc)) = l \<and> cs_backingStore (fst (Put lops bops lk name d dc)) = b \<and>
    fst (Delete lops bops lk name dc) = dc \<and>
    snd (Get lops bops lk name (fst (Put lops bops lk name d dc))) = snd (Get lops bops lk name dc)"
  using assms
proof -
  have ro: "co_readonly (cs_opts dc)" and st: "cs_localCache dc = l" "cs_backingStore dc = b"
    using assms by (auto simp: NewCachingStore_def HasReadonlyOption_def Let_def split: if_splits)
  obtain e where p: "Put lops bops lk name d dc = (metric name ''put'' dc, Inl e)"
    using Put_readonly [OF ro] by blast
  show ?thesis
    using st by (simp add: p Delete_readonly [OF ro] Get_metric) (simp add: metric_def)
qed

theorem readonly_store_unchanged_witness:
  "HasReadonlyOption [WithReadonly True] \<and>
   snd (Delete (local_store \<lparr>lc_root = ''/l''\<rparr>) (local_store \<lparr>lc_root = ''/b''\<rparr>) True ''x'' (demo_store [WithReadonly True])) = Inl ErrReadonlyCache"
proof -
  have n: "NewCachingStore True True empty_files empty_files [WithReadonly True] = Inr (demo_store [WithReadonly True])"
    by (simp add: NewCachingStore_def demo_store_def)
  have h: "HasReadonlyOption [WithReadonly True]" by (simp add: HasReadonlyOption_def WithReadonly_def)
  from readonly_store_unchanged [OF n h] h show ?thesis by blast
qed

text \<open>
  Deleting removes: after a successful \<^verbatim>\<open>Delete\<close> of a name that is not a saved account key, \<^verbatim>\<open>Get\<close> reports a cache
  miss. For a saved account key it does not: \<^verbatim>\<open>Delete\<close> goes to the local cache, \<^verbatim>\<open>Get\<close> to the backing
  store under the saved name, so \<^verbatim>\<open>Get\<close> answers as before.
\<close>

theorem Delete_Get:
  assumes "key_store lops lok" and "key_store bops bok"
    and "Delete lops bops lk name dc = (dc', Inr ())" and "usable lok bok (cs_opts dc) name"
  shows "if co_saveAccountKeyName (cs_opts dc) \<noteq> [] \<and> IsAcmeAccountKey name
         then snd (Get lops bops lk' name dc') = snd (Get lops bops lk' name dc)
         else snd (Get lops bops True name dc') = Inl ErrCacheMiss"
proof (cases "co_saveAccountKeyName (cs_opts dc) \<noteq> [] \<and> IsAcmeAccountKey name")
  case True
  then have "IsLocalName name a" for a by (simp add: IsLocalName_def)
  with True Delete_ok [OF assms(3)] show ?thesis by (simp add: Get_value useBackingStore_def)
next
  case False
  then show ?thesis
    using caching_store.delete_get [OF caching_store.intro [OF assms(1,2)] assms(3,4)] by auto
qed

theorem Delete_Get_witness:
  "\<exists>dc dc' dc''. Put (local_store \<lparr>lc_root = ''/l''\<rparr>) (local_store \<lparr>lc_root = ''/b''\<rparr>) True ''example.com'' ''C'' (demo_store []) = (dc', Inr ()) \<and>
     Delete (local_store \<lparr>lc_root = ''/l''\<rparr>) (local_store \<lparr>lc_root = ''/b''\<rparr>) True ''example.com'' dc' = (dc'', Inr ()) \<and>
     snd (Get (local_store \<lparr>lc_root = ''/l''\<rparr>) (local_store \<lparr>lc_root = ''/b''\<rparr>) True ''example.com'' dc'') = Inl ErrCacheMiss"
proof -
  let ?l = "local_store \<lparr>lc_root = ''/l''\<rparr>" and ?b = "local_store \<lparr>lc_root = ''/b''\<rparr>"
  obtain dc' where p: "Put ?l ?b True ''example.com'' ''C'' (demo_store []) = (dc', Inr ())"
      "cs_opts dc' = zero_cc_options"
      "cs_backingStore dc' = empty_files\<lparr>fs_files := [localCache_path \<lparr>lc_root = ''/b''\<rparr> ''example.com'' \<mapsto> ''C'']\<rparr>"
    by (simp add: demo_store_def store_eval empty_files_def)
  obtain dc'' where d: "Delete ?l ?b True ''example.com'' dc' = (dc'', Inr ())"
    using p(2,3) by (simp add: store_eval empty_files_def)
  have "usable plain_name plain_name (cs_opts dc') ''example.com''"
    using p(2) by (simp add: usable_def store_eval plain_name_def)
  from Delete_Get [OF local_files.key_store_axioms local_files.key_store_axioms d this] p d show ?thesis
    by (auto simp: zero_cc_options_def)
qed

end
