(* ===== verification/GoUrl.thy ===== *)
theory GoUrl
  imports GoEncoding GoNet GoHttp
begin

text \<open>
  The parts of Go's \<open>net/url\<close> the redirects use: the fields of a URL, percent-encoding of hosts and
  paths, and \<open>URL.String\<close>. A user name and password are kept in their encoded form. The fragment of a
  request URL is empty (clients do not send it), so fragments are left out.
\<close>

record URL =
  url_Scheme :: string
  url_Opaque :: string
  url_User :: "string option" \<comment> \<open>User.String()\<close>
  url_Host :: string
  url_Path :: string
  url_RawPath :: string
  url_OmitHost :: bool
  url_ForceQuery :: bool
  url_RawQuery :: string

definition empty_URL :: URL where
  "empty_URL = \<lparr>url_Scheme = [], url_Opaque = [], url_User = None, url_Host = [], url_Path = [], url_RawPath = [],
     url_OmitHost = False, url_ForceQuery = False, url_RawQuery = []\<rparr>"

datatype encoding = encodePath | encodeHost

definition is_alnum :: "char \<Rightarrow> bool" where
  "is_alnum c \<longleftrightarrow> is_lower c \<or> is_upper c \<or> is_digit c"

definition shouldEscape :: "char \<Rightarrow> encoding \<Rightarrow> bool" where
  "shouldEscape c mode =
     (if is_alnum c then False
      else if mode = encodeHost \<and> (c \<in> set ''!$&()*+,;=:[]<>'' \<or> c = CHR 0x27 \<or> c = CHR 0x22) then False
      else if c \<in> set ''-_.~'' then False
      else if c \<in> set ''$&+,/:;=?@'' then mode = encodeHost \<or> c = CHR ''?''
      else True)"

definition percent_byte :: "char \<Rightarrow> string" where
  "percent_byte c = [CHR ''%'', digit_upper (of_char c div 16), digit_upper (of_char c mod 16)]"

definition url_escape :: "encoding \<Rightarrow> string \<Rightarrow> string" where
  "url_escape mode s = concat (map (\<lambda>c. if shouldEscape c mode then percent_byte c else [c]) s)"

text \<open>\<open>unescape\<close> in path mode: a percent sign needs two hexadecimal digits.\<close>

fun url_unescape :: "string \<Rightarrow> string option" where
  "url_unescape [] = Some []"
| "url_unescape (c # cs) =
     (if c = CHR ''%'' then
        (case cs of
           a # b # rest \<Rightarrow>
             (case (hex_val a, hex_val b) of
                (Some x, Some y) \<Rightarrow> map_option (Cons (char_of (16 * x + y))) (url_unescape rest)
              | _ \<Rightarrow> None)
         | _ \<Rightarrow> None)
      else map_option (Cons c) (url_unescape cs))"

definition validEncoded :: "string \<Rightarrow> bool" where
  "validEncoded s =
     list_all (\<lambda>c. c \<in> set ''!$&()*+,;=:@[]%'' \<or> c = CHR 0x27 \<or> \<not> shouldEscape c encodePath) s"

definition EscapedPath :: "URL \<Rightarrow> string" where
  "EscapedPath u =
     (if url_RawPath u \<noteq> [] \<and> validEncoded (url_RawPath u) \<and> url_unescape (url_RawPath u) = Some (url_Path u)
      then url_RawPath u
      else if url_Path u = ''*'' then ''*''
      else url_escape encodePath (url_Path u))"

definition URL_authority :: "URL \<Rightarrow> string" where
  "URL_authority u =
     (if url_Scheme u \<noteq> [] \<or> url_Host u \<noteq> [] \<or> url_User u \<noteq> None then
        if url_OmitHost u \<and> url_Host u = [] \<and> url_User u = None then []
        else (if url_Host u \<noteq> [] \<or> url_Path u \<noteq> [] \<or> url_User u \<noteq> None then ''//'' else [])
             @ (case url_User u of None \<Rightarrow> [] | Some ui \<Rightarrow> ui @ ''@'')
             @ (if url_Host u \<noteq> [] then url_escape encodeHost (url_Host u) else [])
      else [])"

definition URL_String :: "URL \<Rightarrow> string" where
  "URL_String u =
     (let scheme = (if url_Scheme u \<noteq> [] then url_Scheme u @ '':'' else []);
          rest = (if url_Opaque u \<noteq> [] then url_Opaque u
                  else
                    let path = EscapedPath u;
                        buf = URL_authority u @
                          (if path \<noteq> [] \<and> hd path \<noteq> CHR ''/'' \<and> url_Host u \<noteq> [] then ''/'' else []);
                        dot = (if scheme @ buf = [] \<and> CHR '':'' \<in> set (takeWhile (\<lambda>c. c \<noteq> CHR ''/'') path)
                               then ''./'' else [])
                    in buf @ dot @ path)
      in scheme @ rest @ (if url_ForceQuery u \<or> url_RawQuery u \<noteq> [] then CHR ''?'' # url_RawQuery u else []))"

subsection \<open>Facts\<close>

lemma url_escape_simps [simp]:
  "url_escape mode [] = []"
  "url_escape mode (c # cs) = (if shouldEscape c mode then percent_byte c else [c]) @ url_escape mode cs"
  by (simp_all add: url_escape_def)

lemma url_escape_append: "url_escape mode (s @ t) = url_escape mode s @ url_escape mode t"
  by (simp add: url_escape_def)

lemma shouldEscape_percent: "shouldEscape CHR ''%'' mode"
  by (simp add: shouldEscape_def is_alnum_def is_lower_def is_upper_def is_digit_def char_between_def)

lemma url_unescape_percent_byte: "url_unescape (percent_byte c @ s) = map_option (Cons c) (url_unescape s)"
proof -
  have "(of_char c :: nat) div 16 < 16" by (rule less_mult_imp_div_less) simp
  then have "hex_val (digit_upper (of_char c div 16)) = Some (of_char c div 16)"
    "hex_val (digit_upper (of_char c mod 16)) = Some (of_char c mod 16)" by simp_all
  then show ?thesis by (simp add: percent_byte_def)
qed

text \<open>Percent-encoding loses nothing, in paths and in hosts.\<close>

lemma url_unescape_escape: "url_unescape (url_escape mode s) = Some s"
proof (induction s)
  case (Cons c s)
  show ?case
  proof (cases "shouldEscape c mode")
    case True
    with Cons show ?thesis by (simp add: url_unescape_percent_byte)
  next
    case False
    then have "c \<noteq> CHR ''%''" using shouldEscape_percent by auto
    with Cons False show ?thesis by simp
  qed
qed simp

lemma url_escape_inj: "url_escape mode s = url_escape mode t \<Longrightarrow> s = t"
  by (metis url_unescape_escape option.inject)

lemma EscapedPath_decodes: "url_unescape (EscapedPath u) = Some (url_Path u)"
proof -
  have "url_unescape ''*'' = Some ''*''" by simp
  then show ?thesis unfolding EscapedPath_def using url_unescape_escape by auto
qed

lemma EscapedPath_slash:
  assumes "url_Path u \<noteq> []" "hd (url_Path u) = CHR ''/''"
  shows "EscapedPath u = [] \<or> hd (EscapedPath u) \<in> {CHR ''/'', CHR ''%''}"
proof (cases "EscapedPath u")
  case (Cons c cs)
  from EscapedPath_decodes [of u] Cons have "c = CHR ''%'' \<or> (\<exists>z. c # z = url_Path u)"
    by (auto split: if_splits)
  with Cons assms show ?thesis by (metis insert_iff list.sel(1))
qed simp

text \<open>Host names, addresses in brackets and ports are written as they are.\<close>

definition host_char :: "char \<Rightarrow> bool" where
  "host_char c \<longleftrightarrow> \<not> shouldEscape c encodeHost"

lemma url_escape_id: "list_all (\<lambda>c. \<not> shouldEscape c mode) s \<Longrightarrow> url_escape mode s = s"
  by (induction s) simp_all

lemma host_escape_id: "list_all host_char h \<Longrightarrow> url_escape encodeHost h = h"
  by (rule url_escape_id) (simp add: host_char_def list_all_iff)

lemma JoinHostPort_host_chars:
  "list_all host_char h \<Longrightarrow> list_all host_char p \<Longrightarrow> list_all host_char (JoinHostPort h p)"
  by (simp add: JoinHostPort_def host_char_def shouldEscape_def)

text \<open>The text of a URL with a scheme, a host and no user information.\<close>

definition path_part :: "URL \<Rightarrow> string" where
  "path_part u = (let path = EscapedPath u in (if path \<noteq> [] \<and> hd path \<noteq> CHR ''/'' then ''/'' else []) @ path)"

definition query_part :: "URL \<Rightarrow> string" where
  "query_part u = (if url_ForceQuery u \<or> url_RawQuery u \<noteq> [] then CHR ''?'' # url_RawQuery u else [])"

lemma URL_String_host:
  assumes "url_Scheme u \<noteq> []" "url_Host u \<noteq> []" "url_Opaque u = []" "url_User u = None"
  shows "URL_String u = url_Scheme u @ ''://'' @ url_escape encodeHost (url_Host u) @ path_part u @ query_part u"
  using assms by (simp add: URL_String_def URL_authority_def path_part_def query_part_def Let_def)

end
