(* ===== verification/Loops.thy ===== *)
theory Loops
  imports Prelude
begin

text \<open>
  The two shapes of loop that wait on channels and tickers, as contracts over partial functions: a scanning loop
  carries a state from round to round, a polling loop carries none. Both say when the loop returns and
  with what; the model of each loop is an interpretation.
\<close>

subsection \<open>Scanning loops\<close>

text \<open>The state after \<open>k\<close> rounds from round \<open>n\<close>, if none of them returned.\<close>

fun scan :: "(nat \<Rightarrow> 's \<Rightarrow> 's + 'r) \<Rightarrow> nat \<Rightarrow> 's \<Rightarrow> nat \<Rightarrow> 's option" where
  "scan step n s 0 = Some s"
| "scan step n s (Suc k) = (case step n s of Inl s' \<Rightarrow> scan step (Suc n) s' k | Inr _ \<Rightarrow> None)"

lemma scan_snoc:
  "scan step n s (Suc k) = (case scan step n s k of None \<Rightarrow> None
     | Some s' \<Rightarrow> (case step (n + k) s' of Inl s'' \<Rightarrow> Some s'' | Inr _ \<Rightarrow> None))"
proof (induction k arbitrary: n s)
  case (Suc k)
  show ?case
  proof (cases "step n s")
    case (Inl s')
    then show ?thesis using Suc.IH [of "Suc n" s'] by (simp split: option.splits)
  qed simp
qed (simp split: sum.splits)

text \<open>
  The contract: a round either returns or passes a state on; a loop that returns does so at some round
  (\<open>decided\<close>), it cannot return out of nothing.
\<close>

locale scanning_loop =
  fixes loop :: "'env \<Rightarrow> nat \<Rightarrow> 's \<Rightarrow> 'r option" and step :: "'env \<Rightarrow> nat \<Rightarrow> 's \<Rightarrow> 's + 'r"
  assumes scan_unroll: "loop env n s = (case step env n s of Inr r \<Rightarrow> Some r | Inl s' \<Rightarrow> loop env (Suc n) s')"
    and scan_decided: "loop env n s = Some r \<Longrightarrow> \<exists>k. scan (step env) n s (Suc k) = None"
begin

lemma skip_scanned: "scan (step env) n s k = Some s' \<Longrightarrow> loop env n s = loop env (n + k) s'"
proof (induction k arbitrary: n s)
  case (Suc k)
  then show ?case using scan_unroll [of env n s] by (auto split: sum.splits)
qed simp

lemma scan_stops: "scan (step env) n s k = None \<Longrightarrow> \<exists>j<k. \<exists>s' r. scan (step env) n s j = Some s' \<and> step env (n + j) s' = Inr r"
proof (induction k)
  case (Suc k)
  show ?case
  proof (cases "scan (step env) n s k")
    case None
    with Suc.IH show ?thesis using less_Suc_eq by blast
  next
    case (Some s')
    with Suc.prems obtain r where "step env (n + k) s' = Inr r"
      by (auto simp del: scan.simps simp: scan_snoc split: sum.splits)
    with Some show ?thesis by blast
  qed
qed simp

lemma scan_returns_iff:
  "loop env n s = Some r \<longleftrightarrow> (\<exists>k s'. scan (step env) n s k = Some s' \<and> step env (n + k) s' = Inr r)"
proof
  assume l: "loop env n s = Some r"
  from scan_decided [OF l] obtain j s' r' where j: "scan (step env) n s j = Some s'" "step env (n + j) s' = Inr r'"
    using scan_stops by blast
  then have "loop env n s = Some r'" using skip_scanned [of env n s j s'] scan_unroll [of env "n + j" s'] by simp
  with l j show "\<exists>k s'. scan (step env) n s k = Some s' \<and> step env (n + k) s' = Inr r" by auto
next
  assume "\<exists>k s'. scan (step env) n s k = Some s' \<and> step env (n + k) s' = Inr r"
  then obtain k s' where k: "scan (step env) n s k = Some s'" "step env (n + k) s' = Inr r" by blast
  then show "loop env n s = Some r" using skip_scanned [of env n s k s'] scan_unroll [of env "n + k" s'] by simp
qed

lemma scan_returns_if_stops: "scan (step env) n s k = None \<Longrightarrow> loop env n s \<noteq> None"
  using scan_stops scan_returns_iff by blast

end

subsection \<open>Polling loops\<close>

text \<open>
  A polling loop repeats its attempt until one decides: \<open>attempt n\<close> is the result the \<open>n\<close>-th round returns,
  \<open>None\<close> if it goes round again.
\<close>

locale polling_loop =
  fixes loop :: "'env \<Rightarrow> nat \<Rightarrow> 'r option" and attempt :: "'env \<Rightarrow> nat \<Rightarrow> 'r option"
  assumes unroll: "loop env n = (case attempt env n of Some r \<Rightarrow> Some r | None \<Rightarrow> loop env (Suc n))"
    and decided: "loop env n = Some r \<Longrightarrow> \<exists>m\<ge>n. attempt env m \<noteq> None"
begin

lemma skip_rounds: "(\<And>k. n \<le> k \<Longrightarrow> k < n + d \<Longrightarrow> attempt env k = None) \<Longrightarrow> loop env n = loop env (n + d)"
proof (induction d)
  case (Suc d)
  have "loop env n = loop env (n + d)" by (rule Suc.IH) (simp add: Suc.prems)
  also have "\<dots> = loop env (n + Suc d)" using Suc.prems [of "n + d"] unroll [of env "n + d"] by simp
  finally show ?case .
qed simp

lemma returns_first:
  assumes "n \<le> m" "attempt env m = Some r" "\<And>k. n \<le> k \<Longrightarrow> k < m \<Longrightarrow> attempt env k = None"
  shows "loop env n = Some r"
  using skip_rounds [of n "m - n" env] assms unroll [of env m] by simp

lemma returns_iff:
  "loop env 0 = Some r \<longleftrightarrow> (\<exists>m. attempt env m = Some r \<and> (\<forall>k<m. attempt env k = None))"
proof
  assume l: "loop env 0 = Some r"
  define m where "m = (LEAST m. attempt env m \<noteq> None)"
  from decided [OF l] have m: "attempt env m \<noteq> None" unfolding m_def by (auto intro: LeastI)
  have before: "attempt env k = None" if "k < m" for k
    using that not_less_Least unfolding m_def by blast
  from m obtain r' where r': "attempt env m = Some r'" by blast
  from returns_first [of 0 m env r'] r' before l have "r' = r" by simp
  with r' before show "\<exists>m. attempt env m = Some r \<and> (\<forall>k<m. attempt env k = None)" by blast
qed (auto intro: returns_first)

lemma returns_if_decided:
  assumes "attempt env m \<noteq> None"
  shows "loop env 0 \<noteq> None"
proof -
  define l where "l = (LEAST m. attempt env m \<noteq> None)"
  have "attempt env l \<noteq> None" unfolding l_def by (rule LeastI) (rule assms)
  moreover have "\<forall>k<l. attempt env k = None" unfolding l_def using not_less_Least by blast
  ultimately show ?thesis using returns_iff by blast
qed

end

text \<open>A polling loop is a scanning loop without a state.\<close>

sublocale polling_loop \<subseteq> as_scan: scanning_loop "\<lambda>env n (_ :: unit). loop env n"
  "\<lambda>env n _. case attempt env n of None \<Rightarrow> Inl () | Some r \<Rightarrow> Inr r"
proof
  show "loop env n = (case (case attempt env n of None \<Rightarrow> Inl () | Some r \<Rightarrow> Inr r) of
      Inr r \<Rightarrow> Some r | Inl s' \<Rightarrow> loop env (Suc n))" for env n
    by (subst unroll) (simp split: option.splits)
next
  fix env n r and s :: unit
  assume "loop env n = Some r"
  from decided [OF this] obtain m where "n \<le> m" "attempt env m \<noteq> None" by blast
  then obtain r' where m: "attempt env (n + (m - n)) = Some r'" by auto
  let ?step = "\<lambda>n (_ :: unit). case attempt env n of None \<Rightarrow> Inl () | Some r \<Rightarrow> Inr r"
  have "scan ?step n s (Suc (m - n)) = None"
    by (simp only: scan_snoc) (use m in \<open>simp split: option.splits\<close>)
  then show "\<exists>k. scan ?step n s (Suc k) = None" by blast
qed

end
