(* ===== verification/Shutdown.thy ===== *)
theory Shutdown
  imports GoHttp Loops
begin

text \<open>
  \<^verbatim>\<open>shutdown.go\<close>: serving until a context is cancelled, making servers, and waiting for servers and URLs.

  \<open>serveWithShutdown\<close> runs the server in a goroutine and selects between its result and the context; it
  is a step relation over the two goroutines, the channel between them, the context and the grace period.
  A \<open>select\<close> with several ready cases may take any. The polling loops of \<open>ping\<close> and \<open>pingURL\<close> may run
  forever: they are partial functions, \<open>None\<close> being no return, over the outcome of each attempt and of
  each wait. Logging is left out.
\<close>

subsection \<open>Serving with shutdown\<close>

datatype serve_err = ErrServerClosed | CtxCanceled | DeadlineExceeded | OtherErr string

text \<open>
  The main goroutine: at the first select, in \<open>srv.Shutdown\<close>, at the second select, or returned with an
  error (\<open>None\<close> is nil).
\<close>

datatype pc = FirstSelect | InShutdown | SecondSelect | Returned "serve_err option"

record serve_state =
  sv_pc :: pc
  sv_running :: bool \<comment> \<open>the server goroutine has not finished\<close>
  sv_chan :: "serve_err option option" \<comment> \<open>the buffered value of serveErrCh\<close>
  sv_cancelled :: bool \<comment> \<open>ctx.Done is closed\<close>
  sv_graceOver :: bool \<comment> \<open>the shutdown context is done\<close>

definition serve_init :: "bool \<Rightarrow> serve_state" where
  "serve_init cancelled = \<lparr>sv_pc = FirstSelect, sv_running = True, sv_chan = None, sv_cancelled = cancelled, sv_graceOver = False\<rparr>"

text \<open>The value the server goroutine sends: errors other than \<open>http.ErrServerClosed\<close>.\<close>

definition serve_result :: "serve_err option \<Rightarrow> serve_err option" where
  "serve_result e = (if e \<noteq> None \<and> e \<noteq> Some ErrServerClosed then e else None)"

text \<open>
  Steps of the surroundings: the server function returns (\<open>http.ErrServerClosed\<close> only once shutdown has
  begun, as \<open>net/http\<close> documents), the context is cancelled, the grace period ends.
\<close>

inductive env_step :: "serve_state \<Rightarrow> serve_state \<Rightarrow> bool" where
  serve_returns: "sv_running s \<Longrightarrow> e = Some ErrServerClosed \<longrightarrow> sv_pc s \<noteq> FirstSelect \<Longrightarrow>
     env_step s (s\<lparr>sv_running := False, sv_chan := Some (serve_result e)\<rparr>)"
| ctx_cancelled: "env_step s (s\<lparr>sv_cancelled := True\<rparr>)"
| grace_ends: "sv_pc s \<noteq> FirstSelect \<Longrightarrow> env_step s (s\<lparr>sv_graceOver := True\<rparr>)"

text \<open>
  Steps of the main goroutine, in program order. \<open>srv.Shutdown\<close> returns nil, the context's error or an
  error of closing the listeners, never \<open>http.ErrServerClosed\<close>; \<open>context.Canceled\<close> is ignored. Errors
  stand for what \<open>errors.Is\<close> sees, so that the wrapping text is left out.
\<close>

inductive serveWithShutdown :: "serve_state \<Rightarrow> serve_state \<Rightarrow> bool" where
  first_result: "sv_pc s = FirstSelect \<Longrightarrow> sv_chan s = Some r \<Longrightarrow>
     serveWithShutdown s (s\<lparr>sv_pc := Returned r, sv_chan := None\<rparr>)"
| first_cancelled: "sv_pc s = FirstSelect \<Longrightarrow> sv_cancelled s \<Longrightarrow> serveWithShutdown s (s\<lparr>sv_pc := InShutdown\<rparr>)"
| shutdown_failed: "sv_pc s = InShutdown \<Longrightarrow> e \<noteq> CtxCanceled \<Longrightarrow> e \<noteq> ErrServerClosed \<Longrightarrow>
     serveWithShutdown s (s\<lparr>sv_pc := Returned (Some e)\<rparr>)"
| shutdown_ok: "sv_pc s = InShutdown \<Longrightarrow> serveWithShutdown s (s\<lparr>sv_pc := SecondSelect\<rparr>)"
| second_result: "sv_pc s = SecondSelect \<Longrightarrow> sv_chan s = Some r \<Longrightarrow>
     serveWithShutdown s (s\<lparr>sv_pc := Returned (if r = Some CtxCanceled then None else r), sv_chan := None\<rparr>)"
| second_timeout: "sv_pc s = SecondSelect \<Longrightarrow> sv_graceOver s \<Longrightarrow>
     serveWithShutdown s (s\<lparr>sv_pc := Returned (Some DeadlineExceeded)\<rparr>)"

inductive_cases env_stepE: "env_step s t"
inductive_cases serveWithShutdownE: "serveWithShutdown s t"

definition serve_step :: "serve_state \<Rightarrow> serve_state \<Rightarrow> bool" where
  "serve_step s t \<longleftrightarrow> env_step s t \<or> serveWithShutdown s t"

inductive serve_reachable :: "bool \<Rightarrow> serve_state \<Rightarrow> bool" for c where
  reach_init: "serve_reachable c (serve_init c)"
| reach_step: "serve_reachable c s \<Longrightarrow> serve_step s t \<Longrightarrow> serve_reachable c t"

subsection \<open>Making servers\<close>

record ('h, 't, 'c) http_Server =
  hs_Addr :: string
  hs_Handler :: 'h
  hs_ReadHeaderTimeout :: int
  hs_TLSConfig :: "'t option"
  hs_BaseContext :: "'c option" \<comment> \<open>the context the function returns; None: a nil function\<close>

definition NewHTTPServerOnly :: "'c \<Rightarrow> string \<Rightarrow> 'h \<Rightarrow> ('h, 't, 'c) http_Server" where
  "NewHTTPServerOnly ctx addr handler =
     \<lparr>hs_Addr = addr, hs_Handler = handler, hs_ReadHeaderTimeout = 60 * 1000000000, hs_TLSConfig = None,
      hs_BaseContext = Some ctx\<rparr>"

definition NewTLSServerOnly :: "'c \<Rightarrow> string \<Rightarrow> 'h \<Rightarrow> 't option \<Rightarrow> ('h, 't, 'c) http_Server" where
  "NewTLSServerOnly ctx addr handler cfg = (NewHTTPServerOnly ctx addr handler)\<lparr>hs_TLSConfig := cfg\<rparr>"

datatype server_error = BadAddress | ListenFailed | NoTLSConfig

text \<open>\<open>parse\<close> and \<open>serverAddr\<close> are \<open>netutil.ParseAddrDefaultPort\<close> and \<open>netutil.HTTPServerAddr\<close>; \<open>listen\<close> is \<open>net.Listen\<close>.\<close>

definition newServer ::
    "(string \<Rightarrow> string \<Rightarrow> 'ap option) \<Rightarrow> ('ap \<Rightarrow> string) \<Rightarrow> (string \<Rightarrow> 'ln option) \<Rightarrow> 'c \<Rightarrow> string \<Rightarrow> string \<Rightarrow> 'h \<Rightarrow>
       't option \<Rightarrow> (server_error, 'ln \<times> ('h, 't, 'c) http_Server) result" where
  "newServer parse serverAddr listen ctx addr port handler cfg =
     (case parse addr port of
        None \<Rightarrow> Inl BadAddress
      | Some ap \<Rightarrow>
          (case listen (serverAddr ap) of
             None \<Rightarrow> Inl ListenFailed
           | Some ln \<Rightarrow>
               if cfg = None then Inr (ln, NewHTTPServerOnly ctx addr handler)
               else Inr (ln, NewTLSServerOnly ctx addr handler cfg)))"

definition NewHTTPServer ::
    "(string \<Rightarrow> string \<Rightarrow> 'ap option) \<Rightarrow> ('ap \<Rightarrow> string) \<Rightarrow> (string \<Rightarrow> 'ln option) \<Rightarrow> 'c \<Rightarrow> string \<Rightarrow> 'h \<Rightarrow>
       (server_error, 'ln \<times> ('h, 't, 'c) http_Server) result" where
  "NewHTTPServer parse serverAddr listen ctx addr handler = newServer parse serverAddr listen ctx addr ''http'' handler None"

definition NewTLSServer ::
    "(string \<Rightarrow> string \<Rightarrow> 'ap option) \<Rightarrow> ('ap \<Rightarrow> string) \<Rightarrow> (string \<Rightarrow> 'ln option) \<Rightarrow> 'c \<Rightarrow> string \<Rightarrow> 'h \<Rightarrow> 't option \<Rightarrow>
       (server_error, 'ln \<times> ('h, 't, 'c) http_Server) result" where
  "NewTLSServer parse serverAddr listen ctx addr handler cfg = newServer parse serverAddr listen ctx addr ''https'' handler cfg"

text \<open>
  The entry points: the base context defaults to \<open>ctx\<close>, TLS needs a configuration, and the run starts in
  \<open>serve_init\<close>; \<open>done ctx\<close> says whether \<open>ctx\<close> is already cancelled.
\<close>

definition ServeWithShutdown ::
    "('c \<Rightarrow> bool) \<Rightarrow> 'c \<Rightarrow> ('h, 't, 'c) http_Server \<Rightarrow> (server_error, ('h, 't, 'c) http_Server \<times> serve_state) result" where
  "ServeWithShutdown is_done ctx srv =
     Inr (if hs_BaseContext srv = None then srv\<lparr>hs_BaseContext := Some ctx\<rparr> else srv, serve_init (is_done ctx))"

definition ServeTLSWithShutdown ::
    "('c \<Rightarrow> bool) \<Rightarrow> 'c \<Rightarrow> ('h, 't, 'c) http_Server \<Rightarrow> (server_error, ('h, 't, 'c) http_Server \<times> serve_state) result" where
  "ServeTLSWithShutdown is_done ctx srv =
     (if hs_TLSConfig srv = None then Inl NoTLSConfig else ServeWithShutdown is_done ctx srv)"

subsection \<open>Waiting\<close>

datatype wait_error = WaitCanceled | WaitDeadline | BadRequestURL | DialError

text \<open>
  The surroundings of one waiting loop, attempt by attempt: the outcome of dialling (\<open>None\<close>: connected), or
  of the HTTP request (the status, or an error), and whether the wait ends by the tick (\<open>None\<close>) or by the
  context's error.
\<close>

record wait_env =
  we_dial :: "nat \<Rightarrow> wait_error option"
  we_get :: "nat \<Rightarrow> (wait_error, int) result"
  we_url_ok :: bool \<comment> \<open>http.NewRequestWithContext accepts the URL\<close>
  we_wait :: "nat \<Rightarrow> wait_error option"

partial_function (option) ping :: "wait_env \<Rightarrow> nat \<Rightarrow> (wait_error, unit) result option" where
  "ping env n =
     (case we_dial env n of
        None \<Rightarrow> Some (Inr ())
      | Some err \<Rightarrow>
          if err = WaitCanceled then Some (Inl err)
          else case we_wait env n of
                 Some e \<Rightarrow> Some (Inl e)
               | None \<Rightarrow> ping env (Suc n))"

partial_function (option) pingURL :: "wait_env \<Rightarrow> nat \<Rightarrow> (wait_error, unit) result option" where
  "pingURL env n =
     (if \<not> we_url_ok env then Some (Inl BadRequestURL)
      else if (case we_get env n of Inr code \<Rightarrow> 200 \<le> code \<and> code < 400 | Inl _ \<Rightarrow> False) then Some (Inr ())
      else if we_get env n = Inl WaitCanceled then Some (Inl WaitCanceled)
      else case we_wait env n of
             Some e \<Rightarrow> Some (Inl e)
           | None \<Rightarrow> pingURL env (Suc n))"

text \<open>
  \<open>grp\<close> is \<open>g.Wait\<close> of \<^verbatim>\<open>cloudeng.io/sync/errgroup\<close> on the goroutines it started: it waits for all of
  them and returns nil exactly if all returned nil. The surroundings of each goroutine include the
  cancellation of the group's context.
\<close>

type_synonym wait_result = "(wait_error, unit) result option"

definition errgroup_laws :: "(wait_result list \<Rightarrow> wait_result) \<Rightarrow> bool" where
  "errgroup_laws grp \<longleftrightarrow>
     (\<forall>rs. grp rs = Some (Inr ()) \<longleftrightarrow> list_all (\<lambda>r. r = Some (Inr ())) rs) \<and>
     (\<forall>rs. grp rs = None \<longleftrightarrow> None \<in> set rs)"

definition WaitForServers ::
    "(wait_result list \<Rightarrow> wait_result) \<Rightarrow> (string \<Rightarrow> wait_env) \<Rightarrow> string list \<Rightarrow> wait_result" where
  "WaitForServers grp env addrs =
     (case addrs of
        [] \<Rightarrow> Some (Inr ())
      | [a] \<Rightarrow> ping (env a) 0
      | _ \<Rightarrow> grp (map (\<lambda>a. ping (env a) 0) addrs))"

definition WaitForURLs ::
    "(wait_result list \<Rightarrow> wait_result) \<Rightarrow> (string \<Rightarrow> wait_env) \<Rightarrow> string list \<Rightarrow> wait_result" where
  "WaitForURLs grp env urls =
     (case urls of
        [] \<Rightarrow> Some (Inr ())
      | [u] \<Rightarrow> pingURL (env u) 0
      | _ \<Rightarrow> grp (map (\<lambda>u. pingURL (env u) 0) urls))"

subsection \<open>Facts about the server loop\<close>

text \<open>
  The invariant of a run: as long as the server goroutine runs, the channel is empty and the main goroutine
  has returned only with an error and after cancellation; past the first select the context is cancelled;
  and the channel never carries \<open>http.ErrServerClosed\<close>.
\<close>

definition serve_inv :: "serve_state \<Rightarrow> bool" where
  "serve_inv s \<longleftrightarrow>
     (sv_running s \<longrightarrow> sv_chan s = None) \<and>
     sv_chan s \<noteq> Some (Some ErrServerClosed) \<and>
     (sv_pc s \<in> {InShutdown, SecondSelect} \<longrightarrow> sv_cancelled s) \<and>
     (sv_pc s \<in> {FirstSelect, InShutdown, SecondSelect} \<longrightarrow> sv_running s \<or> sv_chan s \<noteq> None) \<and>
     (\<forall>r. sv_pc s = Returned r \<longrightarrow>
        r \<noteq> Some ErrServerClosed \<and> (sv_running s \<longrightarrow> sv_cancelled s \<and> r \<noteq> None))"

lemma serve_inv_env_step: "env_step s t \<Longrightarrow> serve_inv s \<Longrightarrow> serve_inv t"
  by (erule env_stepE) (auto simp: serve_inv_def serve_result_def)

lemma serve_inv_main_step: "serveWithShutdown s t \<Longrightarrow> serve_inv s \<Longrightarrow> serve_inv t"
  by (erule serveWithShutdownE) (auto simp: serve_inv_def)

lemma serve_reachable_inv: "serve_reachable c s \<Longrightarrow> serve_inv s"
proof (induction rule: serve_reachable.induct)
  case reach_init
  show ?case by (simp add: serve_inv_def serve_init_def)
next
  case (reach_step s t)
  then show ?case using serve_inv_env_step serve_inv_main_step by (auto simp: serve_step_def)
qed

text \<open>How far the main goroutine is from its return; each of its steps lowers it.\<close>

primrec pc_rank :: "pc \<Rightarrow> nat" where
  "pc_rank FirstSelect = 3"
| "pc_rank InShutdown = 2"
| "pc_rank SecondSelect = 1"
| "pc_rank (Returned r) = 0"

lemma main_step_rank: "serveWithShutdown s t \<Longrightarrow> pc_rank (sv_pc t) < pc_rank (sv_pc s)"
  by (erule serveWithShutdownE) auto

lemma env_step_rank: "env_step s t \<Longrightarrow> sv_pc t = sv_pc s"
  by (erule env_stepE) auto

text \<open>Once the context is cancelled and the grace period over, or the server has ended, a step is possible.\<close>

lemma main_step_enabled:
  assumes inv: "serve_inv s" and ready: "sv_cancelled s \<and> sv_graceOver s \<or> \<not> sv_running s"
    and pc: "0 < pc_rank (sv_pc s)"
  shows "\<exists>t. serveWithShutdown s t"
proof (cases "sv_pc s")
  case FirstSelect
  with inv ready show ?thesis
    by (auto simp: serve_inv_def intro: serveWithShutdown.first_result serveWithShutdown.first_cancelled)
next
  case SecondSelect
  with inv ready show ?thesis
    by (auto simp: serve_inv_def intro: serveWithShutdown.second_result serveWithShutdown.second_timeout)
qed (use pc in \<open>auto intro: serveWithShutdown.shutdown_ok\<close>)

lemma serve_run_reachable:
  "rtranclp serve_step s t \<Longrightarrow> serve_reachable c s \<Longrightarrow> serve_reachable c t"
  by (induction rule: rtranclp_induct) (auto intro: serve_reachable.reach_step)

definition serve_ready :: "serve_state \<Rightarrow> bool" where
  "serve_ready s \<longleftrightarrow> sv_cancelled s \<and> sv_graceOver s \<or> \<not> sv_running s"

lemma serve_ready_stable: "serve_step s t \<Longrightarrow> serve_ready s \<Longrightarrow> serve_ready t"
  unfolding serve_step_def by (auto simp: serve_ready_def elim!: env_stepE serveWithShutdownE)

text \<open>
  C19. Serving with shutdown is safe: in every state a run can reach, a return with nil means that the server
  has stopped, a return while it still serves happens only after cancellation and with an error, and
  \<open>http.ErrServerClosed\<close>, the sign of an orderly stop, is never reported.
\<close>

theorem serveWithShutdown_returns:
  assumes "serve_reachable c s" and "sv_pc s = Returned r"
  shows "r \<noteq> Some ErrServerClosed \<and> (r = None \<longrightarrow> \<not> sv_running s) \<and> (sv_running s \<longrightarrow> sv_cancelled s)"
  using serve_reachable_inv [OF assms(1)] assms(2) by (auto simp: serve_inv_def)

text \<open>A run that is cancelled, shuts down and finds that the server stopped in time.\<close>

definition orderly_end :: serve_state where
  "orderly_end = \<lparr>sv_pc = Returned None, sv_running = False, sv_chan = None, sv_cancelled = True, sv_graceOver = False\<rparr>"

lemma orderly_end_reachable: "serve_reachable False orderly_end"
proof -
  let ?s = "\<lambda>p r ch cn. \<lparr>sv_pc = p, sv_running = r, sv_chan = ch, sv_cancelled = cn, sv_graceOver = False\<rparr>"
  have "serve_reachable False (?s FirstSelect True None False)"
    using serve_reachable.reach_init [of False] by (simp add: serve_init_def)
  then have "serve_reachable False (?s FirstSelect True None True)"
    by (rule reach_step) (use env_step.ctx_cancelled [of "?s FirstSelect True None False"] in \<open>simp add: serve_step_def\<close>)
  then have "serve_reachable False (?s InShutdown True None True)"
    by (rule reach_step) (use serveWithShutdown.first_cancelled [of "?s FirstSelect True None True"] in \<open>simp add: serve_step_def\<close>)
  then have "serve_reachable False (?s InShutdown False (Some None) True)"
    by (rule reach_step) (use env_step.serve_returns [of "?s InShutdown True None True" "Some ErrServerClosed"]
        in \<open>simp add: serve_step_def serve_result_def\<close>)
  then have "serve_reachable False (?s SecondSelect False (Some None) True)"
    by (rule reach_step) (use serveWithShutdown.shutdown_ok [of "?s InShutdown False (Some None) True"] in \<open>simp add: serve_step_def\<close>)
  then show ?thesis
    by (rule reach_step) (use serveWithShutdown.second_result [of "?s SecondSelect False (Some None) True" None]
        in \<open>simp add: serve_step_def orderly_end_def\<close>)
qed

theorem serveWithShutdown_returns_witness: "\<not> sv_running orderly_end"
  using serveWithShutdown_returns [OF orderly_end_reachable, of None] by (simp add: orderly_end_def)


lemma serve_stopped_reachable:
  "serve_reachable False ((serve_init False)\<lparr>sv_running := False, sv_chan := Some (serve_result e)\<rparr>)"
  if "e \<noteq> Some ErrServerClosed"
  using reach_step [OF reach_init [of False]] serve_returns [of "serve_init False" e] that
  by (auto simp: serve_step_def serve_init_def)


subsection \<open>Facts about the waiting loops\<close>

definition ping_attempt :: "wait_env \<Rightarrow> nat \<Rightarrow> wait_result" where
  "ping_attempt env n =
     (case we_dial env n of
        None \<Rightarrow> Some (Inr ())
      | Some err \<Rightarrow> if err = WaitCanceled then Some (Inl err) else map_option Inl (we_wait env n))"

definition url_available :: "wait_env \<Rightarrow> nat \<Rightarrow> bool" where
  "url_available env n = (case we_get env n of Inr code \<Rightarrow> 200 \<le> code \<and> code < 400 | Inl _ \<Rightarrow> False)"

definition url_attempt :: "wait_env \<Rightarrow> nat \<Rightarrow> wait_result" where
  "url_attempt env n =
     (if \<not> we_url_ok env then Some (Inl BadRequestURL)
      else if url_available env n then Some (Inr ())
      else if we_get env n = Inl WaitCanceled then Some (Inl WaitCanceled)
      else map_option Inl (we_wait env n))"

lemma ping_unroll: "ping env n = (case ping_attempt env n of Some r \<Rightarrow> Some r | None \<Rightarrow> ping env (Suc n))"
  by (subst ping.simps) (auto simp: ping_attempt_def split: option.splits)

lemma pingURL_unroll: "pingURL env n = (case url_attempt env n of Some r \<Rightarrow> Some r | None \<Rightarrow> pingURL env (Suc n))"
  by (subst pingURL.simps) (auto simp: url_attempt_def url_available_def split: option.splits)

lemma ping_decided: "ping env n = Some r \<Longrightarrow> \<exists>m\<ge>n. ping_attempt env m \<noteq> None"
proof (rule ping.raw_induct [where P = "\<lambda>env n r. \<exists>m\<ge>n. ping_attempt env m \<noteq> None"])
  fix loop :: "wait_env \<Rightarrow> nat \<Rightarrow> wait_result" and env n r
  assume IH: "\<And>env n r. loop env n = Some r \<Longrightarrow> \<exists>m\<ge>n. ping_attempt env m \<noteq> None"
    and round: "(case we_dial env n of None \<Rightarrow> Some (Inr ())
      | Some err \<Rightarrow> if err = WaitCanceled then Some (Inl err)
          else case we_wait env n of Some e \<Rightarrow> Some (Inl e) | None \<Rightarrow> loop env (Suc n)) = Some r"
  show "\<exists>m\<ge>n. ping_attempt env m \<noteq> None"
  proof (cases "ping_attempt env n")
    case None
    with round have "loop env (Suc n) = Some r"
      by (auto simp: ping_attempt_def split: option.splits if_splits)
    from IH [OF this] show ?thesis using Suc_leD by blast
  qed auto
qed

lemma pingURL_decided: "pingURL env n = Some r \<Longrightarrow> \<exists>m\<ge>n. url_attempt env m \<noteq> None"
proof (rule pingURL.raw_induct [where P = "\<lambda>env n r. \<exists>m\<ge>n. url_attempt env m \<noteq> None"])
  fix loop :: "wait_env \<Rightarrow> nat \<Rightarrow> wait_result" and env n r
  assume IH: "\<And>env n r. loop env n = Some r \<Longrightarrow> \<exists>m\<ge>n. url_attempt env m \<noteq> None"
    and round: "(if \<not> we_url_ok env then Some (Inl BadRequestURL)
      else if (case we_get env n of Inr code \<Rightarrow> 200 \<le> code \<and> code < 400 | Inl _ \<Rightarrow> False) then Some (Inr ())
      else if we_get env n = Inl WaitCanceled then Some (Inl WaitCanceled)
      else case we_wait env n of Some e \<Rightarrow> Some (Inl e) | None \<Rightarrow> loop env (Suc n)) = Some r"
  show "\<exists>m\<ge>n. url_attempt env m \<noteq> None"
  proof (cases "url_attempt env n")
    case None
    with round have "loop env (Suc n) = Some r"
      by (auto simp: url_attempt_def url_available_def split: option.splits if_splits)
    from IH [OF this] show ?thesis using Suc_leD by blast
  qed auto
qed

interpretation server_poll: polling_loop ping ping_attempt
  by unfold_locales (rule ping_unroll, rule ping_decided)

interpretation url_poll: polling_loop pingURL url_attempt
  by unfold_locales (rule pingURL_unroll, rule pingURL_decided)

text \<open>Both waits start their goroutines alike, with no group for a single target.\<close>

definition wait_all :: "(wait_result list \<Rightarrow> wait_result) \<Rightarrow> (string \<Rightarrow> wait_result) \<Rightarrow> string list \<Rightarrow> wait_result" where
  "wait_all grp f xs = (case xs of [] \<Rightarrow> Some (Inr ()) | [a] \<Rightarrow> f a | _ \<Rightarrow> grp (map f xs))"

lemma Wait_eq_wait_all:
  "WaitForServers grp env xs = wait_all grp (\<lambda>a. ping (env a) 0) xs"
  "WaitForURLs grp env xs = wait_all grp (\<lambda>u. pingURL (env u) 0) xs"
  by (simp_all add: WaitForServers_def WaitForURLs_def wait_all_def)

lemma wait_all_ok:
  assumes "errgroup_laws grp"
  shows "wait_all grp f xs = Some (Inr ()) \<longleftrightarrow> (\<forall>a\<in>set xs. f a = Some (Inr ()))"
proof -
  have "\<And>rs. grp rs = Some (Inr ()) \<longleftrightarrow> list_all (\<lambda>r. r = Some (Inr ())) rs"
    using assms by (simp add: errgroup_laws_def)
  then show ?thesis by (simp add: wait_all_def list_all_iff split: list.splits)
qed

lemma wait_all_returns:
  assumes "errgroup_laws grp" and "\<And>a. a \<in> set xs \<Longrightarrow> f a \<noteq> None"
  shows "wait_all grp f xs \<noteq> None"
proof -
  have "\<And>rs. grp rs = None \<longleftrightarrow> None \<in> set rs" using assms(1) by (simp add: errgroup_laws_def)
  moreover have "None \<notin> set (map f xs)" using assms(2) by fastforce
  ultimately have "grp (map f xs) \<noteq> None" by blast
  with assms(2) show ?thesis by (auto simp: wait_all_def split: list.splits)
qed

lemma ping_attempt_ok: "ping_attempt env n = Some (Inr ()) \<longleftrightarrow> we_dial env n = None"
  by (auto simp: ping_attempt_def split: option.splits if_splits)

lemma url_attempt_ok: "url_attempt env n = Some (Inr ()) \<longleftrightarrow> we_url_ok env \<and> url_available env n"
  by (auto simp: url_attempt_def split: if_splits)

lemma attempts_end:
  "we_wait env n \<noteq> None \<Longrightarrow> ping_attempt env n \<noteq> None"
  "we_wait env n \<noteq> None \<Longrightarrow> url_attempt env n \<noteq> None"
  by (auto simp: ping_attempt_def url_attempt_def split: option.splits)

text \<open>
  \<open>WaitForServers\<close> returns nil exactly if for every address some dial succeeds and no round before it
  ended the wait; and if the context of every wait ends at some round, it returns.
\<close>

theorem WaitForServers_spec:
  assumes "errgroup_laws grp"
  shows "(WaitForServers grp env addrs = Some (Inr ()) \<longleftrightarrow>
      (\<forall>a\<in>set addrs. \<exists>m. we_dial (env a) m = None \<and> (\<forall>k<m. ping_attempt (env a) k = None))) \<and>
    ((\<forall>a\<in>set addrs. \<exists>k. we_wait (env a) k \<noteq> None) \<longrightarrow> WaitForServers grp env addrs \<noteq> None)"
proof -
  have ok: "ping e 0 = Some (Inr ()) \<longleftrightarrow> (\<exists>m. we_dial e m = None \<and> (\<forall>k<m. ping_attempt e k = None))" for e
    by (simp add: server_poll.returns_iff ping_attempt_ok)
  have ret: "we_wait e k \<noteq> None \<Longrightarrow> ping e 0 \<noteq> None" for e k
    using server_poll.returns_if_decided attempts_end(1) by blast
  have "wait_all grp (\<lambda>a. ping (env a) 0) addrs \<noteq> None" if ends: "\<forall>a\<in>set addrs. \<exists>k. we_wait (env a) k \<noteq> None"
  proof (rule wait_all_returns [OF assms])
    fix a assume "a \<in> set addrs"
    with ends ret show "ping (env a) 0 \<noteq> None" by blast
  qed
  then show ?thesis unfolding Wait_eq_wait_all wait_all_ok [OF assms] ok by blast
qed

text \<open>
  \<open>WaitForURLs\<close> returns nil exactly if every URL is well-formed and some request to it is answered with
  a status from 200 to 399, no round before having ended the wait; and it returns if every context ends.
\<close>

theorem WaitForURLs_spec:
  assumes "errgroup_laws grp"
  shows "(WaitForURLs grp env urls = Some (Inr ()) \<longleftrightarrow>
      (\<forall>u\<in>set urls. we_url_ok (env u) \<and> (\<exists>m. url_available (env u) m \<and> (\<forall>k<m. url_attempt (env u) k = None)))) \<and>
    ((\<forall>u\<in>set urls. \<exists>k. we_wait (env u) k \<noteq> None) \<longrightarrow> WaitForURLs grp env urls \<noteq> None)"
proof -
  have ok: "pingURL e 0 = Some (Inr ()) \<longleftrightarrow>
      we_url_ok e \<and> (\<exists>m. url_available e m \<and> (\<forall>k<m. url_attempt e k = None))" for e
    by (auto simp: url_poll.returns_iff url_attempt_ok)
  have ret: "we_wait e k \<noteq> None \<Longrightarrow> pingURL e 0 \<noteq> None" for e k
    using url_poll.returns_if_decided attempts_end(2) by blast
  have "wait_all grp (\<lambda>u. pingURL (env u) 0) urls \<noteq> None" if ends: "\<forall>u\<in>set urls. \<exists>k. we_wait (env u) k \<noteq> None"
  proof (rule wait_all_returns [OF assms])
    fix u assume "u \<in> set urls"
    with ends ret show "pingURL (env u) 0 \<noteq> None" by blast
  qed
  then show ?thesis unfolding Wait_eq_wait_all wait_all_ok [OF assms] ok by blast
qed

definition first_error_group :: "wait_result list \<Rightarrow> wait_result" where
  "first_error_group rs =
     (if None \<in> set rs then None
      else case filter (\<lambda>r. r \<noteq> Some (Inr ())) rs of [] \<Rightarrow> Some (Inr ()) | r # _ \<Rightarrow> r)"

lemma first_error_group_laws: "errgroup_laws first_error_group"
proof -
  have member: "filter P rs = r # rs' \<Longrightarrow> r \<in> set rs \<and> P r" for P :: "wait_result \<Rightarrow> bool" and rs r rs'
    using filter_eq_ConsD by fastforce
  show ?thesis
    unfolding errgroup_laws_def first_error_group_def list_all_iff
    by (auto simp: filter_empty_conv split: list.splits dest!: member) (metis not_Some_eq)
qed

text \<open>A server that refuses the first dial and accepts the second one.\<close>

definition second_try :: wait_env where
  "second_try = \<lparr>we_dial = (\<lambda>n. if n = 0 then Some DialError else None),
     we_get = (\<lambda>n. if n = 0 then Inr 503 else Inr 200), we_url_ok = True, we_wait = (\<lambda>_. None)\<rparr>"

theorem WaitForServers_spec_witness:
  "WaitForServers first_error_group (\<lambda>_. second_try) [''a'', ''b''] = Some (Inr ())"
proof -
  have "\<exists>m. we_dial second_try m = None \<and> (\<forall>k<m. ping_attempt second_try k = None)"
    by (intro exI [of _ 1]) (simp add: second_try_def ping_attempt_def)
  then show ?thesis
    using WaitForServers_spec [OF first_error_group_laws, of "\<lambda>_. second_try" "[''a'', ''b'']"] by blast
qed

theorem WaitForURLs_spec_witness:
  "WaitForURLs first_error_group (\<lambda>_. second_try) [''u'', ''v''] = Some (Inr ())"
proof -
  have "we_url_ok second_try \<and> (\<exists>m. url_available second_try m \<and> (\<forall>k<m. url_attempt second_try k = None))"
    by (intro conjI exI [of _ 1]) (simp_all add: second_try_def url_attempt_def url_available_def)
  then show ?thesis
    using WaitForURLs_spec [OF first_error_group_laws, of "\<lambda>_. second_try" "[''u'', ''v'']"] by blast
qed

end
