(* ===== verification/Redirect.thy ===== *)
theory Redirect
  imports GoUrl Shutdown GoPath
begin

text \<open>
  \<^verbatim>\<open>redirect.go\<close>: redirect handlers, the ACME HTTP-01 and https redirects and the port 80 server. A request
  here carries its whole URL. Logging is left out.
\<close>

record url_request = request +
  rq_URL :: URL

type_synonym RedirectTarget = "url_request \<Rightarrow> string \<times> int"

record Redirect =
  rd_Description :: string
  rd_Target :: RedirectTarget
  rd_Log :: bool

subsection \<open>http.Redirect\<close>

text \<open>\<open>hexEscapeNonASCII\<close> and \<open>htmlReplacer\<close>.\<close>

definition hexEscapeNonASCII :: "string \<Rightarrow> string" where
  "hexEscapeNonASCII s =
     concat (map (\<lambda>c. if (of_char c :: nat) \<ge> 128
                      then [CHR ''%'', digit_lower (of_char c div 16), digit_lower (of_char c mod 16)] else [c]) s)"

definition htmlEscape :: "string \<Rightarrow> string" where
  "htmlEscape s =
     concat (map (\<lambda>c. if c = CHR ''&'' then ''&amp;'' else if c = CHR ''<'' then ''&lt;''
                      else if c = CHR ''>'' then ''&gt;'' else if c = CHR 0x22 then ''&#34;''
                      else if c = CHR 0x27 then ''&#39;'' else [c]) s)"

text \<open>
  The target of a redirect: one that parses with neither a scheme nor a host is taken relative to the
  request path and cleaned. \<open>parse\<close> gives the scheme and the host \<open>url.Parse\<close> finds, \<open>None\<close> if it fails.
\<close>

type_synonym url_parser = "string \<Rightarrow> (string \<times> string) option"

definition path_dir :: "string \<Rightarrow> string" where
  "path_dir p = rev (dropWhile (\<lambda>c. c \<noteq> CHR ''/'') (rev p))"

definition redirect_url :: "url_parser \<Rightarrow> string \<Rightarrow> string \<Rightarrow> string" where
  "redirect_url parse reqpath url =
     (if parse url = Some ([], []) then
        let oldpath = (if reqpath = [] then ''/'' else reqpath);
            full = (if url = [] \<or> hd url \<noteq> CHR ''/'' then path_dir oldpath @ url else url);
            (p, query) = (case strings_Index full ''?'' of None \<Rightarrow> (full, []) | Some i \<Rightarrow> (take i full, drop i full));
            cleaned = path_Clean p
        in cleaned @ (if strings_HasSuffix p ''/'' \<and> \<not> strings_HasSuffix cleaned ''/'' then ''/'' else []) @ query
      else url)"

definition http_Redirect :: "url_parser \<Rightarrow> response \<Rightarrow> url_request \<Rightarrow> string \<Rightarrow> int \<Rightarrow> response" where
  "http_Redirect parse w r target code =
     (let url = redirect_url parse (url_Path (rq_URL r)) target;
          hadCT = header_Values (rw_header w) ''Content-Type'' \<noteq> [];
          w = rw_Set w ''Location'' (hexEscapeNonASCII url);
          w = (if \<not> hadCT \<and> (req_Method r = ''GET'' \<or> req_Method r = ''HEAD'')
               then rw_Set w ''Content-Type'' ''text/html; charset=utf-8'' else w);
          w = WriteHeader w code
      in if \<not> hadCT \<and> req_Method r = ''GET''
         then Write w (''<a href='' @ [CHR 0x22] @ htmlEscape url @ [CHR 0x22] @ ''>'' @ StatusText code @ ''</a>.''
                       @ [CHR 0x0A, CHR 0x0A])
         else w)"

subsection \<open>redirect.go\<close>

definition Redirect_Handler :: "url_parser \<Rightarrow> Redirect \<Rightarrow> url_request \<Rightarrow> response \<Rightarrow> response" where
  "Redirect_Handler parse rd r w = (let (t, c) = rd_Target rd r in http_Redirect parse w r t c)"

definition challengeRewrite :: "string \<Rightarrow> url_request \<Rightarrow> string" where
  "challengeRewrite host r =
     URL_String (empty_URL\<lparr>url_Scheme := ''http'', url_Host := host, url_Path := url_Path (rq_URL r)\<rparr>)"

definition RedirectAcmeHTTP01 :: "string \<Rightarrow> Redirect" where
  "RedirectAcmeHTTP01 host =
     \<lparr>rd_Description = ''redirecting ACME HTTP-01 challenge'',
      rd_Target = (\<lambda>r. (challengeRewrite host r, StatusTemporaryRedirect)), rd_Log = True\<rparr>"

definition ACMEHTTP01Prefix :: string where
  "ACMEHTTP01Prefix = ''/.well-known/acme-challenge/''"

definition ACMEHTTP01HTTPPrefix :: string where
  "ACMEHTTP01HTTPPrefix = ACMEHTTP01Prefix"

definition ACMEHTTP01ChiPrefix :: string where
  "ACMEHTTP01ChiPrefix = ACMEHTTP01Prefix @ ''*''"

definition splitHostPort :: "string \<Rightarrow> string \<times> string" where
  "splitHostPort hostport =
     (case SplitHostPort hostport of
        Some (host, port) \<Rightarrow> (host, port)
      | None \<Rightarrow>
          if length hostport = 0 then ([], [])
          else if hd hostport = CHR ''['' \<and> last hostport = CHR '']''
          then (drop 1 (take (length hostport - 1) hostport), [])
          else (hostport, []))"

definition RedirectToHTTPSPort :: "string \<Rightarrow> Redirect" where
  "RedirectToHTTPSPort addr =
     (let (host, port) = splitHostPort addr;
          port = (if length port = 0 then ''443'' else port)
      in \<lparr>rd_Description = ''redirect to https'',
          rd_Target = (\<lambda>r.
            let h = fst (splitHostPort (req_Host r));
                h = (if length h = 0 then host else h);
                u = (rq_URL r)\<lparr>url_Host := JoinHostPort h port, url_Scheme := ''https''\<rparr>
            in (URL_String u, StatusMovedPermanently)),
          rd_Log = False\<rparr>)"

definition LiteralRedirectTarget :: "string \<Rightarrow> int \<Rightarrow> RedirectTarget" where
  "LiteralRedirectTarget to code = (\<lambda>_. (to, code))"

record Port80Redirect =
  p80_Pattern :: string
  p80_Redirect :: Redirect

text \<open>
  \<open>handle\<close> is \<open>mux.Handle\<close>; the server runs in the background, its state starting at \<open>ServeWithShutdown\<close>.
\<close>

definition RedirectPort80 ::
    "(string \<Rightarrow> string \<Rightarrow> 'ap option) \<Rightarrow> ('ap \<Rightarrow> string) \<Rightarrow> (string \<Rightarrow> 'ln option) \<Rightarrow> ('c \<Rightarrow> bool) \<Rightarrow>
       url_parser \<Rightarrow> (string \<Rightarrow> (url_request \<Rightarrow> response \<Rightarrow> response) \<Rightarrow> 'mux \<Rightarrow> 'mux) \<Rightarrow> 'mux \<Rightarrow> 'c \<Rightarrow>
       Port80Redirect list \<Rightarrow> (server_error, 'ln \<times> ('mux, 't, 'c) http_Server \<times> serve_state) result" where
  "RedirectPort80 parseAddr serverAddr listen is_done parse handle mux ctx redirects =
     (let mux = fold (\<lambda>r m. handle (p80_Pattern r) (Redirect_Handler parse (p80_Redirect r)) m) redirects mux
      in case NewHTTPServer parseAddr serverAddr listen ctx '':80'' mux of
           Inl e \<Rightarrow> Inl e
         | Inr (ln, srv) \<Rightarrow>
             (case ServeWithShutdown is_done ctx srv of
                Inl e \<Rightarrow> Inl e
              | Inr (srv, st) \<Rightarrow> Inr (ln, srv, st)))"

subsection \<open>Facts\<close>

text \<open>What the redirects rely on: \<open>url.Parse\<close> finds the scheme of an http or https URL, unless it fails.\<close>

definition absolute_parsed :: "url_parser \<Rightarrow> bool" where
  "absolute_parsed parse \<longleftrightarrow>
     (\<forall>s. prefix ''http://'' s \<or> prefix ''https://'' s \<longrightarrow> parse s \<noteq> Some ([], []))"

lemma redirect_url_absolute:
  assumes "absolute_parsed parse" and "prefix ''http://'' url \<or> prefix ''https://'' url"
  shows "redirect_url parse p url = url"
  using assms by (auto simp: absolute_parsed_def redirect_url_def)

lemma http_Redirect_sent:
  assumes "rw_commit w = None"
  shows "sent_status (http_Redirect parse w r target code) = code"
    and "header_Get (sent_header (http_Redirect parse w r target code)) ''Location'' =
      hexEscapeNonASCII (redirect_url parse (url_Path (rq_URL r)) target)"
proof -
  have keys: "CanonicalHeaderKey ''Location'' \<noteq> CanonicalHeaderKey ''Content-Type''" by code_simp
  show "sent_status (http_Redirect parse w r target code) = code"
    using assms by (simp add: http_Redirect_def Let_def sent_Write sent_WriteHeader rw_Set_def)
  show "header_Get (sent_header (http_Redirect parse w r target code)) ''Location'' =
      hexEscapeNonASCII (redirect_url parse (url_Path (rq_URL r)) target)"
    using assms keys by (simp add: http_Redirect_def Let_def sent_Write sent_WriteHeader rw_Set_def header_defs)
qed

lemma JoinHostPort_nonempty [simp]: "JoinHostPort h p \<noteq> []"
  by (simp add: JoinHostPort_def)

lemma url_parts_cong:
  "path_part (u\<lparr>url_Host := h, url_Scheme := s\<rparr>) = path_part u"
  "query_part (u\<lparr>url_Host := h, url_Scheme := s\<rparr>) = query_part u"
  by (simp_all add: path_part_def query_part_def EscapedPath_def Let_def)

definition https_host :: "string \<Rightarrow> url_request \<Rightarrow> string" where
  "https_host addr r = (let h = fst (splitHostPort (req_Host r)) in if h = [] then fst (splitHostPort addr) else h)"

definition https_port :: "string \<Rightarrow> string" where
  "https_port addr = (let p = snd (splitHostPort addr) in if p = [] then ''443'' else p)"

definition https_location :: "string \<Rightarrow> url_request \<Rightarrow> string" where
  "https_location addr r =
     ''https://'' @ url_escape encodeHost (JoinHostPort (https_host addr r) (https_port addr))
       @ path_part (rq_URL r) @ query_part (rq_URL r)"

lemma https_target:
  assumes "url_Opaque (rq_URL r) = []" "url_User (rq_URL r) = None"
  shows "rd_Target (RedirectToHTTPSPort addr) r = (https_location addr r, StatusMovedPermanently)"
  using assms
  by (simp add: RedirectToHTTPSPort_def https_location_def https_host_def https_port_def Let_def split_def
      URL_String_host url_parts_cong)

lemma acme_target:
  assumes "host \<noteq> []"
  shows "rd_Target (RedirectAcmeHTTP01 host) r =
    (''http://'' @ url_escape encodeHost host
       @ path_part (empty_URL\<lparr>url_Path := url_Path (rq_URL r)\<rparr>), StatusTemporaryRedirect)"
  using assms
  by (simp add: RedirectAcmeHTTP01_def challengeRewrite_def URL_String_host empty_URL_def path_part_def query_part_def
      EscapedPath_def)

text \<open>
  The https redirect answers 301 and sends the client to https on the host of the request (the host of
  the configured address only if the request has none) and the configured port, 443 by default, with the
  path and the query of the request; host and port can be read back from the target, and so can the path.
\<close>

theorem RedirectToHTTPSPort_location:
  assumes "absolute_parsed parse" and "rw_commit w = None"
    and "url_Opaque (rq_URL r) = []" and "url_User (rq_URL r) = None"
  shows "sent_status (Redirect_Handler parse (RedirectToHTTPSPort addr) r w) = 301 \<and>
    header_Get (sent_header (Redirect_Handler parse (RedirectToHTTPSPort addr) r w)) ''Location'' =
      hexEscapeNonASCII (https_location addr r) \<and>
    (host_ok (https_host addr r) \<and> port_ok (https_port addr) \<longrightarrow>
      SplitHostPort (JoinHostPort (https_host addr r) (https_port addr)) = Some (https_host addr r, https_port addr)) \<and>
    url_unescape (EscapedPath (rq_URL r)) = Some (url_Path (rq_URL r))"
proof -
  have "prefix ''https://'' (https_location addr r)" by (simp add: https_location_def)
  then have url: "redirect_url parse p (https_location addr r) = https_location addr r" for p
    using redirect_url_absolute [OF assms(1)] by blast
  show ?thesis
    unfolding Redirect_Handler_def https_target [OF assms(3,4)]
    using http_Redirect_sent [OF assms(2)] url SplitHostPort_Join EscapedPath_decodes
    by (simp add: StatusMovedPermanently_def)
qed

definition known_schemes :: url_parser where
  "known_schemes s =
     Some (if prefix ''https://'' s then (''https'', []) else if prefix ''http://'' s then (''http'', []) else ([], []))"

lemma known_schemes_absolute: "absolute_parsed known_schemes"
  by (auto simp: absolute_parsed_def known_schemes_def)

definition page_request :: url_request where
  "page_request = request.extend example_request \<lparr>rq_URL = empty_URL\<lparr>url_Path := ''/a b'', url_RawQuery := ''x=1''\<rparr>\<rparr>"

theorem RedirectToHTTPSPort_location_witness:
  "header_Get (sent_header (Redirect_Handler known_schemes (RedirectToHTTPSPort ''other.org:8443'') page_request new_response))
     ''Location'' = ''https://example.com:8443/a%20b?x=1''"
proof -
  have "hexEscapeNonASCII (https_location ''other.org:8443'' page_request) = ''https://example.com:8443/a%20b?x=1''"
    by code_simp
  then show ?thesis
    using RedirectToHTTPSPort_location [OF known_schemes_absolute, of new_response page_request "''other.org:8443''"]
    by (simp add: new_response_def page_request_def request.defs empty_URL_def)
qed

text \<open>
  The ACME HTTP-01 redirect answers 307 and sends the client to http on the configured host with the path
  of the request and nothing else of it.
\<close>

lemma RedirectAcmeHTTP01_location:
  assumes "absolute_parsed parse" and "rw_commit w = None" and "host \<noteq> []"
  shows "sent_status (Redirect_Handler parse (RedirectAcmeHTTP01 host) r w) = 307 \<and>
    header_Get (sent_header (Redirect_Handler parse (RedirectAcmeHTTP01 host) r w)) ''Location'' =
      hexEscapeNonASCII (''http://'' @ url_escape encodeHost host
        @ path_part (empty_URL\<lparr>url_Path := url_Path (rq_URL r)\<rparr>))"
proof -
  let ?t = "''http://'' @ url_escape encodeHost host @ path_part (empty_URL\<lparr>url_Path := url_Path (rq_URL r)\<rparr>)"
  have url: "redirect_url parse p ?t = ?t" for p
    by (rule redirect_url_absolute [OF assms(1)]) simp
  show ?thesis
    unfolding Redirect_Handler_def acme_target [OF assms(3)]
    using http_Redirect_sent [OF assms(2)] url by (simp add: StatusTemporaryRedirect_def)
qed

end
