(* ===== verification/WebhookSignature.thy ===== *)
theory WebhookSignature
  imports GoEncoding
begin

text \<open>
  \<^verbatim>\<open>webhooks/signature.go\<close>: signing of webhook requests and the signature validator. The argument
  \<open>hmac\<close> is HMAC-SHA256 of \<open>crypto/hmac\<close> (secret, message), left abstract; \<open>getTokens\<close> is the
  caller's callback, \<open>None\<close> for its error. A validator returns the payload and an HTTP status.
\<close>

type_synonym Validator = "request \<Rightarrow> bytes \<times> int"

definition SHA256SignatureFromHeader :: "string \<Rightarrow> request \<Rightarrow> bytes \<times> int" where
  "SHA256SignatureFromHeader headerName req =
     (let signatureHeader = header_Get (req_Header req) headerName
      in if signatureHeader = [] then ([], StatusBadRequest)
      else
        let parts = strings_SplitN2 signatureHeader ''=''
        in if length parts \<noteq> 2 \<or> parts ! 0 \<noteq> ''sha256'' then ([], StatusBadRequest)
        else case hex_DecodeString (parts ! 1) of
               None \<Rightarrow> ([], StatusBadRequest)
             | Some sig \<Rightarrow> (sig, StatusOK))"

fun tokens_loop :: "(bytes \<Rightarrow> bytes \<Rightarrow> bytes) \<Rightarrow> bytes \<Rightarrow> bytes \<Rightarrow> bytes list \<Rightarrow> bytes \<times> int" where
  "tokens_loop hmac sig payload [] = ([], StatusUnauthorized)"
| "tokens_loop hmac sig payload (token # tokens) =
     (if sig = hmac token payload then (payload, StatusOK)
      else tokens_loop hmac sig payload tokens)"

definition SignatureValidator ::
    "(bytes \<Rightarrow> bytes \<Rightarrow> bytes) \<Rightarrow> (request \<Rightarrow> bytes \<times> int) \<Rightarrow> (request \<Rightarrow> bytes list option) \<Rightarrow> Validator" where
  "SignatureValidator hmac getSignature getTokens req =
     (case (case req_Body req of None \<Rightarrow> Inl ReadFailed | Some b \<Rightarrow> io_ReadAll b) of
        Inl _ \<Rightarrow> ([], StatusBadRequest)
      | Inr payload \<Rightarrow>
          let (sig, code) = getSignature req
          in if code \<noteq> StatusOK then ([], code)
          else case getTokens req of
                 None \<Rightarrow> ([], StatusInternalServerError)
               | Some tokens \<Rightarrow> tokens_loop hmac sig payload tokens)"

text \<open>\<open>mac.Write\<close> never fails, so \<open>SignHTTPRequest\<close> always returns the signed header.\<close>

definition SignHTTPRequest ::
    "(bytes \<Rightarrow> bytes \<Rightarrow> bytes) \<Rightarrow> header \<Rightarrow> bytes \<Rightarrow> bytes \<Rightarrow> string \<Rightarrow> header" where
  "SignHTTPRequest hmac h payload secret headerName =
     (let signature = ''sha256='' @ hex_EncodeToString (hmac secret payload);
          h = header_Set h headerName signature
      in header_Set h ''Content-Length'' (strconv_Itoa (int (length payload))))"

subsection \<open>Lemmas\<close>

lemma tokens_loop_OK:
  "tokens_loop hmac sig p ts = (d, c) \<Longrightarrow> c = StatusOK \<Longrightarrow> d = p \<and> (\<exists>t \<in> set ts. sig = hmac t p)"
  by (induction ts) (auto simp: go_simps split: if_splits)

lemma tokens_loop_found:
  "t \<in> set ts \<Longrightarrow> sig = hmac t p \<Longrightarrow> tokens_loop hmac sig p ts = (p, StatusOK)"
  by (induction ts) auto

lemma tokens_loop_cases:
  "tokens_loop hmac sig p ts =
     (if \<exists>t \<in> set ts. sig = hmac t p then (p, StatusOK) else ([], StatusUnauthorized))"
  by (induction ts) auto

lemma SplitN2_sha256: "strings_SplitN2 (''sha256='' @ s) ''='' = [''sha256'', s]"
  by (simp add: strings_SplitN2_def)

lemma SHA256SignatureFromHeader_sign:
  assumes "header_Get (req_Header req) name = ''sha256='' @ hex_EncodeToString sig"
  shows "SHA256SignatureFromHeader name req = (sig, StatusOK)"
  using SplitN2_sha256 [of "hex_EncodeToString sig"] assms
  by (simp add: SHA256SignatureFromHeader_def Let_def)

lemma SHA256SignatureFromHeader_OK:
  assumes "SHA256SignatureFromHeader name req = (sig, StatusOK)"
  shows "\<exists>s. header_Get (req_Header req) name = ''sha256='' @ s \<and> hex_DecodeString s = Some sig"
proof -
  let ?h = "header_Get (req_Header req) name"
  obtain i where i: "strings_Index ?h ''='' = Some i" "take i ?h = ''sha256''"
    and d: "hex_DecodeString (drop (Suc i) ?h) = Some sig"
    using assms
    by (auto simp: SHA256SignatureFromHeader_def strings_SplitN2_def Let_def go_simps
          split: if_splits option.splits)
  from i(1) obtain u v where uv: "?h = u @ CHR ''='' # v" "length u = i"
    by (auto simp: strings_Index_char_Some)
  with i(2) d show ?thesis by auto
qed

lemma CanonicalHeaderKey_eq_Content_Length:
  "CanonicalHeaderKey ''Content-Length'' = ''Content-Length''"
  by (simp add: CanonicalHeaderKey_def is_tchar_def is_lower_def is_upper_def is_digit_def
        char_between_def to_upper_def to_lower_def)

lemma SignHTTPRequest_Get:
  "CanonicalHeaderKey name \<noteq> ''Content-Length'' \<Longrightarrow>
   header_Get (SignHTTPRequest hmac h p s name) name = ''sha256='' @ hex_EncodeToString (hmac s p)"
  by (simp add: SignHTTPRequest_def header_defs Let_def CanonicalHeaderKey_eq_Content_Length)

subsection \<open>Properties\<close>

lemma SHA256SignatureFromHeader_iff:
  "SHA256SignatureFromHeader name req = (sig, StatusOK) \<longleftrightarrow>
     (\<exists>s. header_Get (req_Header req) name = ''sha256='' @ s \<and> hex_DecodeString s = Some sig)"
proof
  assume "\<exists>s. header_Get (req_Header req) name = ''sha256='' @ s \<and> hex_DecodeString s = Some sig"
  then obtain s where "header_Get (req_Header req) name = ''sha256='' @ s" "hex_DecodeString s = Some sig" by blast
  with SplitN2_sha256 [of s] show "SHA256SignatureFromHeader name req = (sig, StatusOK)"
    by (simp add: SHA256SignatureFromHeader_def Let_def)
qed (rule SHA256SignatureFromHeader_OK)

text \<open>
  C6. The signature validator with \<^verbatim>\<open>SHA256SignatureFromHeader\<close> accepts exactly the signed requests: it returns a
  payload with status 200 if and only if that is the body of the request and the header carries, in hexadecimal after
  \<^verbatim>\<open>sha256=\<close>, its HMAC under one of the configured secrets. Every other outcome returns no payload and one of the
  statuses 400, 401 and 500.
\<close>

theorem SignatureValidator_iff:
  "(SignatureValidator hmac (SHA256SignatureFromHeader name) getTokens req = (d, StatusOK) \<longleftrightarrow>
      (\<exists>b s tokens t. req_Body req = Some b \<and> io_ReadAll b = Inr d \<and> getTokens req = Some tokens \<and> t \<in> set tokens \<and>
         header_Get (req_Header req) name = ''sha256='' @ s \<and> hex_DecodeString s = Some (hmac t d))) \<and>
   (case SignatureValidator hmac (SHA256SignatureFromHeader name) getTokens req of
      (d, status) \<Rightarrow> status = StatusOK \<or> d = [] \<and> status \<in> {StatusBadRequest, StatusUnauthorized, StatusInternalServerError})"
proof -
  obtain sig code where sc: "SHA256SignatureFromHeader name req = (sig, code)"
    by fastforce
  have code: "code \<noteq> StatusOK \<Longrightarrow> code = StatusBadRequest"
    using sc by (auto simp: SHA256SignatureFromHeader_def Let_def split: if_splits option.splits)
  have iff: "(\<exists>s. header_Get (req_Header req) name = ''sha256='' @ s \<and> hex_DecodeString s = Some x) \<longleftrightarrow> code = StatusOK \<and> sig = x" for x
    using SHA256SignatureFromHeader_iff [of name req x] sc by auto
  have "SignatureValidator hmac (SHA256SignatureFromHeader name) getTokens req = (d, StatusOK) \<longleftrightarrow>
      (\<exists>b tokens t. req_Body req = Some b \<and> io_ReadAll b = Inr d \<and> getTokens req = Some tokens \<and> t \<in> set tokens \<and>
         code = StatusOK \<and> sig = hmac t d)"
    by (auto simp: SignatureValidator_def sc tokens_loop_cases go_simps split: option.splits sum.splits if_splits)
  moreover have "case SignatureValidator hmac (SHA256SignatureFromHeader name) getTokens req of
      (d, status) \<Rightarrow> status = StatusOK \<or> d = [] \<and> status \<in> {StatusBadRequest, StatusUnauthorized, StatusInternalServerError}"
    using code by (auto simp: SignatureValidator_def sc tokens_loop_cases go_simps split: option.splits sum.splits)
  ultimately show ?thesis unfolding iff [symmetric] by blast
qed

text \<open>
  Completeness: a request whose headers were signed by \<^verbatim>\<open>SignHTTPRequest\<close> for the payload it
  carries is accepted, with that payload, by every validator whose tokens include the secret,
  unless the signature is put in the Content-Length header.
\<close>

lemma SignHTTPRequest_accepted:
  assumes "CanonicalHeaderKey name \<noteq> ''Content-Length''"
    and "req_Header req = SignHTTPRequest hmac h payload secret name"
    and "req_Body req = Some b" and "io_ReadAll b = Inr payload"
    and "getTokens req = Some tokens" and "secret \<in> set tokens"
  shows "SignatureValidator hmac (SHA256SignatureFromHeader name) getTokens req = (payload, StatusOK)"
proof -
  have "SHA256SignatureFromHeader name req = (hmac secret payload, StatusOK)"
    using SHA256SignatureFromHeader_sign SignHTTPRequest_Get assms(1,2) by metis
  then show ?thesis
    using assms by (simp add: SignatureValidator_def tokens_loop_found)
qed

lemma SignHTTPRequest_accepted_instance:
  "SignatureValidator (\<lambda>s p. s @ p) (SHA256SignatureFromHeader ''X-Sig'') (\<lambda>_. Some [''k0'', ''k1''])
     (example_request\<lparr>req_Header := SignHTTPRequest (\<lambda>s p. s @ p) (\<lambda>_. []) ''{}'' ''k1'' ''X-Sig'',
        req_Body := Some (plain_body ''{}'')\<rparr>) = (''{}'', StatusOK)"
proof -
  have "CanonicalHeaderKey ''X-Sig'' \<noteq> ''Content-Length''"
    by (simp add: CanonicalHeaderKey_def)
  then show ?thesis
    by (rule SignHTTPRequest_accepted [where b = "plain_body ''{}''" and h = "\<lambda>_. []"
          and secret = "''k1''" and tokens = "[''k0'', ''k1'']"]) simp_all
qed

end
