(* ===== verification/WebhookRelay.thy ===== *)
theory WebhookRelay
  imports WebhookSignature
begin

text \<open>
  \<^verbatim>\<open>webhooks/relay.go\<close>: the relay accepts webhooks on one endpoint, queues the validated ones and
  hands them to long-polling clients on another.

  The queue is \<open>patterns.FIFO\<close> of another module: its operations are the record \<open>fifo_ops\<close>
  of arguments, and \<open>fifo_laws\<close> states its documented behaviour (a first-in first-out queue
  that drops its oldest element when full). The \<open>select\<close> statements choose between ready cases;
  the choice is an argument of the handlers. \<open>time.Now\<close> is the argument \<open>now\<close>. Logging is left out.
\<close>

record delivery =
  dl_header :: "(string \<times> string list) list" \<comment> \<open>an http.Header in some iteration order\<close>
  dl_body :: bytes
  dl_expiration :: int

record relay_options =
  ro_size :: int
  ro_payloadLimit :: int
  ro_forwardedHeaders :: "string list option" \<comment> \<open>None: the nil slice\<close>
  ro_expiry :: int
  ro_expiryScan :: int
  ro_deniedCounter :: CounterInc
  ro_relayedCounter :: CounterInc
  ro_readCounter :: CounterInc

definition DefaultQueueSize :: int where "DefaultQueueSize = 100"
definition DefaultPayloadLimit :: int where "DefaultPayloadLimit = 1024 * 1024"

definition DefaultForwardedHeaders :: "string list" where
  "DefaultForwardedHeaders = [''X-GitHub-Event'', ''X-GitHub-Delivery'', ''X-GitHub-Hook-ID'']"

type_synonym RelayOption = "relay_options \<Rightarrow> relay_options"

definition WithQueueSize :: "int \<Rightarrow> RelayOption" where
  "WithQueueSize n opts = opts\<lparr>ro_size := n\<rparr>"

definition WithMaxPayloadSize :: "int \<Rightarrow> RelayOption" where
  "WithMaxPayloadSize n opts = opts\<lparr>ro_payloadLimit := n\<rparr>"

definition WithForwardedHeaders :: "string list \<Rightarrow> RelayOption" where
  "WithForwardedHeaders names opts = opts\<lparr>ro_forwardedHeaders := Some names\<rparr>"

definition WithExpiry :: "int \<Rightarrow> int \<Rightarrow> RelayOption" where
  "WithExpiry ttl scanInterval opts = opts\<lparr>ro_expiry := ttl, ro_expiryScan := scanInterval\<rparr>"

definition WithCounters :: "CounterInc \<Rightarrow> CounterInc \<Rightarrow> CounterInc \<Rightarrow> RelayOption" where
  "WithCounters deniedCounter relayedCounter readCounter opts =
     opts\<lparr>ro_deniedCounter := deniedCounter, ro_relayedCounter := relayedCounter,
          ro_readCounter := readCounter\<rparr>"

definition NoopValidator :: Validator where
  "NoopValidator req =
     (case (case req_Body req of None \<Rightarrow> Inl ReadFailed | Some b \<Rightarrow> io_ReadAll b) of
        Inl _ \<Rightarrow> ([], StatusBadRequest)
      | Inr payload \<Rightarrow> (payload, StatusOK))"

subsection \<open>The queue\<close>

text \<open>A periodic scan is its interval and the predicate (at a time) for the deliveries to drop.\<close>

type_synonym scan = "int \<times> (int \<Rightarrow> delivery \<Rightarrow> bool)"

record 'q fifo_ops =
  ff_new :: "int \<Rightarrow> scan list \<Rightarrow> 'q"
  ff_in :: "delivery \<Rightarrow> 'q \<Rightarrow> 'q"
  ff_out :: "'q \<Rightarrow> (delivery \<times> 'q) option" \<comment> \<open>None: closed\<close>
  ff_scan :: "int \<Rightarrow> 'q \<Rightarrow> 'q" \<comment> \<open>one run of the periodic scans, at a time\<close>
  ff_stop :: "'q \<Rightarrow> 'q"
  ff_items :: "'q \<Rightarrow> delivery list"
  ff_size :: "'q \<Rightarrow> int"
  ff_scans :: "'q \<Rightarrow> scan list"

definition fifo_push :: "int \<Rightarrow> delivery \<Rightarrow> delivery list \<Rightarrow> delivery list" where
  "fifo_push n d xs = (if int (length xs) < n then xs @ [d] else tl xs @ [d])"

definition fifo_laws :: "'q fifo_ops \<Rightarrow> bool" where
  "fifo_laws f \<longleftrightarrow>
     (\<forall>n sc. 0 < n \<longrightarrow> ff_items f (ff_new f n sc) = [] \<and> ff_size f (ff_new f n sc) = n \<and>
        ff_scans f (ff_new f n sc) = sc) \<and>
     (\<forall>d q. ff_items f (ff_in f d q) = fifo_push (ff_size f q) d (ff_items f q) \<and>
        ff_size f (ff_in f d q) = ff_size f q \<and> ff_scans f (ff_in f d q) = ff_scans f q) \<and>
     (\<forall>q d q'. ff_out f q = Some (d, q') \<longrightarrow> ff_items f q = d # ff_items f q' \<and>
        ff_size f q' = ff_size f q \<and> ff_scans f q' = ff_scans f q) \<and>
     (\<forall>q. ff_items f q \<noteq> [] \<longrightarrow> ff_out f q \<noteq> None) \<and>
     (\<forall>now q. ff_items f (ff_scan f now q) =
        filter (\<lambda>d. \<not> (\<exists>sc \<in> set (ff_scans f q). snd sc now d)) (ff_items f q) \<and>
        ff_size f (ff_scan f now q) = ff_size f q \<and> ff_scans f (ff_scan f now q) = ff_scans f q)"

subsection \<open>The relay\<close>

record 'q Relay =
  rl_fifo :: 'q
  rl_validator :: Validator
  rl_opts :: relay_options
  rl_counts :: counts

definition zero_options :: relay_options where
  "zero_options = \<lparr>ro_size = 0, ro_payloadLimit = 0, ro_forwardedHeaders = None, ro_expiry = 0,
     ro_expiryScan = 0, ro_deniedCounter = NilCounter, ro_relayedCounter = NilCounter,
     ro_readCounter = NilCounter\<rparr>"

definition noop_if_nil :: "CounterInc \<Rightarrow> CounterInc" where
  "noop_if_nil c = (if c = NilCounter then NoopCounter else c)"

definition relay_defaults :: "relay_options \<Rightarrow> relay_options" where
  "relay_defaults options =
     (let options = (if ro_size options = 0 then options\<lparr>ro_size := DefaultQueueSize\<rparr> else options);
          options = (if ro_payloadLimit options = 0
                     then options\<lparr>ro_payloadLimit := DefaultPayloadLimit\<rparr> else options);
          options = (if ro_forwardedHeaders options = None
                     then options\<lparr>ro_forwardedHeaders := Some DefaultForwardedHeaders\<rparr> else options)
      in options\<lparr>ro_deniedCounter := noop_if_nil (ro_deniedCounter options),
                 ro_relayedCounter := noop_if_nil (ro_relayedCounter options),
                 ro_readCounter := noop_if_nil (ro_readCounter options)\<rparr>)"

definition expiryScan :: "relay_options \<Rightarrow> scan list" where
  "expiryScan opts =
     (if ro_expiry opts \<le> 0 then []
      else
        let interval = (if ro_expiryScan opts \<le> 0 then ro_expiry opts else ro_expiryScan opts);
            remove = (\<lambda>now d. now > dl_expiration d)
        in [(interval, remove)])"

definition NewRelay :: "'q fifo_ops \<Rightarrow> Validator \<Rightarrow> RelayOption list \<Rightarrow> 'q Relay" where
  "NewRelay f validator opts =
     (let options = relay_defaults (apply_options opts zero_options)
      in \<lparr>rl_fifo = ff_new f (ro_size options) (expiryScan options), rl_validator = validator,
          rl_opts = options, rl_counts = (\<lambda>_. 0)\<rparr>)"

definition Relay_Stop :: "'q fifo_ops \<Rightarrow> 'q Relay \<Rightarrow> 'q Relay" where
  "Relay_Stop f r = r\<lparr>rl_fifo := ff_stop f (rl_fifo r)\<rparr>"

fun forwardedHeaders_loop :: "header \<Rightarrow> string list \<Rightarrow> (string \<times> string list) list \<Rightarrow> (string \<times> string list) list" where
  "forwardedHeaders_loop src [] out = out"
| "forwardedHeaders_loop src (name # names) out =
     (let values = header_Values src name
      in forwardedHeaders_loop src names
           (if 0 < length values then AList.update (CanonicalHeaderKey name) values out else out))"

text \<open>A nil header map and an empty one behave alike: both are the empty list.\<close>

definition forwardedHeaders :: "'q Relay \<Rightarrow> header \<Rightarrow> (string \<times> string list) list" where
  "forwardedHeaders r src =
     forwardedHeaders_loop src (case ro_forwardedHeaders (rl_opts r) of None \<Rightarrow> [] | Some ns \<Rightarrow> ns) []"

datatype send_choice = SendCase | SendDoneCase

definition ServeWebhook ::
    "'q fifo_ops \<Rightarrow> int \<Rightarrow> send_choice \<Rightarrow> 'q Relay \<Rightarrow> request \<Rightarrow> response \<Rightarrow> ('q Relay \<times> response) option" where
  "ServeWebhook f now choice r req w =
     (if req_ContentLength req > ro_payloadLimit (rl_opts r) then
        Some (r, http_Error w ''payload too large'' StatusRequestEntityTooLarge)
      else if header_Get (req_Header req) ''Content-Type'' \<noteq> ''application/json'' then
        Some (r, http_Error w ''unsupported content type'' StatusUnsupportedMediaType)
      else if req_Method req \<noteq> ''POST'' then
        Some (r, http_Error w ''method not allowed'' StatusMethodNotAllowed)
      else case req_Body req of
        None \<Rightarrow> Some (r, http_Error w ''request body is required'' StatusBadRequest)
      | Some b \<Rightarrow>
          let req = req\<lparr>req_Body := Some (MaxBytesReader b (ro_payloadLimit (rl_opts r)))\<rparr>;
              (payload, status) = rl_validator r req
          in if status \<noteq> StatusOK then
               let w = http_Error w ''invalid payload'' status
               in if status \<ge> StatusBadRequest \<and> status < StatusInternalServerError
                  then map_option (\<lambda>k. (r\<lparr>rl_counts := k\<rparr>, w)) (counter_call (ro_deniedCounter (rl_opts r)) (rl_counts r))
                  else Some (r, w)
             else if req_ctx_err req then Some (r, w)
             else case choice of
                 SendCase \<Rightarrow>
                   let d = \<lparr>dl_header = forwardedHeaders r (req_Header req), dl_body = payload,
                            dl_expiration = now + ro_expiry (rl_opts r)\<rparr>;
                       r = r\<lparr>rl_fifo := ff_in f d (rl_fifo r)\<rparr>
                   in map_option (\<lambda>k. (r\<lparr>rl_counts := k\<rparr>, WriteHeader w StatusAccepted))
                        (counter_call (ro_relayedCounter (rl_opts r)) (rl_counts r))
               | SendDoneCase \<Rightarrow> Some (r, w))"

datatype wait_choice = RecvCase | RecvDoneCase

definition copy_headers :: "(string \<times> string list) list \<Rightarrow> header \<Rightarrow> header" where
  "copy_headers hs h = fold (\<lambda>(name, values). header_AddAll name values) hs h"

text \<open>A receive from an empty queue blocks: \<open>RecvCase\<close> is chosen only when the queue has an item or is closed.\<close>

definition WaitForWebhook ::
    "'q fifo_ops \<Rightarrow> wait_choice \<Rightarrow> 'q Relay \<Rightarrow> request \<Rightarrow> response \<Rightarrow> ('q Relay \<times> response) option" where
  "WaitForWebhook f choice r req w =
     (if req_Method req \<noteq> ''GET'' then
        Some (r, http_Error w ''method not allowed'' StatusMethodNotAllowed)
      else case choice of
          RecvCase \<Rightarrow>
            (case ff_out f (rl_fifo r) of
               None \<Rightarrow> Some (r, w)
             | Some (job, q) \<Rightarrow>
                 let w = w\<lparr>rw_header := copy_headers (dl_header job) (rw_header w)\<rparr>;
                     w = rw_Set w ''Content-Type'' ''application/json'';
                     w = Write w (dl_body job)
                 in map_option (\<lambda>k. (r\<lparr>rl_fifo := q, rl_counts := k\<rparr>, w))
                      (counter_call (ro_readCounter (rl_opts r)) (rl_counts r)))
        | RecvDoneCase \<Rightarrow> Some (r, w))"

text \<open>\<^verbatim>\<open>DeliveryHandler\<close> and \<^verbatim>\<open>PollingHandler\<close> are the two handlers; \<^verbatim>\<open>Handler\<close> routes by path.\<close>

definition DeliveryHandler ::
    "'q fifo_ops \<Rightarrow> int \<Rightarrow> send_choice \<Rightarrow> 'q Relay \<Rightarrow> request \<Rightarrow> response \<Rightarrow> ('q Relay \<times> response) option" where
  "DeliveryHandler f now sc r req w = ServeWebhook f now sc r req w"

definition PollingHandler ::
    "'q fifo_ops \<Rightarrow> wait_choice \<Rightarrow> 'q Relay \<Rightarrow> request \<Rightarrow> response \<Rightarrow> ('q Relay \<times> response) option" where
  "PollingHandler f wc r req w = WaitForWebhook f wc r req w"

definition Relay_Handler ::
    "'q fifo_ops \<Rightarrow> int \<Rightarrow> send_choice \<Rightarrow> wait_choice \<Rightarrow> string \<Rightarrow> string \<Rightarrow> 'q Relay \<Rightarrow> request \<Rightarrow> response \<Rightarrow>
     ('q Relay \<times> response) option" where
  "Relay_Handler f now sc wc deliveryPath relayPath r req w =
     (if req_Path req = deliveryPath then ServeWebhook f now sc r req w
      else if req_Path req = relayPath then WaitForWebhook f wc r req w
      else Some (r, http_NotFound w))"

subsection \<open>Sequences of requests\<close>

datatype relay_event =
    Deliver int send_choice request
  | Poll wait_choice request
  | Scan int

definition relay_step :: "'q fifo_ops \<Rightarrow> relay_event \<Rightarrow> 'q Relay \<Rightarrow> ('q Relay \<times> response) option" where
  "relay_step f e r =
     (case e of
        Deliver now c req \<Rightarrow> ServeWebhook f now c r req new_response
      | Poll c req \<Rightarrow> WaitForWebhook f c r req new_response
      | Scan now \<Rightarrow> Some (r\<lparr>rl_fifo := ff_scan f now (rl_fifo r)\<rparr>, new_response))"

fun relay_run :: "'q fifo_ops \<Rightarrow> relay_event list \<Rightarrow> 'q Relay \<Rightarrow> ('q Relay \<times> response list) option" where
  "relay_run f [] r = Some (r, [])"
| "relay_run f (e # es) r =
     (case relay_step f e r of
        None \<Rightarrow> None
      | Some (r', w) \<Rightarrow>
          (case relay_run f es r' of None \<Rightarrow> None | Some (r'', ws) \<Rightarrow> Some (r'', w # ws)))"

text \<open>The invariant of a relay made by \<open>NewRelay\<close>: no nil counter, and a queue within its size.\<close>

definition relay_inv :: "'q fifo_ops \<Rightarrow> 'q Relay \<Rightarrow> bool" where
  "relay_inv f r \<longleftrightarrow>
     ro_deniedCounter (rl_opts r) \<noteq> NilCounter \<and> ro_relayedCounter (rl_opts r) \<noteq> NilCounter \<and>
     ro_readCounter (rl_opts r) \<noteq> NilCounter \<and> 0 < ro_size (rl_opts r) \<and>
     ff_size f (rl_fifo r) = ro_size (rl_opts r) \<and>
     int (length (ff_items f (rl_fifo r))) \<le> ro_size (rl_opts r) \<and>
     ff_scans f (rl_fifo r) = expiryScan (rl_opts r)"

subsection \<open>Lemmas\<close>

lemma fifo_laws_new:
  "fifo_laws f \<Longrightarrow> 0 < n \<Longrightarrow> ff_items f (ff_new f n sc) = [] \<and> ff_size f (ff_new f n sc) = n \<and>
     ff_scans f (ff_new f n sc) = sc"
  by (simp add: fifo_laws_def)

lemma fifo_laws_in:
  "fifo_laws f \<Longrightarrow> ff_items f (ff_in f d q) = fifo_push (ff_size f q) d (ff_items f q) \<and>
     ff_size f (ff_in f d q) = ff_size f q \<and> ff_scans f (ff_in f d q) = ff_scans f q"
  by (simp add: fifo_laws_def)

lemma fifo_laws_out:
  "fifo_laws f \<Longrightarrow> ff_out f q = Some (d, q') \<Longrightarrow> ff_items f q = d # ff_items f q' \<and>
     ff_size f q' = ff_size f q \<and> ff_scans f q' = ff_scans f q"
  by (simp add: fifo_laws_def)

lemma fifo_laws_out_ready:
  "fifo_laws f \<Longrightarrow> ff_items f q = d # ds \<Longrightarrow> \<exists>q'. ff_out f q = Some (d, q') \<and> ff_items f q' = ds"
proof -
  assume laws: "fifo_laws f" and items: "ff_items f q = d # ds"
  then obtain d' q' where "ff_out f q = Some (d', q')"
    by (auto simp: fifo_laws_def) (metis list.distinct(1) not_Some_eq surj_pair)
  with fifo_laws_out [OF laws this] items show ?thesis by auto
qed

lemma fifo_laws_scan:
  "fifo_laws f \<Longrightarrow> ff_items f (ff_scan f now q) =
     filter (\<lambda>d. \<not> (\<exists>sc \<in> set (ff_scans f q). snd sc now d)) (ff_items f q) \<and>
     ff_size f (ff_scan f now q) = ff_size f q \<and> ff_scans f (ff_scan f now q) = ff_scans f q"
  by (simp add: fifo_laws_def)

lemma fifo_push_length: "0 < n \<Longrightarrow> int (length xs) \<le> n \<Longrightarrow> int (length (fifo_push n d xs)) \<le> n"
  by (cases xs) (auto simp: fifo_push_def)

lemma relay_defaults_props:
  "ro_deniedCounter (relay_defaults o1) \<noteq> NilCounter" "ro_relayedCounter (relay_defaults o1) \<noteq> NilCounter"
  "ro_readCounter (relay_defaults o1) \<noteq> NilCounter"
  "ro_size (relay_defaults o1) = (if ro_size o1 = 0 then 100 else ro_size o1)"
  "ro_payloadLimit (relay_defaults o1) = (if ro_payloadLimit o1 = 0 then 1048576 else ro_payloadLimit o1)"
  "ro_forwardedHeaders (relay_defaults o1) =
     Some (case ro_forwardedHeaders o1 of None \<Rightarrow> DefaultForwardedHeaders | Some hs \<Rightarrow> hs)"
  "ro_expiry (relay_defaults o1) = ro_expiry o1"
  by (auto simp: relay_defaults_def Let_def noop_if_nil_def DefaultQueueSize_def DefaultPayloadLimit_def)

lemma NewRelay_inv:
  "fifo_laws f \<Longrightarrow> 0 \<le> ro_size (apply_options opts zero_options) \<Longrightarrow> relay_inv f (NewRelay f v opts)"
  using relay_defaults_props [of "apply_options opts zero_options"]
  by (auto simp: relay_inv_def NewRelay_def Let_def fifo_laws_new)

text \<open>The outcomes of a delivery: refused with an error, given up, or queued.\<close>

definition limited :: "'q Relay \<Rightarrow> request \<Rightarrow> request" where
  "limited r req = req\<lparr>req_Body := map_option (\<lambda>b. MaxBytesReader b (ro_payloadLimit (rl_opts r))) (req_Body req)\<rparr>"

definition delivery_of :: "'q Relay \<Rightarrow> int \<Rightarrow> request \<Rightarrow> delivery" where
  "delivery_of r now req =
     \<lparr>dl_header = forwardedHeaders r (req_Header req), dl_body = fst (rl_validator r (limited r req)),
      dl_expiration = now + ro_expiry (rl_opts r)\<rparr>"

definition acceptable :: "'q Relay \<Rightarrow> request \<Rightarrow> bool" where
  "acceptable r req \<longleftrightarrow> req_ContentLength req \<le> ro_payloadLimit (rl_opts r) \<and>
     header_Get (req_Header req) ''Content-Type'' = ''application/json'' \<and> req_Method req = ''POST'' \<and>
     req_Body req \<noteq> None \<and> snd (rl_validator r (limited r req)) = StatusOK \<and> \<not> req_ctx_err req"

lemma ServeWebhook_accept:
  assumes "acceptable r req"
  shows "ServeWebhook f now SendCase r req w =
    map_option (\<lambda>k. (r\<lparr>rl_fifo := ff_in f (delivery_of r now req) (rl_fifo r), rl_counts := k\<rparr>,
                     WriteHeader w StatusAccepted))
      (counter_call (ro_relayedCounter (rl_opts r)) (rl_counts r))"
  using assms
  by (auto simp: acceptable_def ServeWebhook_def delivery_of_def limited_def Let_def split: prod.splits)

lemma ServeWebhook_other:
  assumes "\<not> (acceptable r req \<and> c = SendCase)"
    and "ServeWebhook f now c r req w = Some (r', w')"
  shows "rl_fifo r' = rl_fifo r \<and> rl_opts r' = rl_opts r \<and> rl_validator r' = rl_validator r"
  using assms
  by (auto simp: acceptable_def ServeWebhook_def limited_def Let_def
        split: prod.splits if_splits option.splits send_choice.splits)

lemma ServeWebhook_total:
  "relay_inv f r \<Longrightarrow> \<exists>r' w'. ServeWebhook f now c r req w = Some (r', w')"
  using counter_call_not_nil [of "ro_deniedCounter (rl_opts r)" "rl_counts r"]
    counter_call_not_nil [of "ro_relayedCounter (rl_opts r)" "rl_counts r"]
  by (auto simp: relay_inv_def ServeWebhook_def Let_def split: prod.splits option.splits send_choice.splits)

lemma WaitForWebhook_total:
  "relay_inv f r \<Longrightarrow> \<exists>r' w'. WaitForWebhook f c r req w = Some (r', w')"
  using counter_call_not_nil [of "ro_readCounter (rl_opts r)" "rl_counts r"]
  by (auto simp: relay_inv_def WaitForWebhook_def Let_def split: prod.splits option.splits wait_choice.splits)

lemma ServeWebhook_inv:
  assumes laws: "fifo_laws f" and inv: "relay_inv f r" and run: "ServeWebhook f now c r req w = Some (r', w')"
  shows "relay_inv f r' \<and> rl_opts r' = rl_opts r \<and> rl_validator r' = rl_validator r"
proof (cases "acceptable r req \<and> c = SendCase")
  case True
  with run ServeWebhook_accept [of r req f now w] obtain k where
    "r' = r\<lparr>rl_fifo := ff_in f (delivery_of r now req) (rl_fifo r), rl_counts := k\<rparr>" by auto
  with inv show ?thesis
    using fifo_laws_in [OF laws, of "delivery_of r now req" "rl_fifo r"] fifo_push_length
    by (auto simp: relay_inv_def)
next
  case False
  with run ServeWebhook_other [of r req c f now w r' w'] inv show ?thesis
    by (auto simp: relay_inv_def)
qed

lemma WaitForWebhook_inv:
  assumes laws: "fifo_laws f" and inv: "relay_inv f r" and run: "WaitForWebhook f c r req w = Some (r', w')"
  shows "relay_inv f r' \<and> rl_opts r' = rl_opts r \<and> rl_validator r' = rl_validator r"
  using run inv fifo_laws_out [OF laws, of "rl_fifo r"]
  by (auto simp: relay_inv_def WaitForWebhook_def Let_def split: prod.splits option.splits wait_choice.splits if_splits)

lemma length_filter_le_int: "int (length xs) \<le> n \<Longrightarrow> int (length (filter P xs)) \<le> n"
  using length_filter_le [of P xs] by linarith

lemma relay_step_inv:
  assumes "fifo_laws f" and "relay_inv f r" and "relay_step f e r = Some (r', w)"
  shows "relay_inv f r' \<and> rl_opts r' = rl_opts r \<and> rl_validator r' = rl_validator r"
proof (cases e)
  case (Deliver now c req)
  with assms ServeWebhook_inv show ?thesis by (simp add: relay_step_def) blast
next
  case (Poll c req)
  with assms WaitForWebhook_inv show ?thesis by (simp add: relay_step_def) blast
next
  case (Scan now)
  then show ?thesis
    using assms fifo_laws_scan [OF assms(1), of now "rl_fifo r"]
    by (auto simp: relay_step_def relay_inv_def intro: length_filter_le_int)
qed

lemma relay_step_total: "fifo_laws f \<Longrightarrow> relay_inv f r \<Longrightarrow> \<exists>r' w. relay_step f e r = Some (r', w)"
  using ServeWebhook_total WaitForWebhook_total by (cases e) (auto simp: relay_step_def)

lemma relay_run_inv:
  "fifo_laws f \<Longrightarrow> relay_inv f r \<Longrightarrow>
     \<exists>r' ws. relay_run f es r = Some (r', ws) \<and> relay_inv f r' \<and> rl_opts r' = rl_opts r \<and> length ws = length es"
proof (induction es arbitrary: r)
  case Nil
  then show ?case by simp
next
  case (Cons e es)
  from relay_step_total [OF Cons.prems] obtain r1 w where st: "relay_step f e r = Some (r1, w)"
    by blast
  with relay_step_inv Cons.prems have "relay_inv f r1 \<and> rl_opts r1 = rl_opts r" by blast
  with Cons.IH [of r1] Cons.prems(1) st show ?case by fastforce
qed

subsection \<open>Forwarded headers\<close>

lemma forwardedHeaders_loop_map_of:
  "map_of (forwardedHeaders_loop src names out) k =
     (if src k \<noteq> [] \<and> k \<in> CanonicalHeaderKey ` set names then Some (src k) else map_of out k)"
proof (induction src names out rule: forwardedHeaders_loop.induct)
  case (2 src name names out)
  then show ?case
    by (auto simp: Let_def header_Values_def update_conv')
qed simp

definition canonical_keys :: "(string \<times> string list) list \<Rightarrow> bool" where
  "canonical_keys hs \<longleftrightarrow> distinct (map fst hs) \<and> (\<forall>k \<in> set (map fst hs). CanonicalHeaderKey k = k)"

lemma canonical_keys_update:
  "canonical_keys out \<Longrightarrow> canonical_keys (AList.update (CanonicalHeaderKey name) vs out)"
  unfolding canonical_keys_def update_keys by auto

lemma forwardedHeaders_loop_keys:
  "canonical_keys out \<Longrightarrow> canonical_keys (forwardedHeaders_loop src names out)"
  by (induction src names out rule: forwardedHeaders_loop.induct)
    (simp_all add: Let_def canonical_keys_update)

lemma copy_headers_eq:
  "canonical_keys hs \<Longrightarrow>
   copy_headers hs h k = h k @ (case map_of hs k of None \<Rightarrow> [] | Some vs \<Rightarrow> vs)"
proof (induction hs arbitrary: h)
  case Nil
  then show ?case by (simp add: copy_headers_def)
next
  case (Cons p hs)
  obtain n vs where p: "p = (n, vs)" by (cases p)
  have "copy_headers (p # hs) h = copy_headers hs (header_AddAll n vs h)"
    by (simp add: copy_headers_def p)
  moreover have "map_of hs n = None" "canonical_keys hs" "CanonicalHeaderKey n = n"
    using Cons.prems p by (auto simp: canonical_keys_def map_of_eq_None_iff)
  ultimately show ?case
    using Cons.IH p by (auto simp: header_AddAll_eq)
qed

lemma copy_forwarded:
  assumes "ro_forwardedHeaders (rl_opts r) = Some names"
  shows "copy_headers (forwardedHeaders r src) h k =
    h k @ (if k \<in> CanonicalHeaderKey ` set names then src k else [])"
proof -
  have "canonical_keys []" by (simp add: canonical_keys_def)
  then have "canonical_keys (forwardedHeaders_loop src names [])"
    by (rule forwardedHeaders_loop_keys)
  then show ?thesis
    using forwardedHeaders_loop_map_of [of src names "[]" k] assms
    by (auto simp: forwardedHeaders_def copy_headers_eq)
qed

subsection \<open>A queue that satisfies the laws\<close>

type_synonym list_queue = "int \<times> scan list \<times> delivery list"

definition list_fifo :: "list_queue fifo_ops" where
  "list_fifo = \<lparr>ff_new = (\<lambda>n sc. (n, sc, [])), ff_in = (\<lambda>d (n, sc, xs). (n, sc, fifo_push n d xs)),
     ff_out = (\<lambda>(n, sc, xs). case xs of [] \<Rightarrow> None | d # ds \<Rightarrow> Some (d, (n, sc, ds))),
     ff_scan = (\<lambda>now (n, sc, xs). (n, sc, filter (\<lambda>d. \<not> (\<exists>s \<in> set sc. snd s now d)) xs)),
     ff_stop = id, ff_items = (\<lambda>(n, sc, xs). xs), ff_size = fst, ff_scans = (\<lambda>(n, sc, xs). sc)\<rparr>"

lemma list_fifo_laws: "fifo_laws list_fifo"
  by (auto simp: fifo_laws_def list_fifo_def intro!: filter_cong split: list.splits) blast

subsection \<open>Properties\<close>



text \<open>
  C8. Only validated webhooks are queued. A call of \<^verbatim>\<open>ServeWebhook\<close> leaves the queue as it is, or
  it enqueued exactly one delivery, answered 202, and the request was a POST of
  \<^verbatim>\<open>application/json\<close> whose validator, run on the size-limited body, returned 200 with the
  payload that was queued; its expiration is the time of the call plus the configured ttl.
\<close>

theorem ServeWebhook_only_validated:
  assumes "ServeWebhook f now c r req w = Some (r', w')" and "rw_commit w = None"
  shows "rl_fifo r' = rl_fifo r \<or>
    (\<exists>b payload. req_Body req = Some b \<and>
       rl_validator r (req\<lparr>req_Body := Some (MaxBytesReader b (ro_payloadLimit (rl_opts r)))\<rparr>) =
         (payload, StatusOK) \<and>
       req_Method req = ''POST'' \<and> header_Get (req_Header req) ''Content-Type'' = ''application/json'' \<and>
       rl_fifo r' = ff_in f \<lparr>dl_header = forwardedHeaders r (req_Header req), dl_body = payload,
                            dl_expiration = now + ro_expiry (rl_opts r)\<rparr> (rl_fifo r) \<and>
       sent_status w' = StatusAccepted)"
proof (cases "acceptable r req \<and> c = SendCase")
  case True
  then have acc: "acceptable r req" and c: "c = SendCase" by auto
  from acc obtain b where b: "req_Body req = Some b" by (auto simp: acceptable_def)
  obtain payload where v: "rl_validator r (limited r req) = (payload, StatusOK)"
    using acc by (cases "rl_validator r (limited r req)") (auto simp: acceptable_def)
  from assms(1) c ServeWebhook_accept [OF acc, of f now w] obtain k where
    "r' = r\<lparr>rl_fifo := ff_in f (delivery_of r now req) (rl_fifo r), rl_counts := k\<rparr>"
    "w' = WriteHeader w StatusAccepted" by auto
  with acc b v assms(2) show ?thesis
    by (auto simp: acceptable_def limited_def delivery_of_def http_sent)
next
  case False
  with ServeWebhook_other [OF False assms(1)] show ?thesis by simp
qed

definition json_post :: "bytes \<Rightarrow> request" where
  "json_post d = example_request\<lparr>req_Method := ''POST'', req_Path := ''/hook'',
     req_Header := (\<lambda>k. if k = ''Content-Type'' then [''application/json'']
                       else if k = ''X-Github-Event'' then [''push''] else []),
     req_Body := Some (plain_body d)\<rparr>"

lemma CanonicalHeaderKey_Content_Type [simp]:
  "CanonicalHeaderKey ''Content-Type'' = ''Content-Type''"
  by (simp add: CanonicalHeaderKey_def is_tchar_def is_lower_def is_upper_def is_digit_def
        char_between_def to_upper_def to_lower_def)

lemma json_post_acceptable:
  "length d \<le> 1048576 \<Longrightarrow> acceptable (NewRelay f NoopValidator []) (json_post d)"
  using relay_defaults_props(5) [of zero_options]
  by (simp add: acceptable_def NewRelay_def Let_def json_post_def example_request_def header_defs
        NoopValidator_def limited_def MaxBytesReader_def io_ReadAll_def within_limit_def plain_body_def
        zero_options_def)

theorem ServeWebhook_only_validated_witness:
  "\<exists>r' w'. ServeWebhook list_fifo 7 SendCase (NewRelay list_fifo NoopValidator []) (json_post ''{}'') new_response
     = Some (r', w') \<and> (rl_fifo r' = rl_fifo (NewRelay list_fifo NoopValidator []) \<or> sent_status w' = StatusAccepted)"
proof -
  let ?r = "NewRelay list_fifo NoopValidator []"
  have "relay_inv list_fifo ?r"
    by (rule NewRelay_inv [OF list_fifo_laws]) (simp add: zero_options_def)
  then obtain r' w' where run: "ServeWebhook list_fifo 7 SendCase ?r (json_post ''{}'') new_response = Some (r', w')"
    using ServeWebhook_total by blast
  have "rw_commit new_response = None" by (simp add: new_response_def)
  from ServeWebhook_only_validated [OF run this] run show ?thesis by blast
qed

text \<open>
  End to end: a webhook accepted by a relay with an empty queue and read by the next poll is
  delivered unchanged. The client gets status 200, the exact payload, content type
  \<^verbatim>\<open>application/json\<close>, and of the sender's headers exactly the configured ones.
\<close>

lemma relay_delivers:
  assumes "fifo_laws f" and "relay_inv f r" and "ff_items f (rl_fifo r) = []"
    and "acceptable r req" and "ro_forwardedHeaders (rl_opts r) = Some names"
    and "req_Method poll = ''GET''"
  shows "\<exists>r' w1 w2. relay_run f [Deliver now SendCase req, Poll RecvCase poll] r = Some (r', [w1, w2]) \<and>
    sent_status w1 = StatusAccepted \<and> sent_status w2 = StatusOK \<and>
    rw_body w2 = fst (rl_validator r (limited r req)) \<and>
    sent_header w2 = (\<lambda>k. if k = ''Content-Type'' then [''application/json'']
       else if k \<in> CanonicalHeaderKey ` set names then req_Header req k else []) \<and>
    ff_items f (rl_fifo r') = []"
proof -
  let ?d = "delivery_of r now req"
  obtain k where k: "counter_call (ro_relayedCounter (rl_opts r)) (rl_counts r) = Some k"
    using counter_call_not_nil assms(2) by (auto simp: relay_inv_def)
  obtain k2 where k2: "counter_call (ro_readCounter (rl_opts r)) k = Some k2"
    using counter_call_not_nil assms(2) by (auto simp: relay_inv_def)
  let ?r1 = "r\<lparr>rl_fifo := ff_in f ?d (rl_fifo r), rl_counts := k\<rparr>"
  have s1: "relay_step f (Deliver now SendCase req) r = Some (?r1, WriteHeader new_response StatusAccepted)"
    using ServeWebhook_accept [OF assms(4)] k by (simp add: relay_step_def)
  have "ff_items f (ff_in f ?d (rl_fifo r)) = [?d]"
    using fifo_laws_in [OF assms(1), of ?d "rl_fifo r"] assms(2,3) by (simp add: relay_inv_def fifo_push_def)
  then obtain q' where q': "ff_out f (ff_in f ?d (rl_fifo r)) = Some (?d, q')" "ff_items f q' = []"
    using fifo_laws_out_ready [OF assms(1)] by blast
  let ?w0 = "new_response\<lparr>rw_header := copy_headers (dl_header ?d) (rw_header new_response)\<rparr>"
  let ?w = "Write (rw_Set ?w0 ''Content-Type'' ''application/json'') (dl_body ?d)"
  have s2: "relay_step f (Poll RecvCase poll) ?r1 = Some (?r1\<lparr>rl_fifo := q', rl_counts := k2\<rparr>, ?w)"
    using q' k2 assms(6) by (simp add: relay_step_def WaitForWebhook_def Let_def)
  have hdr: "copy_headers (dl_header ?d) (\<lambda>_. []) k =
      (if k \<in> CanonicalHeaderKey ` set names then req_Header req k else [])" for k
    using copy_forwarded [OF assms(5), of "req_Header req" "\<lambda>_. []" k] by (simp add: delivery_of_def)
  have "sent_header ?w = (\<lambda>k. if k = ''Content-Type'' then [''application/json'']
       else if k \<in> CanonicalHeaderKey ` set names then req_Header req k else [])"
    by (rule ext) (simp add: http_sent new_response_def rw_Set_def header_Set_def hdr)
  moreover have "sent_status ?w = StatusOK" "rw_body ?w = fst (rl_validator r (limited r req))"
    by (simp_all add: http_sent new_response_def rw_Set_def delivery_of_def)
  moreover have "sent_status (WriteHeader new_response StatusAccepted) = StatusAccepted"
    by (simp add: http_sent new_response_def)
  ultimately show ?thesis
    using s1 s2 q'(2) by auto
qed

lemma relay_delivers_instance:
  "\<exists>r' w1 w2. relay_run list_fifo [Deliver 0 SendCase (json_post ''{}''), Poll RecvCase example_request]
      (NewRelay list_fifo NoopValidator []) = Some (r', [w1, w2]) \<and> sent_status w2 = StatusOK \<and> rw_body w2 = ''{}''"
proof -
  let ?r = "NewRelay list_fifo NoopValidator []"
  have inv: "relay_inv list_fifo ?r"
    by (rule NewRelay_inv [OF list_fifo_laws]) (simp add: zero_options_def)
  have empty: "ff_items list_fifo (rl_fifo ?r) = []"
    by (simp add: NewRelay_def list_fifo_def Let_def)
  have names: "ro_forwardedHeaders (rl_opts ?r) = Some DefaultForwardedHeaders"
    using relay_defaults_props(6) [of zero_options] by (simp add: NewRelay_def Let_def zero_options_def)
  have body: "fst (rl_validator ?r (limited ?r (json_post ''{}''))) = ''{}''"
    using relay_defaults_props(5) [of zero_options]
    by (simp add: NewRelay_def Let_def json_post_def NoopValidator_def limited_def MaxBytesReader_def
          io_ReadAll_def within_limit_def plain_body_def zero_options_def)
  have acc: "acceptable ?r (json_post ''{}'')" by (rule json_post_acceptable) simp
  have get: "req_Method example_request = ''GET''" by (simp add: example_request_def)
  from relay_delivers [OF list_fifo_laws inv empty acc names get, of 0] body show ?thesis by auto
qed

end
