(* ===== verification/WebhookConfig.thy ===== *)
theory WebhookConfig
  imports WebhookRelay
begin

text \<open>
  \<^verbatim>\<open>webhooks/webhook_config.go\<close>: the configuration of a relay and the secrets of its senders. The YAML library
  and \<^verbatim>\<open>cloudeng.io/cmdutil/keys\<close> are arguments: the strict decoder of a node, the decoder of a map of secrets,
  the parser of the service specific part, and the lookup of a token in a context.
\<close>

record 'd Config =
  cf_DeliveryPath :: string
  cf_RelayPath :: string
  cf_MaxPayloadSize :: int
  cf_MaxQueueSize :: int
  cf_Service :: string
  cf_ServiceSpecific :: "'d option"

definition config_defaults :: "'d Config \<Rightarrow> 'd Config" where
  "config_defaults cc =
     (let cc = (if cf_MaxQueueSize cc = 0 then cc\<lparr>cf_MaxQueueSize := DefaultQueueSize\<rparr> else cc)
      in if cf_MaxPayloadSize cc = 0 then cc\<lparr>cf_MaxPayloadSize := DefaultPayloadLimit\<rparr> else cc)"

text \<open>\<open>decode\<close> stands for re-encoding the node and decoding it with unknown fields refused.\<close>

definition Config_UnmarshalYAML ::
    "('n \<Rightarrow> ('e, 'd Config) result) \<Rightarrow> 'd Config \<Rightarrow> 'n \<Rightarrow> 'd Config \<times> ('e, unit) result" where
  "Config_UnmarshalYAML decode c node =
     (case decode node of Inl e \<Rightarrow> (c, Inl e) | Inr cc \<Rightarrow> (config_defaults cc, Inr ()))"

definition Config_MarshalYAML :: "'d Config \<Rightarrow> 'd Config" where
  "Config_MarshalYAML c = config_defaults c"

definition Config_Options :: "'d Config \<Rightarrow> RelayOption list" where
  "Config_Options c = [WithQueueSize (cf_MaxQueueSize c), WithMaxPayloadSize (cf_MaxPayloadSize c)]"

subsection \<open>Secrets\<close>

record KeySpec =
  ks_User :: string
  ks_ID :: string

text \<open>
  A map of secrets is the list of its entries in the order in which the loop visits them; its keys are
  distinct. \<open>None\<close> is a nil map or slice.
\<close>

type_synonym secrets = "(string \<times> string list) list"

record SecretsConfig =
  sc_Secrets :: "secrets option"
  sc_SecretSpecs :: "KeySpec list option"

definition secret_specs :: "secrets \<Rightarrow> KeySpec list" where
  "secret_specs secrets = concat (map (\<lambda>(user, ids). map (\<lambda>id. \<lparr>ks_User = user, ks_ID = id\<rparr>) ids) secrets)"

definition SecretsConfig_UnmarshalYAML ::
    "('n \<Rightarrow> ('e, secrets option) result) \<Rightarrow> SecretsConfig \<Rightarrow> 'n \<Rightarrow> SecretsConfig \<times> ('e, unit) result" where
  "SecretsConfig_UnmarshalYAML decode sc node =
     (case decode node of
        Inl e \<Rightarrow> (sc, Inl e)
      | Inr secrets \<Rightarrow>
          (\<lparr>sc_Secrets = secrets, sc_SecretSpecs = Some (secret_specs (case secrets of None \<Rightarrow> [] | Some m \<Rightarrow> m))\<rparr>, Inr ()))"

definition group_spec :: "KeySpec \<Rightarrow> (string \<rightharpoonup> string list) \<Rightarrow> (string \<rightharpoonup> string list)" where
  "group_spec spec m =
     m(ks_User spec \<mapsto> (case m (ks_User spec) of None \<Rightarrow> [] | Some ids \<Rightarrow> ids) @ [ks_ID spec])"

definition SecretsConfig_MarshalYAML :: "SecretsConfig \<Rightarrow> (string \<rightharpoonup> string list)" where
  "SecretsConfig_MarshalYAML sc =
     (case sc_Secrets sc of
        Some secrets \<Rightarrow> map_of secrets
      | None \<Rightarrow>
          (case sc_SecretSpecs sc of
             None \<Rightarrow> Map.empty
           | Some specs \<Rightarrow> fold group_spec specs Map.empty))"

text \<open>
  The loop over the specifications with the tokens found so far: when one is missing, those are cleared and
  none is returned. The first component is the list of the tokens that were cleared.
\<close>

fun tokens_from :: "(string \<Rightarrow> string \<Rightarrow> 'tok option) \<Rightarrow> KeySpec list \<Rightarrow> 'tok list \<Rightarrow> 'tok list \<times> (KeySpec, 'tok list) result" where
  "tokens_from lookup [] toks = ([], Inr toks)"
| "tokens_from lookup (spec # specs) toks =
     (case lookup (ks_User spec) (ks_ID spec) of
        None \<Rightarrow> (toks, Inl spec)
      | Some tok \<Rightarrow> tokens_from lookup specs (toks @ [tok]))"

definition TokensFromContext ::
    "(string \<Rightarrow> string \<Rightarrow> 'tok option) \<Rightarrow> SecretsConfig \<Rightarrow> 'tok list \<times> (KeySpec, 'tok list) result" where
  "TokensFromContext lookup sc =
     tokens_from lookup (case sc_SecretSpecs sc of None \<Rightarrow> [] | Some specs \<Rightarrow> specs) []"

datatype 'e specific_error = ErrWrongServiceSpecificConfig | ParseFailed string 'e

definition ParseSpecific :: "('d \<Rightarrow> ('e, 't) result) \<Rightarrow> 'd Config \<Rightarrow> ('e specific_error, 't) result" where
  "ParseSpecific parseDeferred c =
     (case cf_ServiceSpecific c of
        None \<Rightarrow> Inl ErrWrongServiceSpecificConfig
      | Some d \<Rightarrow> (case parseDeferred d of Inl e \<Rightarrow> Inl (ParseFailed (cf_Service c) e) | Inr cfg \<Rightarrow> Inr cfg))"

subsection \<open>Facts\<close>

lemma config_defaults_idem [simp]: "config_defaults (config_defaults c) = config_defaults c"
  by (simp add: config_defaults_def Let_def DefaultQueueSize_def DefaultPayloadLimit_def)

text \<open>Writing a configuration and reading it back gives the configuration with its defaults filled in.\<close>

lemma Config_yaml_roundtrip:
  "decode (encode (Config_MarshalYAML c)) = Inr (Config_MarshalYAML c) \<Longrightarrow>
   Config_UnmarshalYAML decode c0 (encode (Config_MarshalYAML c)) = (config_defaults c, Inr ())"
  by (simp add: Config_UnmarshalYAML_def Config_MarshalYAML_def)

text \<open>A relay made from the options of a configuration has the sizes of its defaulted form, whether or not it was read from YAML.\<close>

lemma Config_Options_relay:
  "ro_size (rl_opts (NewRelay f v (Config_Options c))) = cf_MaxQueueSize (config_defaults c)"
  "ro_payloadLimit (rl_opts (NewRelay f v (Config_Options c))) = cf_MaxPayloadSize (config_defaults c)"
  by (simp_all add: NewRelay_def Config_Options_def Let_def relay_defaults_props WithQueueSize_def
      WithMaxPayloadSize_def config_defaults_def DefaultQueueSize_def DefaultPayloadLimit_def)

definition token_of :: "(string \<Rightarrow> string \<Rightarrow> 'tok option) \<Rightarrow> KeySpec \<Rightarrow> 'tok \<Rightarrow> bool" where
  "token_of lookup s t \<longleftrightarrow> lookup (ks_User s) (ks_ID s) = Some t"

lemma tokens_from_ok:
  "tokens_from lookup specs toks = (cleared, Inr ts) \<longleftrightarrow>
     cleared = [] \<and> (\<exists>us. ts = toks @ us \<and> list_all2 (token_of lookup) specs us)"
proof (induction specs arbitrary: toks)
  case (Cons s specs)
  show ?case
  proof (cases "lookup (ks_User s) (ks_ID s)")
    case None
    then show ?thesis by (auto simp: list_all2_Cons1 token_of_def)
  next
    case (Some t)
    with Cons show ?thesis by (auto simp: list_all2_Cons1 token_of_def)
  qed
qed auto

lemma tokens_from_missing:
  "tokens_from lookup specs toks = (cleared, Inl s) \<Longrightarrow>
     \<exists>before after us. specs = before @ s # after \<and> lookup (ks_User s) (ks_ID s) = None \<and>
       cleared = toks @ us \<and> list_all2 (token_of lookup) before us"
proof (induction specs arbitrary: toks)
  case (Cons x specs)
  show ?case
  proof (cases "lookup (ks_User x) (ks_ID x)")
    case None
    with Cons.prems show ?thesis by (intro exI [of _ "[]"] exI [of _ specs]) auto
  next
    case (Some t)
    with Cons obtain before after us where "specs = before @ s # after" "lookup (ks_User s) (ks_ID s) = None"
      "cleared = toks @ t # us" "list_all2 (token_of lookup) before us" by fastforce
    moreover have "token_of lookup x t" using Some by (simp add: token_of_def)
    ultimately have "x # specs = (x # before) @ s # after \<and> lookup (ks_User s) (ks_ID s) = None \<and>
        cleared = toks @ (t # us) \<and> list_all2 (token_of lookup) (x # before) (t # us)" by simp
    then show ?thesis by blast
  qed
qed simp

text \<open>
  \<open>TokensFromContext\<close> is all or nothing: it returns one token for every key specification, in their
  order, and clears none, or it names the first specification with no token, returns no token and has
  cleared every token it had read.
\<close>

theorem TokensFromContext_all_or_nothing:
  assumes "sc_SecretSpecs sc = Some specs"
  shows "(TokensFromContext lookup sc = (cleared, Inr toks) \<longleftrightarrow>
      cleared = [] \<and> list_all2 (token_of lookup) specs toks) \<and>
    (TokensFromContext lookup sc = (cleared, Inl s) \<longrightarrow>
      (\<exists>before after. specs = before @ s # after \<and> lookup (ks_User s) (ks_ID s) = None \<and>
         list_all2 (token_of lookup) before cleared))"
proof -
  have run: "TokensFromContext lookup sc = tokens_from lookup specs []" using assms by (simp add: TokensFromContext_def)
  show ?thesis unfolding run using tokens_from_ok [of lookup specs "[]"] tokens_from_missing [of lookup specs "[]"] by fastforce
qed

definition demo_lookup :: "string \<Rightarrow> string \<Rightarrow> string option" where
  "demo_lookup user i = (if user = ''u'' then Some (i @ ''-key'') else None)"

theorem TokensFromContext_all_or_nothing_witness:
  "TokensFromContext demo_lookup \<lparr>sc_Secrets = None, sc_SecretSpecs = Some [\<lparr>ks_User = ''u'', ks_ID = ''a''\<rparr>]\<rparr>
     = ([], Inr [''a-key''])"
  using TokensFromContext_all_or_nothing [of "\<lparr>sc_Secrets = None, sc_SecretSpecs = Some [\<lparr>ks_User = ''u'', ks_ID = ''a''\<rparr>]\<rparr>"
      "[\<lparr>ks_User = ''u'', ks_ID = ''a''\<rparr>]" demo_lookup "[]" "[''a-key'']"]
  by (simp add: demo_lookup_def token_of_def)

lemma group_spec_eq:
  "group_spec s m user =
     (if ks_User s = user then Some ((case m user of None \<Rightarrow> [] | Some x \<Rightarrow> x) @ [ks_ID s]) else m user)"
  by (simp add: group_spec_def)

lemma fold_group_spec:
  "fold group_spec specs m user =
     (case map ks_ID (filter (\<lambda>s. ks_User s = user) specs) of
        [] \<Rightarrow> m user
      | ids \<Rightarrow> Some ((case m user of None \<Rightarrow> [] | Some x \<Rightarrow> x) @ ids))"
proof (induction specs arbitrary: m)
  case (Cons s specs)
  show ?case
    by (cases "map ks_ID (filter (\<lambda>s. ks_User s = user) specs)")
      (auto simp: Cons.IH [of "group_spec s m"] group_spec_eq [of s m user])
qed simp

lemma secret_specs_ids:
  assumes "distinct (map fst m)"
  shows "map ks_ID (filter (\<lambda>s. ks_User s = user) (secret_specs m)) =
    (case map_of m user of None \<Rightarrow> [] | Some ids \<Rightarrow> ids)"
  using assms
proof (induction m)
  case (Cons e m)
  obtain u ids where e: "e = (u, ids)" by (cases e)
  have own: "map ks_ID (filter (\<lambda>s. ks_User s = user) (map (\<lambda>id. \<lparr>ks_User = u, ks_ID = id\<rparr>) ids)) =
      (if u = user then ids else [])"
    by (induction ids) auto
  have "u = user \<Longrightarrow> map_of m user = None" using Cons.prems e by (auto simp: map_of_eq_None_iff)
  with own Cons e show ?case by (auto simp: secret_specs_def)
qed (simp add: secret_specs_def)

text \<open>
  Secrets survive their flat form: the specifications made from a map, grouped by user again, give the map
  back, except that users without secrets are gone.
\<close>

lemma secrets_regrouped:
  assumes "distinct (map fst m)"
  shows "SecretsConfig_MarshalYAML \<lparr>sc_Secrets = None, sc_SecretSpecs = Some (secret_specs m)\<rparr> user =
    (if map_of m user = Some [] then None else map_of m user)"
proof -
  have "SecretsConfig_MarshalYAML \<lparr>sc_Secrets = None, sc_SecretSpecs = Some (secret_specs m)\<rparr> user =
      (case (case map_of m user of None \<Rightarrow> [] | Some ids \<Rightarrow> ids) of [] \<Rightarrow> None | ids \<Rightarrow> Some ids)"
    by (simp add: SecretsConfig_MarshalYAML_def fold_group_spec secret_specs_ids [OF assms] split: list.splits)
  then show ?thesis by (auto split: option.splits list.splits)
qed

end
