(* ===== verification/RelaySpec.thy ===== *)
theory RelaySpec
  imports WebhookRelay
begin

text \<open>
  What the webhook relay promises, as an abstract machine, and that the handlers of \<^verbatim>\<open>webhooks/relay.go\<close>
  implement it over any queue that satisfies the documented laws. The state of the machine is the list of
  the deliveries that wait; its outputs say what a request achieved.
\<close>

datatype relay_out = Queued delivery | Handed delivery | Nothing

text \<open>
  One event: an acceptable webhook joins the end of the list, which loses its oldest element when full; a
  poll takes the first element; a scan drops what has expired. The settings are those of a relay.
\<close>

definition spec_step :: "'q Relay \<Rightarrow> relay_event \<Rightarrow> delivery list \<Rightarrow> delivery list \<times> relay_out" where
  "spec_step r e xs =
     (case e of
        Deliver now c req \<Rightarrow>
          if acceptable r req \<and> c = SendCase
          then (fifo_push (ro_size (rl_opts r)) (delivery_of r now req) xs, Queued (delivery_of r now req))
          else (xs, Nothing)
      | Poll c req \<Rightarrow>
          if req_Method req = ''GET'' \<and> c = RecvCase \<and> xs \<noteq> [] then (tl xs, Handed (hd xs)) else (xs, Nothing)
      | Scan now \<Rightarrow>
          (if ro_expiry (rl_opts r) \<le> 0 then xs else filter (\<lambda>d. now \<le> dl_expiration d) xs, Nothing))"

fun spec_run :: "'q Relay \<Rightarrow> relay_event list \<Rightarrow> delivery list \<Rightarrow> delivery list \<times> relay_out list" where
  "spec_run r [] xs = (xs, [])"
| "spec_run r (e # es) xs =
     (case spec_step r e xs of (xs', o1) \<Rightarrow> case spec_run r es xs' of (xs'', os) \<Rightarrow> (xs'', o1 # os))"

fun queued :: "relay_out list \<Rightarrow> delivery list" where
  "queued [] = []"
| "queued (Queued d # os) = d # queued os"
| "queued (_ # os) = queued os"

fun handed :: "relay_out list \<Rightarrow> delivery list" where
  "handed [] = []"
| "handed (Handed d # os) = d # handed os"
| "handed (_ # os) = handed os"

text \<open>What the client of the handlers sees of an output.\<close>

fun out_matches :: "relay_out \<Rightarrow> response \<Rightarrow> bool" where
  "out_matches (Queued d) w = (sent_status w = StatusAccepted)"
| "out_matches (Handed d) w = (sent_status w = StatusOK \<and> rw_body w = dl_body d)"
| "out_matches Nothing w = True"

subsection \<open>The abstract machine keeps the order and invents nothing\<close>

lemma subseq_fifo_push: "subseq (fifo_push n d xs) (xs @ [d])"
  by (cases xs) (auto simp: fifo_push_def)

lemma spec_step_subseq:
  "spec_step r e xs = (xs', o1) \<Longrightarrow> subseq (handed [o1] @ xs') (xs @ queued [o1])"
  using subseq_fifo_push [of _ _ xs] hd_Cons_tl [of xs]
  by (cases e) (auto simp: spec_step_def split: if_splits)

lemma handed_Cons: "handed (o1 # os) = handed [o1] @ handed os"
  by (cases o1) auto

lemma queued_Cons: "queued (o1 # os) = queued [o1] @ queued os"
  by (cases o1) auto

lemma spec_run_subseq: "spec_run r es xs = (xs', os) \<Longrightarrow> subseq (handed os @ xs') (xs @ queued os)"
proof (induction es arbitrary: xs os)
  case (Cons e es)
  obtain x1 o1 where s: "spec_step r e xs = (x1, o1)" by fastforce
  with Cons.prems obtain os' where os: "os = o1 # os'" "spec_run r es x1 = (xs', os')"
    by (auto split: prod.splits)
  from Cons.IH [OF os(2)] have "subseq (handed [o1] @ handed os' @ xs') (handed [o1] @ x1 @ queued os')"
    by (rule list_emb_append_mono [OF subseq_order.refl])
  also have "subseq \<dots> (xs @ queued [o1] @ queued os')"
    using list_emb_append_mono [OF spec_step_subseq [OF s] subseq_order.refl [of "queued os'"]] by simp
  finally show ?case unfolding os(1) handed_Cons [of o1 os'] queued_Cons [of o1 os'] by simp
qed simp

subsection \<open>Refinement\<close>

definition same_settings :: "'q Relay \<Rightarrow> 'q Relay \<Rightarrow> bool" where
  "same_settings r r' \<longleftrightarrow> rl_opts r' = rl_opts r \<and> rl_validator r' = rl_validator r"

lemma spec_step_settings: "same_settings r r' \<Longrightarrow> spec_step r' = spec_step r"
  by (auto simp: fun_eq_iff spec_step_def same_settings_def acceptable_def delivery_of_def limited_def
      forwardedHeaders_def split: relay_event.splits)

lemma spec_run_settings: "same_settings r r' \<Longrightarrow> spec_run r' es xs = spec_run r es xs"
  by (induction es arbitrary: xs) (simp_all add: spec_step_settings split: prod.splits)

lemma Poll_refines:
  assumes laws: "fifo_laws f" and run: "WaitForWebhook f c r req new_response = Some (r', w)"
  shows "\<exists>o1. spec_step r (Poll c req) (ff_items f (rl_fifo r)) = (ff_items f (rl_fifo r'), o1) \<and> out_matches o1 w"
proof (cases "req_Method req = ''GET'' \<and> c = RecvCase")
  case False
  with run have "r' = r" by (cases c) (auto simp: WaitForWebhook_def split: if_splits)
  with False show ?thesis by (auto simp: spec_step_def)
next
  case recv: True
  show ?thesis
  proof (cases "ff_out f (rl_fifo r)")
    case None
    with laws have "ff_items f (rl_fifo r) = []" by (auto simp: fifo_laws_def)
    with None recv run show ?thesis by (auto simp: WaitForWebhook_def spec_step_def)
  next
    case (Some jq)
    then obtain job q where jq: "ff_out f (rl_fifo r) = Some (job, q)" by (cases jq) auto
    with recv run obtain k where r': "r' = r\<lparr>rl_fifo := q, rl_counts := k\<rparr>"
      and w: "sent_status w = StatusOK" "rw_body w = dl_body job"
      by (auto simp: WaitForWebhook_def Let_def new_response_def rw_Set_def sent_Write sent_WriteHeader)
    show ?thesis using fifo_laws_out [OF laws jq] recv r' w by (simp add: spec_step_def)
  qed
qed

lemma Deliver_refines:
  assumes laws: "fifo_laws f" and inv: "relay_inv f r"
    and run: "ServeWebhook f now c r req new_response = Some (r', w)"
  shows "\<exists>o1. spec_step r (Deliver now c req) (ff_items f (rl_fifo r)) = (ff_items f (rl_fifo r'), o1) \<and> out_matches o1 w"
proof (cases "acceptable r req \<and> c = SendCase")
  case True
  with run ServeWebhook_accept [of r req f now new_response] obtain k where
    r': "r' = r\<lparr>rl_fifo := ff_in f (delivery_of r now req) (rl_fifo r), rl_counts := k\<rparr>"
    and w: "w = WriteHeader new_response StatusAccepted" by auto
  have "ff_size f (rl_fifo r) = ro_size (rl_opts r)" using inv by (simp add: relay_inv_def)
  with True r' w fifo_laws_in [OF laws, of "delivery_of r now req" "rl_fifo r"] show ?thesis
    by (simp add: spec_step_def sent_WriteHeader new_response_def)
next
  case False
  with ServeWebhook_other [OF False run] show ?thesis by (auto simp: spec_step_def)
qed

lemma Scan_refines:
  assumes laws: "fifo_laws f" and inv: "relay_inv f r"
  shows "spec_step r (Scan now) (ff_items f (rl_fifo r)) = (ff_items f (ff_scan f now (rl_fifo r)), Nothing)"
proof -
  have "ff_scans f (rl_fifo r) = expiryScan (rl_opts r)" using inv by (simp add: relay_inv_def)
  with fifo_laws_scan [OF laws, of now "rl_fifo r"] show ?thesis
    by (auto simp: spec_step_def expiryScan_def Let_def not_less intro!: filter_cong)
qed

lemma relay_step_refines:
  assumes "fifo_laws f" and "relay_inv f r" and "relay_step f e r = Some (r', w)"
  shows "\<exists>o1. spec_step r e (ff_items f (rl_fifo r)) = (ff_items f (rl_fifo r'), o1) \<and> out_matches o1 w"
proof (cases e)
  case (Deliver now c req)
  with assms Deliver_refines show ?thesis by (simp add: relay_step_def)
next
  case (Poll c req)
  with assms Poll_refines show ?thesis by (simp add: relay_step_def)
next
  case (Scan now)
  with assms Scan_refines [OF assms(1,2), of now] show ?thesis by (auto simp: relay_step_def)
qed



end
