(* ===== verification/Webhooks.thy ===== *)
theory Webhooks
  imports WebhookConfig RelaySpec
begin

text \<open>
  The parts of \<^verbatim>\<open>webhooks\<close> together: a relay made from a configuration, whose validator uses the tokens of the
  configured secrets, with a sender that signs its requests and a client that polls.
\<close>

definition configured_relay ::
    "'q fifo_ops \<Rightarrow> (bytes \<Rightarrow> bytes \<Rightarrow> bytes) \<Rightarrow> string \<Rightarrow> bytes list \<Rightarrow> 'd Config \<Rightarrow> 'q Relay" where
  "configured_relay f hmac name tokens cfg =
     NewRelay f (SignatureValidator hmac (SHA256SignatureFromHeader name) (\<lambda>_. Some tokens)) (Config_Options cfg)"

lemma configured_relay_start:
  assumes "fifo_laws f" and "0 \<le> cf_MaxQueueSize cfg"
  shows "relay_inv f (configured_relay f hmac name tokens cfg)"
    and "ff_items f (rl_fifo (configured_relay f hmac name tokens cfg)) = []"
    and "ro_forwardedHeaders (rl_opts (configured_relay f hmac name tokens cfg)) = Some DefaultForwardedHeaders"
proof -
  have size: "0 \<le> ro_size (apply_options (Config_Options cfg) zero_options)"
    using assms(2) by (simp add: Config_Options_def WithQueueSize_def WithMaxPayloadSize_def)
  show "relay_inv f (configured_relay f hmac name tokens cfg)"
    unfolding configured_relay_def by (rule NewRelay_inv [OF assms(1) size])
  have "0 < ro_size (relay_defaults (apply_options (Config_Options cfg) zero_options))"
    using size by (auto simp: relay_defaults_props)
  then show "ff_items f (rl_fifo (configured_relay f hmac name tokens cfg)) = []"
    using fifo_laws_new [OF assms(1)] by (simp add: configured_relay_def NewRelay_def Let_def)
  show "ro_forwardedHeaders (rl_opts (configured_relay f hmac name tokens cfg)) = Some DefaultForwardedHeaders"
    by (simp add: configured_relay_def NewRelay_def Let_def relay_defaults_props Config_Options_def WithQueueSize_def
        WithMaxPayloadSize_def zero_options_def)
qed

lemma limited_body:
  assumes "int (length payload) \<le> ro_payloadLimit (rl_opts r)"
  shows "io_ReadAll (MaxBytesReader (plain_body payload) (ro_payloadLimit (rl_opts r))) = Inr payload"
  using assms by (simp add: io_ReadAll_def MaxBytesReader_def within_limit_def plain_body_def)

lemma SignHTTPRequest_Content_Type:
  assumes "CanonicalHeaderKey name \<noteq> ''Content-Type''"
  shows "header_Get (SignHTTPRequest hmac h payload secret name) ''Content-Type'' = header_Get h ''Content-Type''"
  using assms by (simp add: SignHTTPRequest_def header_defs Let_def CanonicalHeaderKey_eq_Content_Length)

text \<open>
  C2. End to end: with the tokens of a secrets configuration and a relay made from its configuration, a JSON
  payload within the limit that a sender signs with the secret of any configured user is accepted, and the
  next poll returns exactly that payload as JSON, with of the sender's headers the default forwarded ones and no
  others.
\<close>

theorem webhook_end_to_end:
  assumes "fifo_laws f" and "0 \<le> cf_MaxQueueSize cfg"
    and "sc_SecretSpecs sc = Some specs" and "TokensFromContext lookup sc = (cleared, Inr tokens)"
    and "spec \<in> set specs" and "lookup (ks_User spec) (ks_ID spec) = Some secret"
    and "CanonicalHeaderKey name \<notin> {''Content-Length'', ''Content-Type''}"
    and "header_Get h ''Content-Type'' = ''application/json''"
    and "req_Header req = SignHTTPRequest hmac h payload secret name"
    and "req_Method req = ''POST''" and "req_Body req = Some (plain_body payload)" and "\<not> req_ctx_err req"
    and "req_ContentLength req = int (length payload)" and "int (length payload) \<le> cf_MaxPayloadSize (config_defaults cfg)"
    and "req_Method poll = ''GET''"
  shows "\<exists>r' w1 w2. relay_run f [Deliver now SendCase req, Poll RecvCase poll] (configured_relay f hmac name tokens cfg) =
      Some (r', [w1, w2]) \<and> sent_status w1 = StatusAccepted \<and> sent_status w2 = StatusOK \<and> rw_body w2 = payload \<and>
    sent_header w2 = (\<lambda>k. if k = ''Content-Type'' then [''application/json'']
       else if k \<in> CanonicalHeaderKey ` set DefaultForwardedHeaders then req_Header req k else []) \<and>
    ff_items f (rl_fifo r') = []"
proof -
  let ?r = "configured_relay f hmac name tokens cfg"
  have "list_all2 (token_of lookup) specs tokens"
    using assms(3,4) tokens_from_ok [of lookup specs "[]"] by (simp add: TokensFromContext_def)
  then have secret: "secret \<in> set tokens"
    using assms(5,6) by (auto simp: list_all2_conv_all_nth in_set_conv_nth token_of_def)
  have limit: "ro_payloadLimit (rl_opts ?r) = cf_MaxPayloadSize (config_defaults cfg)"
    unfolding configured_relay_def by (rule Config_Options_relay)
  let ?lim = "limited ?r req"
  have "SignatureValidator hmac (SHA256SignatureFromHeader name) (\<lambda>_. Some tokens) ?lim = (payload, StatusOK)"
  proof (rule SignHTTPRequest_accepted [where h = h and secret = secret and tokens = tokens])
    show "io_ReadAll (MaxBytesReader (plain_body payload) (ro_payloadLimit (rl_opts ?r))) = Inr payload"
      by (rule limited_body) (simp add: limit assms(14))
  qed (use assms(7,9,11) secret in \<open>simp_all add: limited_def\<close>)
  then have valid: "rl_validator ?r ?lim = (payload, StatusOK)" by (simp add: configured_relay_def NewRelay_def Let_def)
  then have "acceptable ?r req"
    using assms(7-14) by (simp add: acceptable_def limit SignHTTPRequest_Content_Type)
  from relay_delivers [OF assms(1) configured_relay_start(1,2) [OF assms(1,2)] this configured_relay_start(3) [OF assms(1,2)] assms(15), of now]
  show ?thesis using valid by simp
qed

definition demo_post :: request where
  "demo_post = example_request\<lparr>req_Method := ''POST'', req_Body := Some (plain_body ''{}''), req_ContentLength := 2,
     req_Header := SignHTTPRequest (\<lambda>s p. s @ p) (header_Set (\<lambda>_. []) ''Content-Type'' ''application/json'') ''{}'' ''a-key'' ''X-Sig''\<rparr>"

definition demo_config :: "unit Config" where
  "demo_config = \<lparr>cf_DeliveryPath = ''/in'', cf_RelayPath = ''/out'', cf_MaxPayloadSize = 0, cf_MaxQueueSize = 0, cf_Service = [],
     cf_ServiceSpecific = None\<rparr>"

theorem webhook_end_to_end_witness:
  "\<exists>r' w1 w2. relay_run list_fifo [Deliver 0 SendCase demo_post, Poll RecvCase example_request]
      (configured_relay list_fifo (\<lambda>s p. s @ p) ''X-Sig'' [''a-key''] demo_config) = Some (r', [w1, w2]) \<and>
     sent_status w2 = StatusOK \<and> rw_body w2 = ''{}''"
proof -
  let ?spec = "\<lparr>ks_User = ''u'', ks_ID = ''a''\<rparr>"
  let ?sc = "\<lparr>sc_Secrets = None, sc_SecretSpecs = Some [?spec]\<rparr>"
  have toks: "TokensFromContext demo_lookup ?sc = ([], Inr [''a-key''])" by (simp add: TokensFromContext_def demo_lookup_def)
  have look: "demo_lookup (ks_User ?spec) (ks_ID ?spec) = Some ''a-key''" by (simp add: demo_lookup_def)
  have name: "CanonicalHeaderKey ''X-Sig'' \<notin> {''Content-Length'', ''Content-Type''}" by code_simp
  have "\<exists>r' w1 w2. relay_run list_fifo [Deliver 0 SendCase demo_post, Poll RecvCase example_request]
      (configured_relay list_fifo (\<lambda>s p. s @ p) ''X-Sig'' [''a-key''] demo_config) = Some (r', [w1, w2]) \<and>
      sent_status w1 = StatusAccepted \<and> sent_status w2 = StatusOK \<and> rw_body w2 = ''{}'' \<and>
      sent_header w2 = (\<lambda>k. if k = ''Content-Type'' then [''application/json'']
         else if k \<in> CanonicalHeaderKey ` set DefaultForwardedHeaders then req_Header demo_post k else []) \<and>
      ff_items list_fifo (rl_fifo r') = []"
    by (rule webhook_end_to_end [OF list_fifo_laws _ _ toks _ look name,
          where specs = "[?spec]" and h = "header_Set (\<lambda>_. []) ''Content-Type'' ''application/json''"])
      (simp_all add: demo_config_def demo_post_def example_request_def config_defaults_def DefaultPayloadLimit_def)
  then show ?thesis by blast
qed

end
