(* ===== verification/Certs.thy ===== *)
theory Certs
  imports GoEncoding
begin

text \<open>
  \<^verbatim>\<open>certs.go\<close>: certificate chains, PEM files and serial numbers.

  A parsed certificate is the record of the fields the repository looks at. \<open>x509.ParseCertificate\<close>, the
  private key parsers, \<open>pem.Decode\<close> and the chain search of \<open>Certificate.Verify\<close> are arguments of the
  functions that call them; the only law needed is that \<open>pem.Decode\<close> consumes what it decodes.
\<close>

record certificate =
  ct_IsCA :: bool
  ct_Raw :: bytes
  ct_DNSNames :: "string list"
  ct_Issuer :: string
  ct_Serial :: "int option"
  ct_NotBefore :: int
  ct_NotAfter :: int
  ct_PublicKey :: bytes
  ct_SigAlg :: nat

datatype cert_error = NoCertsSupplied | MultipleLeaves | NoLeaf | VerifyFailed | ReadFileFailed | ParseCertFailed
  | NoCertsFound | UnknownPKCS8Key | ParseKeyFailed | NoPrivateKey | MultiplePrivateKeys

record verify_options =
  vo_DNSName :: string
  vo_Roots :: "bytes list option"
  vo_Intermediates :: "certificate list option"
  vo_CurrentTime :: "int option"

type_synonym x509_verify = "certificate \<Rightarrow> verify_options \<Rightarrow> (cert_error, certificate list list) result"

subsection \<open>Chains\<close>

fun split_chain :: "certificate list \<Rightarrow> certificate list option \<Rightarrow> certificate option \<Rightarrow>
    (cert_error, certificate list option \<times> certificate option) result" where
  "split_chain [] intermediates leaf = Inr (intermediates, leaf)"
| "split_chain (c # cs) intermediates leaf =
     (if ct_IsCA c
      then split_chain cs (Some ((case intermediates of None \<Rightarrow> [] | Some p \<Rightarrow> p) @ [c])) leaf
      else if leaf \<noteq> None then Inl MultipleLeaves
      else split_chain cs intermediates (Some c))"

definition verifyCertChainOpts ::
    "x509_verify \<Rightarrow> certificate list \<Rightarrow> verify_options \<Rightarrow> (cert_error, certificate list list) result" where
  "verifyCertChainOpts verify certs opts =
     (if certs = [] then Inl NoCertsSupplied
      else case split_chain certs None None of
             Inl e \<Rightarrow> Inl e
           | Inr (intermediates, None) \<Rightarrow> Inl NoLeaf
           | Inr (intermediates, Some leaf) \<Rightarrow> verify leaf (opts\<lparr>vo_Intermediates := intermediates\<rparr>))"

definition VerifyCertChain ::
    "x509_verify \<Rightarrow> string \<Rightarrow> certificate list \<Rightarrow> bytes list option \<Rightarrow> (cert_error, certificate list list) result" where
  "VerifyCertChain verify dnsname certs roots =
     verifyCertChainOpts verify certs
       \<lparr>vo_DNSName = dnsname, vo_Roots = roots, vo_Intermediates = None, vo_CurrentTime = None\<rparr>"

subsection \<open>PEM\<close>

record pem_block =
  pb_Type :: string
  pb_Bytes :: bytes

type_synonym pem_decode = "bytes \<Rightarrow> (pem_block \<times> bytes) option"

definition pem_laws :: "pem_decode \<Rightarrow> bool" where
  "pem_laws dec \<longleftrightarrow> (\<forall>d b rest. dec d = Some (b, rest) \<longrightarrow> length rest < length d)"

record pem_parts =
  pp_privateKeys :: "pem_block list"
  pp_publicKeys :: "pem_block list"
  pp_certs :: "pem_block list"

definition classify_block :: "pem_block \<Rightarrow> pem_parts \<Rightarrow> pem_parts" where
  "classify_block b p =
     (if pb_Type b = ''CERTIFICATE'' then p\<lparr>pp_certs := pp_certs p @ [b]\<rparr>
      else if strings_HasSuffix (pb_Type b) ''PRIVATE KEY'' then p\<lparr>pp_privateKeys := pp_privateKeys p @ [b]\<rparr>
      else if strings_HasSuffix (pb_Type b) ''PUBLIC KEY'' then p\<lparr>pp_publicKeys := pp_publicKeys p @ [b]\<rparr>
      else p)"

text \<open>The loop of \<open>ParsePEM\<close>. Each round consumes input, so the input's length is enough fuel.\<close>

fun pem_loop :: "pem_decode \<Rightarrow> nat \<Rightarrow> bytes \<Rightarrow> pem_parts \<Rightarrow> pem_parts option" where
  "pem_loop dec 0 rest p = (case dec rest of None \<Rightarrow> Some p | Some _ \<Rightarrow> None)"
| "pem_loop dec (Suc n) rest p =
     (case dec rest of None \<Rightarrow> Some p | Some (b, rest') \<Rightarrow> pem_loop dec n rest' (classify_block b p))"

definition ParsePEM :: "pem_decode \<Rightarrow> bytes \<Rightarrow> pem_parts option" where
  "ParsePEM dec pemData =
     pem_loop dec (length pemData) pemData \<lparr>pp_privateKeys = [], pp_publicKeys = [], pp_certs = []\<rparr>"

definition parseCertsPEM :: "(bytes \<Rightarrow> certificate option) \<Rightarrow> pem_block list \<Rightarrow> (cert_error, certificate list) result" where
  "parseCertsPEM parse certsPEM =
     (case map_result (\<lambda>b. case parse (pb_Bytes b) of None \<Rightarrow> Inl ParseCertFailed | Some c \<Rightarrow> Inr c) certsPEM of
        Inl e \<Rightarrow> Inl e
      | Inr certs \<Rightarrow> if certs = [] then Inl NoCertsFound else Inr certs)"

definition ParseCertsPEM ::
    "pem_decode \<Rightarrow> (bytes \<Rightarrow> certificate option) \<Rightarrow> bytes \<Rightarrow> (cert_error, certificate list) result option" where
  "ParseCertsPEM dec parse pemData =
     (case ParsePEM dec pemData of
        None \<Rightarrow> None
      | Some p \<Rightarrow>
          Some (case parseCertsPEM parse (pp_certs p) of
                  Inl e \<Rightarrow> Inl e
                | Inr certs \<Rightarrow> if certs = [] then Inl NoCertsFound else Inr certs))"

definition ReadAndParseCertsPEM ::
    "pem_decode \<Rightarrow> (bytes \<Rightarrow> certificate option) \<Rightarrow> (string \<Rightarrow> bytes option) \<Rightarrow> string \<Rightarrow>
       (cert_error, certificate list) result option" where
  "ReadAndParseCertsPEM dec parse readFile pemFile =
     (case readFile pemFile of
        None \<Rightarrow> Some (Inl ReadFileFailed)
      | Some data \<Rightarrow>
          (case ParseCertsPEM dec parse data of
             None \<Rightarrow> None
           | Some (Inl e) \<Rightarrow> Some (Inl e)
           | Some (Inr certs) \<Rightarrow> Some (if certs = [] then Inl NoCertsFound else Inr certs)))"

text \<open>The key parsers: PKCS#1, PKCS#8 with the kind of key found, and SEC 1.\<close>

datatype 'k pkcs8_key = RSAKey 'k | ECDSAKey 'k | OtherKey

record 'k key_parsers =
  kp_PKCS1 :: "bytes \<Rightarrow> 'k option"
  kp_PKCS8 :: "bytes \<Rightarrow> 'k pkcs8_key option"
  kp_EC :: "bytes \<Rightarrow> 'k option"

definition ParsePrivateKeyDER :: "'k key_parsers \<Rightarrow> bytes \<Rightarrow> (cert_error, 'k) result" where
  "ParsePrivateKeyDER kp der =
     (case kp_PKCS1 kp der of
        Some key \<Rightarrow> Inr key
      | None \<Rightarrow>
          (case kp_PKCS8 kp der of
             Some (RSAKey key) \<Rightarrow> Inr key
           | Some (ECDSAKey key) \<Rightarrow> Inr key
           | Some OtherKey \<Rightarrow> Inl UnknownPKCS8Key
           | None \<Rightarrow>
               (case kp_EC kp der of Some key \<Rightarrow> Inr key | None \<Rightarrow> Inl ParseKeyFailed)))"

definition ReadAndParsePrivateKeyPEM ::
    "pem_decode \<Rightarrow> 'k key_parsers \<Rightarrow> (string \<Rightarrow> bytes option) \<Rightarrow> string \<Rightarrow> (cert_error, 'k) result option" where
  "ReadAndParsePrivateKeyPEM dec kp readFile pemFile =
     (case readFile pemFile of
        None \<Rightarrow> Some (Inl ReadFileFailed)
      | Some data \<Rightarrow>
          (case ParsePEM dec data of
             None \<Rightarrow> None
           | Some p \<Rightarrow>
               Some (case pp_privateKeys p of
                       [] \<Rightarrow> Inl NoPrivateKey
                     | [k] \<Rightarrow> ParsePrivateKeyDER kp (pb_Bytes k)
                     | _ \<Rightarrow> Inl MultiplePrivateKeys)))"

fun FindLeafPEM ::
    "(bytes \<Rightarrow> certificate option) \<Rightarrow> pem_block list \<Rightarrow> (cert_error, bytes \<times> certificate) result" where
  "FindLeafPEM parse [] = Inl NoLeaf"
| "FindLeafPEM parse (b # bs) =
     (if pb_Type b \<noteq> ''CERTIFICATE'' then FindLeafPEM parse bs
      else case parse (pb_Bytes b) of
             None \<Rightarrow> Inl ParseCertFailed
           | Some cert \<Rightarrow> if \<not> ct_IsCA cert then Inr (pb_Bytes b, cert) else FindLeafPEM parse bs)"

subsection \<open>Serial numbers\<close>

text \<open>\<open>big.Int.Bytes\<close>: the absolute value, big-endian, without leading zero bytes.\<close>

function be_bytes :: "nat \<Rightarrow> bytes" where
  "be_bytes n = (if n = 0 then [] else be_bytes (n div 256) @ [char_of (n mod 256)])"
  by pat_completeness auto
termination
  by (relation "measure id") auto

declare be_bytes.simps [simp del]

definition big_Bytes :: "int \<Rightarrow> bytes" where
  "big_Bytes i = be_bytes (nat \<bar>i\<bar>)"

fun colon_pairs :: "nat \<Rightarrow> string \<Rightarrow> string" where
  "colon_pairs i (a # b # r) = (if i > 0 then '':'' else []) @ [a, b] @ colon_pairs (i + 2) r"
| "colon_pairs i r = []"

definition SerialNumberOpenSSL :: "int option \<Rightarrow> string" where
  "SerialNumberOpenSSL serial =
     (case serial of None \<Rightarrow> ''nil'' | Some s \<Rightarrow> colon_pairs 0 (hex_EncodeToString (big_Bytes s)))"

function hex_nat :: "nat \<Rightarrow> string" where
  "hex_nat n = (if n < 16 then [digit_lower n] else hex_nat (n div 16) @ [digit_lower (n mod 16)])"
  by pat_completeness auto
termination
  by (relation "measure id") auto

declare hex_nat.simps [simp del]

text \<open>\<open>fmt.Sprintf("%0*x", width, v)\<close>: zeros go between the sign and the digits.\<close>

definition fmt_0x :: "nat \<Rightarrow> int \<Rightarrow> string" where
  "fmt_0x width v =
     (let sign = (if v < 0 then ''-'' else []); ds = hex_nat (nat \<bar>v\<bar>)
      in sign @ replicate (width - (length sign + length ds)) CHR ''0'' @ ds)"

definition SerialNumberHex :: "int option \<Rightarrow> string" where
  "SerialNumberHex serial =
     (case serial of None \<Rightarrow> [] | Some s \<Rightarrow> fmt_0x (length (big_Bytes s) * 2) s)"

text \<open>The remote address of a hello: nil hellos and connections give the empty string.\<close>

definition RemoteAddrFromClientHello :: "string option option \<Rightarrow> string" where
  "RemoteAddrFromClientHello hello = (case hello of Some (Some addr) \<Rightarrow> addr | _ \<Rightarrow> [])"

subsection \<open>Lemmas\<close>

lemma split_chain_spec:
  "split_chain cs None None =
     (if length (filter (\<lambda>c. \<not> ct_IsCA c) cs) \<le> 1
      then Inr (case filter ct_IsCA cs of [] \<Rightarrow> None | p \<Rightarrow> Some p,
                case filter (\<lambda>c. \<not> ct_IsCA c) cs of [] \<Rightarrow> None | l # _ \<Rightarrow> Some l)
      else Inl MultipleLeaves)"
proof -
  have "split_chain cs im lf =
     (if length (filter (\<lambda>c. \<not> ct_IsCA c) cs) + (if lf = None then 0 else 1) \<le> 1
      then Inr (case filter ct_IsCA cs of [] \<Rightarrow> im | p \<Rightarrow> Some ((case im of None \<Rightarrow> [] | Some q \<Rightarrow> q) @ p),
                case lf of Some l \<Rightarrow> Some l | None \<Rightarrow> (case filter (\<lambda>c. \<not> ct_IsCA c) cs of [] \<Rightarrow> None | l # _ \<Rightarrow> Some l))
      else Inl MultipleLeaves)" for im lf
    by (induction cs arbitrary: im lf) (auto split: list.splits option.splits)
  from this [of None None] show ?thesis by (simp split: list.splits)
qed

lemma pem_loop_enough:
  assumes "pem_laws dec"
  shows "length rest \<le> n \<Longrightarrow> \<exists>p'. pem_loop dec n rest p = Some p' \<and> (\<forall>m \<ge> n. pem_loop dec m rest p = Some p')"
proof (induction n arbitrary: rest p)
  case 0
  then have "rest = []" by simp
  with assms have "dec rest = None"
    by (cases "dec rest") (fastforce simp: pem_laws_def)+
  then have "pem_loop dec m rest p = Some p" for m by (cases m) auto
  then show ?case by blast
next
  case (Suc n)
  show ?case
  proof (cases "dec rest")
    case None
    then have "pem_loop dec m rest p = Some p" for m by (cases m) auto
    then show ?thesis by blast
  next
    case (Some br)
    obtain b rest' where br: "br = (b, rest')" by force
    with assms Some have "length rest' < length rest" by (auto simp: pem_laws_def)
    with Suc.prems have "length rest' \<le> n" by simp
    from Suc.IH [OF this, of "classify_block b p"] obtain p' where
      p': "pem_loop dec n rest' (classify_block b p) = Some p'" "\<forall>m \<ge> n. pem_loop dec m rest' (classify_block b p) = Some p'"
      by blast
    then have "pem_loop dec m rest p = Some p'" if "m \<ge> Suc n" for m
      using that Some br by (cases m) auto
    with p' Some br show ?thesis by auto
  qed
qed

lemma digit_lower_0: "digit_lower 0 = CHR ''0''"
  by (simp add: digit_lower_def char_of_eq_iff)

lemma hex_nat_small: "n < 256 \<Longrightarrow> 0 < n \<Longrightarrow> replicate (2 - length (hex_nat n)) CHR ''0'' @ hex_nat n = [digit_lower (n div 16), digit_lower (n mod 16)]"
  by (cases "n < 16") (auto simp: hex_nat.simps [of n] hex_nat.simps [of "n div 16"] digit_lower_0)

lemma hex_nat_step: "256 \<le> n \<Longrightarrow> hex_nat n = hex_nat (n div 256) @ [digit_lower (n mod 256 div 16), digit_lower (n mod 16)]"
proof -
  assume n: "256 \<le> n"
  have "hex_nat n = hex_nat (n div 16) @ [digit_lower (n mod 16)]" using n by (simp add: hex_nat.simps [of n])
  moreover have "hex_nat (n div 16) = hex_nat (n div 16 div 16) @ [digit_lower (n div 16 mod 16)]"
    using n by (simp add: hex_nat.simps [of "n div 16"])
  moreover have "n div 16 div 16 = n div 256" by (simp add: div_mult2_eq [symmetric])
  moreover have "n mod 256 div 16 = n div 16 mod 16"
    using mod_mult2_eq [of n 16 16] by simp
  ultimately show ?thesis by simp
qed

lemma hex_byte_char_of: "hex_byte (char_of n) = [digit_lower (n mod 256 div 16), digit_lower (n mod 256 mod 16)]"
  by (simp add: hex_byte_def Let_def of_char_of)

lemma hex_pad:
  "0 < n \<Longrightarrow> replicate (2 * length (be_bytes n) - length (hex_nat n)) CHR ''0'' @ hex_nat n = hex_EncodeToString (be_bytes n)"
proof (induction n rule: be_bytes.induct)
  case (1 n)
  show ?case
  proof (cases "n < 256")
    case True
    then have "be_bytes n = [char_of n]" using 1 by (simp add: be_bytes.simps [of n] be_bytes.simps [of 0])
    with True 1 show ?thesis
      using hex_nat_small [of n] by (simp add: hex_EncodeToString_def hex_byte_char_of)
  next
    case False
    let ?m = "n div 256"
    have b: "be_bytes n = be_bytes ?m @ [char_of (n mod 256)]" using False by (simp add: be_bytes.simps [of n])
    have "n mod 16 = n mod 256 mod 16" by (simp add: mod_mod_cancel)
    then have h: "hex_nat n = hex_nat ?m @ hex_byte (char_of (n mod 256))"
      using False hex_nat_step [of n] by (simp only: hex_byte_char_of) simp
    have "replicate (2 * length (be_bytes ?m) - length (hex_nat ?m)) CHR ''0'' @ hex_nat ?m = hex_EncodeToString (be_bytes ?m)"
      using 1 False by simp
    then show ?thesis
      by (simp add: b h hex_EncodeToString_def flip: append_assoc)
  qed
qed

lemma colon_pairs_plain:
  "filter (\<lambda>c. c \<noteq> CHR '':'') (colon_pairs i (hex_EncodeToString bs)) = hex_EncodeToString bs"
proof (induction bs arbitrary: i)
  case (Cons b bs)
  have "c \<noteq> CHR '':''" if "c \<in> set (hex_byte b)" for c
  proof -
    have "hex_val c \<noteq> None" using that
      by (auto simp: hex_byte_def Let_def less_mult_imp_div_less)
    moreover have "hex_val CHR '':'' = None" by (simp add: hex_val_def digit_val_def)
    ultimately show ?thesis by metis
  qed
  then show ?case
    using Cons by (auto simp: hex_EncodeToString_def hex_byte_def Let_def)
qed (simp add: hex_EncodeToString_def)

fun be_value :: "bytes \<Rightarrow> nat \<Rightarrow> nat" where
  "be_value [] acc = acc"
| "be_value (b # bs) acc = be_value bs (256 * acc + of_char b)"

lemma be_value_append: "be_value (a @ b) acc = be_value b (be_value a acc)"
  by (induction a arbitrary: acc) simp_all

lemma be_value_bytes: "be_value (be_bytes n) 0 = n"
proof (induction n rule: be_bytes.induct)
  case (1 n)
  then show ?case
    by (cases "n = 0") (simp_all add: be_bytes.simps [of n] be_value_append of_char_of be_bytes.simps [of 0])
qed

subsection \<open>Properties\<close>

text \<open>
  \<^verbatim>\<open>verifyCertChainOpts\<close>, and so \<^verbatim>\<open>VerifyCertChain\<close>, hands the chain to the verifier only when it has
  exactly one certificate that is not a CA: that one is verified, in any position of the chain, with
  exactly the CA certificates as intermediates. Every other chain is an error.
\<close>

theorem verifyCertChain_spec:
  "verifyCertChainOpts verify certs opts =
     (case filter (\<lambda>c. \<not> ct_IsCA c) certs of
        [] \<Rightarrow> Inl (if certs = [] then NoCertsSupplied else NoLeaf)
      | [leaf] \<Rightarrow> verify leaf (opts\<lparr>vo_Intermediates := (case filter ct_IsCA certs of [] \<Rightarrow> None | p \<Rightarrow> Some p)\<rparr>)
      | _ \<Rightarrow> Inl MultipleLeaves)"
  by (auto simp: verifyCertChainOpts_def split_chain_spec split: list.splits)

text \<open>
  \<^verbatim>\<open>ParsePEM\<close> terminates on every input, whatever the decoder, as long as each decoded block consumes
  input: the result exists and more rounds would not change it. Only blocks typed as a certificate are
  returned as certificates, and only blocks whose type ends in \<^verbatim>\<open>PRIVATE KEY\<close> as private keys.
\<close>

theorem ParsePEM_total:
  assumes "pem_laws dec"
  shows "\<exists>p. ParsePEM dec d = Some p \<and>
     (\<forall>m \<ge> length d. pem_loop dec m d \<lparr>pp_privateKeys = [], pp_publicKeys = [], pp_certs = []\<rparr> = Some p) \<and>
     list_all (\<lambda>b. pb_Type b = ''CERTIFICATE'') (pp_certs p) \<and>
     list_all (\<lambda>b. strings_HasSuffix (pb_Type b) ''PRIVATE KEY'') (pp_privateKeys p)"
proof -
  have kinds: "list_all (\<lambda>b. pb_Type b = ''CERTIFICATE'') (pp_certs p') \<and>
      list_all (\<lambda>b. strings_HasSuffix (pb_Type b) ''PRIVATE KEY'') (pp_privateKeys p')"
    if "pem_loop dec n r p = Some p'"
      "list_all (\<lambda>b. pb_Type b = ''CERTIFICATE'') (pp_certs p)"
      "list_all (\<lambda>b. strings_HasSuffix (pb_Type b) ''PRIVATE KEY'') (pp_privateKeys p)" for n r p p'
    using that
  proof (induction n arbitrary: r p)
    case (Suc n)
    show ?case
    proof (cases "dec r")
      case (Some br)
      obtain b r' where br: "br = (b, r')" by force
      with Suc.prems(1) Some have l: "pem_loop dec n r' (classify_block b p) = Some p'" by simp
      show ?thesis
        using Suc.prems(2,3) by (intro Suc.IH [OF l]) (auto simp: classify_block_def)
    qed (use Suc.prems in auto)
  qed (auto split: option.splits)
  show ?thesis
    using pem_loop_enough [OF assms, of d "length d" "\<lparr>pp_privateKeys = [], pp_publicKeys = [], pp_certs = []\<rparr>"] kinds
    by (fastforce simp: ParsePEM_def)
qed

definition no_pem :: pem_decode where
  "no_pem d = (if d = [] then None else Some (\<lparr>pb_Type = ''CERTIFICATE'', pb_Bytes = d\<rparr>, []))"

lemma no_pem_laws: "pem_laws no_pem"
  by (auto simp: pem_laws_def no_pem_def split: if_splits)

theorem ParsePEM_total_witness: "\<exists>p. ParsePEM no_pem ''x'' = Some p"
  using ParsePEM_total [OF no_pem_laws, of "''x''"] by blast

text \<open>
  The two forms of a positive serial number agree: the padded hexadecimal form is two digits per
  byte of the number, the OpenSSL form is the same with colons between the bytes, and decoding it
  gives the number back.
\<close>

theorem serial_number_forms:
  assumes "0 < n"
  shows "SerialNumberHex (Some n) = hex_EncodeToString (big_Bytes n) \<and>
         filter (\<lambda>c. c \<noteq> CHR '':'') (SerialNumberOpenSSL (Some n)) = SerialNumberHex (Some n) \<and>
         map_option (\<lambda>bs. int (be_value bs 0)) (hex_DecodeString (SerialNumberHex (Some n))) = Some n"
proof -
  have "SerialNumberHex (Some n) = hex_EncodeToString (big_Bytes n)"
    using hex_pad [of "nat n"] assms
    by (simp add: SerialNumberHex_def fmt_0x_def big_Bytes_def Let_def mult.commute)
  then show ?thesis
    using assms by (simp add: SerialNumberOpenSSL_def colon_pairs_plain be_value_bytes big_Bytes_def)
qed

theorem serial_number_forms_witness:
  "filter (\<lambda>c. c \<noteq> CHR '':'') (SerialNumberOpenSSL (Some 0x0a1b2c)) = SerialNumberHex (Some 0x0a1b2c)"
  using serial_number_forms [of "0x0a1b2c"] by simp

end
