(* ===== verification/ServingCache.thy ===== *)
theory ServingCache
  imports Certs TlsNames GoNet
begin

text \<open>
  \<^verbatim>\<open>servingcache.go\<close>: the cache of serving certificates, filled from a certificate store and verified on
  every load; \<^verbatim>\<open>flags.go\<close>: TLS configurations made from it and from files; \<^verbatim>\<open>client.go\<close>: the HTTP client's
  transport settings.

  The environment \<open>serve_env\<close> holds what comes from elsewhere: \<open>idna.Lookup.ToASCII\<close>, the certificate store, the
  PEM and certificate parsers, chain verification and \<open>tls.X509KeyPair\<close>. A \<open>tls.Certificate\<close> is a value of type \<open>'t\<close>.
  The cache's lock covers a lookup or an insertion.
\<close>

subsection \<open>servingcache.go\<close>

record 't entry =
  en_cert :: 't
  en_expiry :: int

record 't CertServingCache =
  sc_ttl :: int
  sc_rootCAs :: "bytes list option"
  sc_cache :: "string \<rightharpoonup> 't entry"
  sc_allowedHosts :: "string list"

type_synonym 't CertServingCacheOption = "'t CertServingCache \<Rightarrow> 't CertServingCache"

definition WithCertCacheRootCAs :: "bytes list option \<Rightarrow> 't CertServingCacheOption" where
  "WithCertCacheRootCAs rootCAs cs = cs\<lparr>sc_rootCAs := rootCAs\<rparr>"

definition WithCertCacheTTL :: "int \<Rightarrow> 't CertServingCacheOption" where
  "WithCertCacheTTL ttl cs = cs\<lparr>sc_ttl := ttl\<rparr>"

definition WithCertCacheAllowedHosts :: "string list \<Rightarrow> 't CertServingCacheOption" where
  "WithCertCacheAllowedHosts hosts cs = cs\<lparr>sc_allowedHosts := hosts\<rparr>"

definition NewCertServingCache :: "'t CertServingCacheOption list \<Rightarrow> 't CertServingCache" where
  "NewCertServingCache opts =
     apply_options opts \<lparr>sc_ttl = 6 * 3600 * 1000000000, sc_rootCAs = None, sc_cache = Map.empty, sc_allowedHosts = []\<rparr>"

definition sc_get :: "'t CertServingCache \<Rightarrow> string \<Rightarrow> int \<Rightarrow> 't option" where
  "sc_get m name now =
     (case sc_cache m name of
        Some e \<Rightarrow> if en_expiry e > now then Some (en_cert e) else None
      | None \<Rightarrow> None)"

definition sc_put :: "'t CertServingCache \<Rightarrow> string \<Rightarrow> 't \<Rightarrow> int \<Rightarrow> int \<Rightarrow> 't CertServingCache" where
  "sc_put m name cert expiration now =
     m\<lparr>sc_cache := (sc_cache m)(name \<mapsto> \<lparr>en_cert = cert, en_expiry = now + expiration\<rparr>)\<rparr>"

record 't serve_env =
  ev_ToASCII :: "string \<Rightarrow> string option"
  ev_readFile :: "string \<Rightarrow> bytes option"
  ev_pem :: pem_decode
  ev_parseCert :: "bytes \<Rightarrow> certificate option"
  ev_verify :: x509_verify
  ev_pemEncode :: "pem_block \<Rightarrow> bytes"
  ev_X509KeyPair :: "bytes \<Rightarrow> bytes \<Rightarrow> 't option"

datatype serve_error = MissingServerName | NotQualified | InvalidName | HostNotAllowed | StoreReadFailed
  | NoCertsFor | NoKeyFor | CertError cert_error | LeafIsCA | KeyPairFailed

definition trim_dots :: "string \<Rightarrow> string" where
  "trim_dots s = rev (dropWhile (\<lambda>c. c = CHR ''.'') (rev (dropWhile (\<lambda>c. c = CHR ''.'') s)))"

text \<open>
  The part of \<open>GetCertificate\<close> after a cache miss: read, parse, verify, build. \<open>None\<close> is the decoder loop not
  ending, which the laws of \<open>pem.Decode\<close> exclude.
\<close>

definition load_certificate ::
    "'t serve_env \<Rightarrow> bytes list option \<Rightarrow> string \<Rightarrow> int \<Rightarrow> (serve_error, 't) result option" where
  "load_certificate ev roots name now =
     (case ev_readFile ev name of
        None \<Rightarrow> Some (Inl StoreReadFailed)
      | Some data \<Rightarrow>
          (case ParsePEM (ev_pem ev) data of
             None \<Rightarrow> None
           | Some p \<Rightarrow>
               Some (if pp_certs p = [] then Inl NoCertsFor
                     else if pp_privateKeys p = [] then Inl NoKeyFor
                     else case parseCertsPEM (ev_parseCert ev) (pp_certs p) of
                       Inl e \<Rightarrow> Inl (CertError e)
                     | Inr certs \<Rightarrow>
                         (case verifyCertChainOpts (ev_verify ev) certs
                                 \<lparr>vo_DNSName = name, vo_Roots = roots, vo_Intermediates = None, vo_CurrentTime = Some now\<rparr> of
                            Inl e \<Rightarrow> Inl (CertError e)
                          | Inr _ \<Rightarrow>
                              if ct_IsCA (hd certs) then Inl LeafIsCA
                              else
                                let chainPEM = concat (map (ev_pemEncode ev) (pp_certs p));
                                    priv = ev_pemEncode ev (hd (pp_privateKeys p))
                                in case ev_X509KeyPair ev chainPEM priv of
                                     None \<Rightarrow> Inl KeyPairFailed
                                   | Some tlscert \<Rightarrow> Inr tlscert))))"

text \<open>\<open>now\<close> is the time of the lookup, \<open>now2\<close> that of the insertion.\<close>

definition GetCertificate ::
    "'t serve_env \<Rightarrow> int \<Rightarrow> int \<Rightarrow> string \<Rightarrow> 't CertServingCache \<Rightarrow> ('t CertServingCache \<times> (serve_error, 't) result) option" where
  "GetCertificate ev now now2 serverName m =
     (if serverName = [] then Some (m, Inl MissingServerName)
      else if \<not> strings_Contains (trim_dots serverName) ''.'' then Some (m, Inl NotQualified)
      else case ev_ToASCII ev serverName of
        None \<Rightarrow> Some (m, Inl InvalidName)
      | Some name \<Rightarrow>
          if sc_allowedHosts m \<noteq> [] \<and> name \<notin> set (sc_allowedHosts m) then Some (m, Inl HostNotAllowed)
          else case sc_get m name now of
            Some cert \<Rightarrow> Some (m, Inr cert)
          | None \<Rightarrow>
              (case load_certificate ev (sc_rootCAs m) name now of
                 None \<Rightarrow> None
               | Some (Inl e) \<Rightarrow> Some (m, Inl e)
               | Some (Inr tlscert) \<Rightarrow> Some (sc_put m name tlscert (sc_ttl m) now2, Inr tlscert)))"

subsection \<open>flags.go\<close>

record TLSCertConfig =
  tcc_CertFile :: string
  tcc_KeyFile :: string

type_synonym TLSCertFlags = TLSCertConfig

definition TLSCertFlags_TLSCertConfig :: "TLSCertFlags \<Rightarrow> TLSCertConfig" where
  "TLSCertFlags_TLSCertConfig cl = cl"

record HTTPServerFlags =
  hsf_Address :: string
  hsf_TLSCertFlags :: TLSCertFlags

record HTTPServerConfig =
  hsc_Address :: string
  hsc_TLSCerts :: TLSCertConfig

definition HTTPServerFlags_HTTPServerConfig :: "HTTPServerFlags \<Rightarrow> HTTPServerConfig" where
  "HTTPServerFlags_HTTPServerConfig cl =
     \<lparr>hsc_Address = hsf_Address cl, hsc_TLSCerts = TLSCertFlags_TLSCertConfig (hsf_TLSCertFlags cl)\<rparr>"

definition PreferredCipherSuites :: "(16 word) list" where
  "PreferredCipherSuites = [0xc02c, 0xc030, 0xcca9, 0xcca8, 0xc02b, 0xc02f]"

definition PreferredCurves :: "(16 word) list" where
  "PreferredCurves = [29, 23]"

definition PreferredTLSMinVersion :: "16 word" where
  "PreferredTLSMinVersion = 0x0304"

definition PreferredSignatureSchemes :: "(16 word) list" where
  "PreferredSignatureSchemes = [0x0403, 0x0503, 0x0603]"

text \<open>A \<open>tls.Config\<close> gets its certificates from a list or from a serving cache.\<close>

datatype 't cert_source = Certificates "'t list" | FromCache "'t CertServingCache"

record 't tls_Config =
  tc_source :: "'t cert_source"
  tc_MinVersion :: "16 word"
  tc_CipherSuites :: "(16 word) list"
  tc_CurvePreferences :: "(16 word) list"

definition TLSConfigUsingCertStore :: "'t CertServingCacheOption list \<Rightarrow> 't tls_Config" where
  "TLSConfigUsingCertStore cacheOpts =
     \<lparr>tc_source = FromCache (NewCertServingCache cacheOpts), tc_MinVersion = PreferredTLSMinVersion,
      tc_CipherSuites = PreferredCipherSuites, tc_CurvePreferences = PreferredCurves\<rparr>"

datatype flags_error = BothFilesRequired | LoadKeyPairFailed | ReadCertFailed | ReadKeyFailed

text \<open>\<open>load\<close> is \<open>tls.LoadX509KeyPair\<close>.\<close>

definition TLSConfigUsingCertFiles ::
    "(string \<Rightarrow> string \<Rightarrow> 't option) \<Rightarrow> string \<Rightarrow> string \<Rightarrow> (flags_error, 't tls_Config) result" where
  "TLSConfigUsingCertFiles load certFile keyFile =
     (if length certFile = 0 \<or> length keyFile = 0 then Inl BothFilesRequired
      else case load certFile keyFile of
             None \<Rightarrow> Inl LoadKeyPairFailed
           | Some cert \<Rightarrow> Inr \<lparr>tc_source = Certificates [cert], tc_MinVersion = PreferredTLSMinVersion,
               tc_CipherSuites = PreferredCipherSuites, tc_CurvePreferences = PreferredCurves\<rparr>)"

definition TLSConfigUsingCertFilesFS ::
    "(bytes \<Rightarrow> bytes \<Rightarrow> 't option) \<Rightarrow> (string \<Rightarrow> bytes option) \<Rightarrow> string \<Rightarrow> string \<Rightarrow> (flags_error, 't tls_Config) result" where
  "TLSConfigUsingCertFilesFS keyPair readFile certFile keyFile =
     (if length certFile = 0 \<or> length keyFile = 0 then Inl BothFilesRequired
      else case readFile certFile of
             None \<Rightarrow> Inl ReadCertFailed
           | Some certFileData \<Rightarrow>
               (case readFile keyFile of
                  None \<Rightarrow> Inl ReadKeyFailed
                | Some keyFileData \<Rightarrow>
                    (case keyPair certFileData keyFileData of
                       None \<Rightarrow> Inl LoadKeyPairFailed
                     | Some cert \<Rightarrow> Inr \<lparr>tc_source = Certificates [cert], tc_MinVersion = PreferredTLSMinVersion,
                         tc_CipherSuites = PreferredCipherSuites, tc_CurvePreferences = PreferredCurves\<rparr>)))"

definition TLSCertConfig_TLSConfig ::
    "(string \<Rightarrow> string \<Rightarrow> 't option) \<Rightarrow> TLSCertConfig \<Rightarrow> (flags_error, 't tls_Config) result" where
  "TLSCertConfig_TLSConfig load tc = TLSConfigUsingCertFiles load (tcc_CertFile tc) (tcc_KeyFile tc)"

definition HTTPServerConfig_TLSConfig ::
    "(string \<Rightarrow> string \<Rightarrow> 't option) \<Rightarrow> HTTPServerConfig \<Rightarrow> (flags_error, 't tls_Config) result" where
  "HTTPServerConfig_TLSConfig load hc = TLSCertConfig_TLSConfig load (hsc_TLSCerts hc)"

subsection \<open>client.go\<close>

record 'tr httpClientOptions =
  ho_caPEMFile :: string
  ho_caPool :: "bytes list option"
  ho_tracingOpts :: "'tr list"
  ho_dnsResolverAddr :: string

type_synonym 'tr HTTPClientOption = "'tr httpClientOptions \<Rightarrow> 'tr httpClientOptions"

definition WithCustomCAPEMFile :: "string \<Rightarrow> 'tr HTTPClientOption" where
  "WithCustomCAPEMFile caPEMFile opts = opts\<lparr>ho_caPEMFile := caPEMFile\<rparr>"

definition WithCustomCAPool :: "bytes list option \<Rightarrow> 'tr HTTPClientOption" where
  "WithCustomCAPool caPool opts = opts\<lparr>ho_caPool := caPool\<rparr>"

definition WithTracingTransport :: "'tr list \<Rightarrow> 'tr HTTPClientOption" where
  "WithTracingTransport tos opts = opts\<lparr>ho_tracingOpts := tos\<rparr>"

definition WithDNSServer :: "string \<Rightarrow> 'tr HTTPClientOption" where
  "WithDNSServer addr opts = opts\<lparr>ho_dnsResolverAddr := addr\<rparr>"

record 'tr http_Client =
  hc_MinVersion :: "16 word"
  hc_CipherSuites :: "(16 word) list"
  hc_RootCAs :: "bytes list option"
  hc_dnsServer :: "string option" \<comment> \<open>the address the resolver dials\<close>
  hc_tracing :: "'tr list" \<comment> \<open>the options of the tracing transport around it, if any\<close>

datatype client_error = CAReadFailed | NoCertsAppended

text \<open>\<open>appendPEM\<close> is \<open>AppendCertsFromPEM\<close> on a pool.\<close>

definition certPool ::
    "(bytes \<Rightarrow> bytes list \<Rightarrow> bytes list option) \<Rightarrow> (string \<Rightarrow> bytes option) \<Rightarrow> string \<Rightarrow> (client_error, bytes list) result" where
  "certPool appendPEM readFile pemFile =
     (case readFile pemFile of
        None \<Rightarrow> Inl CAReadFailed
      | Some certs \<Rightarrow> (case appendPEM certs [] of None \<Rightarrow> Inl NoCertsAppended | Some pool \<Rightarrow> Inr pool))"

definition dns_server_addr :: "string \<Rightarrow> string" where
  "dns_server_addr addr = (case SplitHostPort addr of None \<Rightarrow> JoinHostPort addr ''53'' | Some _ \<Rightarrow> addr)"

definition NewHTTPClient ::
    "(bytes \<Rightarrow> bytes list \<Rightarrow> bytes list option) \<Rightarrow> (string \<Rightarrow> bytes option) \<Rightarrow> 'tr HTTPClientOption list \<Rightarrow>
       (client_error, 'tr http_Client) result" where
  "NewHTTPClient appendPEM readFile opts =
     (let options = apply_options opts \<lparr>ho_caPEMFile = [], ho_caPool = None, ho_tracingOpts = [], ho_dnsResolverAddr = []\<rparr>
      in case (if ho_caPool options \<noteq> None then Inr (ho_caPool options)
               else if ho_caPEMFile options \<noteq> []
               then (case certPool appendPEM readFile (ho_caPEMFile options) of Inl e \<Rightarrow> Inl e | Inr p \<Rightarrow> Inr (Some p))
               else Inr None) of
           Inl e \<Rightarrow> Inl e
         | Inr roots \<Rightarrow>
             Inr \<lparr>hc_MinVersion = 0x0303, hc_CipherSuites = PreferredCipherSuites, hc_RootCAs = roots,
                  hc_dnsServer = (if ho_dnsResolverAddr options \<noteq> [] then Some (dns_server_addr (ho_dnsResolverAddr options)) else None),
                  hc_tracing = ho_tracingOpts options\<rparr>)"

subsection \<open>Runs of the cache\<close>

text \<open>
  A request brings its own environment, since the store changes over time, and the times of its lookup
  and insertion. \<open>served m0 h m\<close>: from \<open>m0\<close> the requests \<open>h\<close> (latest first) lead to \<open>m\<close>.
\<close>

record 't serve_request =
  rq_env :: "'t serve_env"
  rq_now :: int
  rq_now2 :: int
  rq_name :: string

inductive served :: "'t CertServingCache \<Rightarrow> 't serve_request list \<Rightarrow> 't CertServingCache \<Rightarrow> bool" where
  served_start: "served m [] m"
| served_step: "served m0 h m \<Longrightarrow> GetCertificate (rq_env q) (rq_now q) (rq_now2 q) (rq_name q) m = Some (m', res) \<Longrightarrow>
     served m0 (q # h) m'"

definition loaded_by :: "bytes list option \<Rightarrow> string \<Rightarrow> 't \<Rightarrow> 't serve_request \<Rightarrow> bool" where
  "loaded_by roots name cert q \<longleftrightarrow>
     ev_ToASCII (rq_env q) (rq_name q) = Some name \<and> load_certificate (rq_env q) roots name (rq_now q) = Some (Inr cert)"

lemma GetCertificate_settings:
  assumes "GetCertificate ev now now2 sn m = Some (m', res)"
  shows "sc_ttl m' = sc_ttl m" "sc_rootCAs m' = sc_rootCAs m" "sc_allowedHosts m' = sc_allowedHosts m"
  using assms by (auto simp: GetCertificate_def sc_put_def split: if_splits option.splits sum.splits)

text \<open>The cases of a request: refused, answered from the cache, or loaded.\<close>

lemma GetCertificate_cases:
  assumes "GetCertificate ev now now2 sn m = Some (m', res)"
  obtains (failed) e where "res = Inl e" "m' = m"
  | (hit) name c where "ev_ToASCII ev sn = Some name" "sc_allowedHosts m = [] \<or> name \<in> set (sc_allowedHosts m)"
      "sc_get m name now = Some c" "res = Inr c" "m' = m"
  | (load) name c where "ev_ToASCII ev sn = Some name" "sc_allowedHosts m = [] \<or> name \<in> set (sc_allowedHosts m)"
      "load_certificate ev (sc_rootCAs m) name now = Some (Inr c)" "res = Inr c" "m' = sc_put m name c (sc_ttl m) now2"
proof (cases res)
  case (Inl e)
  with assms have "m' = m"
    by (simp add: GetCertificate_def split: if_splits option.splits sum.splits)
  with Inl show ?thesis by (rule failed)
next
  case (Inr c)
  with assms obtain name where n: "ev_ToASCII ev sn = Some name"
      "sc_allowedHosts m = [] \<or> name \<in> set (sc_allowedHosts m)"
    by (auto simp: GetCertificate_def split: if_splits option.splits)
  show ?thesis
  proof (cases "sc_get m name now")
    case None
    with assms n Inr have "load_certificate ev (sc_rootCAs m) name now = Some (Inr c) \<and> m' = sc_put m name c (sc_ttl m) now2"
      by (simp add: GetCertificate_def split: if_splits option.splits sum.splits)
    with n Inr show ?thesis by (intro load) auto
  next
    case (Some c')
    with assms n Inr have "c' = c \<and> m' = m" by (simp add: GetCertificate_def split: if_splits)
    with n Inr Some show ?thesis by (intro hit) auto
  qed
qed

lemma served_settings:
  "served m0 h m \<Longrightarrow> sc_ttl m = sc_ttl m0 \<and> sc_rootCAs m = sc_rootCAs m0 \<and> sc_allowedHosts m = sc_allowedHosts m0"
  by (induction rule: served.induct) (auto dest: GetCertificate_settings)

lemma served_inv:
  assumes "served m0 h m" and "sc_cache m0 = Map.empty"
  shows "sc_cache m name = Some e \<Longrightarrow>
     \<exists>q \<in> set h. loaded_by (sc_rootCAs m0) name (en_cert e) q \<and> en_expiry e = rq_now2 q + sc_ttl m0"
  using assms
proof (induction arbitrary: e rule: served.induct)
  case (served_step m0 h m q m' res)
  note set_ = served_settings [OF served_step.hyps(1)]
  from served_step.hyps(2) show ?case
  proof (cases rule: GetCertificate_cases)
    case (load n c)
    show ?thesis
    proof (cases "n = name")
      case True
      then have "e = \<lparr>en_cert = c, en_expiry = rq_now2 q + sc_ttl m\<rparr>"
        using load served_step.prems by (simp add: sc_put_def)
      then show ?thesis using load True set_ by (auto simp: loaded_by_def)
    next
      case False
      then show ?thesis using load served_step by (auto simp: sc_put_def)
    qed
  qed (use served_step in auto)
qed simp

subsection \<open>Properties\<close>

text \<open>
  C4. A serving cache that starts empty only ever serves certificates that were loaded, and so verified
  against the root CAs for that very host name, by a request of its history (or by this one) whose
  time to live has not passed, and only for allowed hosts.
\<close>

theorem serves_only_verified:
  assumes "served m0 h m" and "sc_cache m0 = Map.empty"
    and "GetCertificate (rq_env q) (rq_now q) (rq_now2 q) (rq_name q) m = Some (m', Inr cert)"
  shows "\<exists>name. ev_ToASCII (rq_env q) (rq_name q) = Some name \<and>
    (sc_allowedHosts m0 = [] \<or> name \<in> set (sc_allowedHosts m0)) \<and>
    (loaded_by (sc_rootCAs m0) name cert q \<or>
     (\<exists>q' \<in> set h. loaded_by (sc_rootCAs m0) name cert q' \<and> rq_now q < rq_now2 q' + sc_ttl m0))"
proof -
  note set_ = served_settings [OF assms(1)]
  from assms(3) show ?thesis
  proof (cases rule: GetCertificate_cases)
    case (hit name c)
    then obtain e where "sc_cache m name = Some e" "en_cert e = cert" "rq_now q < en_expiry e"
      by (auto simp: sc_get_def split: option.splits if_splits)
    with served_inv [OF assms(1,2)] hit set_ show ?thesis by fastforce
  qed (use set_ in \<open>auto simp: loaded_by_def\<close>)
qed

text \<open>
  C23. What loading verifies: a certificate is loaded for a name only if the stored file has a private key
  and certificates that all parse, the first of which is not a CA, the chain has exactly one leaf and
  verifies for that name at that time, and the whole chain goes into the served certificate.
\<close>

theorem load_certificate_verified:
  assumes "load_certificate ev roots name now = Some (Inr c)"
  shows "\<exists>d p certs chains. ev_readFile ev name = Some d \<and> ParsePEM (ev_pem ev) d = Some p \<and>
    list_all2 (\<lambda>b x. ev_parseCert ev (pb_Bytes b) = Some x) (pp_certs p) certs \<and>
    certs \<noteq> [] \<and> \<not> ct_IsCA (hd certs) \<and> filter (\<lambda>x. \<not> ct_IsCA x) certs = [hd certs] \<and>
    ev_verify ev (hd certs) \<lparr>vo_DNSName = name, vo_Roots = roots,
       vo_Intermediates = (case tl certs of [] \<Rightarrow> None | i \<Rightarrow> Some i), vo_CurrentTime = Some now\<rparr> = Inr chains \<and>
    pp_privateKeys p \<noteq> [] \<and>
    ev_X509KeyPair ev (concat (map (ev_pemEncode ev) (pp_certs p))) (ev_pemEncode ev (hd (pp_privateKeys p))) = Some c"
proof -
  obtain d p certs chains where *: "ev_readFile ev name = Some d" "ParsePEM (ev_pem ev) d = Some p"
      "pp_certs p \<noteq> []" "pp_privateKeys p \<noteq> []" "parseCertsPEM (ev_parseCert ev) (pp_certs p) = Inr certs"
      "verifyCertChainOpts (ev_verify ev) certs
         \<lparr>vo_DNSName = name, vo_Roots = roots, vo_Intermediates = None, vo_CurrentTime = Some now\<rparr> = Inr chains"
      "\<not> ct_IsCA (hd certs)"
      "ev_X509KeyPair ev (concat (map (ev_pemEncode ev) (pp_certs p))) (ev_pemEncode ev (hd (pp_privateKeys p))) = Some c"
    using assms by (auto simp: load_certificate_def Let_def split: option.splits if_splits sum.splits)
  from *(5) have l: "list_all2 (\<lambda>b x. ev_parseCert ev (pb_Bytes b) = Some x) (pp_certs p) certs" "certs \<noteq> []"
    by (auto simp: parseCertsPEM_def map_result_Inr_iff list_all2_iff split: sum.splits if_splits option.splits)
  then obtain x xs where x: "certs = x # xs" by (cases certs) auto
  with *(6,7) have "filter (\<lambda>x. \<not> ct_IsCA x) xs = []"
    by (auto simp: verifyCertChainOpts_def split_chain_spec split: if_splits)
  then have ca: "filter ct_IsCA xs = xs" by (auto simp: filter_empty_conv filter_id_conv)
  with x *(6,7) have "ev_verify ev x \<lparr>vo_DNSName = name, vo_Roots = roots,
       vo_Intermediates = (case xs of [] \<Rightarrow> None | i \<Rightarrow> Some i), vo_CurrentTime = Some now\<rparr> = Inr chains"
    by (simp add: verifyCertChainOpts_def split_chain_spec \<open>filter (\<lambda>x. \<not> ct_IsCA x) xs = []\<close> split: list.splits)
  with * l x \<open>filter (\<lambda>x. \<not> ct_IsCA x) xs = []\<close> show ?thesis by auto
qed

text \<open>
  A loaded certificate is served from memory until its time to live has passed: every request for the
  same name in that time gets it, whatever has become of the store, and the cache does not change.
\<close>

theorem cached_until_expiry:
  assumes "GetCertificate ev now now2 sn m = Some (m', Inr cert)" and "ev_ToASCII ev sn = Some name"
    and "sc_get m name now = None" and "ev_ToASCII ev' sn = Some name" and "t < now2 + sc_ttl m"
  shows "GetCertificate ev' t t2 sn m' = Some (m', Inr cert)"
  using assms
  by (auto simp: GetCertificate_def sc_put_def sc_get_def split: if_splits option.splits sum.splits)

text \<open>An environment with one good certificate file.\<close>

definition demo_cert :: certificate where
  "demo_cert = \<lparr>ct_IsCA = False, ct_Raw = ''x'', ct_DNSNames = [''a.com''], ct_Issuer = [], ct_Serial = Some 1, ct_NotBefore = 0,
     ct_NotAfter = 10, ct_PublicKey = [], ct_SigAlg = 0\<rparr>"

definition demo_pem :: pem_decode where
  "demo_pem d = (case d of [] \<Rightarrow> None
     | c # r \<Rightarrow> Some (\<lparr>pb_Type = if c = CHR ''k'' then ''PRIVATE KEY'' else ''CERTIFICATE'', pb_Bytes = [c]\<rparr>, r))"

definition demo_env :: "bytes serve_env" where
  "demo_env = \<lparr>ev_ToASCII = Some, ev_readFile = (\<lambda>n. Some ''ck''), ev_pem = demo_pem, ev_parseCert = (\<lambda>b. Some demo_cert),
     ev_verify = (\<lambda>c opts. Inr [[c]]), ev_pemEncode = pb_Bytes, ev_X509KeyPair = (\<lambda>c k. Some (c @ k))\<rparr>"

lemma demo_load: "load_certificate demo_env roots name now = Some (Inr ''ck'')"
  by (simp add: load_certificate_def demo_env_def ParsePEM_def demo_pem_def classify_block_def strings_HasSuffix_eval
      parseCertsPEM_def verifyCertChainOpts_def demo_cert_def)

lemma demo_ascii: "ev_ToASCII demo_env n = Some n"
  by (simp add: demo_env_def)

lemma demo_get: "\<exists>m'. GetCertificate demo_env 0 1 ''a.com'' (NewCertServingCache []) = Some (m', Inr ''ck'')"
  by (simp add: GetCertificate_def trim_dots_def strings_Contains_def NewCertServingCache_def sc_get_def demo_load demo_ascii)

theorem serves_only_verified_witness:
  "\<exists>name. loaded_by None name ''ck'' \<lparr>rq_env = demo_env, rq_now = 0, rq_now2 = 1, rq_name = ''a.com''\<rparr>"
proof -
  let ?q = "\<lparr>rq_env = demo_env, rq_now = 0, rq_now2 = 1, rq_name = ''a.com''\<rparr>"
  have e: "sc_cache (NewCertServingCache [] :: bytes CertServingCache) = Map.empty"
      "sc_rootCAs (NewCertServingCache [] :: bytes CertServingCache) = None"
    by (simp_all add: NewCertServingCache_def)
  obtain m' where "GetCertificate (rq_env ?q) (rq_now ?q) (rq_now2 ?q) (rq_name ?q) (NewCertServingCache []) = Some (m', Inr ''ck'')"
    using demo_get by auto
  from serves_only_verified [OF served_start e(1) this] e(2) show ?thesis by auto
qed

theorem load_certificate_verified_witness:
  "\<exists>d p. ev_readFile demo_env ''a.com'' = Some d \<and> ParsePEM (ev_pem demo_env) d = Some p \<and> pp_privateKeys p \<noteq> []"
  using load_certificate_verified [OF demo_load [of None "''a.com''" 0]] by (elim exE conjE) (intro exI conjI)

theorem cached_until_expiry_witness:
  "\<exists>m'. GetCertificate demo_env 5 6 ''a.com'' m' = Some (m', Inr ''ck'')"
proof -
  obtain m' where g: "GetCertificate demo_env 0 1 ''a.com'' (NewCertServingCache []) = Some (m', Inr ''ck'')"
    using demo_get by auto
  have t: "ev_ToASCII demo_env ''a.com'' = Some ''a.com''" by (simp add: demo_env_def)
  have n: "sc_get (NewCertServingCache []) ''a.com'' 0 = (None :: bytes option)" "(5::int) < 1 + sc_ttl (NewCertServingCache [] :: bytes CertServingCache)"
    by (simp_all add: NewCertServingCache_def sc_get_def)
  from cached_until_expiry [OF g t n(1) t n(2), of 6] show ?thesis by blast
qed

end
