(* ===== verification/Acme.thy ===== *)
theory Acme
  imports ServingCache TlsNames Shutdown
begin

text \<open>
  \<^verbatim>\<open>webauth/acme\<close>: the configuration of the autocert manager (\<^verbatim>\<open>mgr_config.go\<close>) and the client that keeps
  certificates fresh (\<^verbatim>\<open>acme_client.go\<close>). \<^verbatim>\<open>golang.org/x/crypto/acme/autocert\<close> is an argument: its
  \<open>GetCertificate\<close>, the configuration it makes and its white list of hosts; so is whether \<open>url.Parse\<close>
  accepts a provider. Logging is left out.
\<close>

subsection \<open>mgr_config.go\<close>

definition LetsEncryptStaging :: string where
  "LetsEncryptStaging = ''https://acme-staging-v02.api.letsencrypt.org/directory''"

text \<open>\<open>acme.LetsEncryptURL\<close>\<close>

definition LetsEncryptProduction :: string where
  "LetsEncryptProduction = ''https://acme-v02.api.letsencrypt.org/directory''"

record AutocertConfig =
  ac_Email :: string
  ac_UserAgent :: string
  ac_Provider :: string
  ac_RenewBefore :: int
  ac_AllowRSACertificates :: bool

record ServiceFlags =
  sf_Provider :: string
  sf_RenewBefore :: int
  sf_Email :: string
  sf_UserAgent :: string

definition ServiceFlags_AutocertConfig :: "ServiceFlags \<Rightarrow> AutocertConfig" where
  "ServiceFlags_AutocertConfig f =
     \<lparr>ac_Email = sf_Email f, ac_UserAgent = sf_UserAgent f, ac_Provider = sf_Provider f,
      ac_RenewBefore = sf_RenewBefore f, ac_AllowRSACertificates = False\<rparr>"

definition DirectoryURL :: "AutocertConfig \<Rightarrow> string" where
  "DirectoryURL ac =
     (if ac_Provider ac = ''letsencrypt'' then LetsEncryptProduction
      else if ac_Provider ac = ''letsencrypt-staging'' then LetsEncryptStaging
      else if length (ac_Provider ac) = 0 then LetsEncryptStaging
      else ac_Provider ac)"

record ClientHelloInfo =
  hi_ServerName :: string
  hi_CipherSuites :: "(16 word) list"
  hi_SignatureSchemes :: "(16 word) list option" \<comment> \<open>None: nil\<close>
  hi_SupportedCurves :: "(16 word) list option"

fun ecdsa_scheme_loop :: "(16 word) list \<Rightarrow> bool" where
  "ecdsa_scheme_loop [] = False"
| "ecdsa_scheme_loop (scheme # schemes) =
     (if scheme \<in> set [0x0203, 0x0403, 0x0503, 0x0603] then True else ecdsa_scheme_loop schemes)"

fun ecdsa_suite_loop :: "(16 word) list \<Rightarrow> bool" where
  "ecdsa_suite_loop [] = False"
| "ecdsa_suite_loop (suite # suites) =
     (if suite \<in> set [0xc007, 0xc009, 0xc00a, 0xc023, 0xc02b, 0xc02c, 0xcca9] then True
      else ecdsa_suite_loop suites)"

definition SupportsECDSA :: "ClientHelloInfo option \<Rightarrow> bool" where
  "SupportsECDSA hello =
     (case hello of
        None \<Rightarrow> False
      | Some h \<Rightarrow>
          if (case hi_SignatureSchemes h of None \<Rightarrow> False | Some schemes \<Rightarrow> \<not> ecdsa_scheme_loop schemes) then False
          else if (case hi_SupportedCurves h of None \<Rightarrow> False | Some curves \<Rightarrow> 23 \<notin> set curves) then False
          else ecdsa_suite_loop (hi_CipherSuites h))"

datatype 'e acme_error = NoECDSA string | AutocertError 'e | NoCache | InvalidURL string

type_synonym ('e, 'crt) get_certificate = "ClientHelloInfo option \<Rightarrow> ('e acme_error, 'crt) result"

definition GetCertificateECDSAOnly :: "('e, 'crt) get_certificate \<Rightarrow> ('e, 'crt) get_certificate" where
  "GetCertificateECDSAOnly getCert hello =
     (case hello of
        Some h \<Rightarrow> if \<not> SupportsECDSA hello then Inl (NoECDSA (hi_ServerName h)) else getCert hello
      | None \<Rightarrow> getCert hello)"

text \<open>The fields of \<open>autocert.Manager\<close> that are set, with the directory and user agent of its client.\<close>

record ('cache, 'policy) autocert_Manager =
  am_Cache :: 'cache
  am_DirectoryURL :: string
  am_UserAgent :: string
  am_Email :: string
  am_HostPolicy :: 'policy
  am_RenewBefore :: int

record ('cache, 'policy, 'e, 'crt) Manager =
  mg_Manager :: "('cache, 'policy) autocert_Manager"
  mg_getCertificate :: "('e, 'crt) get_certificate"

definition Manager_GetCertificate :: "('cache, 'policy, 'e, 'crt) Manager \<Rightarrow> ('e, 'crt) get_certificate" where
  "Manager_GetCertificate m hello = mg_getCertificate m hello"

text \<open>A configuration of the library with its \<open>GetCertificate\<close>; the manager's own replaces it.\<close>

definition Manager_TLSConfig ::
    "(('cache, 'policy) autocert_Manager \<Rightarrow> 'cfg \<times> ('e, 'crt) get_certificate) \<Rightarrow> ('cache, 'policy, 'e, 'crt) Manager \<Rightarrow>
       'cfg \<times> ('e, 'crt) get_certificate" where
  "Manager_TLSConfig tlsConfig m = (let (cfg, _) = tlsConfig (mg_Manager m) in (cfg, Manager_GetCertificate m))"

definition NewAutocertManager ::
    "(string \<Rightarrow> bool) \<Rightarrow> (string list \<Rightarrow> 'policy) \<Rightarrow> (('cache, 'policy) autocert_Manager \<Rightarrow> ('e, 'crt) get_certificate) \<Rightarrow>
       'cache option \<Rightarrow> AutocertConfig \<Rightarrow> string list \<Rightarrow> ('e acme_error, ('cache, 'policy, 'e, 'crt) Manager) result" where
  "NewAutocertManager parse_ok hostWhitelist getCert cache cl allowedHosts =
     (case cache of
        None \<Rightarrow> Inl NoCache
      | Some c \<Rightarrow>
          let provider = ac_Provider cl
          in case (if provider = ''letsencrypt'' then Inr LetsEncryptProduction
                   else if provider = ''letsencrypt-staging'' then Inr LetsEncryptStaging
                   else if length provider = 0 then Inr LetsEncryptStaging
                   else if \<not> parse_ok provider then Inl (InvalidURL provider)
                   else Inr provider) of
               Inl e \<Rightarrow> Inl e
             | Inr provider \<Rightarrow>
                 let mgr = \<lparr>am_Cache = c, am_DirectoryURL = provider, am_UserAgent = ac_UserAgent cl, am_Email = ac_Email cl,
                            am_HostPolicy = hostWhitelist allowedHosts, am_RenewBefore = ac_RenewBefore cl\<rparr>
                 in Inr \<lparr>mg_Manager = mgr,
                         mg_getCertificate = (if ac_AllowRSACertificates cl then getCert mgr
                                              else GetCertificateECDSAOnly (getCert mgr))\<rparr>)"

subsection \<open>acme_client.go\<close>

text \<open>A metric function is nil, does nothing, or records its arguments.\<close>

datatype CounterVecInc = NilVec | NoopVec | RecordVec

record clientOptions =
  cl_refreshInterval :: int
  cl_refreshMetric :: CounterVecInc
  cl_refreshOnFailure :: int

type_synonym ClientOption = "clientOptions \<Rightarrow> clientOptions"

definition RefreshMetricsColumns :: "string list" where
  "RefreshMetricsColumns = [''host'', ''status'']"

definition RefreshMetricStatusValues :: "string list" where
  "RefreshMetricStatusValues = [''failed'', ''expired'', ''ok'']"

definition WithRefreshInterval :: "int \<Rightarrow> ClientOption" where
  "WithRefreshInterval interval opts = opts\<lparr>cl_refreshInterval := interval\<rparr>"

definition WithRefreshMetric :: "CounterVecInc \<Rightarrow> ClientOption" where
  "WithRefreshMetric m opts = opts\<lparr>cl_refreshMetric := m\<rparr>"

definition WithRefreshOnFailure :: "int \<Rightarrow> ClientOption" where
  "WithRefreshOnFailure interval opts = opts\<lparr>cl_refreshOnFailure := interval\<rparr>"

record ('cache, 'policy, 'e, 'crt) Client =
  cn_mgr :: "('cache, 'policy, 'e, 'crt) Manager"
  cn_opts :: clientOptions

definition NewClient ::
    "('cache, 'policy, 'e, 'crt) Manager \<Rightarrow> ClientOption list \<Rightarrow> ('cache, 'policy, 'e, 'crt) Client" where
  "NewClient mgr opts =
     (let opts = apply_options opts \<lparr>cl_refreshInterval = 0, cl_refreshMetric = NilVec, cl_refreshOnFailure = 0\<rparr>;
          opts = (if cl_refreshInterval opts \<le> 0 then opts\<lparr>cl_refreshInterval := 3600 * 1000000000\<rparr> else opts);
          opts = (if cl_refreshOnFailure opts \<le> 0 then opts\<lparr>cl_refreshOnFailure := 60 * 1000000000\<rparr> else opts);
          opts = (if cl_refreshMetric opts = NilVec then opts\<lparr>cl_refreshMetric := NoopVec\<rparr> else opts)
      in \<lparr>cn_mgr = mgr, cn_opts = opts\<rparr>)"

text \<open>The metrics a client has recorded: the host and the status of each; a nil function panics.\<close>

type_synonym metrics = "(string \<times> string) list"

definition metric_call :: "CounterVecInc \<Rightarrow> string \<Rightarrow> string \<Rightarrow> metrics \<Rightarrow> metrics option" where
  "metric_call c host status ms = (case c of NilVec \<Rightarrow> None | NoopVec \<Rightarrow> Some ms | RecordVec \<Rightarrow> Some (ms @ [(host, status)]))"

definition refresh_hello :: "string \<Rightarrow> ClientHelloInfo" where
  "refresh_hello host =
     \<lparr>hi_ServerName = host, hi_CipherSuites = PreferredCipherSuites,
      hi_SignatureSchemes = Some PreferredSignatureSchemes, hi_SupportedCurves = None\<rparr>"

text \<open>
  One refresh: \<open>mgr\<close> is the manager at this time and \<open>notAfter\<close> the end of validity of the leaf of a
  certificate. The outcome is the metrics and the error, \<open>None\<close> for nil; a nil metric panics.
\<close>

definition refreshHost ::
    "('crt \<Rightarrow> int) \<Rightarrow> ('e, 'crt) get_certificate \<Rightarrow> CounterVecInc \<Rightarrow> int \<Rightarrow> string \<Rightarrow> metrics \<Rightarrow> (metrics \<times> 'e acme_error option) option" where
  "refreshHost notAfter getCert metric now host ms =
     (case getCert (Some (refresh_hello host)) of
        Inl err \<Rightarrow> map_option (\<lambda>ms. (ms, Some err)) (metric_call metric host ''failed'' ms)
      | Inr crt \<Rightarrow>
          if now > notAfter crt then Some (ms, None)
          else map_option (\<lambda>ms. (ms, None)) (metric_call metric host ''ok'' ms))"

text \<open>
  The surroundings of the refresh loop of one host, round by round: the manager and the clock at each
  attempt, and whether the waits after a failure and between refreshes end by the context (\<open>True\<close>) or by the
  tick. Rounds count the attempts.
\<close>

record ('e, 'crt) refresh_env =
  re_getCert :: "nat \<Rightarrow> ('e, 'crt) get_certificate"
  re_now :: "nat \<Rightarrow> int"
  re_retry_done :: "nat \<Rightarrow> bool"
  re_next_done :: "nat \<Rightarrow> bool"

text \<open>\<open>getCertificate\<close>: attempts until one succeeds or the context ends; it returns the next round.\<close>

partial_function (option) getCertificate ::
    "('crt \<Rightarrow> int) \<Rightarrow> ('e, 'crt) refresh_env \<Rightarrow> CounterVecInc \<Rightarrow> string \<Rightarrow> nat \<Rightarrow> metrics \<Rightarrow> (nat \<times> metrics) option" where
  "getCertificate notAfter env metric host n ms =
     (case refreshHost notAfter (re_getCert env n) metric (re_now env n) host ms of
        None \<Rightarrow> None
      | Some (ms, None) \<Rightarrow> Some (Suc n, ms)
      | Some (ms, Some err) \<Rightarrow>
          if re_retry_done env n then Some (Suc n, ms) else getCertificate notAfter env metric host (Suc n) ms)"

text \<open>The goroutine of one host in \<open>refresh\<close>: it ends, with nil, when the context does.\<close>

partial_function (option) refresh_loop ::
    "('crt \<Rightarrow> int) \<Rightarrow> ('e, 'crt) refresh_env \<Rightarrow> CounterVecInc \<Rightarrow> string \<Rightarrow> nat \<Rightarrow> metrics \<Rightarrow> (nat \<times> metrics) option" where
  "refresh_loop notAfter env metric host n ms =
     (case getCertificate notAfter env metric host n ms of
        None \<Rightarrow> None
      | Some (n', ms) \<Rightarrow>
          if re_next_done env n' then Some (n', ms) else refresh_loop notAfter env metric host n' ms)"

text \<open>\<open>stop\<close>: the error the group sent, if it came before the timeout of five seconds.\<close>

datatype 'e stop_error = GroupError 'e | StopTimeout

definition Client_stop :: "'e option option \<Rightarrow> ('e stop_error, unit) result" where
  "Client_stop errCh =
     (case errCh of
        None \<Rightarrow> Inl StopTimeout
      | Some None \<Rightarrow> Inr ()
      | Some (Some err) \<Rightarrow> Inl (GroupError err))"

text \<open>
  \<open>refresh\<close> runs one loop for each host, by position, and sends the group's error when all have ended: the
  goroutines return nil only. The result is the metrics of each, \<open>None\<close> if one never ends.
\<close>

definition Client_refresh ::
    "('crt \<Rightarrow> int) \<Rightarrow> (nat \<Rightarrow> ('e, 'crt) refresh_env) \<Rightarrow> CounterVecInc \<Rightarrow> string list \<Rightarrow> metrics list option" where
  "Client_refresh notAfter envs metric hosts =
     (let rs = map (\<lambda>(i, h). refresh_loop notAfter (envs i) metric h 0 []) (List.enumerate 0 hosts)
      in if None \<in> set rs then None else Some (map (snd \<circ> the) rs))"

text \<open>
  \<open>Start\<close> returns the function that stops the client: it cancels the context and waits for the group; \<open>inTime\<close>
  says whether the group's error comes before the timeout.
\<close>

definition Client_Start ::
    "('crt \<Rightarrow> int) \<Rightarrow> (nat \<Rightarrow> ('e, 'crt) refresh_env) \<Rightarrow> ('cache, 'policy, 'e, 'crt) Client \<Rightarrow> string list \<Rightarrow> bool \<Rightarrow> ('e stop_error, unit) result" where
  "Client_Start notAfter envs c hosts inTime =
     Client_stop (case Client_refresh notAfter envs (cl_refreshMetric (cn_opts c)) hosts of
                    None \<Rightarrow> None
                  | Some _ \<Rightarrow> if inTime then Some None else None)"

text \<open>\<^verbatim>\<open>certcache.RefreshCertificate\<close> offers the same hello to an autocert manager once.\<close>

definition RefreshCertificate :: "('e, 'crt) get_certificate \<Rightarrow> string \<Rightarrow> ('e acme_error, 'crt) result" where
  "RefreshCertificate getCert host = getCert (Some (refresh_hello host))"

subsection \<open>Facts: the manager\<close>

lemma ecdsa_scheme_loop_iff: "ecdsa_scheme_loop ss \<longleftrightarrow> (\<exists>s\<in>set ss. s \<in> {0x0203, 0x0403, 0x0503, 0x0603})"
  by (induction ss) auto

lemma ecdsa_suite_loop_iff:
  "ecdsa_suite_loop ss \<longleftrightarrow> (\<exists>s\<in>set ss. s \<in> {0xc007, 0xc009, 0xc00a, 0xc023, 0xc02b, 0xc02c, 0xcca9})"
  by (induction ss) auto

lemma refresh_hello_ECDSA: "SupportsECDSA (Some (refresh_hello host))"
  by (simp add: SupportsECDSA_def refresh_hello_def PreferredCipherSuites_def PreferredSignatureSchemes_def)

lemma GetCertificateECDSAOnly_supported:
  "SupportsECDSA hello \<Longrightarrow> GetCertificateECDSAOnly getCert hello = getCert hello"
  by (auto simp: GetCertificateECDSAOnly_def split: option.splits)

lemma RefreshCertificate_ECDSAOnly:
  "RefreshCertificate (GetCertificateECDSAOnly getCert) host = RefreshCertificate getCert host"
  by (simp add: RefreshCertificate_def GetCertificateECDSAOnly_supported refresh_hello_ECDSA)

lemma NewAutocertManager_ok_iff:
  "NewAutocertManager parse_ok wl getCert cache cl hosts = Inr m \<longleftrightarrow>
     (\<exists>c. cache = Some c \<and>
        (ac_Provider cl \<in> {''letsencrypt'', ''letsencrypt-staging'', []} \<or> parse_ok (ac_Provider cl)) \<and>
        mg_Manager m = \<lparr>am_Cache = c, am_DirectoryURL = DirectoryURL cl, am_UserAgent = ac_UserAgent cl,
          am_Email = ac_Email cl, am_HostPolicy = wl hosts, am_RenewBefore = ac_RenewBefore cl\<rparr> \<and>
        mg_getCertificate m = (if ac_AllowRSACertificates cl then getCert (mg_Manager m)
          else GetCertificateECDSAOnly (getCert (mg_Manager m))))"
  by (cases m) (auto simp: NewAutocertManager_def DirectoryURL_def Let_def split: option.splits)


definition demo_issuer :: "(unit, string list) autocert_Manager \<Rightarrow> (string, string) get_certificate" where
  "demo_issuer mgr hello = Inr ''cert''"


subsection \<open>Facts: the refresh loop\<close>

lemma NewClient_opts:
  "0 < cl_refreshInterval (cn_opts (NewClient m opts))" "0 < cl_refreshOnFailure (cn_opts (NewClient m opts))"
  "cl_refreshMetric (cn_opts (NewClient m opts)) \<noteq> NilVec"
  by (simp_all add: NewClient_def Let_def)

text \<open>What one attempt adds to the metrics.\<close>

definition refresh_log :: "string \<Rightarrow> metrics \<Rightarrow> bool" where
  "refresh_log host ms \<longleftrightarrow> set ms \<subseteq> {(host, ''failed''), (host, ''ok'')}"

lemma refreshHost_total:
  assumes "metric \<noteq> NilVec"
  shows "\<exists>new err. refreshHost notAfter getCert metric now host ms = Some (ms @ new, err) \<and>
    refresh_log host new \<and> length new \<le> 1"
proof (cases "getCert (Some (refresh_hello host))")
  case (Inl e)
  with assms show ?thesis by (cases metric) (auto simp: refreshHost_def metric_call_def refresh_log_def)
next
  case (Inr crt)
  with assms show ?thesis by (cases metric) (auto simp: refreshHost_def metric_call_def refresh_log_def)
qed

definition extends_log :: "string \<Rightarrow> nat \<Rightarrow> metrics \<Rightarrow> nat \<Rightarrow> metrics \<Rightarrow> bool" where
  "extends_log host n ms n' ms' \<longleftrightarrow> n < n' \<and> (\<exists>new. ms' = ms @ new \<and> refresh_log host new \<and> length new \<le> n' - n)"

lemma extends_log_step:
  "refresh_log host new \<Longrightarrow> length new \<le> 1 \<Longrightarrow> extends_log host n ms (Suc n) (ms @ new)"
  by (auto simp: extends_log_def)

lemma extends_log_trans:
  assumes "extends_log host n ms n' ms'" and "extends_log host n' ms' n'' ms''"
  shows "extends_log host n ms n'' ms''"
proof -
  from assms obtain a b where ab: "ms' = ms @ a" "refresh_log host a" "length a \<le> n' - n"
    "ms'' = ms' @ b" "refresh_log host b" "length b \<le> n'' - n'" "n < n'" "n' < n''"
    by (auto simp: extends_log_def)
  then show ?thesis
    unfolding extends_log_def by (intro conjI exI [of _ "a @ b"]) (auto simp: refresh_log_def)
qed

lemma getCertificate_ends:
  assumes "metric \<noteq> NilVec" and "\<And>k. N \<le> k \<Longrightarrow> re_retry_done env k"
  shows "\<exists>n' ms'. getCertificate notAfter env metric host n ms = Some (n', ms') \<and> extends_log host n ms n' ms'"
proof (induction "N - n" arbitrary: n ms rule: less_induct)
  case less
  obtain new err where r: "refreshHost notAfter (re_getCert env n) metric (re_now env n) host ms = Some (ms @ new, err)"
    and new: "refresh_log host new" "length new \<le> 1"
    using refreshHost_total [OF assms(1)] by blast
  note step = extends_log_step [OF new, of n ms]
  show ?case
  proof (cases "err = None \<or> re_retry_done env n")
    case True
    with r step show ?thesis by (subst getCertificate.simps) (auto split: option.splits)
  next
    case False
    with assms(2) [of n] have "n < N" by (meson not_le)
    then have "N - Suc n < N - n" by simp
    from less [OF this] obtain n' ms' where
      rec: "getCertificate notAfter env metric host (Suc n) (ms @ new) = Some (n', ms')"
        "extends_log host (Suc n) (ms @ new) n' ms'" by blast
    with False r extends_log_trans [OF step rec(2)] show ?thesis
      by (subst getCertificate.simps) (auto split: option.splits)
  qed
qed

lemma refresh_loop_returns:
  assumes m: "metric \<noteq> NilVec" and ends: "\<And>k. N \<le> k \<Longrightarrow> re_retry_done env k \<and> re_next_done env k"
  shows "\<exists>n' ms'. refresh_loop notAfter env metric host n ms = Some (n', ms') \<and> extends_log host n ms n' ms'"
proof (induction "N - n" arbitrary: n ms rule: less_induct)
  case less
  obtain n1 ms1 where g: "getCertificate notAfter env metric host n ms = Some (n1, ms1)" "extends_log host n ms n1 ms1"
    using getCertificate_ends [OF m, of N env notAfter host n ms] ends by blast
  show ?case
  proof (cases "re_next_done env n1")
    case True
    with g show ?thesis by (subst refresh_loop.simps) simp
  next
    case False
    with ends [of n1] have "n1 < N" by (meson not_le)
    moreover from g(2) have "n < n1" by (simp add: extends_log_def)
    ultimately have "N - n1 < N - n" by simp
    from less [OF this] obtain n' ms' where
      rec: "refresh_loop notAfter env metric host n1 ms1 = Some (n', ms')" "extends_log host n1 ms1 n' ms'" by blast
    with False g extends_log_trans [OF g(2) rec(2)] show ?thesis by (subst refresh_loop.simps) simp
  qed
qed


text \<open>Two failures, then a certificate, and the context ends after the fourth attempt.\<close>

definition demo_refresh :: "(string, int) refresh_env" where
  "demo_refresh = \<lparr>re_getCert = (\<lambda>n _. if n < 2 then Inl (AutocertError ''down'') else Inr 100), re_now = int,
     re_retry_done = (\<lambda>n. 4 \<le> n), re_next_done = (\<lambda>n. 4 \<le> n)\<rparr>"

definition demo_manager :: "(unit, unit, string, int) Manager" where
  "demo_manager =
     \<lparr>mg_Manager = \<lparr>am_Cache = (), am_DirectoryURL = LetsEncryptStaging, am_UserAgent = [], am_Email = [], am_HostPolicy = (),
        am_RenewBefore = 0\<rparr>, mg_getCertificate = re_getCert demo_refresh 0\<rparr>"


text \<open>
  A client that is stopped stops: once the context of every host's loop ends, the group ends without an error, so that
  stopping returns nil if it does so in time and the timeout's error if not.
\<close>

lemma Client_Start_stops:
  assumes "\<And>i k. N \<le> k \<Longrightarrow> re_retry_done (envs i) k \<and> re_next_done (envs i) k"
  shows "Client_Start notAfter envs (NewClient mgr opts) hosts inTime = (if inTime then Inr () else Inl StopTimeout)"
    and "\<exists>logs. Client_refresh notAfter envs (cl_refreshMetric (cn_opts (NewClient mgr opts))) hosts = Some logs \<and>
      length logs = length hosts \<and> (\<forall>i<length hosts. refresh_log (hosts ! i) (logs ! i))"
proof -
  let ?m = "cl_refreshMetric (cn_opts (NewClient mgr opts))"
  have r: "\<exists>n' ms'. refresh_loop notAfter (envs i) ?m h 0 [] = Some (n', ms') \<and> extends_log h 0 [] n' ms'" for i h
    by (rule refresh_loop_returns [OF NewClient_opts(3) assms])
  let ?rs = "map (\<lambda>(i, h). refresh_loop notAfter (envs i) ?m h 0 []) (List.enumerate 0 hosts)"
  have all: "None \<notin> set ?rs" using r by (auto simp: in_set_enumerate_eq) (metis option.distinct(1))
  then have c: "Client_refresh notAfter envs ?m hosts = Some (map (snd \<circ> the) ?rs)" by (simp add: Client_refresh_def Let_def)
  then show "Client_Start notAfter envs (NewClient mgr opts) hosts inTime = (if inTime then Inr () else Inl StopTimeout)"
    by (simp add: Client_Start_def Client_stop_def)
  have "refresh_log (hosts ! i) (map (snd \<circ> the) ?rs ! i)" if "i < length hosts" for i
    using r [of i "hosts ! i"] that by (auto simp: nth_enumerate_eq extends_log_def)
  with c show "\<exists>logs. Client_refresh notAfter envs ?m hosts = Some logs \<and> length logs = length hosts \<and>
      (\<forall>i<length hosts. refresh_log (hosts ! i) (logs ! i))"
    by (intro exI [of _ "map (snd \<circ> the) ?rs"]) simp
qed

end
