(* ===== verification/Auth0.thy ===== *)
theory Auth0
  imports GoUrl
begin

text \<open>
  \<^verbatim>\<open>webauth/auth0/jwt.go\<close>: authenticators that check the tokens of an auth0 tenant against its published keys.
  \<open>url.Parse\<close>, \<open>http.Get\<close> with the decoding of its answer, and the go-jose library are arguments; \<open>None\<close> as the
  outcome of an operation is a panic.
\<close>

definition jwksEndpoint :: string where
  "jwksEndpoint = ''/.well-known/jwks.json''"

record JSONWebKey =
  jk_KeyID :: string
  jk_Algorithm :: string
  jk_Use :: string
  jk_Certificates :: "string list" \<comment> \<open>the issuers of the certificates, as strings\<close>

type_synonym JWKS = "JSONWebKey list"

record Authenticator =
  au_domain :: string
  au_audience :: string
  au_algo :: string
  au_cn :: string
  au_staticJWKS :: "JWKS option"
  au_jwks :: "JWKS option"

type_synonym auth0_option = "Authenticator \<Rightarrow> Authenticator"

definition RS256 :: auth0_option where
  "RS256 a = a\<lparr>au_algo := ''RS256''\<rparr>"

definition StaticJWKS :: "JWKS \<Rightarrow> auth0_option" where
  "StaticJWKS jwks a = a\<lparr>au_staticJWKS := Some jwks\<rparr>"

text \<open>The error of \<open>url.Parse\<close> is dropped: a URL that does not parse is a nil pointer.\<close>

definition ensureHTTPS :: "(string \<Rightarrow> URL option) \<Rightarrow> string \<Rightarrow> string option" where
  "ensureHTTPS parse raw = map_option (\<lambda>u. URL_String (u\<lparr>url_Scheme := ''https''\<rparr>)) (parse raw)"

datatype 'e auth0_error = GetFailed 'e | BadStatus int | DecodeFailed | ParseFailed | ClaimsFailed | Invalid

record 'e web =
  wb_parse :: "string \<Rightarrow> URL option"
  wb_get :: "string \<Rightarrow> ('e, int \<times> JWKS option) result" \<comment> \<open>the status and the decoded answer\<close>

definition JWKSForDomain :: "'e web \<Rightarrow> string \<Rightarrow> ('e auth0_error, JWKS) result option" where
  "JWKSForDomain wb tenant =
     (case ensureHTTPS (wb_parse wb) tenant of
        None \<Rightarrow> None
      | Some base \<Rightarrow>
          Some (case wb_get wb (base @ jwksEndpoint) of
                  Inl e \<Rightarrow> Inl (GetFailed e)
                | Inr (status, jwks) \<Rightarrow>
                    if status \<noteq> 200 then Inl (BadStatus status)
                    else (case jwks of None \<Rightarrow> Inl DecodeFailed | Some ks \<Rightarrow> Inr ks)))"

fun keys_loop :: "string \<Rightarrow> string \<Rightarrow> JWKS \<Rightarrow> JWKS \<Rightarrow> JWKS" where
  "keys_loop algo cn [] keys = keys"
| "keys_loop algo cn (key # rest) keys =
     (if jk_Algorithm key \<noteq> algo then keys_loop algo cn rest keys
      else if jk_Use key \<noteq> ''sig'' then keys_loop algo cn rest keys
      else if length (jk_Certificates key) = 0 then keys_loop algo cn rest keys
      else if hd (jk_Certificates key) \<noteq> cn then keys_loop algo cn rest keys
      else keys_loop algo cn rest (keys @ [key]))"

definition refresh :: "'e web \<Rightarrow> Authenticator \<Rightarrow> (Authenticator \<times> ('e auth0_error, unit) result) option" where
  "refresh wb a =
     (case au_staticJWKS a of
        Some jwks \<Rightarrow> Some (a\<lparr>au_jwks := Some jwks\<rparr>, Inr ())
      | None \<Rightarrow>
          (case JWKSForDomain wb (au_domain a) of
             None \<Rightarrow> None
           | Some (Inl err) \<Rightarrow> Some (a, Inl err)
           | Some (Inr jwks) \<Rightarrow> Some (a\<lparr>au_jwks := Some (keys_loop (au_algo a) (au_cn a) jwks [])\<rparr>, Inr ())))"

definition NewAuthenticator ::
    "'e web \<Rightarrow> string \<Rightarrow> string \<Rightarrow> auth0_option list \<Rightarrow> (Authenticator \<times> ('e auth0_error, unit) result) option" where
  "NewAuthenticator wb domain audience opts =
     (case (ensureHTTPS (wb_parse wb) domain, ensureHTTPS (wb_parse wb) audience) of
        (Some d, Some aud) \<Rightarrow>
          let a = apply_options opts \<lparr>au_domain = d, au_audience = aud, au_algo = [], au_cn = ''CN='' @ domain,
                    au_staticJWKS = None, au_jwks = None\<rparr>;
              a = (if length (au_algo a) = 0 then RS256 a else a)
          in refresh wb a
      | _ \<Rightarrow> None)"

text \<open>
  What is used of go-jose: parsing a signed token, its claims if one of the keys verifies it, and the
  validation of issuer, audience and times at the current time.
\<close>

record ('tok, 'claims) jose =
  js_ParseSigned :: "string \<Rightarrow> 'tok option"
  js_Claims :: "JWKS \<Rightarrow> 'tok \<Rightarrow> 'claims option"
  js_Validate :: "string \<Rightarrow> string list \<Rightarrow> 'claims \<Rightarrow> bool"

definition CheckJWT :: "('tok, 'claims) jose \<Rightarrow> Authenticator \<Rightarrow> string \<Rightarrow> ('e auth0_error, unit) result option" where
  "CheckJWT js a token =
     (case js_ParseSigned js token of
        None \<Rightarrow> Some (Inl ParseFailed)
      | Some tok \<Rightarrow>
          (case au_jwks a of
             None \<Rightarrow> None
           | Some keys \<Rightarrow>
               (case js_Claims js keys tok of
                  None \<Rightarrow> Some (Inl ClaimsFailed)
                | Some claims \<Rightarrow>
                    Some (if js_Validate js (au_domain a) [au_audience a] claims then Inr () else Inl Invalid))))"

subsection \<open>Facts\<close>

definition usable_key :: "string \<Rightarrow> string \<Rightarrow> JSONWebKey \<Rightarrow> bool" where
  "usable_key algo cn key \<longleftrightarrow> jk_Algorithm key = algo \<and> jk_Use key = ''sig'' \<and>
     (\<exists>rest. jk_Certificates key = cn # rest)"

lemma keys_loop_eq: "keys_loop algo cn ks acc = acc @ filter (usable_key algo cn) ks"
proof (induction ks arbitrary: acc)
  case (Cons k ks)
  have "usable_key algo cn k \<longleftrightarrow> jk_Algorithm k = algo \<and> jk_Use k = ''sig'' \<and>
      length (jk_Certificates k) \<noteq> 0 \<and> hd (jk_Certificates k) = cn"
    by (cases "jk_Certificates k") (auto simp: usable_key_def)
  with Cons show ?case by auto
qed simp

text \<open>What the code relies on: claims come from a token that one of the given keys verifies.\<close>

definition jose_laws :: "('tok, 'claims) jose \<Rightarrow> (JSONWebKey \<Rightarrow> 'tok \<Rightarrow> 'claims \<Rightarrow> bool) \<Rightarrow> bool" where
  "jose_laws js verifies \<longleftrightarrow>
     (\<forall>ks tok c. js_Claims js ks tok = Some c \<longrightarrow> (\<exists>k\<in>set ks. verifies k tok c))"

lemma NewAuthenticator_no_options:
  assumes "NewAuthenticator wb domain audience [] = Some (a, Inr ())"
  shows "\<exists>base ks. ensureHTTPS (wb_parse wb) (au_domain a) = Some base \<and>
      wb_get wb (base @ jwksEndpoint) = Inr (200, Some ks) \<and>
      au_jwks a = Some (filter (usable_key ''RS256'' (''CN='' @ domain)) ks) \<and>
      ensureHTTPS (wb_parse wb) domain = Some (au_domain a) \<and> ensureHTTPS (wb_parse wb) audience = Some (au_audience a)"
proof -
  from assms obtain d aud where e: "ensureHTTPS (wb_parse wb) domain = Some d" "ensureHTTPS (wb_parse wb) audience = Some aud"
    by (auto simp: NewAuthenticator_def split: option.splits)
  with assms have r: "refresh wb \<lparr>au_domain = d, au_audience = aud, au_algo = ''RS256'', au_cn = ''CN='' @ domain,
      au_staticJWKS = None, au_jwks = None\<rparr> = Some (a, Inr ())"
    by (simp add: NewAuthenticator_def RS256_def)
  then obtain jwks where j: "JWKSForDomain wb d = Some (Inr jwks)"
    and a: "a = \<lparr>au_domain = d, au_audience = aud, au_algo = ''RS256'', au_cn = ''CN='' @ domain,
      au_staticJWKS = None, au_jwks = Some (filter (usable_key ''RS256'' (''CN='' @ domain)) jwks)\<rparr>"
    by (auto simp: refresh_def keys_loop_eq split: option.splits sum.splits)
  from j obtain base where "ensureHTTPS (wb_parse wb) d = Some base" "wb_get wb (base @ jwksEndpoint) = Inr (200, Some jwks)"
    by (auto simp: JWKSForDomain_def split: option.splits sum.splits if_splits)
  with a e show ?thesis by simp
qed


text \<open>A URL that does not parse is not an error but a panic.\<close>

lemma NewAuthenticator_panics: "wb_parse wb domain = None \<Longrightarrow> NewAuthenticator wb domain audience opts = None"
  by (simp add: NewAuthenticator_def ensureHTTPS_def)

text \<open>A tenant with one key, whose tokens are the name of the signing key.\<close>

definition demo_key :: JSONWebKey where
  "demo_key = \<lparr>jk_KeyID = ''k'', jk_Algorithm = ''RS256'', jk_Use = ''sig'', jk_Certificates = [''CN=t.example'']\<rparr>"

definition demo_web :: "unit web" where
  "demo_web = \<lparr>wb_parse = (\<lambda>s. Some (empty_URL\<lparr>url_Path := s\<rparr>)), wb_get = (\<lambda>_. Inr (200, Some [demo_key]))\<rparr>"

definition demo_jose :: "(string, unit) jose" where
  "demo_jose = \<lparr>js_ParseSigned = Some, js_Claims = (\<lambda>ks tok. if list_ex (\<lambda>k. jk_KeyID k = tok) ks then Some () else None),
     js_Validate = (\<lambda>_ _ _. True)\<rparr>"

lemma demo_jose_laws: "jose_laws demo_jose (\<lambda>k tok _. jk_KeyID k = tok)"
  by (auto simp: jose_laws_def demo_jose_def list_ex_iff split: if_splits)


end
