(* ===== verification/CssUtil.thy ===== *)
theory CssUtil
  imports GoNet "HOL-Library.List_Lexorder" "HOL-Library.Char_ord"
begin

text \<open>
  \<^verbatim>\<open>cssutil/cssutil.go\<close>: the CSS classes of HTML documents and the Tailwind directive that lists them. The HTML
  parser of \<^verbatim>\<open>golang.org/x/net/html\<close> is an argument that turns the content of a reader into a tree.
\<close>

datatype html_node = Node (is_element: bool) (attrs: "(string \<times> string) list") (children: "html_node list")

text \<open>\<open>strings.Fields\<close> on ASCII text: the maximal runs of non-space characters.\<close>

function strings_Fields :: "string \<Rightarrow> string list" where
  "strings_Fields s =
     (let s = dropWhile trim_space s
      in if s = [] then [] else takeWhile (\<lambda>c. \<not> trim_space c) s # strings_Fields (dropWhile (\<lambda>c. \<not> trim_space c) s))"
  by pat_completeness auto
termination
proof (relation "measure length")
  fix s x :: string
  assume x: "x = dropWhile trim_space s" "x \<noteq> []"
  have "\<not> trim_space (hd x)" using x hd_dropWhile [of trim_space s] by (auto simp del: dropWhile_eq_Nil_conv)
  with x(2) obtain c cs where "x = c # cs" "\<not> trim_space c" by (cases x) auto
  then have "length (dropWhile (\<lambda>c. \<not> trim_space c) x) < length x" by (simp add: length_dropWhile_le le_imp_less_Suc)
  also have "length x \<le> length s" by (simp add: x length_dropWhile_le)
  finally show "(dropWhile (\<lambda>c. \<not> trim_space c) x, s) \<in> measure length" by simp
qed simp

declare strings_Fields.simps [simp del]

text \<open>The classes of one node: the body of the traversal.\<close>

definition node_classes :: "html_node \<Rightarrow> string list" where
  "node_classes n =
     (if is_element n
      then concat (map (\<lambda>(key, val). if key = ''class'' then strings_Fields val else []) (attrs n)) else [])"

text \<open>The traversal with its stack; the top of the stack is the head, children are pushed in order.\<close>

function visit :: "html_node list \<Rightarrow> string list \<Rightarrow> string list" where
  "visit [] seen = seen"
| "visit (n # stack) seen = visit (rev (children n) @ stack) (seen @ node_classes n)"
  by pat_completeness auto
termination
proof (relation "measure (\<lambda>(stack, seen). sum_list (map size stack))")
  fix n :: html_node and stack seen
  have "sum_list (map size (rev (children n))) < size n"
    by (cases n) (simp add: size_list_conv_sum_list rev_map [symmetric] sum_list_rev sum_list_Suc)
  then show "((rev (children n) @ stack, seen @ node_classes n), n # stack, seen) \<in> measure (\<lambda>(stack, seen). sum_list (map size stack))"
    by simp
qed simp

declare visit.simps(2) [simp del]

fun readers_loop :: "('r \<Rightarrow> ('e, html_node) result) \<Rightarrow> 'r list \<Rightarrow> string list \<Rightarrow> ('e, string list) result" where
  "readers_loop parse [] seen = Inr seen"
| "readers_loop parse (r # rs) seen =
     (case parse r of Inl e \<Rightarrow> Inl e | Inr doc \<Rightarrow> readers_loop parse rs (visit [doc] seen))"

text \<open>\<open>seen\<close> is a map: only its keys count, and \<open>slices.Sort\<close> orders strings by their bytes.\<close>

definition ParseHTMLClasses :: "('r \<Rightarrow> ('e, html_node) result) \<Rightarrow> 'r list \<Rightarrow> ('e, string list) result" where
  "ParseHTMLClasses parse readers =
     (case readers_loop parse readers [] of Inl e \<Rightarrow> Inl e | Inr seen \<Rightarrow> Inr (sort (remdups seen)))"

fun open_loop :: "(string \<Rightarrow> ('e, 'r) result) \<Rightarrow> string list \<Rightarrow> ('e, 'r list) result" where
  "open_loop open [] = Inr []"
| "open_loop open (name # names) =
     (case open name of
        Inl e \<Rightarrow> Inl e
      | Inr f \<Rightarrow> (case open_loop open names of Inl e \<Rightarrow> Inl e | Inr fs \<Rightarrow> Inr (f # fs)))"

definition ParseHTMLClassesFS ::
    "('r \<Rightarrow> ('e, html_node) result) \<Rightarrow> (string \<Rightarrow> ('e, 'r) result) \<Rightarrow> string list \<Rightarrow> ('e, string list) result" where
  "ParseHTMLClassesFS parse open names =
     (case open_loop open names of Inl e \<Rightarrow> Inl e | Inr readers \<Rightarrow> ParseHTMLClasses parse readers)"

definition unsafe_class_char :: "char \<Rightarrow> bool" where
  "unsafe_class_char c \<longleftrightarrow> c = CHR 0x22 \<or> c = CHR '')'' \<or> c = CHR 0x5C"

definition TailwindSourceInline :: "string list \<Rightarrow> string" where
  "TailwindSourceInline classes =
     ''@source inline('' @ [CHR 0x22]
       @ strings_Join (filter (\<lambda>cls. \<not> list_ex unsafe_class_char cls) classes) '' '' @ [CHR 0x22] @ '');''"

subsection \<open>Facts\<close>

text \<open>The classes of a document, by recursion on the tree.\<close>

fun tree_classes :: "html_node \<Rightarrow> string set" where
  "tree_classes (Node e as cs) = set (node_classes (Node e as cs)) \<union> (\<Union>c\<in>set cs. tree_classes c)"

lemma visit_set: "set (visit stack seen) = set seen \<union> (\<Union>n\<in>set stack. tree_classes n)"
proof (induction stack seen rule: visit.induct)
  case (2 n stack seen)
  have "tree_classes n = set (node_classes n) \<union> (\<Union>c\<in>set (children n). tree_classes c)" by (cases n) simp
  with 2 show ?case by (auto simp: visit.simps(2))
qed simp

lemma readers_loop_ok:
  "readers_loop parse rs seen = Inr out \<Longrightarrow>
   \<exists>docs. list_all2 (\<lambda>r d. parse r = Inr d) rs docs \<and> set out = set seen \<union> (\<Union>d\<in>set docs. tree_classes d)"
proof (induction rs arbitrary: seen)
  case (Cons r rs)
  then obtain d where d: "parse r = Inr d" "readers_loop parse rs (visit [d] seen) = Inr out" by (auto split: sum.splits)
  from Cons.IH [OF d(2)] obtain docs where "list_all2 (\<lambda>r d. parse r = Inr d) rs docs"
    "set out = set (visit [d] seen) \<union> (\<Union>d\<in>set docs. tree_classes d)" by blast
  with d(1) show ?case by (intro exI [of _ "d # docs"]) (auto simp: visit_set)
qed simp

lemma readers_loop_error: "readers_loop parse rs seen = Inl e \<longleftrightarrow> map_result parse rs = Inl e"
  by (induction rs arbitrary: seen) (auto split: sum.splits)


lemma strings_Join_set: "set (strings_Join xs sep) \<subseteq> \<Union>(set ` set xs) \<union> set sep"
  by (induction xs sep rule: strings_Join.induct) auto

text \<open>
  The classes of a directive cannot end its string: between the quotes there is no quote, no closing
  parenthesis and no backslash, and names without such characters are all listed.
\<close>

lemma TailwindSourceInline_closed:
  "\<exists>body. TailwindSourceInline classes = ''@source inline('' @ [CHR 0x22] @ body @ [CHR 0x22] @ '');'' \<and>
     (\<forall>c\<in>set body. \<not> unsafe_class_char c)"
proof -
  let ?safe = "filter (\<lambda>cls. \<not> list_ex unsafe_class_char cls) classes"
  have "\<forall>c\<in>set (strings_Join ?safe '' ''). \<not> unsafe_class_char c"
    using strings_Join_set [of ?safe "'' ''"] by (auto simp: list_ex_iff unsafe_class_char_def)
  then show ?thesis by (auto simp: TailwindSourceInline_def)
qed

end
