(* ===== verification/WebAssets.thy ===== *)
theory WebAssets
  imports GoPath
begin

text \<open>
  \<^verbatim>\<open>webassets\<close>: file systems with a prefix (\<^verbatim>\<open>relative.go\<close>), embedded assets that may be reloaded from disk
  (\<^verbatim>\<open>reloadable.go\<close>) and the file system that always serves one file (\<^verbatim>\<open>servefile.go\<close>). An \<open>fs.FS\<close> is its
  \<open>Open\<close>; \<^verbatim>\<open>cloudeng.io/io/reloadfs\<close>, the environment and the clock are arguments. Logging is left out.
\<close>

type_synonym ('e, 'f) FS = "string \<Rightarrow> ('e, 'f) result"

record ('e, 'f) relative =
  rel_prefix :: string
  rel_fs :: "('e, 'f) FS"

definition relative_Open :: "('e, 'f) relative \<Rightarrow> ('e, 'f) FS" where
  "relative_Open r name = rel_fs r (path_Join (rel_prefix r) name)"

definition relativeFS :: "string \<Rightarrow> ('e, 'f) FS \<Rightarrow> ('e, 'f) relative" where
  "relativeFS pre fs = \<lparr>rel_prefix = pre, rel_fs = fs\<rparr>"

definition RelativeFS :: "string \<Rightarrow> ('e, 'f) FS \<Rightarrow> ('e, 'f) FS" where
  "RelativeFS pre fs = relative_Open (relativeFS pre fs)"

subsection \<open>reloadable.go\<close>

record assets_Config =
  as_ReloadEnable :: bool
  as_ReloadNew :: bool
  as_ReloadRoot :: string

record AssetsFlags =
  af_ReloadEnable :: bool
  af_ReloadNew :: bool
  af_ReloadRoot :: string
  af_ReloadLogging :: bool
  af_ReloadDebugging :: bool

definition AssetsFlags_Config :: "AssetsFlags \<Rightarrow> assets_Config" where
  "AssetsFlags_Config f =
     \<lparr>as_ReloadEnable = af_ReloadEnable f, as_ReloadNew = af_ReloadNew f, as_ReloadRoot = af_ReloadRoot f\<rparr>"

record assets =
  at_reloadAfter :: int
  at_reloadFrom :: string
  at_loadNew :: bool

type_synonym AssetsOption = "assets \<Rightarrow> assets"

definition WithReloading :: "string \<Rightarrow> int \<Rightarrow> bool \<Rightarrow> AssetsOption" where
  "WithReloading location after loadNew a = a\<lparr>at_reloadFrom := location, at_reloadAfter := after, at_loadNew := loadNew\<rparr>"

text \<open>\<open>getwd\<close> is the value of \<open>os.Getwd\<close> (empty on failure, its error being dropped).\<close>

definition assets_Config_Options :: "string \<Rightarrow> (string \<Rightarrow> string) \<Rightarrow> int \<Rightarrow> assets_Config \<Rightarrow> AssetsOption list" where
  "assets_Config_Options getwd expandEnv now c =
     (if \<not> as_ReloadEnable c then []
      else let root = (if length (as_ReloadRoot c) = 0 then getwd else expandEnv (as_ReloadRoot c))
           in [WithReloading root now (as_ReloadNew c)])"

definition OptionsFromFlags :: "string \<Rightarrow> (string \<Rightarrow> string) \<Rightarrow> int \<Rightarrow> AssetsFlags \<Rightarrow> AssetsOption list" where
  "OptionsFromFlags getwd expandEnv now rf = assets_Config_Options getwd expandEnv now (AssetsFlags_Config rf)"

text \<open>\<open>reload\<close> is \<open>reloadfs.New\<close> with its location, prefix, file system, time and new-files option.\<close>

definition NewAssets ::
    "(string \<Rightarrow> string \<Rightarrow> ('e, 'f) FS \<Rightarrow> int \<Rightarrow> bool \<Rightarrow> ('e, 'f) FS) \<Rightarrow> string \<Rightarrow> ('e, 'f) FS \<Rightarrow> AssetsOption list \<Rightarrow> ('e, 'f) FS" where
  "NewAssets reload pre fsys opts =
     (let a = apply_options opts \<lparr>at_reloadAfter = 0, at_reloadFrom = [], at_loadNew = False\<rparr>
      in if length (at_reloadFrom a) = 0 then relative_Open (relativeFS pre fsys)
         else reload (at_reloadFrom a) pre fsys (at_reloadAfter a) (at_loadNew a))"

subsection \<open>servefile.go\<close>

text \<open>\<open>http.FS\<close>: the root is the current directory and a leading slash is dropped.\<close>

definition http_FS :: "('e, 'f) FS \<Rightarrow> ('e, 'f) FS" where
  "http_FS fs name = fs (if name = ''/'' then ''.'' else strings_TrimPrefix name ''/'')"

record ('e, 'f) SameFileHTTPFilesystem =
  sff_filename :: string
  sff_fs :: "('e, 'f) FS"

definition NewSameFileHTTPFilesystem :: "('e, 'f) FS \<Rightarrow> string \<Rightarrow> ('e, 'f) SameFileHTTPFilesystem" where
  "NewSameFileHTTPFilesystem fs filename = \<lparr>sff_filename = filename, sff_fs = http_FS fs\<rparr>"

definition SameFile_Open :: "('e, 'f) SameFileHTTPFilesystem \<Rightarrow> ('e, 'f) FS" where
  "SameFile_Open sff name = sff_fs sff (sff_filename sff)"

subsection \<open>Facts\<close>

text \<open>Without reloading, flags or not, assets are the embedded ones under their prefix.\<close>

lemma NewAssets_embedded:
  "\<not> af_ReloadEnable rf \<Longrightarrow> NewAssets reload pre fs (OptionsFromFlags getwd expandEnv now rf) = RelativeFS pre fs"
  by (simp add: OptionsFromFlags_def assets_Config_Options_def AssetsFlags_Config_def NewAssets_def RelativeFS_def)

lemma SameFile_constant: "SameFile_Open (NewSameFileHTTPFilesystem fs f) name = SameFile_Open (NewSameFileHTTPFilesystem fs f) name'"
  by (simp add: SameFile_Open_def)

text \<open>
  A plain name is opened directly under the prefix. A name that climbs is not refused, as \<open>fs.FS\<close> asks, but
  leaves the prefix.
\<close>

lemma RelativeFS_plain:
  assumes "plain_name name" and "plain_name pre"
  shows "RelativeFS pre fs name = fs (pre @ ''/'' @ name)"
proof -
  have "split_on CHR ''/'' pre = [pre]" using assms(2) by (simp add: plain_name_def split_on_notin)
  moreover have "clean_comps r [pre] = [pre]" for r
    using clean_comps_plain [OF assms(2), of r "[]"] by (simp add: clean_comps_def)
  moreover have "\<not> is_rooted pre" using assms(2) by (cases pre) (auto simp: plain_name_def is_rooted_def)
  ultimately show ?thesis
    using assms path_Join_plain [OF assms(1), of pre]
    by (auto simp: RelativeFS_def relative_Open_def relativeFS_def plain_name_def Let_def)
qed

lemma RelativeFS_climbs: "RelativeFS ''static'' fs ''../secret'' = fs ''secret''"
proof -
  have "path_Join ''static'' ''../secret'' = ''secret''" by code_simp
  then show ?thesis by (simp add: RelativeFS_def relative_Open_def relativeFS_def)
qed

end
