(* ===== verification/DevServer.thy ===== *)
theory DevServer
  imports Shutdown GoUrl
begin

text \<open>
  \<^verbatim>\<open>devserver\<close>: starting a development server and finding its URL in its output. The process and \<open>url.Parse\<close> are
  arguments. What the loop sees is a sequence of events: a line of output, or the end of the context.
\<close>

datatype wait_event = Line bytes | CtxDone wait_error

record dev_cmd =
  dc_Dir :: string
  dc_Path :: string
  dc_Args :: "string list"

text \<open>The closer is the filter that the output goes through, once there is one.\<close>

record 'f DevServer =
  ds_cmd :: dev_cmd
  ds_closer :: "'f option"

definition NewServer :: "string \<Rightarrow> string \<Rightarrow> string list \<Rightarrow> 'f DevServer" where
  "NewServer dir binary args = \<lparr>ds_cmd = \<lparr>dc_Dir = dir, dc_Path = binary, dc_Args = args\<rparr>, ds_closer = None\<rparr>"

text \<open>A URL extractor: a URL, an error, or neither.\<close>

type_synonym ('e, 'u) URLExtractor = "bytes \<Rightarrow> ('e, 'u option) result"

datatype 'e dev_error = StartFailed 'e | MalformedLine bytes | BadURL | WaitEnded wait_error

definition extractURLAtLastSpace :: "(string \<Rightarrow> 'u option) \<Rightarrow> ('e dev_error, 'u) URLExtractor" where
  "extractURLAtLastSpace parse line =
     (case LastIndexByte line CHR '' '' of
        None \<Rightarrow> Inl (MalformedLine line)
      | Some sp \<Rightarrow>
          if sp + 1 \<ge> length line then Inl (MalformedLine line)
          else (case parse (drop (sp + 1) line) of None \<Rightarrow> Inl BadURL | Some u \<Rightarrow> Inr (Some u)))"

text \<open>The default regular expressions are plain texts; the arrow is three bytes of UTF-8.\<close>

definition viteHostRE :: "bytes \<Rightarrow> bool" where
  "viteHostRE line = strings_Contains line ([CHR 0xE2, CHR 0x9E, CHR 0x9C] @ ''  Local:'')"

definition webpackHostRE :: "bytes \<Rightarrow> bool" where
  "webpackHostRE line = strings_Contains line ''Local:''"

definition NewViteURLExtractor :: "(string \<Rightarrow> 'u option) \<Rightarrow> (bytes \<Rightarrow> bool) option \<Rightarrow> ('e dev_error, 'u) URLExtractor" where
  "NewViteURLExtractor parse re line =
     (let re = (case re of None \<Rightarrow> viteHostRE | Some m \<Rightarrow> m)
      in if \<not> re line then Inr None else extractURLAtLastSpace parse line)"

definition NewWebpackURLExtractor :: "(string \<Rightarrow> 'u option) \<Rightarrow> (bytes \<Rightarrow> bool) option \<Rightarrow> ('e dev_error, 'u) URLExtractor" where
  "NewWebpackURLExtractor parse re line =
     (let re = (case re of None \<Rightarrow> webpackHostRE | Some m \<Rightarrow> m)
      in if \<not> re line then Inr None else extractURLAtLastSpace parse line)"

text \<open>The loop of \<open>StartAndWaitForURL\<close>; a nil URL cannot be returned without an error.\<close>

partial_function (option) wait_url ::
    "('e dev_error, 'u) URLExtractor \<times> (nat \<Rightarrow> wait_event) \<Rightarrow> nat \<Rightarrow> ('e dev_error, 'u) result option" where
  "wait_url ee n =
     (case snd ee n of
        CtxDone err \<Rightarrow> Some (Inl (WaitEnded err))
      | Line line \<Rightarrow>
          (case fst ee line of
             Inr None \<Rightarrow> wait_url ee (Suc n)
           | Inr (Some u) \<Rightarrow> Some (Inr u)
           | Inl err \<Rightarrow> Some (Inl err)))"

text \<open>
  \<open>newFilter\<close> is \<open>executil.NewLineFilter\<close> on the writer; the filter becomes the closer before the command is started, whether or not it starts.
\<close>

definition StartAndWaitForURL ::
    "('w \<Rightarrow> 'f) \<Rightarrow> (dev_cmd \<Rightarrow> ('e, unit) result) \<Rightarrow> (dev_cmd \<Rightarrow> nat \<Rightarrow> wait_event) \<Rightarrow> 'w \<Rightarrow> ('e dev_error, 'u) URLExtractor \<Rightarrow> 'f DevServer \<Rightarrow>
       'f DevServer \<times> ('e dev_error, 'u) result option" where
  "StartAndWaitForURL newFilter start output writer extractor ds =
     (let ds = ds\<lparr>ds_closer := Some (newFilter writer)\<rparr>
      in (ds, case start (ds_cmd ds) of
                Inl e \<Rightarrow> Some (Inl (StartFailed e))
              | Inr _ \<Rightarrow> wait_url (extractor, output (ds_cmd ds)) 0))"

definition DevServer_Close :: "('f \<Rightarrow> 'f) \<Rightarrow> 'f DevServer \<Rightarrow> 'f DevServer" where
  "DevServer_Close closeFilter ds =
     (case ds_closer ds of None \<Rightarrow> ds | Some f \<Rightarrow> ds\<lparr>ds_closer := Some (closeFilter f)\<rparr>)"

subsection \<open>Facts\<close>

definition url_round :: "('e dev_error, 'u) URLExtractor \<times> (nat \<Rightarrow> wait_event) \<Rightarrow> nat \<Rightarrow> ('e dev_error, 'u) result option" where
  "url_round ee n =
     (case snd ee n of
        CtxDone err \<Rightarrow> Some (Inl (WaitEnded err))
      | Line line \<Rightarrow> (case fst ee line of Inr None \<Rightarrow> None | Inr (Some u) \<Rightarrow> Some (Inr u) | Inl err \<Rightarrow> Some (Inl err)))"

lemma wait_url_unroll: "wait_url ee n = (case url_round ee n of Some r \<Rightarrow> Some r | None \<Rightarrow> wait_url ee (Suc n))"
  by (subst wait_url.simps) (auto simp: url_round_def split: wait_event.splits sum.splits option.splits)

lemma wait_url_decided: "wait_url ee n = Some r \<Longrightarrow> \<exists>m\<ge>n. url_round ee m \<noteq> None"
proof (rule wait_url.raw_induct [where P = "\<lambda>ee n r. \<exists>m\<ge>n. url_round ee m \<noteq> None"])
  fix loop :: "('e dev_error, 'u) URLExtractor \<times> (nat \<Rightarrow> wait_event) \<Rightarrow> nat \<Rightarrow> ('e dev_error, 'u) result option" and ee n r
  assume IH: "\<And>ee n r. loop ee n = Some r \<Longrightarrow> \<exists>m\<ge>n. url_round ee m \<noteq> None"
    and round: "(case snd ee n of
        CtxDone err \<Rightarrow> Some (Inl (WaitEnded err))
      | Line line \<Rightarrow>
          (case fst ee line of
             Inr None \<Rightarrow> loop ee (Suc n)
           | Inr (Some u) \<Rightarrow> Some (Inr u)
           | Inl err \<Rightarrow> Some (Inl err))) = Some r"
  show "\<exists>m\<ge>n. url_round ee m \<noteq> None"
  proof (cases "url_round ee n")
    case None
    with round have "loop ee (Suc n) = Some r"
      by (auto simp: url_round_def split: wait_event.splits sum.splits option.splits)
    from IH [OF this] show ?thesis using Suc_leD by blast
  qed auto
qed

interpretation url_wait: polling_loop wait_url url_round
  by unfold_locales (rule wait_url_unroll, rule wait_url_decided)

text \<open>
  A started server yields the URL of the first line the extractor recognises, if no earlier line is an error
  and the context has not ended; and the wait returns if the context ends.
\<close>

lemma StartAndWaitForURL_first:
  assumes "start (ds_cmd ds) = Inr ()"
  shows "snd (StartAndWaitForURL newFilter start output writer extractor ds) = Some (Inr u) \<longleftrightarrow>
     (\<exists>m line. output (ds_cmd ds) m = Line line \<and> extractor line = Inr (Some u) \<and>
        (\<forall>k<m. \<exists>l. output (ds_cmd ds) k = Line l \<and> extractor l = Inr None))"
proof -
  have ok: "url_round (extractor, events) m = Some (Inr u) \<longleftrightarrow> (\<exists>line. events m = Line line \<and> extractor line = Inr (Some u))" for events m
    by (auto simp: url_round_def split: wait_event.splits sum.splits option.splits)
  have again: "url_round (extractor, events) m = None \<longleftrightarrow> (\<exists>l. events m = Line l \<and> extractor l = Inr None)" for events m
    by (auto simp: url_round_def split: wait_event.splits sum.splits option.splits)
  show ?thesis by (auto simp: StartAndWaitForURL_def assms url_wait.returns_iff ok again Let_def)
qed

lemma StartAndWaitForURL_returns:
  "output (ds_cmd ds) m = CtxDone err \<Longrightarrow> snd (StartAndWaitForURL newFilter start output writer extractor ds) \<noteq> None"
  using url_wait.returns_if_decided [of "(extractor, output (ds_cmd ds))" m]
  by (auto simp: StartAndWaitForURL_def url_round_def Let_def split: sum.splits)

text \<open>Closing stops the output of the command that was started last, and does nothing for a server that was never started.\<close>

lemma DevServer_Close_started:
  "ds_closer (DevServer_Close closeFilter (fst (StartAndWaitForURL newFilter start output writer extractor ds))) = Some (closeFilter (newFilter writer))"
  "DevServer_Close closeFilter (NewServer dir binary args) = NewServer dir binary args"
  by (simp_all add: DevServer_Close_def StartAndWaitForURL_def NewServer_def Let_def)

text \<open>On a line that ends with a space and a URL the extractor returns that URL.\<close>

lemma extractURL_last_word:
  assumes "CHR '' '' \<notin> set w" and "w \<noteq> []"
  shows "extractURLAtLastSpace parse (u @ '' '' @ w) = (case parse w of None \<Rightarrow> Inl BadURL | Some v \<Rightarrow> Inr (Some v))"
  using LastIndexByte_last [OF assms(1), of u] assms(2) by (simp add: extractURLAtLastSpace_def)

end
