(* ===== verification/HttpClient.thy ===== *)
theory HttpClient
  imports GoHttp
begin

text \<open>
  The part of \<open>net/http\<close>'s client the checks of \<^verbatim>\<open>testwebapp\<close> rely on: GET requests and redirects, for
  \<open>ClientNoRedirect\<close> and \<open>ClientMaxRedirects\<close> of \<^verbatim>\<open>testwebapp/test_redirect.go\<close>. The network is an argument: what
  a round trip returns, which URLs parse, and how a location is resolved. A client that is told to
  follow every redirect may never return: \<open>Do\<close> is a partial function, \<open>None\<close> being no return.
\<close>

record http_resp =
  hp_StatusCode :: int
  hp_Header :: header
  hp_Body :: body

text \<open>What \<open>CheckRedirect\<close> answers: nil, \<open>http.ErrUseLastResponse\<close> or another error.\<close>

datatype redirect_decision = FollowRedirect | ErrUseLastResponse | StopRedirects

record http_Client =
  cl_RoundTrip :: "string \<Rightarrow> http_resp option"
  cl_CheckRedirect :: "(string list \<Rightarrow> redirect_decision) option"

record http_net =
  nt_parses :: "string \<Rightarrow> bool"
  nt_resolve :: "string \<Rightarrow> string \<Rightarrow> string option"
  nt_DefaultClient :: http_Client

text \<open>Without a \<open>CheckRedirect\<close> the client stops after ten requests.\<close>

definition check_redirect :: "http_Client \<Rightarrow> string list \<Rightarrow> redirect_decision" where
  "check_redirect c via =
     (case cl_CheckRedirect c of
        None \<Rightarrow> if length via \<ge> 10 then StopRedirects else FollowRedirect
      | Some f \<Rightarrow> f via)"

definition is_redirect :: "http_resp \<Rightarrow> bool" where
  "is_redirect resp \<longleftrightarrow>
     hp_StatusCode resp \<in> {301, 302, 303, 307, 308} \<and> header_Get (hp_Header resp) ''Location'' \<noteq> []"

text \<open>\<open>Client.Do\<close> on a GET request: the URLs requested and the last response, \<open>None\<close> for an error.\<close>

partial_function (option) client_Do ::
    "http_net \<Rightarrow> http_Client \<Rightarrow> string list \<Rightarrow> string \<Rightarrow> (string list \<times> http_resp option) option" where
  "client_Do net c via url =
     (case cl_RoundTrip c url of
        None \<Rightarrow> Some (via @ [url], None)
      | Some resp \<Rightarrow>
          if \<not> is_redirect resp then Some (via @ [url], Some resp)
          else
            (case nt_resolve net url (header_Get (hp_Header resp) ''Location'') of
               None \<Rightarrow> Some (via @ [url], None)
             | Some u \<Rightarrow>
                 (case check_redirect c (via @ [url]) of
                    FollowRedirect \<Rightarrow> client_Do net c (via @ [url]) u
                  | ErrUseLastResponse \<Rightarrow> Some (via @ [url], Some resp)
                  | StopRedirects \<Rightarrow> Some (via @ [url], None))))"

definition newClient :: "http_net \<Rightarrow> http_Client option \<Rightarrow> http_Client" where
  "newClient net client = (case client of None \<Rightarrow> nt_DefaultClient net | Some c \<Rightarrow> c)"

definition ClientNoRedirect :: "http_net \<Rightarrow> http_Client option \<Rightarrow> http_Client" where
  "ClientNoRedirect net client = (newClient net client)\<lparr>cl_CheckRedirect := Some (\<lambda>_. ErrUseLastResponse)\<rparr>"

definition ClientMaxRedirects :: "http_net \<Rightarrow> http_Client option \<Rightarrow> int \<Rightarrow> http_Client" where
  "ClientMaxRedirects net client maxRedirects =
     (newClient net client)\<lparr>cl_CheckRedirect :=
        Some (\<lambda>via. if int (length via) > maxRedirects then ErrUseLastResponse else FollowRedirect)\<rparr>"

subsection \<open>Following a bounded number of redirects\<close>

text \<open>The reference: follow at most \<open>m\<close> redirects and return the response one is left with.\<close>

fun follow :: "http_net \<Rightarrow> http_Client \<Rightarrow> nat \<Rightarrow> string \<Rightarrow> http_resp option" where
  "follow net c m url =
     (case cl_RoundTrip c url of
        None \<Rightarrow> None
      | Some resp \<Rightarrow>
          if \<not> is_redirect resp then Some resp
          else
            (case nt_resolve net url (header_Get (hp_Header resp) ''Location'') of
               None \<Rightarrow> None
             | Some u \<Rightarrow> (case m of 0 \<Rightarrow> Some resp | Suc m \<Rightarrow> follow net c m u)))"

declare follow.simps [simp del]

text \<open>A client whose \<open>CheckRedirect\<close> stops at the \<open>m\<close>-th redirect behaves like \<open>follow\<close>, and always returns.\<close>

lemma client_Do_follow:
  assumes "cl_CheckRedirect c = Some (\<lambda>via. if int (length via) > k then ErrUseLastResponse else FollowRedirect)"
    and "int (length via) + int m = max (int (length via)) k"
  shows "\<exists>urls. client_Do net c via url = Some (urls, follow net c m url) \<and>
     length via < length urls \<and> length urls \<le> length via + m + 1"
  using assms(2)
proof (induction m arbitrary: via url)
  case 0
  then have "check_redirect c (via @ [url]) = ErrUseLastResponse" by (simp add: check_redirect_def assms(1))
  then show ?case
    by (subst client_Do.simps, subst follow.simps) (simp split: option.splits)
next
  case (Suc m)
  then have chk: "check_redirect c (via @ [url]) = FollowRedirect"
    and next_via: "int (length (via @ [url])) + int m = max (int (length (via @ [url]))) k"
    by (auto simp: check_redirect_def assms(1))
  show ?case
  proof (cases "\<exists>resp u. cl_RoundTrip c url = Some resp \<and> is_redirect resp \<and>
      nt_resolve net url (header_Get (hp_Header resp) ''Location'') = Some u")
    case True
    then obtain resp u where r: "cl_RoundTrip c url = Some resp" "is_redirect resp"
        "nt_resolve net url (header_Get (hp_Header resp) ''Location'') = Some u" by blast
    have "client_Do net c via url = client_Do net c (via @ [url]) u"
      by (subst client_Do.simps) (simp add: r chk)
    moreover have "follow net c (Suc m) url = follow net c m u"
      by (subst follow.simps) (simp add: r)
    ultimately show ?thesis using Suc.IH [OF next_via, of u] by auto
  next
    case False
    then show ?thesis
      by (subst client_Do.simps, subst follow.simps) (auto split: option.splits)
  qed
qed

lemma client_Do_MaxRedirects:
  "\<exists>urls. client_Do net (ClientMaxRedirects net client n) [] url =
       Some (urls, follow net (newClient net client) (nat n) url) \<and> length urls \<le> nat n + 1"
proof -
  let ?c = "ClientMaxRedirects net client n"
  have "follow net ?c m u = follow net (newClient net client) m u" for m u
  proof (induction m arbitrary: u)
    case 0
    then show ?case by (subst (1 2) follow.simps) (simp add: ClientMaxRedirects_def split: option.splits)
  next
    case (Suc m)
    then show ?case by (subst (1 2) follow.simps) (simp add: ClientMaxRedirects_def split: option.splits)
  qed
  moreover have "cl_CheckRedirect ?c = Some (\<lambda>via. if int (length via) > n then ErrUseLastResponse else FollowRedirect)"
    "int (length ([] :: string list)) + int (nat n) = max (int (length ([] :: string list))) n"
    by (auto simp: ClientMaxRedirects_def)
  ultimately show ?thesis using client_Do_follow [of ?c n "[]" "nat n" net url] by auto
qed

lemma client_Do_NoRedirect:
  "\<exists>urls. client_Do net (ClientNoRedirect net client) [] url =
     Some (urls, follow net (newClient net client) 0 url)"
  by (subst client_Do.simps, subst follow.simps)
    (simp add: ClientNoRedirect_def check_redirect_def split: option.splits)

text \<open>What a server that runs a handler answers.\<close>

definition resp_of :: "response \<Rightarrow> http_resp" where
  "resp_of w = \<lparr>hp_StatusCode = sent_status w, hp_Header = sent_header w, hp_Body = plain_body (rw_body w)\<rparr>"

end
