(* ===== verification/HttpUtil.thy ===== *)
theory HttpUtil
  imports GoHttp GoEncoding GoPath
begin

unbundle bit_operations_syntax

text \<open>
  The small HTTP helpers of the top-level package: reading bodies with a limit (\<^verbatim>\<open>body.go\<close>), serving data and
  files with headers (\<^verbatim>\<open>serve_file.go\<close>), errors with an identifier (\<^verbatim>\<open>http_server_errors.go\<close>), the health
  check (\<^verbatim>\<open>healthz.go\<close>), TLS configurations for clients without SNI (\<^verbatim>\<open>no_sni.go\<close>) and file name checks
  (\<^verbatim>\<open>filename.go\<close>).
\<close>

subsection \<open>body.go\<close>

text \<open>
  Reading uses the body up: after a success it is at its end, after an error every further read fails in
  the same way. A nil body panics, which is \<open>None\<close>. The two error returns differ only in their text.
\<close>

definition ReadBodyLimit :: "request \<Rightarrow> bool \<Rightarrow> int \<Rightarrow> (request \<times> (read_error, bytes) result) option" where
  "ReadBodyLimit r replace limit =
     (case req_Body r of
        None \<Rightarrow> None
      | Some b \<Rightarrow>
          let b = MaxBytesReader b limit
          in case io_ReadAll b of
               Inl e \<Rightarrow> Some (r\<lparr>req_Body := Some b\<rparr>, Inl e)
             | Inr body \<Rightarrow>
                 Some (r\<lparr>req_Body := Some (if replace then plain_body body else b\<lparr>rd_data := []\<rparr>)\<rparr>, Inr body))"

subsection \<open>serve_file.go\<close>

text \<open>A header map is the list of its keys and values, in the order in which the loop visits them.\<close>

type_synonym header_map = "(string \<times> string list) list"

definition replace_header :: "string \<times> string list \<Rightarrow> header \<Rightarrow> header" where
  "replace_header kv h = (case kv of (k, vs) \<Rightarrow> header_AddAll k vs (header_Del h k))"

definition set_headers :: "header_map \<Rightarrow> response \<Rightarrow> response" where
  "set_headers hs w = w\<lparr>rw_header := fold replace_header hs (rw_header w)\<rparr>"

definition send_data :: "response \<Rightarrow> bytes \<Rightarrow> response" where
  "send_data w data = Write (WriteHeader (rw_Set w ''Content-Length'' (strconv_Itoa (int (length data)))) StatusOK) data"

record ServeWithHeaders =
  sw_headers :: header_map
  sw_data :: bytes
  sw_urlpath :: string

definition NewServeWithHeaders :: "header_map \<Rightarrow> bytes \<Rightarrow> string \<Rightarrow> ServeWithHeaders" where
  "NewServeWithHeaders headers data urlpath = \<lparr>sw_headers = headers, sw_data = data, sw_urlpath = urlpath\<rparr>"

definition URLPath :: "ServeWithHeaders \<Rightarrow> string" where
  "URLPath s = sw_urlpath s"

definition ServeWithHeaders_ServeHTTP :: "ServeWithHeaders \<Rightarrow> handler" where
  "ServeWithHeaders_ServeHTTP s r w =
     (if req_Method r \<noteq> ''GET'' then http_Error w ''method not allowed'' StatusMethodNotAllowed
      else if req_Path r \<noteq> sw_urlpath s then http_NotFound w
      else send_data (set_headers (sw_headers s) w) (sw_data s))"

record fsEntry =
  fe_headers :: header_map
  fe_fsPath :: string

record ServeFSWithHeaders =
  sf_entries :: "string \<rightharpoonup> fsEntry"
  sf_next :: "handler option"
  sf_rewrite :: "(string \<Rightarrow> string) option"

definition NewServeFSWithHeaders :: "handler option \<Rightarrow> (string \<Rightarrow> string) option \<Rightarrow> ServeFSWithHeaders" where
  "NewServeFSWithHeaders next rewrite = \<lparr>sf_entries = Map.empty, sf_next = next, sf_rewrite = rewrite\<rparr>"

definition set_entry :: "header_map \<Rightarrow> string \<Rightarrow> ServeFSWithHeaders \<Rightarrow> ServeFSWithHeaders" where
  "set_entry headers urlpath s =
     (let fsPath = (case sf_rewrite s of None \<Rightarrow> urlpath | Some f \<Rightarrow> f urlpath);
          fsPath = strings_TrimPrefix fsPath ''/''
      in s\<lparr>sf_entries := (sf_entries s)(urlpath \<mapsto> \<lparr>fe_headers = headers, fe_fsPath = fsPath\<rparr>)\<rparr>)"

definition SetHeaders :: "header_map \<Rightarrow> string list \<Rightarrow> ServeFSWithHeaders \<Rightarrow> ServeFSWithHeaders" where
  "SetHeaders headers urlpaths s = fold (set_entry headers) urlpaths s"

text \<open>
  \<open>fs\<close> is the content of the file system, \<open>fs.ReadFile\<close> being its lookup; \<open>serveFileFS\<close> is
  \<open>http.ServeFileFS\<close>, whose response depends on the file or directory it is given and on nothing else of
  the file system.
\<close>

type_synonym file_server = "(string \<rightharpoonup> bytes) \<Rightarrow> string \<Rightarrow> handler"

definition below :: "string \<Rightarrow> string \<Rightarrow> bool" where
  "below p q \<longleftrightarrow> q = p \<or> strings_HasPrefix q (p @ ''/'')"

definition serveFileFS_local :: "file_server \<Rightarrow> bool" where
  "serveFileFS_local serve \<longleftrightarrow>
     (\<forall>fs fs' p. p \<noteq> ''.'' \<and> (\<forall>q. below p q \<longrightarrow> fs q = fs' q) \<longrightarrow> serve fs p = serve fs' p)"

definition ServeFSWithHeaders_ServeHTTP :: "file_server \<Rightarrow> (string \<rightharpoonup> bytes) \<Rightarrow> ServeFSWithHeaders \<Rightarrow> handler" where
  "ServeFSWithHeaders_ServeHTTP serveFileFS fs s r w =
     (case sf_entries s (req_Path r) of
        None \<Rightarrow> (case sf_next s of Some h \<Rightarrow> h r w | None \<Rightarrow> http_NotFound w)
      | Some entry \<Rightarrow>
          if length (fe_headers entry) = 0 then serveFileFS fs (fe_fsPath entry) r w
          else
            let w = set_headers (fe_headers entry) w
            in case fs (fe_fsPath entry) of
                 None \<Rightarrow> http_NotFound w
               | Some data \<Rightarrow> send_data w data)"

subsection \<open>http_server_errors.go\<close>

datatype log_level = LevelInfo | LevelError

record log_entry =
  le_level :: log_level
  le_msg :: string
  le_error_src :: string
  le_error_id :: "64 word"
  le_status :: int
  le_src :: string
  le_method :: string
  le_path :: string

definition fmt_016x :: "64 word \<Rightarrow> string" where
  "fmt_016x v = map (\<lambda>i. digit_lower (unat (drop_bit (4 * i) v AND 15))) (rev [0..<16])"

text \<open>\<open>random\<close> is the outcome of reading 64 random bits, \<open>now\<close> the clock that replaces them; extra arguments are only logged.\<close>

definition SendAndLog ::
    "(64 word) option \<Rightarrow> int \<Rightarrow> string \<Rightarrow> response \<Rightarrow> request \<Rightarrow> int \<Rightarrow> string \<Rightarrow> response \<times> log_entry" where
  "SendAndLog random now e w r status m =
     (let eid = (case random of Some v \<Rightarrow> v | None \<Rightarrow> of_int now);
          w = http_Error w (StatusText status @ '' ('' @ fmt_016x eid @ '')'') status
      in (w, \<lparr>le_level = (if status \<ge> StatusInternalServerError then LevelError else LevelInfo), le_msg = m,
              le_error_src = e, le_error_id = eid, le_status = status, le_src = req_RemoteAddr r,
              le_method = req_Method r, le_path = req_Path r\<rparr>))"

definition Unauthorized :: "(64 word) option \<Rightarrow> int \<Rightarrow> string \<Rightarrow> response \<Rightarrow> request \<Rightarrow> string \<Rightarrow> response \<times> log_entry" where
  "Unauthorized random now e w r m = SendAndLog random now e w r StatusUnauthorized m"

definition Forbidden :: "(64 word) option \<Rightarrow> int \<Rightarrow> string \<Rightarrow> response \<Rightarrow> request \<Rightarrow> string \<Rightarrow> response \<times> log_entry" where
  "Forbidden random now e w r m = SendAndLog random now e w r StatusForbidden m"

definition NotFound :: "(64 word) option \<Rightarrow> int \<Rightarrow> string \<Rightarrow> response \<Rightarrow> request \<Rightarrow> string \<Rightarrow> response \<times> log_entry" where
  "NotFound random now e w r m = SendAndLog random now e w r StatusNotFound m"

definition Internal :: "(64 word) option \<Rightarrow> int \<Rightarrow> string \<Rightarrow> response \<Rightarrow> request \<Rightarrow> string \<Rightarrow> response \<times> log_entry" where
  "Internal random now e w r m = SendAndLog random now e w r StatusInternalServerError m"

definition BadRequest :: "(64 word) option \<Rightarrow> int \<Rightarrow> string \<Rightarrow> response \<Rightarrow> request \<Rightarrow> string \<Rightarrow> response \<times> log_entry" where
  "BadRequest random now e w r m = SendAndLog random now e w r StatusBadRequest m"

subsection \<open>healthz.go and no_sni.go\<close>

definition HealthzHandler :: handler where
  "HealthzHandler r w = Write (WriteHeader w StatusOK) (''ok'' @ [CHR 0x0A])"

record client_hello =
  chi_Conn :: "string option" \<comment> \<open>the remote address of the connection, if there is one\<close>
  chi_ServerName :: string

text \<open>\<open>Inr None\<close> is \<open>nil, nil\<close>: the default configuration is used.\<close>

definition GetConfigForClientNoSNI ::
    "(string \<Rightarrow> bool) option \<Rightarrow> (client_hello \<Rightarrow> ('e, 'cfg option) result) \<Rightarrow> client_hello option \<Rightarrow>
       ('e, 'cfg option) result" where
  "GetConfigForClientNoSNI matcher getConfig clientHello =
     (let matcher = (case matcher of None \<Rightarrow> (\<lambda>_. False) | Some m \<Rightarrow> m)
      in case clientHello of
           None \<Rightarrow> Inr None
         | Some hello \<Rightarrow>
             (case chi_Conn hello of
                None \<Rightarrow> Inr None
              | Some clientRemoteAddr \<Rightarrow>
                  if chi_ServerName hello \<noteq> [] then Inr None
                  else if matcher clientRemoteAddr then getConfig hello
                  else Inr None))"

subsection \<open>filename.go\<close>

text \<open>
  The regular expressions on the bytes of the path. A code point from U+0080 to U+009F is the byte C2
  followed by a byte from 80 to 9F; bytes that are not UTF-8 match no class. One or more dots before a slash
  are found exactly where one is. Case folding maps no other letter to those of the Windows names.
\<close>

fun c1_control :: "string \<Rightarrow> bool" where
  "c1_control (a # b # s) \<longleftrightarrow>
     of_char a = (0xC2 :: nat) \<and> (0x80 :: nat) \<le> of_char b \<and> (of_char b :: nat) \<le> 0x9F \<or> c1_control (b # s)"
| "c1_control _ \<longleftrightarrow> False"

definition reControl :: "string \<Rightarrow> bool" where
  "reControl s \<longleftrightarrow> list_ex (\<lambda>c. (of_char c :: nat) \<le> 0x1F) s \<or> c1_control s"

definition reRelativeComponets :: "string \<Rightarrow> bool" where
  "reRelativeComponets s \<longleftrightarrow> strings_Contains s ''./'' \<or> strings_Contains s ''...''"

definition reFilenameLinux :: "string \<Rightarrow> bool" where
  "reFilenameLinux s \<longleftrightarrow>
     list_ex (\<lambda>c. c \<in> set ''<>:/|?*'' \<or> c = CHR 0x22 \<or> c = CHR 0x5C \<or> (of_char c :: nat) \<le> 0x1F) s"

definition reFilenameWindows :: "string \<Rightarrow> bool" where
  "reFilenameWindows s \<longleftrightarrow>
     (let l = map to_lower s
      in l \<in> {''con'', ''prn'', ''aux'', ''nul''} \<or>
         length l = 4 \<and> take 3 l \<in> {''com'', ''lpt''} \<and> is_digit (l ! 3))"

datatype path_error = ContainsControl | ContainsRelative | ContainsUnixReserved | ContainsWindowsReserved

definition rules :: "((string \<Rightarrow> bool) \<times> path_error) list" where
  "rules = [(reControl, ContainsControl), (reRelativeComponets, ContainsRelative),
     (reFilenameLinux, ContainsUnixReserved), (reFilenameWindows, ContainsWindowsReserved)]"

fun rules_loop :: "((string \<Rightarrow> bool) \<times> path_error) list \<Rightarrow> string \<Rightarrow> (path_error, unit) result" where
  "rules_loop [] path = Inr ()"
| "rules_loop ((matcher, err) # rs) path = (if matcher path then Inl err else rules_loop rs path)"

definition SafePath :: "string \<Rightarrow> (path_error, unit) result" where
  "SafePath path = rules_loop rules path"

subsection \<open>Facts: bodies and headers\<close>

lemma MaxBytesReader_data [simp]: "rd_data (MaxBytesReader b n) = rd_data b"
  by (simp add: MaxBytesReader_def)

lemma io_ReadAll_data: "io_ReadAll b = Inr d \<Longrightarrow> d = rd_data b"
  by (auto simp: io_ReadAll_def split: if_splits)

text \<open>
  C29. \<open>ReadBodyLimit\<close> returns the whole body or an error: a body it returns is the body of the request and
  no longer than the limit, one that is longer is an error, and with \<open>replace\<close> the request can be read
  again and gives the same bytes; nothing else of the request changes.
\<close>

theorem ReadBodyLimit_bounded:
  assumes "req_Body r = Some b" and "ReadBodyLimit r replace limit = Some (r', res)"
  shows "(\<forall>d. res = Inr d \<longrightarrow> d = rd_data b \<and> int (length d) \<le> max 0 limit \<and>
           (replace \<longrightarrow> (\<exists>b'. req_Body r' = Some b' \<and> io_ReadAll b' = Inr d))) \<and>
    (int (length (rd_data b)) > max 0 limit \<longrightarrow> res = Inl MaxBytesError) \<and>
    r'\<lparr>req_Body := req_Body r\<rparr> = r"
proof -
  let ?b = "MaxBytesReader b limit"
  have self: "r\<lparr>req_Body := Some b\<rparr> = r" using assms(1) by (cases r) simp
  have fits: "int (length (rd_data b)) \<le> max 0 limit" if "within_limit ?b"
    using that by (cases "rd_limit b") (simp_all add: within_limit_def MaxBytesReader_def)
  show ?thesis
  proof (cases "io_ReadAll ?b")
    case (Inl e)
    with fits have "int (length (rd_data b)) > max 0 limit \<longrightarrow> e = MaxBytesError"
      by (auto simp: io_ReadAll_def max_def split: if_splits)
    with Inl assms self show ?thesis by (auto simp: ReadBodyLimit_def Let_def)
  next
    case (Inr d)
    then have "d = rd_data b" "within_limit ?b" by (auto simp: io_ReadAll_def split: if_splits)
    with Inr assms fits self show ?thesis by (auto simp: ReadBodyLimit_def Let_def max_def split: if_splits)
  qed
qed

definition hello_request :: request where
  "hello_request = example_request\<lparr>req_Body := Some (plain_body ''hello'')\<rparr>"

theorem ReadBodyLimit_bounded_witness:
  "snd (the (ReadBodyLimit hello_request True 4)) = Inl MaxBytesError \<and>
   snd (the (ReadBodyLimit hello_request True 5)) = Inr ''hello''"
proof -
  have b: "req_Body hello_request = Some (plain_body ''hello'')" by (simp add: hello_request_def)
  obtain r4 s4 where 4: "ReadBodyLimit hello_request True 4 = Some (r4, s4)"
    by (cases "io_ReadAll (MaxBytesReader (plain_body ''hello'') 4)") (simp_all add: ReadBodyLimit_def b Let_def)
  have "s4 = Inl MaxBytesError" using ReadBodyLimit_bounded [OF b 4] by (simp add: plain_body_def)
  moreover have "snd (the (ReadBodyLimit hello_request True 5)) = Inr ''hello''" by code_simp
  ultimately show ?thesis using 4 by simp
qed

lemma replace_header_eq: "replace_header kv h = h(CanonicalHeaderKey (fst kv) := snd kv)"
  by (cases kv) (simp add: replace_header_def header_AddAll_eq header_Del_def)

lemma fold_replace_other:
  "c \<notin> set (map (CanonicalHeaderKey \<circ> fst) hs) \<Longrightarrow> fold replace_header hs h c = h c"
  by (induction hs arbitrary: h) (auto simp: replace_header_eq)

lemma set_headers_fold:
  assumes "distinct (map (CanonicalHeaderKey \<circ> fst) hs)" and "(k, vs) \<in> set hs"
  shows "fold replace_header hs h (CanonicalHeaderKey k) = vs"
  using assms
proof (induction hs arbitrary: h)
  case (Cons x hs)
  show ?case
  proof (cases "(k, vs) = x")
    case True
    then have x: "x = (k, vs)" by simp
    with Cons.prems(1) have "CanonicalHeaderKey k \<notin> set (map (CanonicalHeaderKey \<circ> fst) hs)" by simp
    from fold_replace_other [OF this] show ?thesis by (simp add: x) (simp add: replace_header_eq)
  next
    case False
    with Cons show ?thesis by simp
  qed
qed simp

lemma send_data_sent:
  assumes "rw_commit w = None" and "rw_body w = []"
  shows "sent_status (send_data w d) = 200" and "rw_body (send_data w d) = d"
    and "sent_header (send_data w d) = header_Set (rw_header w) ''Content-Length'' (strconv_Itoa (int (length d)))"
  using assms by (simp_all add: send_data_def sent_Write sent_WriteHeader rw_Set_def StatusOK_def)

lemma set_headers_fields [simp]:
  "rw_commit (set_headers hs w) = rw_commit w" "rw_body (set_headers hs w) = rw_body w"
  by (simp_all add: set_headers_def)

text \<open>
  Serving fixed data: a GET of the configured path is answered 200 with the data, its length and exactly the
  configured values of every configured header other than the length; other paths give 404 and other
  methods 405.
\<close>

lemma ServeWithHeaders_responses:
  assumes "fresh w" and "distinct (map (CanonicalHeaderKey \<circ> fst) (sw_headers s))"
  shows "req_Method r = ''GET'' \<Longrightarrow> req_Path r = sw_urlpath s \<Longrightarrow>
      sent_status (ServeWithHeaders_ServeHTTP s r w) = 200 \<and> rw_body (ServeWithHeaders_ServeHTTP s r w) = sw_data s"
    and "req_Method r = ''GET'' \<Longrightarrow> req_Path r = sw_urlpath s \<Longrightarrow> (k, vs) \<in> set (sw_headers s) \<Longrightarrow>
      CanonicalHeaderKey k \<noteq> CanonicalHeaderKey ''Content-Length'' \<Longrightarrow>
      header_Values (sent_header (ServeWithHeaders_ServeHTTP s r w)) k = vs"
    and "req_Method r = ''GET'' \<Longrightarrow> req_Path r \<noteq> sw_urlpath s \<Longrightarrow> sent_status (ServeWithHeaders_ServeHTTP s r w) = 404"
    and "req_Method r \<noteq> ''GET'' \<Longrightarrow> sent_status (ServeWithHeaders_ServeHTTP s r w) = 405"
  using assms set_headers_fold [OF assms(2)]
  by (simp_all add: ServeWithHeaders_ServeHTTP_def fresh_def send_data_sent set_headers_def header_Set_def
      header_Values_def http_NotFound_status http_Error_status status_defs)

lemma SetHeaders_lookup:
  "sf_entries (SetHeaders hs ps s) p =
     (if p \<in> set ps
      then Some \<lparr>fe_headers = hs, fe_fsPath = strings_TrimPrefix (case sf_rewrite s of None \<Rightarrow> p | Some f \<Rightarrow> f p) ''/''\<rparr>
      else sf_entries s p)"
proof (induction ps arbitrary: s)
  case (Cons q ps)
  have "sf_rewrite (set_entry hs q s) = sf_rewrite s" by (simp add: set_entry_def Let_def)
  with Cons [of "set_entry hs q s"] show ?case by (auto simp: SetHeaders_def set_entry_def Let_def)
qed (simp add: SetHeaders_def)


definition plain_file_server :: file_server where
  "plain_file_server fs p r w = (case fs p of None \<Rightarrow> http_NotFound w | Some d \<Rightarrow> Write w d)"

definition demo_site :: ServeFSWithHeaders where
  "demo_site = SetHeaders [(''X-A'', [''1''])] [''/a''] (NewServeFSWithHeaders None None)"


subsection \<open>Facts: errors, health checks and names\<close>

lemma parse_hex_digits:
  "(\<And>d. d \<in> set ds \<Longrightarrow> d < 16) \<Longrightarrow>
   parse_digits 16 acc (map digit_lower ds) = Some (foldl (\<lambda>a d. 16 * a + d) acc ds)"
proof (induction ds arbitrary: acc)
  case (Cons d ds)
  then have "d < 16" by simp
  moreover from this have "digit_val (digit_lower d) = Some d" by simp
  ultimately show ?case using Cons by simp
qed simp

lemma nibbles_value:
  "foldl (\<lambda>a d. 16 * a + d) 0 (map (\<lambda>i. v div 16 ^ i mod 16) (rev [0..<n])) = (v :: nat) mod 16 ^ n"
proof (induction n)
  case (Suc n)
  have shift: "foldl (\<lambda>a d. 16 * a + d) c xs = c * 16 ^ length xs + foldl (\<lambda>a d. 16 * a + d) 0 xs" for c :: nat and xs
  proof (induction xs arbitrary: c)
    case (Cons x xs)
    show ?case using Cons [of "16 * c + x"] Cons [of x] by (simp add: algebra_simps)
  qed simp
  have "foldl (\<lambda>a d. 16 * a + d) 0 (map (\<lambda>i. v div 16 ^ i mod 16) (rev [0..<Suc n]))
      = v div 16 ^ n mod 16 * 16 ^ n + v mod 16 ^ n"
    using Suc by (simp add: shift [of "v div 16 ^ n mod 16"])
  also have "\<dots> = v mod (16 ^ n * 16)" 
    using mod_mult2_eq [of v "16 ^ n" 16] by (simp only: mult.commute [of "16 ^ n"])
  also have "\<dots> = v mod 16 ^ Suc n" by (simp only: power_Suc mult.commute)
  finally show ?case .
qed simp

lemma unat_word64: "unat (v :: 64 word) < 18446744073709551616"
proof -
  have "unat v < 2 ^ LENGTH(64)" by (rule unsigned_less)
  then show ?thesis by simp
qed

lemma nibble_unat: "unat (drop_bit (4 * i) (v :: 64 word) AND 15) = unat v div 16 ^ i mod 16"
proof -
  have "(15 :: 64 word) = mask 4" by (simp add: mask_eq_exp_minus_1)
  then have "unat (drop_bit (4 * i) v AND 15) = unat (take_bit 4 (drop_bit (4 * i) v))"
    by (simp add: take_bit_eq_mask)
  also have "\<dots> = unat v div 2 ^ (4 * i) mod 2 ^ 4"
    using unat_word64 [of v]
    by (simp only: unsigned_take_bit_eq unsigned_drop_bit_eq) (simp add: take_bit_eq_mod drop_bit_eq_div)
  also have "\<dots> = unat v div 16 ^ i mod 16" by (simp add: power_mult)
  finally show ?thesis .
qed

text \<open>The identifier of an error has sixteen hexadecimal digits and can be read back.\<close>

lemma fmt_016x_parse: "parse_digits 16 0 (fmt_016x v) = Some (unat v)"
proof -
  have "fmt_016x v = map digit_lower (map (\<lambda>i. unat v div 16 ^ i mod 16) (rev [0..<16]))"
    by (simp only: fmt_016x_def nibble_unat map_map comp_def)
  also have "parse_digits 16 0 \<dots> = Some (foldl (\<lambda>a d. 16 * a + d) 0 (map (\<lambda>i. unat v div 16 ^ i mod 16) (rev [0..<16])))"
    by (rule parse_hex_digits) auto
  also have "\<dots> = Some (unat v mod 16 ^ 16)" by (simp only: nibbles_value)
  also have "unat v mod 16 ^ 16 = unat v"
    by (rule mod_less) (use unat_word64 [of v] in simp)
  finally show ?thesis .
qed

text \<open>
  An error sent to a client carries the status, its text and an identifier of sixteen hexadecimal
  digits, and nothing of the message or the source; the log entry carries the identifier the client sees,
  so that the two can be matched, at level error exactly for server errors.
\<close>

theorem SendAndLog_correlates:
  assumes "fresh w"
  shows "\<exists>w' l eid. SendAndLog random now e w r status m = (w', l) \<and> sent_status w' = status \<and>
    rw_body w' = StatusText status @ '' ('' @ eid @ '')'' @ [CHR 0x0A] \<and>
    length eid = 16 \<and> parse_digits 16 0 eid = Some (unat (le_error_id l)) \<and>
    le_error_src l = e \<and> le_status l = status \<and> (le_level l = LevelError \<longleftrightarrow> 500 \<le> status)"
proof -
  define eid :: "64 word" where "eid = (case random of Some v \<Rightarrow> v | None \<Rightarrow> of_int now)"
  have "length (fmt_016x eid) = 16" by (simp add: fmt_016x_def)
  with assms fmt_016x_parse [of eid] show ?thesis
    by (intro exI [of _ "fst (SendAndLog random now e w r status m)"]
        exI [of _ "snd (SendAndLog random now e w r status m)"] exI [of _ "fmt_016x eid"])
      (simp add: SendAndLog_def Let_def eid_def fresh_def http_Error_status StatusInternalServerError_def)
qed

theorem SendAndLog_correlates_witness:
  "\<exists>l eid. length eid = 16 \<and> parse_digits 16 0 eid = Some (unat (le_error_id l)) \<and>
     SendAndLog (Some 255) 0 ''src'' new_response example_request 500 ''secret'' =
       (http_Error new_response (''Internal Server Error ('' @ eid @ '')'') 500, l)"
proof -
  obtain w' l eid where *: "SendAndLog (Some 255) 0 ''src'' new_response example_request 500 ''secret'' = (w', l)"
    "rw_body w' = StatusText 500 @ '' ('' @ eid @ '')'' @ [CHR 0x0A]"
    "length eid = 16" "parse_digits 16 0 eid = Some (unat (le_error_id l))"
    using SendAndLog_correlates [OF fresh_new, of "Some 255" 0 "''src''" example_request 500 "''secret''"] by auto
  have w': "w' = http_Error new_response (StatusText 500 @ '' ('' @ fmt_016x 255 @ '')'') 500"
    using *(1) by (simp add: SendAndLog_def Let_def)
  then have "rw_body w' = StatusText 500 @ '' ('' @ fmt_016x 255 @ '')'' @ [CHR 0x0A]"
    by (simp add: new_response_def)
  with *(2) have "eid = fmt_016x 255" by simp
  moreover have "StatusText 500 = ''Internal Server Error''" by (simp add: StatusText_def status_texts_def)
  ultimately show ?thesis using * w' by auto
qed

lemma HealthzHandler_ok:
  "fresh w \<Longrightarrow> sent_status (HealthzHandler r w) = 200 \<and> rw_body (HealthzHandler r w) = ''ok'' @ [CHR 0x0A]"
  by (simp add: HealthzHandler_def fresh_def sent_Write sent_WriteHeader StatusOK_def)

text \<open>The special configuration is used exactly for a matching address without a server name.\<close>

lemma GetConfigForClientNoSNI_iff:
  "GetConfigForClientNoSNI matcher getConfig hello =
     (if \<exists>h addr m. hello = Some h \<and> chi_Conn h = Some addr \<and> chi_ServerName h = [] \<and> matcher = Some m \<and> m addr
      then getConfig (the hello) else Inr None)"
  by (auto simp: GetConfigForClientNoSNI_def Let_def split: option.splits)

lemma rules_loop_ok: "rules_loop rs p = Inr () \<longleftrightarrow> (\<forall>(matcher, err) \<in> set rs. \<not> matcher p)"
  by (induction rs p rule: rules_loop.induct) auto

lemma SafePath_ok_iff:
  "SafePath p = Inr () \<longleftrightarrow>
     \<not> reControl p \<and> \<not> reRelativeComponets p \<and> \<not> reFilenameLinux p \<and> \<not> reFilenameWindows p"
  by (simp add: SafePath_def rules_loop_ok rules_def)

lemma SafePath_no_slash: "SafePath p = Inr () \<Longrightarrow> CHR ''/'' \<notin> set p"
  by (auto simp: SafePath_ok_iff reFilenameLinux_def list_ex_iff)



end
