(* ===== verification/GoGet.thy ===== *)
theory GoGet
  imports GoHttp
begin

text \<open>
  \<^verbatim>\<open>goget/goget.go\<close>: handlers for the meta tags of \<^verbatim>\<open>go get\<close>. \<open>url.Parse\<close> is an argument that gives the host name and
  the path of a URL, \<open>None\<close> if it fails; so are the YAML decoder and the execution of the HTML template.
\<close>

record Spec =
  gs_ImportPath :: string
  gs_Content :: string
  gs_hostname :: string
  gs_path :: string

type_synonym import_parser = "string \<Rightarrow> (string \<times> string) option"

definition Spec_Hostname :: "Spec \<Rightarrow> string" where
  "Spec_Hostname s = gs_hostname s"

definition Spec_Path :: "Spec \<Rightarrow> string" where
  "Spec_Path s = gs_path s"

datatype 'e goget_error = DecodeFailed 'e | BadImportPath | TemplateFailed

definition SplitHostnamePath :: "import_parser \<Rightarrow> Spec \<Rightarrow> Spec \<times> ('e goget_error, unit) result" where
  "SplitHostnamePath parse s =
     (let importPath = gs_ImportPath s;
          importPath = (if \<not> strings_Contains importPath ''://'' then ''https://'' @ importPath else importPath)
      in case parse importPath of
           None \<Rightarrow> (s, Inl BadImportPath)
         | Some (hostname, path) \<Rightarrow> (s\<lparr>gs_hostname := hostname, gs_path := strings_TrimSuffix path ''/''\<rparr>, Inr ()))"

text \<open>\<open>decode\<close> sets the exported fields of the spec; it fails with an error.\<close>

definition Spec_UnmarshalYAML ::
    "import_parser \<Rightarrow> ('n \<Rightarrow> Spec \<Rightarrow> ('e, Spec) result) \<Rightarrow> Spec \<Rightarrow> 'n \<Rightarrow> Spec \<times> ('e goget_error, unit) result" where
  "Spec_UnmarshalYAML parse decode s node =
     (case decode node s of Inl e \<Rightarrow> (s, Inl (DecodeFailed e)) | Inr s \<Rightarrow> SplitHostnamePath parse s)"

text \<open>A handler may count what it does: it maps the response and the counters.\<close>

type_synonym counting_handler = "request \<Rightarrow> response \<times> counts \<Rightarrow> response \<times> counts"

record goget_handler =
  gh_host :: string
  gh_path :: string
  gh_content :: string
  gh_fb :: counting_handler
  gh_counter :: CounterInc

definition count_if_set :: "CounterInc \<Rightarrow> counts \<Rightarrow> counts" where
  "count_if_set c k = (case counter_call c k of None \<Rightarrow> k | Some k \<Rightarrow> k)"

definition goget_ServeHTTP :: "goget_handler \<Rightarrow> counting_handler" where
  "goget_ServeHTTP h r wk =
     (if req_Query r ''go-get'' \<noteq> ''1'' then gh_fb h r wk
      else if strings_TrimSuffix (req_Path r) ''/'' \<noteq> gh_path h then gh_fb h r wk
      else if length (req_URLHost r) \<noteq> 0 \<and> req_URLHost r \<noteq> gh_host h then gh_fb h r wk
      else
        (case wk of (w, k) \<Rightarrow>
           (Write (rw_Set w ''Content-Type'' ''text/html; charset=utf-8'') (gh_content h),
            if gh_counter h \<noteq> NilCounter then count_if_set (gh_counter h) k else k)))"

type_synonym goget_option = "CounterInc \<Rightarrow> CounterInc"

definition WithCounter :: "CounterInc \<Rightarrow> goget_option" where
  "WithCounter counter opts = counter"

definition goget_NewHandler ::
    "(Spec \<Rightarrow> string option) \<Rightarrow> Spec \<Rightarrow> counting_handler option \<Rightarrow> goget_option list \<Rightarrow> ('e goget_error, goget_handler) result" where
  "goget_NewHandler execute s next opts =
     (let next = (case next of None \<Rightarrow> (\<lambda>r (w, k). (http_NotFound w, k)) | Some h \<Rightarrow> h);
          counter = apply_options opts NilCounter
      in case execute s of
           None \<Rightarrow> Inl TemplateFailed
         | Some out \<Rightarrow>
             Inr \<lparr>gh_host = gs_hostname s, gh_path = gs_path s, gh_content = out, gh_fb = next, gh_counter = counter\<rparr>)"

subsection \<open>Facts\<close>

text \<open>The requests a handler answers itself.\<close>

definition goget_request :: "Spec \<Rightarrow> request \<Rightarrow> bool" where
  "goget_request s r \<longleftrightarrow> req_Query r ''go-get'' = ''1'' \<and>
     (req_Path r = gs_path s \<and> \<not> strings_HasSuffix (req_Path r) ''/'' \<or> req_Path r = gs_path s @ ''/'') \<and>
     (req_URLHost r = [] \<or> req_URLHost r = gs_hostname s)"

lemma TrimSuffix_slash_eq:
  "strings_TrimSuffix p ''/'' = q \<longleftrightarrow> p = q \<and> \<not> strings_HasSuffix p ''/'' \<or> p = q @ ''/''"
  by (auto simp: strings_TrimSuffix_def strings_HasSuffix_def suffix_def)

lemma goget_request_iff:
  "goget_request s r \<longleftrightarrow> req_Query r ''go-get'' = ''1'' \<and> strings_TrimSuffix (req_Path r) ''/'' = gs_path s \<and>
     (req_URLHost r = [] \<or> req_URLHost r = gs_hostname s)"
  by (simp add: goget_request_def TrimSuffix_slash_eq)

lemma goget_NewHandler_InrD:
  assumes "goget_NewHandler execute s next opts = Inr h"
  obtains out where "execute s = Some out" and
    "h = \<lparr>gh_host = gs_hostname s, gh_path = gs_path s, gh_content = out,
       gh_fb = (case next of None \<Rightarrow> (\<lambda>r (w, k). (http_NotFound w, k)) | Some h \<Rightarrow> h), gh_counter = apply_options opts NilCounter\<rparr>"
  using assms by (auto simp: goget_NewHandler_def Let_def split: option.splits)

text \<open>The page a handler sends.\<close>

lemma goget_answers:
  assumes "goget_NewHandler execute s next opts = Inr h" and "goget_request s r" and "execute s = Some out"
  shows "goget_ServeHTTP h r (w, k) = (Write (rw_Set w ''Content-Type'' ''text/html; charset=utf-8'') out,
     if apply_options opts NilCounter \<noteq> NilCounter then count_if_set (apply_options opts NilCounter) k else k)"
proof (rule goget_NewHandler_InrD [OF assms(1)])
qed (use assms(2,3) in \<open>auto simp: goget_request_iff goget_ServeHTTP_def\<close>)

text \<open>
  A go-get handler answers exactly the go-get requests for its import path, with or without a trailing
  slash and whatever the host header says: these get status 200, the meta tag as HTML and one count; every
  other request is left to the next handler, 404 if there is none.
\<close>

theorem goget_handler_spec:
  assumes "SplitHostnamePath parse s0 = (s, Inr ())" and "goget_NewHandler execute s next opts = Inr h" and "fresh w"
  shows "if goget_request s r
    then execute s = Some (rw_body (fst (goget_ServeHTTP h r (w, k)))) \<and>
         sent_status (fst (goget_ServeHTTP h r (w, k))) = 200 \<and>
         header_Get (sent_header (fst (goget_ServeHTTP h r (w, k)))) ''Content-Type'' = ''text/html; charset=utf-8'' \<and>
         (apply_options opts NilCounter = Counter n \<longrightarrow> snd (goget_ServeHTTP h r (w, k)) = k(n := Suc (k n))) \<and>
         goget_ServeHTTP h (r\<lparr>req_Host := host\<rparr>) (w, k) = goget_ServeHTTP h r (w, k)
    else goget_ServeHTTP h r (w, k) = (case next of None \<Rightarrow> (http_NotFound w, k) | Some f \<Rightarrow> f r (w, k))"
proof -
  obtain out where out: "execute s = Some out"
    "h = \<lparr>gh_host = gs_hostname s, gh_path = gs_path s, gh_content = out,
       gh_fb = (case next of None \<Rightarrow> (\<lambda>r (w, k). (http_NotFound w, k)) | Some h \<Rightarrow> h), gh_counter = apply_options opts NilCounter\<rparr>"
    by (rule goget_NewHandler_InrD [OF assms(2)])
  show ?thesis
  proof (cases "goget_request s r")
    case True
    moreover from True have "goget_request s (r\<lparr>req_Host := host\<rparr>)" by (simp add: goget_request_def)
    ultimately show ?thesis using assms(3) goget_answers [OF assms(2) _ out(1)]
      by (simp add: out(1) fresh_def sent_Write sent_WriteHeader rw_Set_def StatusOK_def count_if_set_def counter_call_def)
  next
    case False
    then have "goget_ServeHTTP h r (w, k) = gh_fb h r (w, k)" by (auto simp: goget_request_iff goget_ServeHTTP_def out(2))
    with False show ?thesis by (auto simp: out(2) split: option.splits)
  qed
qed

definition demo_import_parser :: import_parser where
  "demo_import_parser s = (if s = ''https://an.example/pkg/'' then Some (''an.example'', ''/pkg/'') else None)"

theorem goget_handler_spec_witness:
  "\<exists>h. goget_NewHandler (\<lambda>s. Some (''meta '' @ gs_Content s))
       \<lparr>gs_ImportPath = ''an.example/pkg/'', gs_Content = ''git'', gs_hostname = ''an.example'', gs_path = ''/pkg''\<rparr> None [] =
       (Inr h :: (unit goget_error, goget_handler) result) \<and>
     rw_body (fst (goget_ServeHTTP h (example_request\<lparr>req_Path := ''/pkg/'', req_Query := (\<lambda>_. ''1'')\<rparr>) (new_response, \<lambda>_. 0)))
       = ''meta git''"
proof -
  let ?s = "\<lparr>gs_ImportPath = ''an.example/pkg/'', gs_Content = ''git'', gs_hostname = ''an.example'', gs_path = ''/pkg''\<rparr>"
  let ?r = "example_request\<lparr>req_Path := ''/pkg/'', req_Query := (\<lambda>_. ''1'')\<rparr>"
  obtain h where h: "goget_NewHandler (\<lambda>s. Some (''meta '' @ gs_Content s)) ?s None [] =
      (Inr h :: (unit goget_error, goget_handler) result)"
    by (simp add: goget_NewHandler_def Let_def)
  have split: "SplitHostnamePath demo_import_parser \<lparr>gs_ImportPath = ''an.example/pkg/'', gs_Content = ''git'', gs_hostname = [], gs_path = []\<rparr>
      = (?s, (Inr () :: (unit goget_error, unit) result))"
    by (simp add: SplitHostnamePath_def strings_Contains_def demo_import_parser_def strings_TrimSuffix_def
        strings_HasSuffix_eval)
  have "goget_request ?s ?r" by (simp add: goget_request_def example_request_def)
  with goget_handler_spec [OF split h fresh_new, of ?r "\<lambda>_. 0"] h show ?thesis by auto
qed

end
