(* ===== verification/TestWebapp.thy ===== *)
theory TestWebapp
  imports HttpClient HttpUtil GoGet Redirect
begin

text \<open>
  \<^verbatim>\<open>testwebapp\<close>: the checks of redirects, health endpoints, status codes, go-get pages, metrics and webhook
  relays. The network, the \<open>errgroup\<close> and \<^verbatim>\<open>webapi/operations\<close> are arguments. A result \<open>None\<close> is no return.
  The YAML forms of the specifications, used in messages only, and logging are left out.
\<close>

subsection \<open>errgroup\<close>

type_synonym 'e outcome = "('e, unit) result option"

text \<open>\<open>Wait\<close> waits for every goroutine and returns nil exactly if all did.\<close>

definition group_laws :: "('e outcome list \<Rightarrow> 'e outcome) \<Rightarrow> bool" where
  "group_laws grp \<longleftrightarrow>
     (\<forall>rs. grp rs = Some (Inr ()) \<longleftrightarrow> list_all (\<lambda>r. r = Some (Inr ())) rs) \<and>
     (\<forall>rs. grp rs = None \<longleftrightarrow> None \<in> set rs)"

definition tag_error :: "'s \<Rightarrow> 'e outcome \<Rightarrow> ('s \<times> 'e) outcome" where
  "tag_error spec r = map_option (map_sum (Pair spec) id) r"

subsection \<open>test_redirect.go\<close>

datatype redirect_err = ErrRedirectUnexpectedError | ErrRedirectPathNotFound | ErrRedirectTargetMismatch
  | ErrRedirectStatusCodeMismatch

record RedirectSpec =
  rs_URL :: string
  rs_Target :: string
  rs_Code :: int

definition RedirectTest_verify :: "http_net \<Rightarrow> RedirectSpec \<Rightarrow> http_Client \<Rightarrow> redirect_err outcome" where
  "RedirectTest_verify net spec client =
     (if \<not> nt_parses net (rs_URL spec) then Some (Inl ErrRedirectUnexpectedError)
      else
        (case client_Do net client [] (rs_URL spec) of
           None \<Rightarrow> None
         | Some (_, None) \<Rightarrow> Some (Inl ErrRedirectUnexpectedError)
         | Some (_, Some resp) \<Rightarrow>
             if hp_StatusCode resp \<noteq> rs_Code spec then Some (Inl ErrRedirectStatusCodeMismatch)
             else if header_Get (hp_Header resp) ''Location'' \<noteq> rs_Target spec then Some (Inl ErrRedirectTargetMismatch)
             else Some (Inr ())))"

definition RedirectTest_Run ::
    "((RedirectSpec \<times> redirect_err) outcome list \<Rightarrow> (RedirectSpec \<times> redirect_err) outcome) \<Rightarrow> http_net \<Rightarrow>
       RedirectSpec list \<Rightarrow> http_Client option \<Rightarrow> (RedirectSpec \<times> redirect_err) outcome" where
  "RedirectTest_Run grp net specs client =
     (let client = ClientNoRedirect net client
      in grp (map (\<lambda>spec. tag_error spec (RedirectTest_verify net spec client)) specs))"

subsection \<open>test_healthz.go\<close>

record HealthzSpec =
  hz_URL :: string
  hz_Interval :: int
  hz_Timeout :: int
  hz_NumHealthChecks :: int

datatype healthz_err = CreatingRequest | PerformingRequest | ReadingBody | UnexpectedStatus int bytes | UnexpectedBody bytes
  | HealthzCanceled string

text \<open>What happens around the attempts on a URL: the network at each attempt, and whether the wait after it is cancelled.\<close>

record healthz_env =
  he_net :: http_net
  he_client :: "nat \<Rightarrow> http_Client option"
  he_cancelled :: "nat \<Rightarrow> bool"

definition healthz_defaults :: "HealthzSpec \<Rightarrow> HealthzSpec" where
  "healthz_defaults spec =
     (let spec = (if hz_NumHealthChecks spec = 0 then spec\<lparr>hz_NumHealthChecks := 1\<rparr> else spec);
          spec = (if hz_Interval spec = 0 then spec\<lparr>hz_Interval := 1000000000\<rparr> else spec)
      in if hz_Timeout spec = 0 then spec\<lparr>hz_Timeout := 10000000000\<rparr> else spec)"

text \<open>One attempt, and the loop with \<open>m\<close> attempts left, \<open>i\<close> of them done.\<close>

definition healthz_check :: "http_net \<Rightarrow> http_Client \<Rightarrow> string \<Rightarrow> healthz_err outcome" where
  "healthz_check net client url =
     (if \<not> nt_parses net url then Some (Inl CreatingRequest)
      else
        (case client_Do net client [] url of
           None \<Rightarrow> None
         | Some (_, None) \<Rightarrow> Some (Inl PerformingRequest)
         | Some (_, Some resp) \<Rightarrow>
             (case io_ReadAll (hp_Body resp) of
                Inl _ \<Rightarrow> Some (Inl ReadingBody)
              | Inr body \<Rightarrow>
                  if hp_StatusCode resp \<noteq> StatusOK then Some (Inl (UnexpectedStatus (hp_StatusCode resp) body))
                  else if body \<noteq> ''ok'' @ [CHR 0x0A] then Some (Inl (UnexpectedBody body))
                  else Some (Inr ()))))"

fun healthz_loop :: "healthz_env \<Rightarrow> HealthzSpec \<Rightarrow> nat \<Rightarrow> nat \<Rightarrow> healthz_err outcome" where
  "healthz_loop env spec 0 i = Some (Inr ())"
| "healthz_loop env spec (Suc m) i =
     (case healthz_check (he_net env) (newClient (he_net env) (he_client env i)) (hz_URL spec) of
        None \<Rightarrow> None
      | Some (Inl e) \<Rightarrow> Some (Inl e)
      | Some (Inr _) \<Rightarrow>
          if int i < hz_NumHealthChecks spec - 1 \<and> he_cancelled env i then Some (Inl (HealthzCanceled (hz_URL spec)))
          else healthz_loop env spec m (Suc i))"

definition HealthzTest_run :: "healthz_env \<Rightarrow> HealthzSpec \<Rightarrow> healthz_err outcome" where
  "HealthzTest_run env spec = healthz_loop env spec (nat (hz_NumHealthChecks spec)) 0"

definition HealthzTest_Run ::
    "(healthz_err outcome list \<Rightarrow> healthz_err outcome) \<Rightarrow> (HealthzSpec \<Rightarrow> healthz_env) \<Rightarrow> HealthzSpec list \<Rightarrow> healthz_err outcome" where
  "HealthzTest_Run grp env specs =
     (if length specs = 0 then Some (Inr ())
      else grp (map (\<lambda>spec. let spec = healthz_defaults spec in HealthzTest_run (env spec) spec) specs))"

subsection \<open>test_status.go\<close>

datatype status_err = ErrCheckStatusUnexpectedError | ErrCheckStatusCodeMismatch

record CheckStatusSpec =
  cs_URL :: string
  cs_Code :: int
  cs_Redirects :: int

definition CheckStatus_verify :: "http_net \<Rightarrow> CheckStatusSpec \<Rightarrow> http_Client option \<Rightarrow> status_err outcome" where
  "CheckStatus_verify net spec client =
     (let client = ClientMaxRedirects net client (cs_Redirects spec)
      in if \<not> nt_parses net (cs_URL spec) then Some (Inl ErrCheckStatusUnexpectedError)
         else
           (case client_Do net client [] (cs_URL spec) of
              None \<Rightarrow> None
            | Some (_, None) \<Rightarrow> Some (Inl ErrCheckStatusUnexpectedError)
            | Some (_, Some resp) \<Rightarrow>
                if hp_StatusCode resp \<noteq> cs_Code spec then Some (Inl ErrCheckStatusCodeMismatch) else Some (Inr ())))"

definition CheckStatus_Run ::
    "((CheckStatusSpec \<times> status_err) outcome list \<Rightarrow> (CheckStatusSpec \<times> status_err) outcome) \<Rightarrow> http_net \<Rightarrow>
       CheckStatusSpec list \<Rightarrow> http_Client option \<Rightarrow> (CheckStatusSpec \<times> status_err) outcome" where
  "CheckStatus_Run grp net specs client =
     grp (map (\<lambda>spec. tag_error spec (CheckStatus_verify net spec client)) specs)"

definition GenerateCheckStatusSpecs :: "string list \<Rightarrow> int \<Rightarrow> int \<Rightarrow> CheckStatusSpec list" where
  "GenerateCheckStatusSpecs urls code redirects =
     map (\<lambda>url. \<lparr>cs_URL = url, cs_Code = code, cs_Redirects = redirects\<rparr>) urls"

subsection \<open>test_goget.go\<close>

datatype goget_err = ErrGoGetUnexpectedError | ErrGoGetPathNotFound | ErrGoGetNotFound | ErrGoGetContentMismatch

definition go_import_open :: string where
  "go_import_open = ''<meta name='' @ [CHR 0x22] @ ''go-import'' @ [CHR 0x22] @ '' content='' @ [CHR 0x22]"

definition goget_check :: "http_resp \<Rightarrow> Spec \<Rightarrow> goget_err option" where
  "goget_check resp expected =
     (if hp_StatusCode resp \<noteq> StatusOK then
        (if hp_StatusCode resp = StatusNotFound then Some ErrGoGetPathNotFound else Some ErrGoGetUnexpectedError)
      else
        (case io_ReadAll (hp_Body resp) of
           Inl _ \<Rightarrow> Some ErrGoGetUnexpectedError
         | Inr body \<Rightarrow>
             if \<not> strings_Contains body go_import_open then Some ErrGoGetNotFound
             else
               let expectedTag = go_import_open @ gs_Content expected @ [CHR 0x22] @ ''>'';
                   expectedTagSlash = go_import_open @ gs_Content expected @ [CHR 0x22] @ ''/>''
               in if \<not> strings_Contains body expectedTagSlash \<and> \<not> strings_Contains body expectedTag
                  then Some ErrGoGetContentMismatch else None))"

definition goget_verify :: "http_net \<Rightarrow> http_Client \<Rightarrow> string \<Rightarrow> Spec \<Rightarrow> goget_err option option" where
  "goget_verify net client url expected =
     (case client_Do net client [] url of
        None \<Rightarrow> None
      | Some (_, None) \<Rightarrow> Some (Some ErrGoGetUnexpectedError)
      | Some (_, Some resp) \<Rightarrow> Some (goget_check resp expected))"

definition GoGetTest_verify :: "http_net \<Rightarrow> Spec \<Rightarrow> http_Client \<Rightarrow> goget_err option option" where
  "GoGetTest_verify net expected client =
     (let u = ''https://'' @ gs_ImportPath expected @ ''?go-get=1''
      in if \<not> nt_parses net u then Some (Some ErrGoGetUnexpectedError) else goget_verify net client u expected)"

text \<open>The checks run in turn; every failure is reported with its specification.\<close>

fun goget_loop :: "http_net \<Rightarrow> http_Client \<Rightarrow> Spec list \<Rightarrow> (Spec \<times> goget_err) list option" where
  "goget_loop net client [] = Some []"
| "goget_loop net client (spec # specs) =
     (case GoGetTest_verify net spec client of
        None \<Rightarrow> None
      | Some (Some err) \<Rightarrow> map_option (Cons (spec, err)) (goget_loop net client specs)
      | Some None \<Rightarrow> goget_loop net client specs)"

definition GoGetTest_Run :: "http_net \<Rightarrow> Spec list \<Rightarrow> http_Client option \<Rightarrow> (Spec \<times> goget_err) list option" where
  "GoGetTest_Run net specs client = goget_loop net (newClient net client) specs"

subsection \<open>test_metrics.go\<close>

record MetricsSpec =
  mt_URL :: string
  mt_MetricNames :: "string list"

datatype 'e metrics_err = NilReporter | ReporterFailed string 'e | MissingMetrics string "string list"

type_synonym 'e MetricsReporter = "http_Client \<Rightarrow> string \<Rightarrow> string list \<Rightarrow> ('e, string list \<times> string list) result"

definition metrics_check :: "'e MetricsReporter \<Rightarrow> http_Client \<Rightarrow> MetricsSpec \<Rightarrow> 'e metrics_err outcome" where
  "metrics_check reporter client metric =
     (case reporter client (mt_URL metric) (mt_MetricNames metric) of
        Inl err \<Rightarrow> Some (Inl (ReporterFailed (mt_URL metric) err))
      | Inr (found, missing) \<Rightarrow>
          if length missing > 0 then Some (Inl (MissingMetrics (mt_URL metric) missing)) else Some (Inr ()))"

definition MetricsTest_Run ::
    "('e metrics_err outcome list \<Rightarrow> 'e metrics_err outcome) \<Rightarrow> http_net \<Rightarrow> 'e MetricsReporter option \<Rightarrow> MetricsSpec list \<Rightarrow>
       http_Client option \<Rightarrow> 'e metrics_err outcome" where
  "MetricsTest_Run grp net reporter specs client =
     (if length specs = 0 then Some (Inr ())
      else
        (case reporter of
           None \<Rightarrow> Some (Inl NilReporter)
         | Some rep \<Rightarrow> grp (map (metrics_check rep (newClient net client)) specs)))"

subsection \<open>test_webhooks.go\<close>

record WebhookRoundTripSpec =
  wr_DeliveryURL :: string
  wr_RelayURL :: string

record webhookTestPayload =
  wp_ID :: string
  wp_Time :: string

datatype 'e webhook_err = DeliveringFailed 'e | WaitingFailed 'e

text \<open>\<open>post\<close> and \<open>get\<close> are the calls of the endpoints; \<open>get n\<close> is the \<open>n\<close>-th poll.\<close>

record ('sg, 'e) webhook_env =
  we_post :: "'sg option \<Rightarrow> string \<Rightarrow> webhookTestPayload \<Rightarrow> ('e, unit) result"
  we_poll :: "string \<Rightarrow> nat \<Rightarrow> ('e, webhookTestPayload) result"

definition WebhookRoundTrip_deliver ::
    "('sg, 'e) webhook_env \<Rightarrow> (string \<Rightarrow> 'sg option) \<Rightarrow> WebhookRoundTripSpec \<Rightarrow> webhookTestPayload \<Rightarrow> ('e webhook_err, unit) result" where
  "WebhookRoundTrip_deliver env signers spec payload =
     (case we_post env (signers (wr_DeliveryURL spec)) (wr_DeliveryURL spec) payload of
        Inl e \<Rightarrow> Inl (DeliveringFailed e)
      | Inr _ \<Rightarrow> Inr ())"

partial_function (option) WebhookRoundTrip_wait ::
    "('sg, 'e) webhook_env \<times> WebhookRoundTripSpec \<times> webhookTestPayload \<Rightarrow> nat \<Rightarrow> ('e webhook_err, unit) result option" where
  "WebhookRoundTrip_wait e n =
     (case we_poll (fst e) (wr_RelayURL (fst (snd e))) n of
        Inl err \<Rightarrow> Some (Inl (WaitingFailed err))
      | Inr got \<Rightarrow> if got = snd (snd e) then Some (Inr ()) else WebhookRoundTrip_wait e (Suc n))"

definition WebhookRoundTrip_runOne ::
    "('sg, 'e) webhook_env \<Rightarrow> (string \<Rightarrow> 'sg option) \<Rightarrow> webhookTestPayload \<Rightarrow> WebhookRoundTripSpec \<Rightarrow> 'e webhook_err outcome" where
  "WebhookRoundTrip_runOne env signers payload spec =
     (case WebhookRoundTrip_deliver env signers spec payload of
        Inl e \<Rightarrow> Some (Inl e)
      | Inr _ \<Rightarrow> WebhookRoundTrip_wait (env, spec, payload) 0)"

text \<open>\<open>payload_of\<close> gives the identifier and the time taken for each specification.\<close>

definition WebhookRoundTrip_Run ::
    "((WebhookRoundTripSpec \<times> 'e webhook_err) outcome list \<Rightarrow> (WebhookRoundTripSpec \<times> 'e webhook_err) outcome) \<Rightarrow>
       ('sg, 'e) webhook_env \<Rightarrow> (string \<Rightarrow> 'sg option) \<Rightarrow> (WebhookRoundTripSpec \<Rightarrow> webhookTestPayload) \<Rightarrow>
       WebhookRoundTripSpec list \<Rightarrow> (WebhookRoundTripSpec \<times> 'e webhook_err) outcome" where
  "WebhookRoundTrip_Run grp env signers payload_of specs =
     grp (map (\<lambda>spec. tag_error spec (WebhookRoundTrip_runOne env signers (payload_of spec) spec)) specs)"

text \<open>
  Each round of \<open>DrainRelayURL\<close>: the context before the poll, the poll, the context after it and whether the idle
  deadline has passed.
\<close>

record ('c, 'e, 't) drain_env =
  dr_before :: "nat \<Rightarrow> 'c option"
  dr_get :: "nat \<Rightarrow> ('e, 't) result"
  dr_after :: "nat \<Rightarrow> 'c option"
  dr_idle :: "nat \<Rightarrow> bool"

datatype ('c, 'e) drain_end = DrainContext 'c | DrainIdle | DrainError 'e

partial_function (option) DrainRelayURL ::
    "('c, 'e, 't) drain_env \<Rightarrow> nat \<Rightarrow> 't list \<Rightarrow> ('t list \<times> ('c, 'e) drain_end) option" where
  "DrainRelayURL env n results =
     (case dr_before env n of
        Some err \<Rightarrow> Some (results, DrainContext err)
      | None \<Rightarrow>
          (case dr_get env n of
             Inl err \<Rightarrow>
               (case dr_after env n of
                  Some cerr \<Rightarrow> Some (results, DrainContext cerr)
                | None \<Rightarrow> if dr_idle env n then Some (results, DrainIdle) else Some (results, DrainError err))
           | Inr got \<Rightarrow> DrainRelayURL env (Suc n) (results @ [got])))"

subsection \<open>Facts\<close>

lemma group_ok: "group_laws grp \<Longrightarrow> grp (map f xs) = Some (Inr ()) \<longleftrightarrow> (\<forall>x\<in>set xs. f x = Some (Inr ()))"
  by (simp add: group_laws_def list_all_iff)

lemma group_returns: "group_laws grp \<Longrightarrow> grp (map f xs) = None \<longleftrightarrow> (\<exists>x\<in>set xs. f x = None)"
  by (simp add: group_laws_def image_iff eq_commute [of None])

lemma tag_error_simps [simp]:
  "tag_error spec r = None \<longleftrightarrow> r = None"
  "tag_error spec r = Some (Inr ()) \<longleftrightarrow> r = Some (Inr ())"
  by (cases r; auto simp: tag_error_def map_sum_def split: sum.splits)+

text \<open>Verdicts of the checks in terms of the reference \<open>follow\<close>.\<close>

lemma CheckStatus_verify_follow:
  "CheckStatus_verify net spec client =
     Some (if \<not> nt_parses net (cs_URL spec) then Inl ErrCheckStatusUnexpectedError
           else case follow net (newClient net client) (nat (cs_Redirects spec)) (cs_URL spec) of
                  None \<Rightarrow> Inl ErrCheckStatusUnexpectedError
                | Some resp \<Rightarrow> if hp_StatusCode resp = cs_Code spec then Inr () else Inl ErrCheckStatusCodeMismatch)"
  using client_Do_MaxRedirects [of net client "cs_Redirects spec" "cs_URL spec"]
  by (auto simp: CheckStatus_verify_def Let_def split: option.splits)

lemma RedirectTest_verify_follow:
  "RedirectTest_verify net spec (ClientNoRedirect net client) = Some (Inr ()) \<longleftrightarrow> nt_parses net (rs_URL spec) \<and>
     (\<exists>resp. follow net (newClient net client) 0 (rs_URL spec) = Some resp \<and> hp_StatusCode resp = rs_Code spec \<and>
        header_Get (hp_Header resp) ''Location'' = rs_Target spec)"
  using client_Do_NoRedirect [of net client "rs_URL spec"]
  by (cases "follow net (newClient net client) 0 (rs_URL spec)") (auto simp: RedirectTest_verify_def split: if_splits)

text \<open>
  C32. Checking status codes always ends, whatever the servers answer, after at most one request more than the
  redirects a specification allows; the run succeeds exactly if for every specification the response reached
  by following at most that many redirects has the expected code.
\<close>

theorem CheckStatus_Run_spec:
  assumes "group_laws grp"
  shows "CheckStatus_Run grp net specs client \<noteq> None \<and>
    (CheckStatus_Run grp net specs client = Some (Inr ()) \<longleftrightarrow>
       (\<forall>spec\<in>set specs. nt_parses net (cs_URL spec) \<and>
          (\<exists>resp. follow net (newClient net client) (nat (cs_Redirects spec)) (cs_URL spec) = Some resp \<and>
             hp_StatusCode resp = cs_Code spec))) \<and>
    (\<forall>spec\<in>set specs. \<exists>urls r. client_Do net (ClientMaxRedirects net client (cs_Redirects spec)) [] (cs_URL spec) = Some (urls, r) \<and>
       length urls \<le> nat (cs_Redirects spec) + 1)"
proof -
  have "CheckStatus_Run grp net specs client \<noteq> None"
    unfolding CheckStatus_Run_def group_returns [OF assms] by (simp add: CheckStatus_verify_follow)
  moreover have "CheckStatus_Run grp net specs client = Some (Inr ()) \<longleftrightarrow>
      (\<forall>spec\<in>set specs. CheckStatus_verify net spec client = Some (Inr ()))"
    by (simp add: CheckStatus_Run_def group_ok [OF assms])
  moreover have "CheckStatus_verify net spec client = Some (Inr ()) \<longleftrightarrow> nt_parses net (cs_URL spec) \<and>
      (\<exists>resp. follow net (newClient net client) (nat (cs_Redirects spec)) (cs_URL spec) = Some resp \<and>
         hp_StatusCode resp = cs_Code spec)" for spec
    by (auto simp: CheckStatus_verify_follow split: option.splits)
  ultimately show ?thesis using client_Do_MaxRedirects by blast
qed

definition first_error :: "'e outcome list \<Rightarrow> 'e outcome" where
  "first_error rs =
     (if None \<in> set rs then None
      else case filter (\<lambda>r. r \<noteq> Some (Inr ())) rs of [] \<Rightarrow> Some (Inr ()) | r # _ \<Rightarrow> r)"

lemma first_error_laws: "group_laws (first_error :: 'e outcome list \<Rightarrow> 'e outcome)"
proof -
  have ok: "first_error rs = Some (Inr ()) \<longleftrightarrow> list_all (\<lambda>r. r = Some (Inr ())) rs" for rs :: "'e outcome list"
  proof (cases "filter (\<lambda>r. r \<noteq> Some (Inr ())) rs")
    case Nil
    then show ?thesis by (auto simp: first_error_def list_all_iff filter_empty_conv)
  next
    case (Cons r rs')
    then have "r \<in> set (filter (\<lambda>r. r \<noteq> Some (Inr ())) rs)" by simp
    then have "r \<noteq> Some (Inr ())" "r \<in> set rs" by simp_all
    with Cons show ?thesis by (auto simp: first_error_def list_all_iff)
  qed
  have "first_error rs = None \<longleftrightarrow> None \<in> set rs" for rs :: "'e outcome list"
  proof (cases "filter (\<lambda>r. r \<noteq> Some (Inr ())) rs")
    case (Cons r rs')
    then have "r \<in> set (filter (\<lambda>r. r \<noteq> Some (Inr ())) rs)" by simp
    then have "r \<in> set rs" by simp
    then have "None \<notin> set rs \<Longrightarrow> r \<noteq> None" by metis
    with Cons show ?thesis by (simp add: first_error_def)
  qed (simp add: first_error_def)
  with ok show ?thesis by (simp add: group_laws_def)
qed

definition demo_net :: http_net where
  "demo_net = \<lparr>nt_parses = (\<lambda>_. True), nt_resolve = (\<lambda>_ loc. Some loc),
     nt_DefaultClient = \<lparr>cl_RoundTrip = (\<lambda>url.
         if url = ''http://a/old'' then Some (resp_of (WriteHeader (rw_Set new_response ''Location'' ''http://a/new'') 301))
         else if url = ''http://a/new'' then Some (resp_of (WriteHeader new_response 200)) else None),
       cl_CheckRedirect = None\<rparr>\<rparr>"

theorem CheckStatus_Run_spec_witness:
  "CheckStatus_Run first_error demo_net [\<lparr>cs_URL = ''http://a/old'', cs_Code = 200, cs_Redirects = 1\<rparr>] None = Some (Inr ())"
proof -
  have "follow demo_net (newClient demo_net None) 1 ''http://a/old'' = Some (resp_of (WriteHeader new_response 200))"
    by (subst follow.simps, subst follow.simps)
      (simp add: demo_net_def newClient_def is_redirect_def resp_of_def sent_status_def sent_header_def WriteHeader_def
        rw_Set_def new_response_def header_Get_def header_Values_def header_Set_def)
  moreover have "hp_StatusCode (resp_of (WriteHeader new_response 200)) = 200"
    by (simp add: resp_of_def sent_status_def WriteHeader_def new_response_def)
  ultimately show ?thesis
    using CheckStatus_Run_spec [OF first_error_laws, of demo_net "[\<lparr>cs_URL = ''http://a/old'', cs_Code = 200, cs_Redirects = 1\<rparr>]" None]
    by (simp add: demo_net_def)
qed

text \<open>What a healthy answer is, and that the health handler of the repository gives it.\<close>

definition healthy :: "http_net \<Rightarrow> http_Client \<Rightarrow> string \<Rightarrow> bool" where
  "healthy net c url \<longleftrightarrow> nt_parses net url \<and> (\<exists>urls resp. client_Do net c [] url = Some (urls, Some resp) \<and>
     hp_StatusCode resp = 200 \<and> io_ReadAll (hp_Body resp) = Inr (''ok'' @ [CHR 0x0A]))"

lemma healthz_check_ok: "healthz_check net c url = Some (Inr ()) \<longleftrightarrow> healthy net c url"
  by (auto simp: healthz_check_def healthy_def StatusOK_def split: option.splits sum.splits)

lemma all_range_Suc:
  fixes i m :: nat
  shows "(\<forall>j. i \<le> j \<and> j < i + Suc m \<longrightarrow> P j) \<longleftrightarrow> P i \<and> (\<forall>j. Suc i \<le> j \<and> j < Suc i + m \<longrightarrow> P j)"
proof -
  have "i \<le> j \<and> j < i + Suc m \<longleftrightarrow> j = i \<or> Suc i \<le> j \<and> j < Suc i + m" for j by auto
  then show ?thesis by auto
qed

lemma healthz_loop_ok:
  "healthz_loop env spec m i = Some (Inr ()) \<longleftrightarrow>
     (\<forall>j. i \<le> j \<and> j < i + m \<longrightarrow> healthy (he_net env) (newClient (he_net env) (he_client env j)) (hz_URL spec) \<and>
        (int j < hz_NumHealthChecks spec - 1 \<longrightarrow> \<not> he_cancelled env j))" (is "_ \<longleftrightarrow> (\<forall>j. _ \<longrightarrow> ?ok j)")
proof (induction m arbitrary: i)
  case (Suc m)
  have "healthz_loop env spec (Suc m) i = Some (Inr ()) \<longleftrightarrow> ?ok i \<and> healthz_loop env spec m (Suc i) = Some (Inr ())"
  proof (cases "healthz_check (he_net env) (newClient (he_net env) (he_client env i)) (hz_URL spec) = Some (Inr ())")
    case True
    then show ?thesis by (simp add: healthz_check_ok [symmetric])
  next
    case False
    then have "healthz_loop env spec (Suc m) i \<noteq> Some (Inr ())" by (auto split: option.split sum.split)
    with False show ?thesis by (simp only: healthz_check_ok simp_thms)
  qed
  also have "\<dots> \<longleftrightarrow> (\<forall>j. i \<le> j \<and> j < i + Suc m \<longrightarrow> ?ok j)"
    unfolding Suc.IH all_range_Suc [of i m ?ok] ..
  finally show ?case .
qed auto

lemma HealthzHandler_healthy:
  assumes "nt_parses net url" and "cl_RoundTrip c url = Some (resp_of (HealthzHandler r w))" and "fresh w"
  shows "healthy net c url"
proof -
  have "\<not> is_redirect (resp_of (HealthzHandler r w))"
    using HealthzHandler_ok [OF assms(3)] by (simp add: is_redirect_def resp_of_def)
  then have "client_Do net c [] url = Some ([url], Some (resp_of (HealthzHandler r w)))"
    using assms(2) by (subst client_Do.simps) simp
  then show ?thesis using assms(1) HealthzHandler_ok [OF assms(3)] by (simp add: healthy_def resp_of_def)
qed

text \<open>
  A health test passes exactly if each of the checks of every specification, one unless it says
  otherwise, is answered 200 with the body of the health handler, and no wait between two checks is cancelled; a
  server that answers with the repository's health handler passes every check.
\<close>

theorem HealthzTest_Run_spec:
  assumes "group_laws grp"
  shows "(HealthzTest_Run grp env specs = Some (Inr ()) \<longleftrightarrow>
      (\<forall>spec\<in>healthz_defaults ` set specs. \<forall>j. int j < hz_NumHealthChecks spec \<longrightarrow>
         healthy (he_net (env spec)) (newClient (he_net (env spec)) (he_client (env spec) j)) (hz_URL spec) \<and>
         (int j < hz_NumHealthChecks spec - 1 \<longrightarrow> \<not> he_cancelled (env spec) j))) \<and>
    (nt_parses net url \<longrightarrow> cl_RoundTrip c url = Some (resp_of (HealthzHandler r new_response)) \<longrightarrow> healthy net c url)"
proof -
  have run: "HealthzTest_run e spec = Some (Inr ()) \<longleftrightarrow> (\<forall>j. int j < hz_NumHealthChecks spec \<longrightarrow>
      healthy (he_net e) (newClient (he_net e) (he_client e j)) (hz_URL spec) \<and>
      (int j < hz_NumHealthChecks spec - 1 \<longrightarrow> \<not> he_cancelled e j))" for e spec
    by (simp add: HealthzTest_run_def healthz_loop_ok zless_nat_eq_int_zless)
  have "HealthzTest_Run grp env specs = Some (Inr ()) \<longleftrightarrow>
      (\<forall>spec\<in>set specs. HealthzTest_run (env (healthz_defaults spec)) (healthz_defaults spec) = Some (Inr ()))"
    by (cases specs) (simp_all add: HealthzTest_Run_def Let_def group_ok [OF assms] del: list.map)
  then show ?thesis using HealthzHandler_healthy [OF _ _ fresh_new] unfolding run by blast
qed

theorem HealthzTest_Run_spec_witness:
  "HealthzTest_Run first_error
     (\<lambda>_. \<lparr>he_net = demo_net, he_client = (\<lambda>_. Some \<lparr>cl_RoundTrip = (\<lambda>_. Some (resp_of (HealthzHandler example_request new_response))),
        cl_CheckRedirect = None\<rparr>), he_cancelled = (\<lambda>_. False)\<rparr>)
     [\<lparr>hz_URL = ''http://a/healthz'', hz_Interval = 0, hz_Timeout = 0, hz_NumHealthChecks = 2\<rparr>] = Some (Inr ())"
proof -
  let ?c = "\<lparr>cl_RoundTrip = (\<lambda>_. Some (resp_of (HealthzHandler example_request new_response))), cl_CheckRedirect = None\<rparr>"
  let ?env = "\<lambda>_ :: HealthzSpec. \<lparr>he_net = demo_net, he_client = (\<lambda>_. Some ?c), he_cancelled = (\<lambda>_. False)\<rparr>"
  have p: "\<And>u. nt_parses demo_net u" by (simp add: demo_net_def)
  have h: "healthy demo_net ?c u" for u
    using HealthzTest_Run_spec [OF first_error_laws, where net = demo_net and url = u and c = ?c and r = example_request] p
    by simp
  show ?thesis
    using HealthzTest_Run_spec [OF first_error_laws, of ?env] h by (simp add: newClient_def)
qed

text \<open>
  Against a server that answers with one of the repository's redirect handlers, a redirect test passes
  exactly if its code is the handler's and its target is the location the handler sends; the test sees the
  redirect itself, since its client follows none.
\<close>

theorem RedirectTest_Redirect_Handler:
  assumes "rd_Target rd r = (t, code)"
    and "loc = hexEscapeNonASCII (redirect_url parse (url_Path (rq_URL r)) t)"
    and "nt_parses net (rs_URL spec)" and "nt_resolve net (rs_URL spec) loc \<noteq> None"
    and "cl_RoundTrip (newClient net client) (rs_URL spec) = Some (resp_of (Redirect_Handler parse rd r new_response))"
  shows "RedirectTest_verify net spec (ClientNoRedirect net client) = Some (Inr ()) \<longleftrightarrow> rs_Code spec = code \<and> rs_Target spec = loc"
proof -
  let ?resp = "resp_of (Redirect_Handler parse rd r new_response)"
  have sent: "hp_StatusCode ?resp = code" "header_Get (hp_Header ?resp) ''Location'' = loc"
    using http_Redirect_sent [of new_response parse r t code] assms(1,2)
    by (simp_all add: Redirect_Handler_def resp_of_def new_response_def)
  have "follow net (newClient net client) 0 (rs_URL spec) = Some ?resp"
    using assms(4,5) sent by (subst follow.simps) (auto simp: is_redirect_def split: option.splits)
  then show ?thesis using assms(3) sent by (auto simp: RedirectTest_verify_follow)
qed

definition demo_redirects :: http_Client where
  "demo_redirects = \<lparr>cl_RoundTrip = (\<lambda>_. Some (resp_of (Redirect_Handler known_schemes
       \<lparr>rd_Description = [], rd_Target = LiteralRedirectTarget ''https://b/'' 308, rd_Log = False\<rparr> page_request new_response))),
     cl_CheckRedirect = None\<rparr>"

theorem RedirectTest_Redirect_Handler_witness:
  "RedirectTest_verify demo_net \<lparr>rs_URL = ''http://a/'', rs_Target = ''https://b/'', rs_Code = 308\<rparr>
     (ClientNoRedirect demo_net (Some demo_redirects)) = Some (Inr ())"
proof -
  let ?rd = "\<lparr>rd_Description = [], rd_Target = LiteralRedirectTarget ''https://b/'' 308, rd_Log = False\<rparr>"
  let ?spec = "\<lparr>rs_URL = ''http://a/'', rs_Target = ''https://b/'', rs_Code = 308\<rparr>"
  have t: "rd_Target ?rd page_request = (''https://b/'', 308)" by (simp add: LiteralRedirectTarget_def)
  have l: "''https://b/'' = hexEscapeNonASCII (redirect_url known_schemes (url_Path (rq_URL page_request)) ''https://b/'')"
    by code_simp
  show ?thesis
    using RedirectTest_Redirect_Handler [OF t l, of demo_net ?spec "Some demo_redirects"]
    by (simp add: demo_net_def newClient_def demo_redirects_def)
qed

text \<open>The go-get test accepts the page of the repository's own handler, if the template leaves the content as it is.\<close>

lemma GoGetTest_accepts_handler:
  assumes "goget_NewHandler execute s next opts = Inr h" and "goget_request s r"
    and "execute s = Some (u @ go_import_open @ gs_Content s @ [CHR 0x22] @ ''>'' @ v)"
    and "nt_parses net (''https://'' @ gs_ImportPath s @ ''?go-get=1'')"
    and "cl_RoundTrip c (''https://'' @ gs_ImportPath s @ ''?go-get=1'') = Some (resp_of (fst (goget_ServeHTTP h r (new_response, k))))"
  shows "GoGetTest_verify net s c = Some None"
proof -
  let ?w = "fst (goget_ServeHTTP h r (new_response, k))"
  have w: "sent_status ?w = 200" "rw_body ?w = u @ go_import_open @ gs_Content s @ [CHR 0x22] @ ''>'' @ v"
    using goget_answers [OF assms(1,2,3), of new_response k]
    by (simp_all add: sent_Write sent_WriteHeader rw_Set_def new_response_def StatusOK_def)
  have "strings_Contains (rw_body ?w) go_import_open"
    "strings_Contains (rw_body ?w) (go_import_open @ gs_Content s @ [CHR 0x22] @ ''>'')"
    unfolding strings_Contains_iff w(2) by (metis append.assoc)+
  with w(1) have chk: "goget_check (resp_of ?w) s = None" by (simp add: goget_check_def resp_of_def StatusOK_def Let_def)
  have "\<not> is_redirect (resp_of ?w)" using w(1) by (simp add: is_redirect_def resp_of_def)
  with assms(5) have "client_Do net c [] (''https://'' @ gs_ImportPath s @ ''?go-get=1'') =
      Some ([''https://'' @ gs_ImportPath s @ ''?go-get=1''], Some (resp_of ?w))"
    by (subst client_Do.simps) simp
  with assms(4) chk show ?thesis by (simp add: GoGetTest_verify_def goget_verify_def Let_def)
qed

lemma goget_loop_ok:
  "goget_loop net c specs = Some [] \<longleftrightarrow> (\<forall>spec\<in>set specs. GoGetTest_verify net spec c = Some None)"
  by (induction specs) (auto split: option.splits)

subsection \<open>The webhook loops\<close>

definition webhook_attempt ::
    "('sg, 'e) webhook_env \<times> WebhookRoundTripSpec \<times> webhookTestPayload \<Rightarrow> nat \<Rightarrow> ('e webhook_err, unit) result option" where
  "webhook_attempt e n =
     (case we_poll (fst e) (wr_RelayURL (fst (snd e))) n of
        Inl err \<Rightarrow> Some (Inl (WaitingFailed err))
      | Inr got \<Rightarrow> if got = snd (snd e) then Some (Inr ()) else None)"

lemma webhook_wait_decided: "WebhookRoundTrip_wait e n = Some r \<Longrightarrow> \<exists>m\<ge>n. webhook_attempt e m \<noteq> None"
proof (rule WebhookRoundTrip_wait.raw_induct [where P = "\<lambda>e n r. \<exists>m\<ge>n. webhook_attempt e m \<noteq> None"])
  fix loop :: "('sg, 'e) webhook_env \<times> WebhookRoundTripSpec \<times> webhookTestPayload \<Rightarrow> nat \<Rightarrow> ('e webhook_err, unit) result option"
    and e n r
  assume IH: "\<And>e n r. loop e n = Some r \<Longrightarrow> \<exists>m\<ge>n. webhook_attempt e m \<noteq> None"
    and round: "(case we_poll (fst e) (wr_RelayURL (fst (snd e))) n of
        Inl err \<Rightarrow> Some (Inl (WaitingFailed err))
      | Inr got \<Rightarrow> if got = snd (snd e) then Some (Inr ()) else loop e (Suc n)) = Some r"
  show "\<exists>m\<ge>n. webhook_attempt e m \<noteq> None"
  proof (cases "webhook_attempt e n")
    case None
    with round have "loop e (Suc n) = Some r" by (auto simp: webhook_attempt_def split: sum.splits if_splits)
    from IH [OF this] show ?thesis using Suc_leD by blast
  qed auto
qed

lemma webhook_wait_unroll:
  "WebhookRoundTrip_wait e n = (case webhook_attempt e n of Some r \<Rightarrow> Some r | None \<Rightarrow> WebhookRoundTrip_wait e (Suc n))"
  by (subst WebhookRoundTrip_wait.simps) (auto simp: webhook_attempt_def split: sum.splits)

interpretation webhook_poll: polling_loop WebhookRoundTrip_wait webhook_attempt
  by unfold_locales (rule webhook_wait_unroll, rule webhook_wait_decided)

definition drain_step :: "('c, 'e, 't) drain_env \<Rightarrow> nat \<Rightarrow> 't list \<Rightarrow> 't list + ('t list \<times> ('c, 'e) drain_end)" where
  "drain_step env n results =
     (case dr_before env n of
        Some err \<Rightarrow> Inr (results, DrainContext err)
      | None \<Rightarrow>
          (case dr_get env n of
             Inl err \<Rightarrow>
               (case dr_after env n of
                  Some cerr \<Rightarrow> Inr (results, DrainContext cerr)
                | None \<Rightarrow> if dr_idle env n then Inr (results, DrainIdle) else Inr (results, DrainError err))
           | Inr got \<Rightarrow> Inl (results @ [got])))"

lemma drain_decided:
  fixes env :: "('c, 'e, 't) drain_env"
  shows "DrainRelayURL env n results = Some r \<Longrightarrow> \<exists>k. scan (drain_step env) n results (Suc k) = None"
proof (rule DrainRelayURL.raw_induct [where P = "\<lambda>env n results r. \<exists>k. scan (drain_step env) n results (Suc k) = None"])
  fix loop :: "('c, 'e, 't) drain_env \<Rightarrow> nat \<Rightarrow> 't list \<Rightarrow> ('t list \<times> ('c, 'e) drain_end) option" and env n results r
  assume IH: "\<And>env n results r. loop env n results = Some r \<Longrightarrow> \<exists>k. scan (drain_step env) n results (Suc k) = None"
    and round: "(case dr_before env n of
        Some err \<Rightarrow> Some (results, DrainContext err)
      | None \<Rightarrow>
          (case dr_get env n of
             Inl err \<Rightarrow>
               (case dr_after env n of
                  Some cerr \<Rightarrow> Some (results, DrainContext cerr)
                | None \<Rightarrow> if dr_idle env n then Some (results, DrainIdle) else Some (results, DrainError err))
           | Inr got \<Rightarrow> loop env (Suc n) (results @ [got]))) = Some r"
  show "\<exists>k. scan (drain_step env) n results (Suc k) = None"
  proof (cases "drain_step env n results")
    case (Inl results')
    with round have "loop env (Suc n) results' = Some r"
      by (auto simp: drain_step_def split: option.splits sum.splits if_splits)
    from IH [OF this] obtain k where "scan (drain_step env) (Suc n) results' (Suc k) = None" by blast
    with Inl have "scan (drain_step env) n results (Suc (Suc k)) = None" by simp
    then show ?thesis by blast
  qed simp
qed

lemma drain_unroll:
  "DrainRelayURL env n rs = (case drain_step env n rs of Inr r \<Rightarrow> Some r | Inl rs' \<Rightarrow> DrainRelayURL env (Suc n) rs')"
  by (subst DrainRelayURL.simps) (auto simp: drain_step_def split: option.splits sum.splits)

interpretation relay_drain: scanning_loop DrainRelayURL drain_step
  by unfold_locales (rule drain_unroll, rule drain_decided)

text \<open>The payloads collected before the drain ends are those of the polls, in order.\<close>

lemma drain_scan:
  "scan (drain_step env) n rs k = Some rs' \<longleftrightarrow>
     (\<exists>gs. rs' = rs @ gs \<and> length gs = k \<and> (\<forall>i<k. dr_before env (n + i) = None \<and> dr_get env (n + i) = Inr (gs ! i)))"
proof (induction k arbitrary: rs')
  case (Suc k)
  have "scan (drain_step env) n rs (Suc k) = Some rs' \<longleftrightarrow>
      (\<exists>rs1 got. scan (drain_step env) n rs k = Some rs1 \<and> dr_before env (n + k) = None \<and> dr_get env (n + k) = Inr got \<and> rs' = rs1 @ [got])"
    unfolding scan_snoc by (auto simp: drain_step_def split: option.splits sum.splits if_splits)
  also have "\<dots> \<longleftrightarrow> (\<exists>gs got. length gs = k \<and> (\<forall>i<k. dr_before env (n + i) = None \<and> dr_get env (n + i) = Inr (gs ! i)) \<and>
      dr_before env (n + k) = None \<and> dr_get env (n + k) = Inr got \<and> rs' = rs @ gs @ [got])"
    unfolding Suc.IH by auto
  also have "\<dots> \<longleftrightarrow> (\<exists>gs. rs' = rs @ gs \<and> length gs = Suc k \<and>
      (\<forall>i<Suc k. dr_before env (n + i) = None \<and> dr_get env (n + i) = Inr (gs ! i)))" (is "?l \<longleftrightarrow> ?r")
  proof
    assume ?l
    then obtain gs got where "length gs = k" "\<forall>i<k. dr_before env (n + i) = None \<and> dr_get env (n + i) = Inr (gs ! i)"
      "dr_before env (n + k) = None" "dr_get env (n + k) = Inr got" "rs' = rs @ gs @ [got]" by blast
    then show ?r by (intro exI [of _ "gs @ [got]"]) (auto simp: nth_append less_Suc_eq)
  next
    assume ?r
    then obtain gs where gs: "rs' = rs @ gs" "length gs = Suc k"
      "\<forall>i<Suc k. dr_before env (n + i) = None \<and> dr_get env (n + i) = Inr (gs ! i)" by blast
    then obtain gs' got where "gs = gs' @ [got]" "length gs' = k" by (cases gs rule: rev_cases) auto
    with gs show ?l by (intro exI [of _ gs'] exI [of _ got]) (auto simp: nth_append less_Suc_eq)
  qed
  finally show ?case .
qed auto

text \<open>A round trip passes exactly if the delivery is accepted and the polls return it before any of them fails.\<close>

lemma WebhookRoundTrip_runOne_iff:
  "WebhookRoundTrip_runOne env signers payload spec = Some (Inr ()) \<longleftrightarrow>
     we_post env (signers (wr_DeliveryURL spec)) (wr_DeliveryURL spec) payload = Inr () \<and>
     (\<exists>m. we_poll env (wr_RelayURL spec) m = Inr payload \<and> (\<forall>k<m. \<exists>got. we_poll env (wr_RelayURL spec) k = Inr got \<and> got \<noteq> payload))"
proof -
  have ok: "webhook_attempt (env, spec, payload) m = Some (Inr ()) \<longleftrightarrow> we_poll env (wr_RelayURL spec) m = Inr payload" for m
    by (auto simp: webhook_attempt_def split: sum.splits)
  have again: "webhook_attempt (env, spec, payload) m = None \<longleftrightarrow> (\<exists>got. we_poll env (wr_RelayURL spec) m = Inr got \<and> got \<noteq> payload)" for m
    by (auto simp: webhook_attempt_def split: sum.splits)
  show ?thesis
    by (auto simp: WebhookRoundTrip_runOne_def WebhookRoundTrip_deliver_def webhook_poll.returns_iff ok again split: sum.splits)
qed

text \<open>A drain that ends for being idle returns what the polls before it gave, in order and completely.\<close>

lemma DrainRelayURL_idle:
  "DrainRelayURL env 0 [] = Some (rs, DrainIdle) \<longleftrightarrow>
     (\<forall>i<length rs. dr_before env i = None \<and> dr_get env i = Inr (rs ! i)) \<and>
     dr_before env (length rs) = None \<and> (\<exists>err. dr_get env (length rs) = Inl err) \<and>
     dr_after env (length rs) = None \<and> dr_idle env (length rs)"
proof -
  have "drain_step env m rs' = Inr (rs, DrainIdle) \<longleftrightarrow> rs' = rs \<and> dr_before env m = None \<and>
      (\<exists>err. dr_get env m = Inl err) \<and> dr_after env m = None \<and> dr_idle env m" for m rs'
    by (auto simp: drain_step_def split: option.splits sum.splits)
  then show ?thesis by (auto simp: relay_drain.scan_returns_iff drain_scan)
qed

end
