(* ===== verification/TlsValidate.thy ===== *)
theory TlsValidate
  imports Certs GoNet "HOL-Library.Multiset"
begin

text \<open>
  Package \<^verbatim>\<open>tlsvalidate\<close>: validating the certificates a host serves on all of its addresses.

  The network is an argument: \<open>lookup\<close> resolves a host, \<open>dial\<close> connects to an address and shakes hands under a
  client configuration, \<open>None\<close> being a failure. The connections run concurrently and are collected as they
  finish: \<open>arrange\<close> is the order of completion, any permutation. A regular expression is its
  \<open>MatchString\<close>. Logging and the standard output messages are left out. A result \<open>None\<close> is a panic.
\<close>

record options =
  tv_ipv4Only :: bool
  tv_validFor :: int
  tv_issuerREs :: "(string \<Rightarrow> bool) list"
  tv_expand :: bool
  tv_rootCAs :: "bytes list option"
  tv_pemFile :: string
  tv_checkSerial :: bool
  tv_checkSignature :: bool
  tv_checkCipherSuite :: bool
  tv_tlsMinVer :: "16 word"
  tv_ciphersuites :: "(16 word) list"
  tv_allowedSignatureAlgorithms :: "nat list"
  tv_deniedSignatureAlgorithms :: "nat list"
  tv_deniedCipherSuites :: "(16 word) list"
  tv_customDNSServer :: string
  tv_checkZeroSerialNumbers :: bool

type_synonym Option = "options \<Rightarrow> options"

definition WithIPv4Only :: "bool \<Rightarrow> Option" where "WithIPv4Only b opts = opts\<lparr>tv_ipv4Only := b\<rparr>"
definition WithValidForAtLeast :: "int \<Rightarrow> Option" where "WithValidForAtLeast d opts = opts\<lparr>tv_validFor := d\<rparr>"
definition WithIssuerRegexps :: "(string \<Rightarrow> bool) list \<Rightarrow> Option" where "WithIssuerRegexps es opts = opts\<lparr>tv_issuerREs := es\<rparr>"
definition WithExpandDNSNames :: "bool \<Rightarrow> Option" where "WithExpandDNSNames b opts = opts\<lparr>tv_expand := b\<rparr>"
definition WithRootCAs :: "bytes list option \<Rightarrow> Option" where "WithRootCAs p opts = opts\<lparr>tv_rootCAs := p\<rparr>"
definition WithCustomRootCAPEM :: "string \<Rightarrow> Option" where "WithCustomRootCAPEM f opts = opts\<lparr>tv_pemFile := f\<rparr>"
definition WithCheckSerialNumbers :: "bool \<Rightarrow> Option" where "WithCheckSerialNumbers b opts = opts\<lparr>tv_checkSerial := b\<rparr>"
definition WithCheckSignatureAlgorithm :: "bool \<Rightarrow> Option" where
  "WithCheckSignatureAlgorithm b opts = opts\<lparr>tv_checkSignature := b\<rparr>"
definition WithCheckCipherSuites :: "bool \<Rightarrow> Option" where "WithCheckCipherSuites b opts = opts\<lparr>tv_checkCipherSuite := b\<rparr>"
definition WithTLSMinVersion :: "16 word \<Rightarrow> Option" where "WithTLSMinVersion v opts = opts\<lparr>tv_tlsMinVer := v\<rparr>"
definition WithCiphersuites :: "(16 word) list \<Rightarrow> Option" where "WithCiphersuites s opts = opts\<lparr>tv_ciphersuites := s\<rparr>"
definition WithAllowedSignatureAlgorithms :: "nat list \<Rightarrow> Option" where
  "WithAllowedSignatureAlgorithms as opts = opts\<lparr>tv_allowedSignatureAlgorithms := as\<rparr>"
definition WithDeniedSignatureAlgorithms :: "nat list \<Rightarrow> Option" where
  "WithDeniedSignatureAlgorithms as opts = opts\<lparr>tv_deniedSignatureAlgorithms := as\<rparr>"
definition WithDeniedCipherSuites :: "(16 word) list \<Rightarrow> Option" where
  "WithDeniedCipherSuites s opts = opts\<lparr>tv_deniedCipherSuites := s\<rparr>"
definition WithCustomDNSServer :: "string \<Rightarrow> Option" where "WithCustomDNSServer a opts = opts\<lparr>tv_customDNSServer := a\<rparr>"
definition WithCheckZeroSerialNumbers :: "bool \<Rightarrow> Option" where
  "WithCheckZeroSerialNumbers b opts = opts\<lparr>tv_checkZeroSerialNumbers := b\<rparr>"

lemmas tv_option_defs [option_defs] = WithIPv4Only_def WithValidForAtLeast_def WithIssuerRegexps_def WithExpandDNSNames_def
  WithRootCAs_def WithCustomRootCAPEM_def WithCheckSerialNumbers_def WithCheckSignatureAlgorithm_def WithCheckCipherSuites_def
  WithTLSMinVersion_def WithCiphersuites_def WithAllowedSignatureAlgorithms_def WithDeniedSignatureAlgorithms_def
  WithDeniedCipherSuites_def WithCustomDNSServer_def WithCheckZeroSerialNumbers_def

datatype reason = NoPeerCertificates | NoSerialNumber | SerialMismatch | SignatureMismatch | SuiteMismatch | ZeroSerial
  | IssuerMismatch | ValidityTooShort | AlgorithmNotAllowed | AlgorithmDenied | SuiteDenied

record ErrValidator =
  er_Host :: string
  er_Addr :: string
  er_Port :: string
  er_Certificate :: "certificate option"
  er_Err :: "reason option"

definition reason_text :: "reason \<Rightarrow> string" where
  "reason_text r = (case r of
     NoPeerCertificates \<Rightarrow> ''no peer certificates found'' | NoSerialNumber \<Rightarrow> ''no serial number found''
   | SerialMismatch \<Rightarrow> ''mismatched serial numbers'' | SignatureMismatch \<Rightarrow> ''mismatched signature algorithms''
   | SuiteMismatch \<Rightarrow> ''mismatched cipher suites'' | ZeroSerial \<Rightarrow> ''zero serial number''
   | IssuerMismatch \<Rightarrow> ''certificate issuer does not match'' | ValidityTooShort \<Rightarrow> ''certificate is valid for less''
   | AlgorithmNotAllowed \<Rightarrow> ''not one of the allowed algorithms'' | AlgorithmDenied \<Rightarrow> ''one of the denied algorithms''
   | SuiteDenied \<Rightarrow> ''one of the denied ciphersuites'')"

definition ErrValidator_Error :: "ErrValidator \<Rightarrow> string" where
  "ErrValidator_Error e = (case er_Err e of Some r \<Rightarrow> reason_text r | None \<Rightarrow> ''certificate validation failed'')"

definition ErrValidator_Unwrap :: "ErrValidator \<Rightarrow> reason option" where
  "ErrValidator_Unwrap e = er_Err e"

record Validator =
  va_opts :: options
  va_resolver :: "string option" \<comment> \<open>the DNS server of the custom resolver\<close>

definition default_options :: options where
  "default_options = \<lparr>tv_ipv4Only = False, tv_validFor = 0, tv_issuerREs = [], tv_expand = False, tv_rootCAs = None,
     tv_pemFile = [], tv_checkSerial = False, tv_checkSignature = False, tv_checkCipherSuite = False, tv_tlsMinVer = 0,
     tv_ciphersuites = [], tv_allowedSignatureAlgorithms = [], tv_deniedSignatureAlgorithms = [],
     tv_deniedCipherSuites = [], tv_customDNSServer = [], tv_checkZeroSerialNumbers = True\<rparr>"

text \<open>\<open>ensureHostPort\<close> is \<open>netutil.EnsureHostPort\<close>.\<close>

definition NewValidator :: "(string \<Rightarrow> string \<Rightarrow> string) \<Rightarrow> Option list \<Rightarrow> Validator" where
  "NewValidator ensureHostPort opts =
     (let o1 = apply_options opts default_options in
      if tv_customDNSServer o1 \<noteq> []
      then let srv = ensureHostPort (tv_customDNSServer o1) ''53''
           in \<lparr>va_opts = o1\<lparr>tv_customDNSServer := srv\<rparr>, va_resolver = Some srv\<rparr>
      else \<lparr>va_opts = o1, va_resolver = None\<rparr>)"

datatype setup_error = CAFileUnreadable | NoCertsInFile | LookupFailed | ConnectFailed

definition tv_certPool ::
    "(bytes \<Rightarrow> bytes list \<Rightarrow> bytes list option) \<Rightarrow> (string \<Rightarrow> bytes option) \<Rightarrow> string \<Rightarrow> (setup_error, bytes list) result" where
  "tv_certPool appendPEM readFile pemFile =
     (case readFile pemFile of
        None \<Rightarrow> Inl CAFileUnreadable
      | Some certs \<Rightarrow> (case appendPEM certs [] of None \<Rightarrow> Inl NoCertsInFile | Some pool \<Rightarrow> Inr pool))"

record ConnectionState =
  cn_PeerCertificates :: "certificate list"
  cn_CipherSuite :: "16 word"

record tlsState =
  ts_host :: string
  ts_addr :: string
  ts_port :: string
  ts_state :: ConnectionState

record client_config =
  cc_ServerName :: string
  cc_RootCAs :: "bytes list option"
  cc_MinVersion :: "16 word"
  cc_CipherSuites :: "(16 word) list"

record network =
  nw_lookup :: "string option \<Rightarrow> string \<Rightarrow> string list option" \<comment> \<open>by resolver\<close>
  nw_dial :: "string option \<Rightarrow> client_config \<Rightarrow> string \<Rightarrow> ConnectionState option"

definition getTLSState :: "network \<Rightarrow> Validator \<Rightarrow> client_config \<Rightarrow> string \<Rightarrow> string \<Rightarrow> (setup_error, ConnectionState) result" where
  "getTLSState nw v cfg addr port =
     (case nw_dial nw (va_resolver v) cfg (JoinHostPort addr port) of
        None \<Rightarrow> Inl ConnectFailed
      | Some s \<Rightarrow> Inr s)"

definition client_config_of :: "Validator \<Rightarrow> string \<Rightarrow> client_config" where
  "client_config_of v host = \<lparr>cc_ServerName = host, cc_RootCAs = tv_rootCAs (va_opts v),
     cc_MinVersion = tv_tlsMinVer (va_opts v), cc_CipherSuites = tv_ciphersuites (va_opts v)\<rparr>"

definition getStates ::
    "network \<Rightarrow> (tlsState list \<Rightarrow> tlsState list) \<Rightarrow> Validator \<Rightarrow> string list \<Rightarrow> string \<Rightarrow> string \<Rightarrow>
       (setup_error, tlsState list) result" where
  "getStates nw arrange v addrs host port =
     (case map_result (\<lambda>addr. case getTLSState nw v (client_config_of v host) addr port of
               Inl e \<Rightarrow> Inl e
             | Inr s \<Rightarrow> Inr \<lparr>ts_host = host, ts_addr = addr, ts_port = port, ts_state = s\<rparr>) addrs of
        Inl e \<Rightarrow> Inl e
      | Inr sts \<Rightarrow> Inr (arrange sts))"

definition state_error :: "tlsState \<Rightarrow> certificate option \<Rightarrow> reason \<Rightarrow> ErrValidator" where
  "state_error s cert err = \<lparr>er_Host = ts_host s, er_Addr = ts_addr s, er_Port = ts_port s, er_Certificate = cert,
     er_Err = Some err\<rparr>"

text \<open>One round of the loop of \<open>verifyAcrossHosts\<close>; comparing with a nil serial number panics.\<close>

definition compare_state ::
    "options \<Rightarrow> int option \<Rightarrow> nat \<Rightarrow> 16 word \<Rightarrow> tlsState \<Rightarrow> ErrValidator list option" where
  "compare_state opts serial alg suite cs =
     (case cn_PeerCertificates (ts_state cs) of
        [] \<Rightarrow> Some [state_error cs None NoPeerCertificates]
      | leaf # _ \<Rightarrow>
          (case ct_Serial leaf of
             None \<Rightarrow> Some [state_error cs (Some leaf) NoSerialNumber]
           | Some s \<Rightarrow>
               if tv_checkSerial opts \<and> serial = None then None
               else Some ((if tv_checkSerial opts \<and> serial \<noteq> Some s then [state_error cs (Some leaf) SerialMismatch] else []) @
                          (if tv_checkSignature opts \<and> alg \<noteq> ct_SigAlg leaf then [state_error cs (Some leaf) SignatureMismatch] else []) @
                          (if tv_checkCipherSuite opts \<and> suite \<noteq> cn_CipherSuite (ts_state cs)
                           then [state_error cs (Some leaf) SuiteMismatch] else []))))"

fun compare_all :: "options \<Rightarrow> int option \<Rightarrow> nat \<Rightarrow> 16 word \<Rightarrow> tlsState list \<Rightarrow> ErrValidator list option" where
  "compare_all opts serial alg suite [] = Some []"
| "compare_all opts serial alg suite (cs # css) =
     (case compare_state opts serial alg suite cs of
        None \<Rightarrow> None
      | Some es \<Rightarrow> map_option ((@) es) (compare_all opts serial alg suite css))"

definition verifyAcrossHosts :: "Validator \<Rightarrow> tlsState list \<Rightarrow> ErrValidator list option" where
  "verifyAcrossHosts v states =
     (case states of
        [] \<Rightarrow> Some []
      | s0 # rest \<Rightarrow>
          (case cn_PeerCertificates (ts_state s0) of
             [] \<Rightarrow> Some []
           | leaf # _ \<Rightarrow>
               compare_all (va_opts v) (ct_Serial leaf) (ct_SigAlg leaf) (cn_CipherSuite (ts_state s0)) rest))"

fun zero_serial_loop :: "tlsState \<Rightarrow> certificate list \<Rightarrow> ErrValidator option" where
  "zero_serial_loop cs [] = None"
| "zero_serial_loop cs (cert # certs) =
     (if ct_Serial cert = None \<or> ct_Serial cert = Some 0 then Some (state_error cs (Some cert) ZeroSerial)
      else zero_serial_loop cs certs)"

definition ensureNonZeroSerialNumbers :: "Validator \<Rightarrow> tlsState \<Rightarrow> ErrValidator option" where
  "ensureNonZeroSerialNumbers v cs =
     (if \<not> tv_checkZeroSerialNumbers (va_opts v) then None
      else zero_serial_loop cs (cn_PeerCertificates (ts_state cs)))"

definition validateConnectionState :: "int \<Rightarrow> Validator \<Rightarrow> tlsState \<Rightarrow> ErrValidator option" where
  "validateConnectionState now v cs =
     (let opts = va_opts v; state = ts_state cs in
      case cn_PeerCertificates state of
        [] \<Rightarrow> Some \<lparr>er_Host = [], er_Addr = [], er_Port = [], er_Certificate = None, er_Err = Some NoPeerCertificates\<rparr>
      | leaf # _ \<Rightarrow>
          if tv_issuerREs opts \<noteq> [] \<and> \<not> list_ex (\<lambda>re. re (ct_Issuer leaf)) (tv_issuerREs opts)
          then Some (state_error cs (Some leaf) IssuerMismatch)
          else if tv_validFor opts > 0 \<and> ct_NotAfter leaf - now < tv_validFor opts
          then Some (state_error cs (Some leaf) ValidityTooShort)
          else if tv_allowedSignatureAlgorithms opts \<noteq> [] \<and> ct_SigAlg leaf \<notin> set (tv_allowedSignatureAlgorithms opts)
          then Some (state_error cs (Some leaf) AlgorithmNotAllowed)
          else if tv_deniedSignatureAlgorithms opts \<noteq> [] \<and> ct_SigAlg leaf \<in> set (tv_deniedSignatureAlgorithms opts)
          then Some (state_error cs (Some leaf) AlgorithmDenied)
          else if tv_deniedCipherSuites opts \<noteq> [] \<and> cn_CipherSuite state \<in> set (tv_deniedCipherSuites opts)
          then Some (state_error cs (Some leaf) SuiteDenied)
          else None)"

text \<open>\<open>len(net.ParseIP(addr).To4()) == net.IPv4len\<close>\<close>

definition is_ipv4_text :: "string \<Rightarrow> bool" where
  "is_ipv4_text addr = (case ParseAddr addr of None \<Rightarrow> False | Some a \<Rightarrow> addr_Zone a = [] \<and> (Is4 a \<or> Is4In6 a))"

definition ignoreIPv6 :: "Validator \<Rightarrow> string list \<Rightarrow> string list" where
  "ignoreIPv6 v addrs = (if \<not> tv_ipv4Only (va_opts v) then addrs else filter is_ipv4_text addrs)"

definition expandHost :: "network \<Rightarrow> Validator \<Rightarrow> string \<Rightarrow> (setup_error, string list) result" where
  "expandHost nw v host =
     (if tv_expand (va_opts v)
      then (case nw_lookup nw (va_resolver v) host of None \<Rightarrow> Inl LookupFailed | Some as \<Rightarrow> Inr as)
      else Inr [host])"

text \<open>The root CAs \<open>Validate\<close> uses, and keeps in the validator.\<close>

definition with_root_cas ::
    "(bytes \<Rightarrow> bytes list \<Rightarrow> bytes list option) \<Rightarrow> (string \<Rightarrow> bytes option) \<Rightarrow> Validator \<Rightarrow> (setup_error, Validator) result" where
  "with_root_cas appendPEM readFile v =
     (if tv_rootCAs (va_opts v) = None \<and> length (tv_pemFile (va_opts v)) > 0
      then (case tv_certPool appendPEM readFile (tv_pemFile (va_opts v)) of
              Inl e \<Rightarrow> Inl e
            | Inr pool \<Rightarrow> Inr (v\<lparr>va_opts := (va_opts v)\<lparr>tv_rootCAs := Some pool\<rparr>\<rparr>))
      else Inr v)"

definition Validate ::
    "(bytes \<Rightarrow> bytes list \<Rightarrow> bytes list option) \<Rightarrow> (string \<Rightarrow> bytes option) \<Rightarrow> network \<Rightarrow> (tlsState list \<Rightarrow> tlsState list) \<Rightarrow>
       int \<Rightarrow> string \<Rightarrow> string \<Rightarrow> Validator \<Rightarrow> (Validator \<times> (setup_error, ErrValidator list) result) option" where
  "Validate appendPEM readFile nw arrange now host port v =
     (case with_root_cas appendPEM readFile v of
        Inl e \<Rightarrow> Some (v, Inl e)
      | Inr v \<Rightarrow>
          (case expandHost nw v host of
             Inl e \<Rightarrow> Some (v, Inl e)
           | Inr addrs \<Rightarrow>
               (case getStates nw arrange v (ignoreIPv6 v addrs) host port of
                  Inl e \<Rightarrow> Some (v, Inl e)
                | Inr states \<Rightarrow>
                    let errs = List.map_filter (validateConnectionState now v) states in
                    (case states of
                       [] \<Rightarrow> None
                     | s0 # _ \<Rightarrow>
                         let errs = errs @ (case ensureNonZeroSerialNumbers v s0 of None \<Rightarrow> [] | Some e \<Rightarrow> [e]) in
                         (case verifyAcrossHosts v states of
                            None \<Rightarrow> None
                          | Some es \<Rightarrow> Some (v, Inr (errs @ es)))))))"

subsection \<open>The policy\<close>

text \<open>What a connection has to satisfy by itself, and two connections together.\<close>

definition acceptable :: "options \<Rightarrow> int \<Rightarrow> ConnectionState \<Rightarrow> bool" where
  "acceptable opts now st \<longleftrightarrow> (\<exists>leaf rest. cn_PeerCertificates st = leaf # rest \<and>
     (tv_issuerREs opts = [] \<or> (\<exists>re \<in> set (tv_issuerREs opts). re (ct_Issuer leaf))) \<and>
     (0 < tv_validFor opts \<longrightarrow> tv_validFor opts \<le> ct_NotAfter leaf - now) \<and>
     (tv_allowedSignatureAlgorithms opts = [] \<or> ct_SigAlg leaf \<in> set (tv_allowedSignatureAlgorithms opts)) \<and>
     ct_SigAlg leaf \<notin> set (tv_deniedSignatureAlgorithms opts) \<and>
     cn_CipherSuite st \<notin> set (tv_deniedCipherSuites opts))"

definition agree :: "options \<Rightarrow> ConnectionState \<Rightarrow> ConnectionState \<Rightarrow> bool" where
  "agree opts a b \<longleftrightarrow>
     (tv_checkSerial opts \<longrightarrow> ct_Serial (hd (cn_PeerCertificates a)) = ct_Serial (hd (cn_PeerCertificates b))) \<and>
     (tv_checkSignature opts \<longrightarrow> ct_SigAlg (hd (cn_PeerCertificates a)) = ct_SigAlg (hd (cn_PeerCertificates b))) \<and>
     (tv_checkCipherSuite opts \<longrightarrow> cn_CipherSuite a = cn_CipherSuite b)"

lemma agree_refl: "agree opts a a"
  by (simp add: agree_def)

lemma agree_euclid: "agree opts a b \<Longrightarrow> agree opts a c \<Longrightarrow> agree opts b c"
  by (simp add: agree_def)

definition has_serial :: "ConnectionState \<Rightarrow> bool" where
  "has_serial st \<longleftrightarrow> ct_Serial (hd (cn_PeerCertificates st)) \<noteq> None"

lemma validateConnectionState_iff:
  "validateConnectionState now v cs = None \<longleftrightarrow> acceptable (va_opts v) now (ts_state cs)"
proof (cases "cn_PeerCertificates (ts_state cs)")
  case (Cons leaf rest)
  then show ?thesis
    by (simp add: validateConnectionState_def acceptable_def list_ex_iff not_less Let_def) auto
qed (simp add: validateConnectionState_def acceptable_def)

lemma compare_state_iff:
  assumes "cn_PeerCertificates (ts_state cs) \<noteq> []" and "cn_PeerCertificates st0 = leaf0 # r0"
  shows "compare_state opts (ct_Serial leaf0) (ct_SigAlg leaf0) (cn_CipherSuite st0) cs = Some [] \<longleftrightarrow>
     has_serial (ts_state cs) \<and> agree opts st0 (ts_state cs)"
proof -
  obtain leaf r where "cn_PeerCertificates (ts_state cs) = leaf # r" using assms(1) by (cases "cn_PeerCertificates (ts_state cs)") auto
  then show ?thesis
    using assms(2) by (auto simp: compare_state_def has_serial_def agree_def split: option.splits)
qed

lemma compare_all_iff:
  assumes "cn_PeerCertificates st0 = leaf0 # r0" and "\<forall>cs \<in> set css. cn_PeerCertificates (ts_state cs) \<noteq> []"
  shows "compare_all opts (ct_Serial leaf0) (ct_SigAlg leaf0) (cn_CipherSuite st0) css = Some [] \<longleftrightarrow>
     (\<forall>cs \<in> set css. has_serial (ts_state cs) \<and> agree opts st0 (ts_state cs))"
  using assms(2)
proof (induction css)
  case (Cons cs css)
  have "compare_all opts (ct_Serial leaf0) (ct_SigAlg leaf0) (cn_CipherSuite st0) (cs # css) = Some [] \<longleftrightarrow>
      compare_state opts (ct_Serial leaf0) (ct_SigAlg leaf0) (cn_CipherSuite st0) cs = Some [] \<and>
      compare_all opts (ct_Serial leaf0) (ct_SigAlg leaf0) (cn_CipherSuite st0) css = Some []"
    by (auto split: option.splits)
  with Cons compare_state_iff [OF _ assms(1), of cs opts] show ?case by simp
qed simp

lemma map_filter_None: "List.map_filter f xs = [] \<longleftrightarrow> (\<forall>x \<in> set xs. f x = None)"
  by (induction xs) (auto simp: List.map_filter_def split: option.splits)

lemma zero_serial_loop_iff:
  "zero_serial_loop cs certs = None \<longleftrightarrow> (\<forall>c \<in> set certs. ct_Serial c \<noteq> None \<and> ct_Serial c \<noteq> Some 0)"
  by (induction certs) auto

text \<open>A validation without errors, in terms of the states in their order of completion.\<close>

definition states_ok :: "Validator \<Rightarrow> int \<Rightarrow> tlsState list \<Rightarrow> bool" where
  "states_ok v now states \<longleftrightarrow> states \<noteq> [] \<and>
     (\<forall>s \<in> set states. acceptable (va_opts v) now (ts_state s)) \<and>
     (tv_checkZeroSerialNumbers (va_opts v) \<longrightarrow>
        (\<forall>c \<in> set (cn_PeerCertificates (ts_state (hd states))). ct_Serial c \<noteq> None \<and> ct_Serial c \<noteq> Some 0)) \<and>
     (\<forall>s \<in> set (tl states). has_serial (ts_state s) \<and> agree (va_opts v) (ts_state (hd states)) (ts_state s))"

lemma Validate_states:
  assumes "with_root_cas ap rf v = Inr v'" and "expandHost nw v' host = Inr addrs"
    and "getStates nw arr v' (ignoreIPv6 v' addrs) host port = Inr states"
  shows "Validate ap rf nw arr now host port v = Some (v', Inr []) \<longleftrightarrow> states_ok v' now states"
proof (cases states)
  case Nil
  then show ?thesis using assms by (simp add: Validate_def states_ok_def Let_def)
next
  case (Cons s0 rest)
  have v: "Validate ap rf nw arr now host port v = Some (v', Inr []) \<longleftrightarrow>
      (\<forall>s \<in> set states. validateConnectionState now v' s = None) \<and> ensureNonZeroSerialNumbers v' s0 = None \<and>
      verifyAcrossHosts v' states = Some []"
    using assms Cons map_filter_None [of "validateConnectionState now v'" states]
    by (auto simp: Validate_def Let_def split: option.splits)
  show ?thesis
  proof (cases "\<forall>s \<in> set states. acceptable (va_opts v') now (ts_state s)")
    case True
    then have ne: "\<forall>s \<in> set states. cn_PeerCertificates (ts_state s) \<noteq> []" by (auto simp: acceptable_def)
    then obtain leaf r where l: "cn_PeerCertificates (ts_state s0) = leaf # r"
      using Cons by (cases "cn_PeerCertificates (ts_state s0)") auto
    have "verifyAcrossHosts v' states = Some [] \<longleftrightarrow>
        (\<forall>s \<in> set rest. has_serial (ts_state s) \<and> agree (va_opts v') (ts_state s0) (ts_state s))"
      using compare_all_iff [OF l, of rest "va_opts v'"] ne Cons l by (simp add: verifyAcrossHosts_def)
    with v True show ?thesis
      by (auto simp: states_ok_def Cons validateConnectionState_iff ensureNonZeroSerialNumbers_def zero_serial_loop_iff)
  next
    case False
    then show ?thesis using v by (auto simp: states_ok_def validateConnectionState_iff)
  qed
qed

lemma getStates_ok:
  assumes "getStates nw arr v addrs host port = Inr states"
    and perm: "\<And>xs. mset (arr xs) = mset xs"
  shows "\<forall>a \<in> set addrs. \<exists>s \<in> set states. ts_addr s = a \<and>
           nw_dial nw (va_resolver v) (client_config_of v host) (JoinHostPort a port) = Some (ts_state s)"
    and "length states = length addrs"
proof -
  obtain sts where m: "map_result (\<lambda>addr. case getTLSState nw v (client_config_of v host) addr port of
               Inl e \<Rightarrow> Inl e
             | Inr s \<Rightarrow> Inr \<lparr>ts_host = host, ts_addr = addr, ts_port = port, ts_state = s\<rparr>) addrs = Inr sts"
      and st: "states = arr sts"
    using assms(1) by (auto simp: getStates_def split: sum.splits)
  have set_: "set states = set sts" "length states = length sts"
    using perm [of sts] st by (metis set_mset_mset, metis size_mset)
  then show "length states = length addrs" using map_result_length [OF m] by simp
  show "\<forall>a \<in> set addrs. \<exists>s \<in> set states. ts_addr s = a \<and>
           nw_dial nw (va_resolver v) (client_config_of v host) (JoinHostPort a port) = Some (ts_state s)"
  proof
    fix a assume "a \<in> set addrs"
    then obtain i where i: "i < length addrs" "addrs ! i = a" by (auto simp: in_set_conv_nth)
    with m have "(case getTLSState nw v (client_config_of v host) a port of
               Inl e \<Rightarrow> Inl e
             | Inr s \<Rightarrow> Inr \<lparr>ts_host = host, ts_addr = a, ts_port = port, ts_state = s\<rparr>) = Inr (sts ! i)" "i < length sts"
      by (auto simp: map_result_Inr_iff list_all2_conv_all_nth)
    then obtain x where "nw_dial nw (va_resolver v) (client_config_of v host) (JoinHostPort a port) = Some x"
        "sts ! i = \<lparr>ts_host = host, ts_addr = a, ts_port = port, ts_state = x\<rparr>" "sts ! i \<in> set sts"
      by (auto simp: getTLSState_def split: option.splits)
    then show "\<exists>s \<in> set states. ts_addr s = a \<and>
           nw_dial nw (va_resolver v) (client_config_of v host) (JoinHostPort a port) = Some (ts_state s)"
      using set_(1) by (intro bexI [of _ "sts ! i"]) auto
  qed
qed

text \<open>States that are all right, seen from the addresses: any two are acceptable and agree.\<close>

lemma states_ok_addresses:
  assumes st: "getStates nw arr v addrs host port = Inr states" and ok: "states_ok v now states"
    and perm: "\<And>xs. mset (arr xs) = mset xs"
  shows "addrs \<noteq> []"
    and "a \<in> set addrs \<Longrightarrow> b \<in> set addrs \<Longrightarrow> \<exists>sa sb.
       nw_dial nw (va_resolver v) (client_config_of v host) (JoinHostPort a port) = Some sa \<and>
       nw_dial nw (va_resolver v) (client_config_of v host) (JoinHostPort b port) = Some sb \<and>
       acceptable (va_opts v) now sa \<and> agree (va_opts v) sa sb"
proof -
  note g = getStates_ok [OF st perm]
  have "agree (va_opts v) (ts_state (hd states)) (ts_state s)" if "s \<in> set states" for s
    using that ok by (cases states) (auto simp: states_ok_def agree_refl)
  then have ag: "agree (va_opts v) (ts_state s) (ts_state t)" if "s \<in> set states" "t \<in> set states" for s t
    using that agree_euclid by blast
  show "addrs \<noteq> []" using g(2) ok by (auto simp: states_ok_def)
  assume "a \<in> set addrs" "b \<in> set addrs"
  then obtain s t where "s \<in> set states" "t \<in> set states"
      "nw_dial nw (va_resolver v) (client_config_of v host) (JoinHostPort a port) = Some (ts_state s)"
      "nw_dial nw (va_resolver v) (client_config_of v host) (JoinHostPort b port) = Some (ts_state t)"
    using g(1) by blast
  moreover have "acceptable (va_opts v) now (ts_state s)" using ok \<open>s \<in> set states\<close> by (simp add: states_ok_def)
  ultimately show "\<exists>sa sb. nw_dial nw (va_resolver v) (client_config_of v host) (JoinHostPort a port) = Some sa \<and>
       nw_dial nw (va_resolver v) (client_config_of v host) (JoinHostPort b port) = Some sb \<and>
       acceptable (va_opts v) now sa \<and> agree (va_opts v) sa sb"
    using ag by metis
qed

text \<open>Conversely, every state is that of an address, and if every address can be reached there are states.\<close>

lemma getStates_from:
  assumes "getStates nw arr v addrs host port = Inr states" and perm: "\<And>xs. mset (arr xs) = mset xs" and "s \<in> set states"
  shows "\<exists>a \<in> set addrs. nw_dial nw (va_resolver v) (client_config_of v host) (JoinHostPort a port) = Some (ts_state s)"
proof -
  let ?f = "\<lambda>addr. case getTLSState nw v (client_config_of v host) addr port of
      Inl e \<Rightarrow> Inl e | Inr s \<Rightarrow> Inr \<lparr>ts_host = host, ts_addr = addr, ts_port = port, ts_state = s\<rparr>"
  obtain sts where m: "map_result ?f addrs = Inr sts" and st: "states = arr sts"
    using assms(1) by (auto simp: getStates_def split: sum.splits)
  have "s \<in> set sts" using assms(3) st perm [of sts] by (metis set_mset_mset)
  then obtain a where "a \<in> set addrs" "?f a = Inr s"
    using map_result_source [OF m] by blast
  then show ?thesis by (auto simp: getTLSState_def split: option.splits)
qed

lemma getStates_total:
  assumes "\<forall>a \<in> set addrs. nw_dial nw (va_resolver v) (client_config_of v host) (JoinHostPort a port) \<noteq> None"
  shows "\<exists>states. getStates nw arr v addrs host port = Inr states"
proof -
  let ?f = "\<lambda>addr. case getTLSState nw v (client_config_of v host) addr port of
      Inl e \<Rightarrow> Inl e | Inr s \<Rightarrow> Inr \<lparr>ts_host = host, ts_addr = addr, ts_port = port, ts_state = s\<rparr>"
  have "\<forall>a \<in> set addrs. is_ok (?f a)" using assms by (auto simp: getTLSState_def is_ok_def split: option.splits)
  then have "is_ok (map_result ?f addrs)" by (simp add: map_result_is_ok)
  then show ?thesis by (auto simp: getStates_def is_ok_def split: sum.splits)
qed

subsection \<open>Properties\<close>

definition serials_ok :: "ConnectionState \<Rightarrow> bool" where
  "serials_ok st \<longleftrightarrow> (\<forall>c \<in> set (cn_PeerCertificates st). ct_Serial c \<noteq> None \<and> ct_Serial c \<noteq> Some 0)"

definition addresses_ok :: "network \<Rightarrow> Validator \<Rightarrow> int \<Rightarrow> string \<Rightarrow> string \<Rightarrow> string list \<Rightarrow> bool" where
  "addresses_ok nw v now host port addrs \<longleftrightarrow> addrs \<noteq> [] \<and>
    (\<forall>a \<in> set addrs. \<forall>b \<in> set addrs. \<exists>sa sb.
       nw_dial nw (va_resolver v) (client_config_of v host) (JoinHostPort a port) = Some sa \<and>
       nw_dial nw (va_resolver v) (client_config_of v host) (JoinHostPort b port) = Some sb \<and>
       acceptable (va_opts v) now sa \<and> agree (va_opts v) sa sb)"

lemma serials_ok_has_serial: "serials_ok st \<Longrightarrow> acceptable opts now st \<Longrightarrow> has_serial st"
  by (auto simp: serials_ok_def acceptable_def has_serial_def)


text \<open>A host with two addresses that serve different serial numbers, the second of them zero.\<close>

definition demo_leaf :: "int \<Rightarrow> certificate" where
  "demo_leaf n = \<lparr>ct_IsCA = False, ct_Raw = [], ct_DNSNames = [], ct_Issuer = [], ct_Serial = Some n, ct_NotBefore = 0,
     ct_NotAfter = 100, ct_PublicKey = [], ct_SigAlg = 4\<rparr>"

definition demo_network :: "string list \<Rightarrow> network" where
  "demo_network as = \<lparr>nw_lookup = (\<lambda>_ _. Some as),
     nw_dial = (\<lambda>_ _ a. Some \<lparr>cn_PeerCertificates = [demo_leaf (if a = ''10.0.0.2:443'' then 0 else 7)], cn_CipherSuite = 0x1301\<rparr>)\<rparr>"

definition demo_validator :: "Option list \<Rightarrow> Validator" where
  "demo_validator opts = NewValidator (\<lambda>a p. a) (WithExpandDNSNames True # opts)"

lemma demo_setup:
  "with_root_cas ap rf (demo_validator []) = Inr (demo_validator [])"
  "expandHost (demo_network as) (demo_validator []) h = Inr as"
  "ignoreIPv6 (demo_validator []) as = as"
  by (simp_all add: with_root_cas_def demo_validator_def NewValidator_def Let_def option_defs default_options_def
      expandHost_def demo_network_def ignoreIPv6_def)

definition demo_state :: "string \<Rightarrow> int \<Rightarrow> tlsState" where
  "demo_state a n = \<lparr>ts_host = ''h'', ts_addr = a, ts_port = ''443'',
     ts_state = \<lparr>cn_PeerCertificates = [demo_leaf n], cn_CipherSuite = 0x1301\<rparr>\<rparr>"

lemma demo_states:
  "getStates (demo_network as) (\<lambda>xs. xs) (demo_validator []) [''10.0.0.1''] ''h'' ''443'' = Inr [demo_state ''10.0.0.1'' 7]"
  "getStates (demo_network as) (\<lambda>xs. xs) (demo_validator []) [''10.0.0.1'', ''10.0.0.2''] ''h'' ''443'' =
     Inr [demo_state ''10.0.0.1'' 7, demo_state ''10.0.0.2'' 0]"
  by (simp_all add: getStates_def getTLSState_def demo_network_def demo_state_def JoinHostPort_def)

lemma demo_acceptable: "acceptable (va_opts (demo_validator [])) 0 (ts_state (demo_state a n))"
  by (simp add: acceptable_def demo_state_def demo_validator_def NewValidator_def Let_def option_defs default_options_def)


text \<open>
  The validator panics when no address is left, for instance when it is restricted to IPv4 and the host has IPv6
  addresses only: it looks at the first connection without checking that there is one.
\<close>

theorem Validate_no_addresses_panics:
  assumes "with_root_cas ap rf v = Inr v'" and "expandHost nw v' host = Inr addrs"
    and "ignoreIPv6 v' addrs = []" and "\<forall>xs. mset (arr xs) = mset xs"
  shows "Validate ap rf nw arr now host port v = None"
proof -
  have "arr [] = []" using assms(4) [rule_format, of "[]"] by simp
  then show ?thesis using assms by (simp add: Validate_def getStates_def)
qed

theorem Validate_no_addresses_panics_witness:
  "Validate (\<lambda>_ _. None) (\<lambda>_. None) (demo_network []) (\<lambda>xs. xs) 0 ''h'' ''443'' (demo_validator []) = None"
  using Validate_no_addresses_panics [OF demo_setup(1) demo_setup(2) demo_setup(3), of "\<lambda>xs. xs"] by simp

text \<open>
  The zero serial number check covers one connection only: with it enabled, a host whose second address
  serves a certificate with serial number zero validates without error.
\<close>

theorem zero_serial_on_second_address:
  "Validate (\<lambda>_ _. None) (\<lambda>_. None) (demo_network [''10.0.0.1'', ''10.0.0.2'']) (\<lambda>xs. xs) 0 ''h'' ''443'' (demo_validator []) =
     Some (demo_validator [], Inr []) \<and>
   tv_checkZeroSerialNumbers (va_opts (demo_validator [])) \<and>
   nw_dial (demo_network [''10.0.0.1'', ''10.0.0.2'']) None (client_config_of (demo_validator []) ''h'')
     (JoinHostPort ''10.0.0.2'' ''443'') = Some \<lparr>cn_PeerCertificates = [demo_leaf 0], cn_CipherSuite = 0x1301\<rparr>"
proof -
  have "states_ok (demo_validator []) 0 [demo_state ''10.0.0.1'' 7, demo_state ''10.0.0.2'' 0]"
    using demo_acceptable
    by (simp add: states_ok_def demo_state_def demo_leaf_def has_serial_def agree_def demo_validator_def NewValidator_def
        Let_def option_defs default_options_def)
  then have "Validate (\<lambda>_ _. None) (\<lambda>_. None) (demo_network [''10.0.0.1'', ''10.0.0.2'']) (\<lambda>xs. xs) 0 ''h'' ''443'' (demo_validator []) =
      Some (demo_validator [], Inr [])"
    using Validate_states [OF demo_setup(1) demo_setup(2)] demo_setup(3) demo_states(2) by metis
  then show ?thesis
    by (simp add: demo_validator_def NewValidator_def Let_def option_defs default_options_def demo_network_def JoinHostPort_def)
qed

end
