(* ===== verification/DevTest.thy ===== *)
theory DevTest
  imports Certs GoNet GoPath
begin

text \<open>
  \<^verbatim>\<open>devtest/tls.go\<close>: self-signed certificates, certificate pools and certificate chains for tests. Key generation,
  randomness, \<open>x509.CreateCertificate\<close>, PEM encoding, \<^verbatim>\<open>mkcert\<close> and downloads are arguments; files are those of
  \<open>GoPath\<close>.
\<close>

subsection \<open>mkcert\<close>

datatype mkcert_error = MissingFiles | NoHosts | MkcertFailed

definition NewSelfSignedCertUsingMkcert ::
    "(string \<Rightarrow> string list \<Rightarrow> bool) \<Rightarrow> string \<Rightarrow> string \<Rightarrow> string list \<Rightarrow> (mkcert_error, unit) result" where
  "NewSelfSignedCertUsingMkcert run certFile keyFile hosts =
     (if length certFile = 0 \<or> length keyFile = 0 then Inl MissingFiles
      else if length hosts = 0 then Inl NoHosts
      else if run ''mkcert'' ([''--cert-file'', certFile, ''--key-file'', keyFile] @ hosts) then Inr () else Inl MkcertFailed)"

subsection \<open>Self-signed certificates\<close>

datatype 'k private_key = RSAPrivateKey 'k | ECDSAPrivateKey 'k | Ed25519PrivateKey 'k | UnknownKey

datatype 'k public_key = RSAPublicKey 'k | ECDSAPublicKey 'k | Ed25519PublicKey 'k

fun publicKey :: "('k \<Rightarrow> 'p) \<Rightarrow> 'k private_key option \<Rightarrow> 'p public_key option" where
  "publicKey pub (Some (RSAPrivateKey k)) = Some (RSAPublicKey (pub k))"
| "publicKey pub (Some (ECDSAPrivateKey k)) = Some (ECDSAPublicKey (pub k))"
| "publicKey pub (Some (Ed25519PrivateKey k)) = Some (Ed25519PublicKey (pub k))"
| "publicKey pub (Some UnknownKey) = None"
| "publicKey pub None = None"

record 'k selfSignedCertOptions =
  so_ips :: "string list"
  so_dns :: "string list"
  so_key :: "'k private_key option"
  so_orgs :: "string list"

type_synonym 'k SelfSignedOption = "'k selfSignedCertOptions \<Rightarrow> 'k selfSignedCertOptions"

definition CertDNSHosts :: "string list \<Rightarrow> 'k SelfSignedOption" where
  "CertDNSHosts hosts ssc = ssc\<lparr>so_dns := hosts\<rparr>"

definition CertIPAddresses :: "string list \<Rightarrow> 'k SelfSignedOption" where
  "CertIPAddresses ips ssc = ssc\<lparr>so_ips := ips\<rparr>"

text \<open>The addresses of the network interfaces; \<open>None\<close> is an interface whose addresses cannot be read.\<close>

datatype net_addr = IPNet string string | IPAddr string | OtherAddr string

definition net_addr_String :: "net_addr \<Rightarrow> string" where
  "net_addr_String a = (case a of IPNet ip ones \<Rightarrow> ip @ ''/'' @ ones | IPAddr ip \<Rightarrow> ip | OtherAddr s \<Rightarrow> s)"

definition allIPS :: "net_addr list option list \<Rightarrow> string list" where
  "allIPS ifaces =
     concat (map (\<lambda>addrs. case addrs of
               None \<Rightarrow> []
             | Some as \<Rightarrow> concat (map (\<lambda>a. case a of OtherAddr _ \<Rightarrow> [] | _ \<Rightarrow> [net_addr_String a]) as)) ifaces)"

definition CertAllIPAddresses :: "net_addr list option list \<Rightarrow> 'k SelfSignedOption" where
  "CertAllIPAddresses ifaces ssc = ssc\<lparr>so_ips := allIPS ifaces\<rparr>"

definition CertPrivateKey :: "'k private_key option \<Rightarrow> 'k SelfSignedOption" where
  "CertPrivateKey key ssc = ssc\<lparr>so_key := key\<rparr>"

definition CertOrganizations :: "string list \<Rightarrow> 'k SelfSignedOption" where
  "CertOrganizations orgs ssc = ssc\<lparr>so_orgs := orgs\<rparr>"

text \<open>\<open>genRSA\<close> is \<open>rsa.GenerateKey\<close>; if it fails the options are left as they are, without an error.\<close>

definition setDefaults :: "'k option \<Rightarrow> 'k selfSignedCertOptions \<Rightarrow> 'k selfSignedCertOptions" where
  "setDefaults genRSA opts =
     (if so_key opts = None \<and> genRSA = None then opts
      else
        let opts = (if so_key opts = None then opts\<lparr>so_key := map_option RSAPrivateKey genRSA\<rparr> else opts);
            opts = (if length (so_dns opts) = 0 then opts\<lparr>so_dns := [''localhost'']\<rparr> else opts);
            opts = (if length (so_ips opts) = 0 then opts\<lparr>so_ips := [''127.0.0.1'']\<rparr> else opts)
        in if length (so_orgs opts) = 0 then opts\<lparr>so_orgs := [''cloudeng llc'']\<rparr> else opts)"

datatype key_usage = KeyUsageDigitalSignature | KeyUsageKeyEncipherment | KeyUsageCertSign

record template =
  tm_SerialNumber :: int
  tm_Organization :: "string list"
  tm_NotBefore :: int
  tm_NotAfter :: int
  tm_KeyUsage :: "key_usage list"
  tm_IsCA :: bool
  tm_DNSNames :: "string list"
  tm_IPAddresses :: "Addr list"

definition net_ParseIP :: "string \<Rightarrow> Addr option" where
  "net_ParseIP s = (case ParseAddr s of None \<Rightarrow> None | Some a \<Rightarrow> if addr_Zone a = [] then Some a else None)"

datatype self_signed_error = NoSerial | BadIPAddress string | CreateFailed | CertFileFailed | KeyFileFailed | MarshalFailed

record ('k, 'p) cert_maker =
  cm_now :: int
  cm_genRSA :: "'k option"
  cm_serial :: "int option" \<comment> \<open>\<open>rand.Int\<close> below 2^128\<close>
  cm_public :: "'k \<Rightarrow> 'p"
  cm_create :: "template \<Rightarrow> 'p public_key option \<Rightarrow> 'k private_key option \<Rightarrow> bytes option"
  cm_marshalPKCS8 :: "'k private_key option \<Rightarrow> bytes option"
  cm_pemEncode :: "pem_block \<Rightarrow> bytes"

definition is_rsa :: "'k private_key option \<Rightarrow> bool" where
  "is_rsa k = (case k of Some (RSAPrivateKey _) \<Rightarrow> True | _ \<Rightarrow> False)"

definition cert_template :: "int \<Rightarrow> int \<Rightarrow> 'k selfSignedCertOptions \<Rightarrow> Addr list \<Rightarrow> template" where
  "cert_template now serial opts ips =
     \<lparr>tm_SerialNumber = serial, tm_Organization = so_orgs opts, tm_NotBefore = now,
      tm_NotAfter = now + 3600 * 1000000000 * 24 * 5,
      tm_KeyUsage = KeyUsageDigitalSignature # (if is_rsa (so_key opts) then [KeyUsageKeyEncipherment] else []) @ [KeyUsageCertSign],
      tm_IsCA = True, tm_DNSNames = so_dns opts, tm_IPAddresses = ips\<rparr>"

text \<open>The key file is opened, and emptied, before the key is marshalled.\<close>

definition NewSelfSignedCert ::
    "('k, 'p) cert_maker \<Rightarrow> string \<Rightarrow> string \<Rightarrow> 'k SelfSignedOption list \<Rightarrow> fs_state \<Rightarrow> fs_state \<times> (self_signed_error, unit) result" where
  "NewSelfSignedCert cm certFile keyFile options s =
     (let opts = setDefaults (cm_genRSA cm) (apply_options options \<lparr>so_ips = [], so_dns = [], so_key = None, so_orgs = []\<rparr>)
      in case cm_serial cm of
           None \<Rightarrow> (s, Inl NoSerial)
         | Some serial \<Rightarrow>
             (case map_result (\<lambda>ip. case net_ParseIP ip of None \<Rightarrow> Inl (BadIPAddress ip) | Some a \<Rightarrow> Inr a) (so_ips opts) of
                Inl e \<Rightarrow> (s, Inl e)
              | Inr ips \<Rightarrow>
                  (case cm_create cm (cert_template (cm_now cm) serial opts ips) (publicKey (cm_public cm) (so_key opts)) (so_key opts) of
                     None \<Rightarrow> (s, Inl CreateFailed)
                   | Some der \<Rightarrow>
                       (case os_WriteFile certFile (cm_pemEncode cm \<lparr>pb_Type = ''CERTIFICATE'', pb_Bytes = der\<rparr>) s of
                          (s, Inl _) \<Rightarrow> (s, Inl CertFileFailed)
                        | (s, Inr _) \<Rightarrow>
                            (case os_WriteFile keyFile [] s of
                               (s, Inl _) \<Rightarrow> (s, Inl KeyFileFailed)
                             | (s, Inr _) \<Rightarrow>
                                 (case cm_marshalPKCS8 cm (so_key opts) of
                                    None \<Rightarrow> (s, Inl MarshalFailed)
                                  | Some priv \<Rightarrow>
                                      (case os_WriteFile keyFile (cm_pemEncode cm \<lparr>pb_Type = ''PRIVATE KEY'', pb_Bytes = priv\<rparr>) s of
                                         (s, Inl _) \<Rightarrow> (s, Inl KeyFileFailed)
                                       | (s, Inr _) \<Rightarrow> (s, Inr ()))))))))"

subsection \<open>Certificate pools\<close>

datatype pool_error = SystemPoolFailed | PemUnreadable string | NoCertsAppended

fun append_pem_files ::
    "(bytes \<Rightarrow> bytes list \<Rightarrow> bytes list option) \<Rightarrow> (string \<Rightarrow> bytes option) \<Rightarrow> string list \<Rightarrow> bytes list \<Rightarrow> (pool_error, bytes list) result" where
  "append_pem_files appendPEM readFile [] rootCAs = Inr rootCAs"
| "append_pem_files appendPEM readFile (pemFile # pemFiles) rootCAs =
     (if length pemFile = 0 then append_pem_files appendPEM readFile pemFiles rootCAs
      else
        (case readFile pemFile of
           None \<Rightarrow> Inl (PemUnreadable pemFile)
         | Some certs \<Rightarrow>
             (case appendPEM certs rootCAs of
                None \<Rightarrow> Inl NoCertsAppended
              | Some rootCAs \<Rightarrow> append_pem_files appendPEM readFile pemFiles rootCAs)))"

text \<open>\<open>sysPool\<close> is \<open>x509.SystemCertPool\<close>.\<close>

definition certPoolForTesting ::
    "(pool_error, bytes list) result \<Rightarrow> (bytes \<Rightarrow> bytes list \<Rightarrow> bytes list option) \<Rightarrow> (string \<Rightarrow> bytes option) \<Rightarrow>
       bytes list option \<Rightarrow> string list \<Rightarrow> (pool_error, bytes list) result" where
  "certPoolForTesting sysPool appendPEM readFile pool pemFiles =
     (if length pemFiles = 0 then (case pool of None \<Rightarrow> sysPool | Some p \<Rightarrow> Inr p)
      else append_pem_files appendPEM readFile pemFiles (case pool of None \<Rightarrow> [] | Some p \<Rightarrow> p))"

definition CertPoolForTesting ::
    "(pool_error, bytes list) result \<Rightarrow> (bytes \<Rightarrow> bytes list \<Rightarrow> bytes list option) \<Rightarrow> (string \<Rightarrow> bytes option) \<Rightarrow>
       string list \<Rightarrow> (pool_error, bytes list) result" where
  "CertPoolForTesting sysPool appendPEM readFile pemFiles = certPoolForTesting sysPool appendPEM readFile None pemFiles"

definition CertPoolWithSystemRootsForTesting ::
    "(pool_error, bytes list) result \<Rightarrow> (bytes \<Rightarrow> bytes list \<Rightarrow> bytes list option) \<Rightarrow> (string \<Rightarrow> bytes option) \<Rightarrow>
       string list \<Rightarrow> (pool_error, bytes list) result" where
  "CertPoolWithSystemRootsForTesting sysPool appendPEM readFile pemFiles =
     (case sysPool of
        Inl _ \<Rightarrow> Inl SystemPoolFailed
      | Inr sys \<Rightarrow> certPoolForTesting sysPool appendPEM readFile (Some sys) pemFiles)"

subsection \<open>Certificate chains\<close>

datatype download_error = DownloadFailed string | NoPEMBlock string | BadCertificate string

definition download_one ::
    "(string \<Rightarrow> bytes option) \<Rightarrow> pem_decode \<Rightarrow> (bytes \<Rightarrow> certificate option) \<Rightarrow> string \<Rightarrow> (download_error, certificate) result" where
  "download_one fetch dec parse url =
     (case fetch url of
        None \<Rightarrow> Inl (DownloadFailed url)
      | Some data \<Rightarrow>
          (case dec data of
             None \<Rightarrow> Inl (NoPEMBlock url)
           | Some (block, _) \<Rightarrow>
               (case parse (pb_Bytes block) of None \<Rightarrow> Inl (BadCertificate url) | Some cert \<Rightarrow> Inr cert)))"

definition DownloadCertChain ::
    "(string \<Rightarrow> bytes option) \<Rightarrow> pem_decode \<Rightarrow> (bytes \<Rightarrow> certificate option) \<Rightarrow> string list \<Rightarrow> (download_error, certificate list) result" where
  "DownloadCertChain fetch dec parse urls = map_result (download_one fetch dec parse) urls"

definition WriteCertChainToPEMFile ::
    "(pem_block \<Rightarrow> bytes) \<Rightarrow> certificate option list \<Rightarrow> string \<Rightarrow> fs_state \<Rightarrow> fs_state \<times> (io_error, unit) result" where
  "WriteCertChainToPEMFile enc certs pemFile s =
     os_WriteFile pemFile
       (concat (map (\<lambda>c. case c of None \<Rightarrow> [] | Some cert \<Rightarrow> enc \<lparr>pb_Type = ''CERTIFICATE'', pb_Bytes = ct_Raw cert\<rparr>) certs)) s"

subsection \<open>Facts\<close>

text \<open>What PEM promises: a block is read back from its encoding, whatever follows.\<close>

definition pem_codec :: "(pem_block \<Rightarrow> bytes) \<Rightarrow> pem_decode \<Rightarrow> bool" where
  "pem_codec enc dec \<longleftrightarrow> pem_laws dec \<and> dec [] = None \<and> (\<forall>b rest. dec (enc b @ rest) = Some (b, rest))"

definition cert_block :: "certificate \<Rightarrow> pem_block" where
  "cert_block c = \<lparr>pb_Type = ''CERTIFICATE'', pb_Bytes = ct_Raw c\<rparr>"

lemma pem_loop_certs:
  assumes "pem_codec enc dec"
  shows "length cs \<le> n \<Longrightarrow> pem_loop dec n (concat (map (enc \<circ> cert_block) cs)) p =
    Some (p\<lparr>pp_certs := pp_certs p @ map cert_block cs\<rparr>)"
proof (induction cs arbitrary: n p)
  case Nil
  have "dec [] = None" using assms by (simp add: pem_codec_def)
  then show ?case by (cases n) simp_all
next
  case (Cons c cs)
  then obtain m where "n = Suc m" "length cs \<le> m" by (cases n) auto
  moreover have "dec (enc (cert_block c) @ rest) = Some (cert_block c, rest)" for rest
    using assms by (simp add: pem_codec_def)
  ultimately show ?case using Cons.IH [of m "classify_block (cert_block c) p"]
    by (simp add: classify_block_def cert_block_def)
qed

lemma enc_nonempty: "pem_codec enc dec \<Longrightarrow> enc b \<noteq> []"
proof
  assume c: "pem_codec enc dec" and "enc b = []"
  then have "dec [] = Some (b, [])" unfolding pem_codec_def by (metis append_Nil2)
  with c show False by (simp add: pem_codec_def)
qed

lemma length_concat_enc:
  assumes "pem_codec enc dec"
  shows "length cs \<le> length (concat (map (enc \<circ> cert_block) cs))"
proof (induction cs)
  case (Cons c cs)
  with enc_nonempty [OF assms, of "cert_block c"] show ?case by (cases "enc (cert_block c)") auto
qed simp

lemma chain_data:
  "concat (map (\<lambda>c. case c of None \<Rightarrow> [] | Some cert \<Rightarrow> enc \<lparr>pb_Type = ''CERTIFICATE'', pb_Bytes = ct_Raw cert\<rparr>) certs) =
     concat (map (enc \<circ> cert_block) (List.map_filter id certs))"
  by (induction certs) (auto simp: List.map_filter_simps cert_block_def split: option.splits)

text \<open>
  C33. A certificate chain written to a PEM file is read back by \<open>ReadAndParseCertsPEM\<close>: the same certificates in
  the same order, the nil ones dropped, if PEM blocks and certificates are read back from their encodings; an empty
  chain is an error when it is read. No other file changes.
\<close>

theorem WriteCertChain_ReadAndParse:
  assumes "pem_codec enc dec" and "\<forall>c\<in>set (List.map_filter id certs). parse (ct_Raw c) = Some c" and "\<not> fs_denied s pemFile"
  shows "\<exists>s'. WriteCertChainToPEMFile enc certs pemFile s = (s', Inr ()) \<and>
    ReadAndParseCertsPEM dec parse (fs_files s') pemFile =
      Some (if List.map_filter id certs = [] then Inl NoCertsFound else Inr (List.map_filter id certs)) \<and>
    (\<forall>f. f \<noteq> pemFile \<longrightarrow> fs_files s' f = fs_files s f)"
proof -
  let ?cs = "List.map_filter id certs"
  let ?data = "concat (map (enc \<circ> cert_block) ?cs)"
  have w: "WriteCertChainToPEMFile enc certs pemFile s = (s\<lparr>fs_files := (fs_files s)(pemFile \<mapsto> ?data)\<rparr>, Inr ())"
    unfolding WriteCertChainToPEMFile_def chain_data using assms(3) by (simp add: os_WriteFile_def)
  have "ParsePEM dec ?data = Some \<lparr>pp_privateKeys = [], pp_publicKeys = [], pp_certs = map cert_block ?cs\<rparr>"
    unfolding ParsePEM_def using pem_loop_certs [OF assms(1) length_concat_enc [OF assms(1)]] by simp
  moreover have "map_result (\<lambda>b. case parse (pb_Bytes b) of None \<Rightarrow> Inl ParseCertFailed | Some c \<Rightarrow> Inr c) (map cert_block ?cs) = Inr ?cs"
    using assms(2) by (simp add: map_result_Inr_iff list_all2_conv_all_nth cert_block_def)
  ultimately have "ParseCertsPEM dec parse ?data = Some (if ?cs = [] then Inl NoCertsFound else Inr ?cs)"
    by (simp add: ParseCertsPEM_def parseCertsPEM_def)
  then have "ReadAndParseCertsPEM dec parse ((fs_files s)(pemFile \<mapsto> ?data)) pemFile = Some (if ?cs = [] then Inl NoCertsFound else Inr ?cs)"
    by (simp add: ReadAndParseCertsPEM_def)
  then show ?thesis unfolding w by simp
qed

text \<open>A codec with the laws of PEM: the type and the bytes, each escaped byte by byte.\<close>

fun frame :: "bytes \<Rightarrow> bytes" where
  "frame [] = [CHR 0x00]"
| "frame (c # cs) = CHR 0x01 # c # frame cs"

fun unframe :: "bytes \<Rightarrow> (bytes \<times> bytes) option" where
  "unframe [] = None"
| "unframe [c] = (if c = CHR 0x00 then Some ([], []) else None)"
| "unframe (c # d # s) = (if c = CHR 0x00 then Some ([], d # s) else map_option (\<lambda>(x, r). (d # x, r)) (unframe s))"

definition frame_block :: "pem_block \<Rightarrow> bytes" where
  "frame_block b = frame (pb_Type b) @ frame (pb_Bytes b)"

definition unframe_block :: pem_decode where
  "unframe_block s =
     (case unframe s of
        None \<Rightarrow> None
      | Some (t, r) \<Rightarrow> (case unframe r of None \<Rightarrow> None | Some (d, r) \<Rightarrow> Some (\<lparr>pb_Type = t, pb_Bytes = d\<rparr>, r)))"

lemma unframe_frame: "unframe (frame x @ r) = Some (x, r)"
proof (induction x)
  case Nil
  then show ?case by (cases r) simp_all
qed simp

lemma unframe_shorter: "unframe s = Some (x, r) \<Longrightarrow> length r < length s"
proof (induction s arbitrary: x rule: unframe.induct)
  case (3 c d s)
  then show ?case by (cases "c = CHR 0x00") fastforce+
qed (auto split: if_splits)

lemma frame_codec: "pem_codec frame_block unframe_block"
proof -
  have "length rest < length d" if "unframe_block d = Some (b, rest)" for d b rest
  proof -
    from that obtain t r x where "unframe d = Some (t, r)" "unframe r = Some (x, rest)"
      by (auto simp: unframe_block_def split: option.splits)
    from this [THEN unframe_shorter] show ?thesis by simp
  qed
  then have "pem_laws unframe_block" by (simp add: pem_laws_def)
  moreover have "unframe_block (frame_block b @ rest) = Some (b, rest)" for b rest
    by (simp add: unframe_block_def frame_block_def unframe_frame)
  ultimately show ?thesis by (simp add: pem_codec_def unframe_block_def)
qed

definition plain_cert :: "bytes \<Rightarrow> certificate" where
  "plain_cert raw = \<lparr>ct_IsCA = False, ct_Raw = raw, ct_DNSNames = [], ct_Issuer = [], ct_Serial = Some 1, ct_NotBefore = 0,
     ct_NotAfter = 100, ct_PublicKey = [], ct_SigAlg = 4\<rparr>"

theorem WriteCertChain_ReadAndParse_witness:
  "\<exists>s'. WriteCertChainToPEMFile frame_block [Some (plain_cert ''a''), None, Some (plain_cert ''b'')] ''chain.pem''
       \<lparr>fs_files = (\<lambda>_. None), fs_denied = (\<lambda>_. False)\<rparr> = (s', Inr ()) \<and>
     ReadAndParseCertsPEM unframe_block (\<lambda>der. Some (plain_cert der)) (fs_files s') ''chain.pem'' =
       Some (Inr [plain_cert ''a'', plain_cert ''b''])"
proof -
  have "\<forall>c\<in>set (List.map_filter id [Some (plain_cert ''a''), None, Some (plain_cert ''b'')]). Some (plain_cert (ct_Raw c)) = Some c"
    by (simp add: List.map_filter_simps plain_cert_def)
  from WriteCertChain_ReadAndParse [OF frame_codec this, of "\<lparr>fs_files = (\<lambda>_. None), fs_denied = (\<lambda>_. False)\<rparr>" "''chain.pem''"]
  show ?thesis by (auto simp: List.map_filter_simps)
qed

subsection \<open>Self-signed certificates\<close>

text \<open>What a successful \<open>NewSelfSignedCert\<close> has written.\<close>

lemma NewSelfSignedCert_ok:
  assumes "NewSelfSignedCert cm certFile keyFile options s = (s', Inr ())"
    and "opts = setDefaults (cm_genRSA cm) (apply_options options \<lparr>so_ips = [], so_dns = [], so_key = None, so_orgs = []\<rparr>)"
  obtains serial ips der priv where "cm_serial cm = Some serial" and "list_all2 (\<lambda>ip a. net_ParseIP ip = Some a) (so_ips opts) ips"
    and "cm_create cm (cert_template (cm_now cm) serial opts ips) (publicKey (cm_public cm) (so_key opts)) (so_key opts) = Some der"
    and "cm_marshalPKCS8 cm (so_key opts) = Some priv"
    and "fs_files s' = (fs_files s)(certFile \<mapsto> cm_pemEncode cm \<lparr>pb_Type = ''CERTIFICATE'', pb_Bytes = der\<rparr>,
           keyFile \<mapsto> cm_pemEncode cm \<lparr>pb_Type = ''PRIVATE KEY'', pb_Bytes = priv\<rparr>)"
proof -
  let ?parse = "\<lambda>ip. case net_ParseIP ip of None \<Rightarrow> Inl (BadIPAddress ip) | Some a \<Rightarrow> Inr a"
  have "\<exists>serial ips der priv. cm_serial cm = Some serial \<and> map_result ?parse (so_ips opts) = Inr ips \<and>
      cm_create cm (cert_template (cm_now cm) serial opts ips) (publicKey (cm_public cm) (so_key opts)) (so_key opts) = Some der \<and>
      cm_marshalPKCS8 cm (so_key opts) = Some priv \<and>
      fs_files s' = (fs_files s)(certFile \<mapsto> cm_pemEncode cm \<lparr>pb_Type = ''CERTIFICATE'', pb_Bytes = der\<rparr>,
           keyFile \<mapsto> cm_pemEncode cm \<lparr>pb_Type = ''PRIVATE KEY'', pb_Bytes = priv\<rparr>)"
    using assms(1) unfolding NewSelfSignedCert_def assms(2) [symmetric] Let_def
    by (auto simp: os_WriteFile_def split: option.splits sum.splits if_splits)
  then obtain serial ips der priv where ok: "cm_serial cm = Some serial" "map_result ?parse (so_ips opts) = Inr ips"
      "cm_create cm (cert_template (cm_now cm) serial opts ips) (publicKey (cm_public cm) (so_key opts)) (so_key opts) = Some der"
      "cm_marshalPKCS8 cm (so_key opts) = Some priv"
      "fs_files s' = (fs_files s)(certFile \<mapsto> cm_pemEncode cm \<lparr>pb_Type = ''CERTIFICATE'', pb_Bytes = der\<rparr>,
           keyFile \<mapsto> cm_pemEncode cm \<lparr>pb_Type = ''PRIVATE KEY'', pb_Bytes = priv\<rparr>)" by blast
  have "?parse ip = Inr a \<longleftrightarrow> net_ParseIP ip = Some a" for ip a by (simp split: option.splits)
  then have "list_all2 (\<lambda>ip a. net_ParseIP ip = Some a) (so_ips opts) ips" using ok(2) by (simp add: map_result_Inr_iff)
  with ok show ?thesis by (blast intro: that)
qed

lemma setDefaults_complete:
  assumes "so_key opts \<noteq> None \<or> genRSA \<noteq> None"
  shows "so_key (setDefaults genRSA opts) \<noteq> None" "so_dns (setDefaults genRSA opts) \<noteq> []" "so_ips (setDefaults genRSA opts) \<noteq> []"
    "so_orgs (setDefaults genRSA opts) \<noteq> []"
  using assms by (auto simp: setDefaults_def Let_def)

text \<open>
  The addresses of interfaces are printed with their prefix length, which \<open>net.ParseIP\<close> does not accept: on a
  host with an IPv4 interface address, \<open>CertAllIPAddresses\<close> makes \<open>NewSelfSignedCert\<close> fail and write nothing.
\<close>

lemma ipv4_loop_slash: "CHR ''/'' \<in> set s \<Longrightarrow> ipv4_loop s prev val digLen octets = None"
proof (induction s arbitrary: prev val digLen octets)
  case (Cons c s)
  have no: "\<not> is_digit CHR ''/''" by (simp add: is_digit_def char_between_def)
  show ?case
  proof (cases "c = CHR ''/''")
    case True
    with no show ?thesis by simp
  next
    case False
    with Cons.prems have "\<And>prev val digLen octets. ipv4_loop s prev val digLen octets = None" by (intro Cons.IH) simp
    moreover from False Cons.prems have "s \<noteq> []" by auto
    ultimately show ?thesis by (simp add: Let_def)
  qed
qed simp

lemma net_ParseIP_slash:
  assumes "addr_kind s = Some CHR ''.''" and "CHR ''/'' \<in> set s"
  shows "net_ParseIP s = None"
  using assms by (simp add: net_ParseIP_def ParseAddr_def parseIPv4_def parseIPv4Fields_def ipv4_loop_slash)

lemma CertAllIPAddresses_fails:
  assumes "Some as \<in> set ifaces" and "IPNet ip ones \<in> set as" and "addr_kind (ip @ ''/'' @ ones) = Some CHR ''.''"
    and "cm_genRSA cm \<noteq> None" and "cm_serial cm \<noteq> None"
  shows "\<exists>bad. NewSelfSignedCert cm certFile keyFile [CertAllIPAddresses ifaces] s = (s, Inl (BadIPAddress bad))"
proof -
  let ?ips = "allIPS ifaces"
  have mem: "ip @ ''/'' @ ones \<in> set ?ips"
    using assms(1,2) by (force simp: allIPS_def net_addr_String_def)
  have "net_ParseIP (ip @ ''/'' @ ones) = None" by (rule net_ParseIP_slash [OF assms(3)]) simp
  then have "\<not> is_ok (map_result (\<lambda>ip. case net_ParseIP ip of None \<Rightarrow> Inl (BadIPAddress ip) | Some a \<Rightarrow> Inr a) ?ips)"
    unfolding map_result_is_ok using mem by fastforce
  then obtain e where e: "map_result (\<lambda>ip. case net_ParseIP ip of None \<Rightarrow> Inl (BadIPAddress ip) | Some a \<Rightarrow> Inr a) ?ips = Inl e"
    by (cases "map_result (\<lambda>ip. case net_ParseIP ip of None \<Rightarrow> Inl (BadIPAddress ip) | Some a \<Rightarrow> Inr a) ?ips") auto
  then obtain bad where "e = BadIPAddress bad" using map_result_InlD [OF e] by (auto split: option.splits)
  moreover have "so_ips (setDefaults (cm_genRSA cm) (apply_options [CertAllIPAddresses ifaces] \<lparr>so_ips = [], so_dns = [], so_key = None, so_orgs = []\<rparr>)) = ?ips"
    using mem assms(4) by (auto simp: setDefaults_def CertAllIPAddresses_def Let_def)
  ultimately show ?thesis using e assms(5) by (auto simp: NewSelfSignedCert_def Let_def)
qed

lemma loopback_kind: "addr_kind ''127.0.0.1/8'' = Some CHR ''.''"
  by code_simp

end
