(* ===== verification/TlsTest.thy ===== *)
theory TlsTest
  imports TlsValidate ServingCache DevTest
begin

text \<open>
  \<^verbatim>\<open>testwebapp/test_tls.go\<close>: TLS tests, the composition of the certificate pools of \<^verbatim>\<open>devtest\<close> and the validator of
  \<^verbatim>\<open>tlsvalidate\<close>. The arguments are those of the two; \<open>asType\<close> is \<open>errors.AsType\<close> on the errors of a validation. A
  result \<open>None\<close> is a panic. Logging is left out but for the certificate it reads.
\<close>

datatype 'tr spec_client = NilClient | DefaultClient | CustomClient "'tr http_Client"

record 'tr TLSSpec =
  tl_Host :: string
  tl_Port :: string
  tl_CustomDNSServer :: string
  tl_LogCertInfo :: bool
  tl_ExpandDNSNames :: bool
  tl_CheckSerialNumbers :: bool
  tl_ValidFor :: int
  tl_TLSMinVersion :: "16 word"
  tl_IssuerREs :: "(string \<Rightarrow> bool) list"
  tl_CustomCAPEM :: string
  tl_CustomCAPEMOnly :: bool
  tl_CipherSuites :: "(16 word) list"
  tl_NotAllowedCipherSuites :: "(16 word) list"
  tl_SignatureAlgorithms :: "nat list"
  tl_NotAllowedSignatureAlgorithms :: "nat list"
  tl_client :: "'tr spec_client"

definition tls_WithCustomCAPEMFile :: "'tr TLSSpec list \<Rightarrow> string \<Rightarrow> 'tr TLSSpec list" where
  "tls_WithCustomCAPEMFile s pemFile =
     (if length pemFile = 0 then s
      else map (\<lambda>spec. if length (tl_CustomCAPEM spec) > 0 then spec else spec\<lparr>tl_CustomCAPEM := pemFile\<rparr>) s)"

record tls_world =
  tw_sysPool :: "(pool_error, bytes list) result"
  tw_appendPEM :: "bytes \<Rightarrow> bytes list \<Rightarrow> bytes list option"
  tw_readFile :: "string \<Rightarrow> bytes option"
  tw_network :: network
  tw_arrange :: "tlsState list \<Rightarrow> tlsState list"
  tw_now :: int
  tw_ensureHostPort :: "string \<Rightarrow> string \<Rightarrow> string"

datatype tls_test_error = ClientFailed client_error | PoolFailed pool_error | SetupFailed setup_error
  | Invalid "ErrValidator list"

fun configureHTTPClients :: "tls_world \<Rightarrow> 'tr TLSSpec list \<Rightarrow> 'tr TLSSpec list \<times> (client_error, unit) result" where
  "configureHTTPClients tw [] = ([], Inr ())"
| "configureHTTPClients tw (spec # specs) =
     (if length (tl_CustomCAPEM spec) > 0
      then
        (case NewHTTPClient (tw_appendPEM tw) (tw_readFile tw) [WithCustomCAPEMFile (tl_CustomCAPEM spec)] of
           Inl e \<Rightarrow> (spec\<lparr>tl_client := DefaultClient\<rparr> # specs, Inl e)
         | Inr client \<Rightarrow>
             let (specs, r) = configureHTTPClients tw specs in (spec\<lparr>tl_client := CustomClient client\<rparr> # specs, r))
      else let (specs, r) = configureHTTPClients tw specs in (spec\<lparr>tl_client := DefaultClient\<rparr> # specs, r))"

definition TLSSpec_options :: "tls_world \<Rightarrow> 'tr TLSSpec \<Rightarrow> (pool_error, Option list) result" where
  "TLSSpec_options tw s =
     (let opts =
        [WithValidForAtLeast (tl_ValidFor s), WithIssuerRegexps (tl_IssuerREs s), WithCheckSerialNumbers (tl_CheckSerialNumbers s),
         WithExpandDNSNames (tl_ExpandDNSNames s), WithTLSMinVersion (tl_TLSMinVersion s), WithCustomDNSServer (tl_CustomDNSServer s),
         WithCiphersuites (tl_CipherSuites s), WithAllowedSignatureAlgorithms (tl_SignatureAlgorithms s),
         WithDeniedCipherSuites (tl_NotAllowedCipherSuites s),
         WithDeniedSignatureAlgorithms (tl_NotAllowedSignatureAlgorithms s)]
      in if length (tl_CustomCAPEM s) = 0 then Inr opts
         else
           (case (if tl_CustomCAPEMOnly s
                  then CertPoolForTesting (tw_sysPool tw) (tw_appendPEM tw) (tw_readFile tw) [tl_CustomCAPEM s]
                  else CertPoolWithSystemRootsForTesting (tw_sysPool tw) (tw_appendPEM tw) (tw_readFile tw) [tl_CustomCAPEM s]) of
              Inl e \<Rightarrow> Inl e
            | Inr pool \<Rightarrow> Inr (opts @ [WithRootCAs (Some pool)])))"

definition spec_port :: "'tr TLSSpec \<Rightarrow> string" where
  "spec_port spec = (if length (tl_Port spec) = 0 then ''443'' else tl_Port spec)"

definition TLSTest_verify :: "tls_world \<Rightarrow> 'tr TLSSpec \<Rightarrow> tls_test_error option option" where
  "TLSTest_verify tw spec =
     (case TLSSpec_options tw spec of
        Inl e \<Rightarrow> Some (Some (PoolFailed e))
      | Inr opts \<Rightarrow>
          (case Validate (tw_appendPEM tw) (tw_readFile tw) (tw_network tw) (tw_arrange tw) (tw_now tw) (tl_Host spec) (spec_port spec)
                  (NewValidator (tw_ensureHostPort tw) opts) of
             None \<Rightarrow> None
           | Some (_, Inl e) \<Rightarrow> Some (Some (SetupFailed e))
           | Some (_, Inr []) \<Rightarrow> Some None
           | Some (_, Inr es) \<Rightarrow> Some (Some (Invalid es))))"

text \<open>The log message of a failure reads the certificate of the error \<open>asType\<close> finds: without one it panics.\<close>

definition log_panics :: "(ErrValidator list \<Rightarrow> ErrValidator option) \<Rightarrow> tls_test_error \<Rightarrow> bool" where
  "log_panics asType err =
     (case err of
        Invalid es \<Rightarrow> (case asType es of Some ev \<Rightarrow> er_Certificate ev = None | None \<Rightarrow> False)
      | _ \<Rightarrow> False)"

fun tls_run_loop ::
    "(ErrValidator list \<Rightarrow> ErrValidator option) \<Rightarrow> tls_world \<Rightarrow> 'tr TLSSpec list \<Rightarrow> ('tr TLSSpec \<times> tls_test_error) list option" where
  "tls_run_loop asType tw [] = Some []"
| "tls_run_loop asType tw (spec # specs) =
     (case TLSTest_verify tw spec of
        None \<Rightarrow> None
      | Some None \<Rightarrow> tls_run_loop asType tw specs
      | Some (Some err) \<Rightarrow>
          if log_panics asType err then None
          else map_option (Cons (spec, err)) (tls_run_loop asType tw specs))"

datatype 'tr run_error = RunClientFailed client_error | RunErrors "('tr TLSSpec \<times> tls_test_error) list"

definition TLSTest_Run ::
    "(ErrValidator list \<Rightarrow> ErrValidator option) \<Rightarrow> tls_world \<Rightarrow> 'tr TLSSpec list \<Rightarrow> 'tr TLSSpec list \<times> ('tr run_error, unit) result option" where
  "TLSTest_Run asType tw specs =
     (case configureHTTPClients tw specs of
        (specs, Inl e) \<Rightarrow> (specs, Some (Inl (RunClientFailed e)))
      | (specs, Inr _) \<Rightarrow>
          (specs, case tls_run_loop asType tw specs of
                    None \<Rightarrow> None
                  | Some [] \<Rightarrow> Some (Inr ())
                  | Some errs \<Rightarrow> Some (Inl (RunErrors errs))))"

text \<open>The regular expression \<^verbatim>\<open>Let'?s Encrypt\<close>.\<close>

definition letsEncryptRE :: "string \<Rightarrow> bool" where
  "letsEncryptRE s = (strings_Contains s (''Let'' @ [CHR 0x27] @ ''s Encrypt'') \<or> strings_Contains s ''Lets Encrypt'')"

definition empty_TLSSpec :: "'tr TLSSpec" where
  "empty_TLSSpec = \<lparr>tl_Host = [], tl_Port = [], tl_CustomDNSServer = [], tl_LogCertInfo = False, tl_ExpandDNSNames = False,
     tl_CheckSerialNumbers = False, tl_ValidFor = 0, tl_TLSMinVersion = 0, tl_IssuerREs = [], tl_CustomCAPEM = [],
     tl_CustomCAPEMOnly = False, tl_CipherSuites = [], tl_NotAllowedCipherSuites = [], tl_SignatureAlgorithms = [],
     tl_NotAllowedSignatureAlgorithms = [], tl_client = NilClient\<rparr>"

definition LetsEncryptTLSSpec :: "'tr TLSSpec" where
  "LetsEncryptTLSSpec = empty_TLSSpec\<lparr>tl_ExpandDNSNames := True, tl_CheckSerialNumbers := True,
     tl_ValidFor := 240 * 3600 * 1000000000, tl_TLSMinVersion := 0x0303, tl_IssuerREs := [letsEncryptRE]\<rparr>"

subsection \<open>Facts\<close>

text \<open>Configuring the clients changes nothing that is tested.\<close>

definition same_rules :: "'tr TLSSpec \<Rightarrow> 'tr TLSSpec \<Rightarrow> bool" where
  "same_rules a b \<longleftrightarrow> a\<lparr>tl_client := NilClient\<rparr> = b\<lparr>tl_client := NilClient\<rparr>"

lemma same_rules_simps [simp]: "same_rules spec spec" "same_rules spec (spec\<lparr>tl_client := c\<rparr>)"
  by (simp_all add: same_rules_def)

lemma configureHTTPClients_rules:
  "configureHTTPClients tw specs = (specs', r) \<Longrightarrow> list_all2 same_rules specs specs'"
proof (induction specs arbitrary: specs' r)
  case (Cons spec specs)
  have refl: "list_all2 same_rules specs specs" by (simp add: list_all2_refl)
  obtain ss rr where tail: "configureHTTPClients tw specs = (ss, rr)" by force
  from Cons.IH [OF tail] Cons.prems refl show ?case
    by (auto simp: tail split: if_splits sum.splits)
qed simp

lemma TLSTest_verify_client: "TLSTest_verify tw (spec\<lparr>tl_client := c\<rparr>) = TLSTest_verify tw spec"
proof -
  have "TLSSpec_options tw (spec\<lparr>tl_client := c\<rparr>) = TLSSpec_options tw spec"
    by (simp add: TLSSpec_options_def Let_def cong: if_cong)
  moreover have "spec_port (spec\<lparr>tl_client := c\<rparr>) = spec_port spec" by (simp add: spec_port_def)
  moreover have "tl_Host (spec\<lparr>tl_client := c\<rparr>) = tl_Host spec" by simp
  ultimately show ?thesis unfolding TLSTest_verify_def by (simp only:)
qed

lemma TLSTest_verify_same: "same_rules a b \<Longrightarrow> TLSTest_verify tw a = TLSTest_verify tw b"
  unfolding same_rules_def by (metis TLSTest_verify_client)

lemma tls_run_loop_ok: "tls_run_loop asType tw specs = Some [] \<longleftrightarrow> (\<forall>spec\<in>set specs. TLSTest_verify tw spec = Some None)"
  by (induction specs) (auto split: option.splits)

lemma TLSTest_Run_ok:
  assumes "TLSTest_Run asType tw specs = (specs', Some (Inr ()))" and "spec \<in> set specs"
  shows "TLSTest_verify tw spec = Some None"
proof -
  obtain ss where c: "configureHTTPClients tw specs = (ss, Inr ())" and l: "tls_run_loop asType tw ss = Some []"
    using assms(1) by (auto simp: TLSTest_Run_def split: prod.splits sum.splits option.splits list.splits)
  from configureHTTPClients_rules [OF c] assms(2) obtain spec' where "spec' \<in> set ss" "same_rules spec spec'"
    by (auto simp: list_all2_conv_all_nth in_set_conv_nth) blast
  with l show ?thesis using TLSTest_verify_same tls_run_loop_ok by metis
qed

text \<open>The roots a specification asks for, and the validator it makes.\<close>

definition spec_roots :: "tls_world \<Rightarrow> 'tr TLSSpec \<Rightarrow> (pool_error, bytes list option) result" where
  "spec_roots tw s =
     (if tl_CustomCAPEM s = [] then Inr None
      else map_sum id Some
        (append_pem_files (tw_appendPEM tw) (tw_readFile tw) [tl_CustomCAPEM s]
          (if tl_CustomCAPEMOnly s then [] else (case tw_sysPool tw of Inr p \<Rightarrow> p | Inl _ \<Rightarrow> []))))"

definition spec_validator :: "tls_world \<Rightarrow> 'tr TLSSpec \<Rightarrow> bytes list option \<Rightarrow> Validator" where
  "spec_validator tw s roots =
     (let dns = tl_CustomDNSServer s; srv = (if dns = [] then dns else tw_ensureHostPort tw dns ''53'') in
      \<lparr>va_opts = \<lparr>tv_ipv4Only = False, tv_validFor = tl_ValidFor s, tv_issuerREs = tl_IssuerREs s, tv_expand = tl_ExpandDNSNames s,
         tv_rootCAs = roots, tv_pemFile = [], tv_checkSerial = tl_CheckSerialNumbers s, tv_checkSignature = False,
         tv_checkCipherSuite = False, tv_tlsMinVer = tl_TLSMinVersion s, tv_ciphersuites = tl_CipherSuites s,
         tv_allowedSignatureAlgorithms = tl_SignatureAlgorithms s, tv_deniedSignatureAlgorithms = tl_NotAllowedSignatureAlgorithms s,
         tv_deniedCipherSuites = tl_NotAllowedCipherSuites s, tv_customDNSServer = srv, tv_checkZeroSerialNumbers = True\<rparr>,
       va_resolver = (if dns = [] then None else Some srv)\<rparr>)"

lemma TLSSpec_options_validator:
  assumes "TLSSpec_options tw s = Inr opts"
  obtains roots where "spec_roots tw s = Inr roots" and "NewValidator (tw_ensureHostPort tw) opts = spec_validator tw s roots"
    and "tl_CustomCAPEM s \<noteq> [] \<and> \<not> tl_CustomCAPEMOnly s \<longrightarrow> is_ok (tw_sysPool tw)"
proof -
  let ?pool = "if tl_CustomCAPEMOnly s
      then CertPoolForTesting (tw_sysPool tw) (tw_appendPEM tw) (tw_readFile tw) [tl_CustomCAPEM s]
      else CertPoolWithSystemRootsForTesting (tw_sysPool tw) (tw_appendPEM tw) (tw_readFile tw) [tl_CustomCAPEM s]"
  have new: "NewValidator (tw_ensureHostPort tw) opts = spec_validator tw s roots"
    if "tl_CustomCAPEM s = [] \<and> roots = None \<or> tl_CustomCAPEM s \<noteq> [] \<and> ?pool = Inr p \<and> roots = Some p" for roots p
    using assms that
    by (auto simp: TLSSpec_options_def Let_def NewValidator_def spec_validator_def option_defs default_options_def)
  show ?thesis
  proof (cases "tl_CustomCAPEM s = []")
    case True
    then show ?thesis using new [of None] that [of None] by (simp add: spec_roots_def)
  next
    case False
    with assms obtain p where p: "?pool = Inr p" by (auto simp: TLSSpec_options_def Let_def split: sum.splits)
    then have "spec_roots tw s = Inr (Some p)" "\<not> tl_CustomCAPEMOnly s \<longrightarrow> is_ok (tw_sysPool tw)"
      using False by (auto simp: spec_roots_def CertPoolForTesting_def CertPoolWithSystemRootsForTesting_def certPoolForTesting_def
          split: if_splits sum.splits)
    with new [of "Some p" p] p False that show ?thesis by blast
  qed
qed

text \<open>What a specification asks of a connection, and of the client configuration.\<close>

definition meets_spec :: "int \<Rightarrow> 'tr TLSSpec \<Rightarrow> ConnectionState \<Rightarrow> bool" where
  "meets_spec now spec st \<longleftrightarrow> (\<exists>leaf rest. cn_PeerCertificates st = leaf # rest \<and>
     (tl_IssuerREs spec = [] \<or> (\<exists>re\<in>set (tl_IssuerREs spec). re (ct_Issuer leaf))) \<and>
     (0 < tl_ValidFor spec \<longrightarrow> tl_ValidFor spec \<le> ct_NotAfter leaf - now) \<and>
     (tl_SignatureAlgorithms spec = [] \<or> ct_SigAlg leaf \<in> set (tl_SignatureAlgorithms spec)) \<and>
     ct_SigAlg leaf \<notin> set (tl_NotAllowedSignatureAlgorithms spec) \<and>
     cn_CipherSuite st \<notin> set (tl_NotAllowedCipherSuites spec))"

definition spec_config :: "'tr TLSSpec \<Rightarrow> bytes list option \<Rightarrow> client_config" where
  "spec_config spec roots = \<lparr>cc_ServerName = tl_Host spec, cc_RootCAs = roots, cc_MinVersion = tl_TLSMinVersion spec,
     cc_CipherSuites = tl_CipherSuites spec\<rparr>"

lemma spec_validator_simps:
  "acceptable (va_opts (spec_validator tw spec roots)) now st \<longleftrightarrow> meets_spec now spec st"
  "agree (va_opts (spec_validator tw spec roots)) a b \<longleftrightarrow>
     (tl_CheckSerialNumbers spec \<longrightarrow> ct_Serial (hd (cn_PeerCertificates a)) = ct_Serial (hd (cn_PeerCertificates b)))"
  "client_config_of (spec_validator tw spec roots) (tl_Host spec) = spec_config spec roots"
  "ignoreIPv6 (spec_validator tw spec roots) addrs = addrs"
  "with_root_cas ap rf (spec_validator tw spec roots) = Inr (spec_validator tw spec roots)"
  by (simp_all add: spec_validator_def Let_def acceptable_def meets_spec_def agree_def client_config_of_def spec_config_def
      ignoreIPv6_def with_root_cas_def)

lemma TLSTest_verify_ok:
  assumes "TLSTest_verify tw spec = Some None"
  obtains roots addrs states where "spec_roots tw spec = Inr roots"
    and "expandHost (tw_network tw) (spec_validator tw spec roots) (tl_Host spec) = Inr addrs"
    and "getStates (tw_network tw) (tw_arrange tw) (spec_validator tw spec roots) addrs (tl_Host spec) (spec_port spec) = Inr states"
    and "states_ok (spec_validator tw spec roots) (tw_now tw) states"
proof -
  let ?validate = "Validate (tw_appendPEM tw) (tw_readFile tw) (tw_network tw) (tw_arrange tw) (tw_now tw) (tl_Host spec) (spec_port spec)"
  obtain opts where o: "TLSSpec_options tw spec = Inr opts"
    using assms by (auto simp: TLSTest_verify_def split: sum.splits)
  obtain roots where r: "spec_roots tw spec = Inr roots" "NewValidator (tw_ensureHostPort tw) opts = spec_validator tw spec roots"
    by (rule TLSSpec_options_validator [OF o])
  let ?v = "spec_validator tw spec roots"
  obtain v' where val: "?validate ?v = Some (v', Inr [])"
    using assms o r(2) by (auto simp: TLSTest_verify_def split: option.splits sum.splits list.splits)
  then obtain addrs states where a: "expandHost (tw_network tw) ?v (tl_Host spec) = Inr addrs"
    "getStates (tw_network tw) (tw_arrange tw) ?v addrs (tl_Host spec) (spec_port spec) = Inr states"
    by (auto simp: Validate_def spec_validator_simps split: sum.splits)
  moreover from val a have "v' = ?v"
    by (auto simp: Validate_def spec_validator_simps Let_def split: option.splits list.splits)
  ultimately show ?thesis
    using that r(1) val Validate_states [OF spec_validator_simps(5) a(1)] by (simp add: spec_validator_simps)
qed

text \<open>
  C17. A TLS test that passes has checked each of its specifications on every address of the host, in whatever order
  the connections finish: a handshake for the host under exactly the roots the specification asks for (the
  system's, those of its PEM file, or both), its minimum version and its cipher suites, a leaf certificate
  that satisfies its rules on issuer, validity and signature algorithm and a cipher suite it allows, and
  the same serial number on any two addresses if these are compared.
\<close>

theorem TLSTest_Run_sound:
  assumes "TLSTest_Run asType tw specs = (specs', Some (Inr ()))" and "\<forall>xs. mset (tw_arrange tw xs) = mset xs"
    and "spec \<in> set specs"
  shows "\<exists>roots addrs. spec_roots tw spec = Inr roots \<and>
    expandHost (tw_network tw) (spec_validator tw spec roots) (tl_Host spec) = Inr addrs \<and> addrs \<noteq> [] \<and>
    (\<forall>a\<in>set addrs. \<forall>b\<in>set addrs. \<exists>sa sb.
       nw_dial (tw_network tw) (va_resolver (spec_validator tw spec roots)) (spec_config spec roots) (JoinHostPort a (spec_port spec)) = Some sa \<and>
       nw_dial (tw_network tw) (va_resolver (spec_validator tw spec roots)) (spec_config spec roots) (JoinHostPort b (spec_port spec)) = Some sb \<and>
       meets_spec (tw_now tw) spec sa \<and>
       (tl_CheckSerialNumbers spec \<longrightarrow> ct_Serial (hd (cn_PeerCertificates sa)) = ct_Serial (hd (cn_PeerCertificates sb))))"
proof -
  obtain roots addrs states where ok: "spec_roots tw spec = Inr roots"
      "expandHost (tw_network tw) (spec_validator tw spec roots) (tl_Host spec) = Inr addrs"
      "getStates (tw_network tw) (tw_arrange tw) (spec_validator tw spec roots) addrs (tl_Host spec) (spec_port spec) = Inr states"
      "states_ok (spec_validator tw spec roots) (tw_now tw) states"
    by (rule TLSTest_verify_ok [OF TLSTest_Run_ok [OF assms(1,3)]])
  note addresses = states_ok_addresses [OF ok(3,4) assms(2) [rule_format], unfolded spec_validator_simps]
  show ?thesis using ok(1,2) addresses by blast
qed

definition demo_world :: tls_world where
  "demo_world = \<lparr>tw_sysPool = Inl SystemPoolFailed, tw_appendPEM = (\<lambda>_ _. None), tw_readFile = (\<lambda>_. None),
     tw_network = demo_network [''10.0.0.1''], tw_arrange = (\<lambda>xs. xs), tw_now = 0, tw_ensureHostPort = (\<lambda>a p. a)\<rparr>"

definition demo_spec :: "unit TLSSpec" where
  "demo_spec = empty_TLSSpec\<lparr>tl_Host := ''h'', tl_ExpandDNSNames := True\<rparr>"

theorem TLSTest_Run_sound_witness:
  "\<exists>sa. nw_dial (tw_network demo_world) None (spec_config demo_spec None) ''10.0.0.1:443'' = Some sa \<and> meets_spec 0 demo_spec sa"
proof -
  let ?v = "spec_validator demo_world demo_spec None"
  have run: "TLSTest_Run (\<lambda>_. None) demo_world [demo_spec] = ([demo_spec\<lparr>tl_client := DefaultClient\<rparr>], Some (Inr ()))"
    by (simp add: TLSTest_Run_def demo_spec_def empty_TLSSpec_def TLSTest_verify_def TLSSpec_options_def demo_world_def NewValidator_def
        Let_def option_defs default_options_def Validate_def with_root_cas_def expandHost_def demo_network_def ignoreIPv6_def
        getStates_def getTLSState_def spec_port_def JoinHostPort_def validateConnectionState_def demo_leaf_def List.map_filter_simps
        ensureNonZeroSerialNumbers_def verifyAcrossHosts_def)
  have v: "spec_roots demo_world demo_spec = Inr None" "va_resolver ?v = None"
    "expandHost (tw_network demo_world) ?v (tl_Host demo_spec) = Inr [''10.0.0.1'']" "spec_port demo_spec = ''443''"
    "tw_now demo_world = 0" "JoinHostPort ''10.0.0.1'' ''443'' = ''10.0.0.1:443''"
    by (simp_all add: spec_roots_def demo_spec_def empty_TLSSpec_def spec_validator_def Let_def expandHost_def demo_world_def
        demo_network_def spec_port_def JoinHostPort_def)
  have "mset (tw_arrange demo_world xs) = mset xs" for xs by (simp add: demo_world_def)
  with TLSTest_Run_sound [OF run, of demo_spec] v show ?thesis by auto
qed

end
