(* ===== verification/Pebble.thy ===== *)
theory Pebble
  imports DevServer GoPath Certs
begin

text \<open>
  \<^verbatim>\<open>webauth/acme/pebble/pebble.go\<close>: running a pebble ACME server for tests. The processes, the network and
  \<open>crypto/x509\<close> are arguments; the output of the server is a sequence of events, as in \<open>DevServer\<close>. JSON values
  are those \<open>encoding/json\<close> makes: numbers that were decoded are \<open>float64\<close>, here integral ones.
\<close>

subsection \<open>Options\<close>

record serverOptions =
  so_noSleep :: bool

type_synonym ServerOption = "serverOptions \<Rightarrow> serverOptions"

text \<open>A duration is 64 bits of nanoseconds; the product in \<open>WithValidityPeriod\<close> wraps.\<close>

record configOption =
  cf_validityPeriod :: "64 word"
  cf_managementPort :: int
  cf_serverPort :: int

type_synonym ConfigOption = "configOption \<Rightarrow> configOption"

definition WithValidityPeriod :: "64 word \<Rightarrow> ConfigOption" where
  "WithValidityPeriod secs opts = opts\<lparr>cf_validityPeriod := secs * 1000000000\<rparr>"

definition WithAlternatePorts :: "int \<Rightarrow> int \<Rightarrow> ConfigOption" where
  "WithAlternatePorts managementPort serverPort opts =
     opts\<lparr>cf_managementPort := managementPort, cf_serverPort := serverPort\<rparr>"

definition WithNoSleep :: ServerOption where
  "WithNoSleep opts = opts\<lparr>so_noSleep := True\<rparr>"

subsection \<open>The process\<close>

record exec_Cmd =
  ec_Path :: string
  ec_Args :: "string list"
  ec_Dir :: string
  ec_Env :: "string list option"
  ec_Pid :: "int option" \<comment> \<open>the process, once started\<close>

record pebble_T =
  pt_cmd :: "exec_Cmd option"
  pt_binary :: string
  pt_opts :: serverOptions

definition pebble_New :: "string \<Rightarrow> ServerOption list \<Rightarrow> pebble_T" where
  "pebble_New binary opts = \<lparr>pt_cmd = None, pt_binary = binary, pt_opts = apply_options opts \<lparr>so_noSleep = False\<rparr>\<rparr>"

datatype start_error = NotInPath | StartError

definition pebble_Start ::
    "(string \<Rightarrow> string option) \<Rightarrow> string list \<Rightarrow> (exec_Cmd \<Rightarrow> int option) \<Rightarrow> string \<Rightarrow> string \<Rightarrow> pebble_T \<Rightarrow> pebble_T \<times> (start_error, unit) result" where
  "pebble_Start lookPath environ start dir cfg p =
     (case lookPath (pt_binary p) of
        None \<Rightarrow> (p, Inl NotInPath)
      | Some pebblePath \<Rightarrow>
          let cmd = \<lparr>ec_Path = pebblePath, ec_Args = [''-config'', cfg], ec_Dir = dir,
                     ec_Env = (if so_noSleep (pt_opts p) then Some (environ @ [''PEBBLE_VA_NOSLEEP=1'']) else None), ec_Pid = None\<rparr>
          in case start cmd of
               None \<Rightarrow> (p\<lparr>pt_cmd := Some cmd\<rparr>, Inl StartError)
             | Some pid \<Rightarrow> (p\<lparr>pt_cmd := Some (cmd\<lparr>ec_Pid := Some pid\<rparr>)\<rparr>, Inr ()))"

definition pebble_PID :: "pebble_T \<Rightarrow> int" where
  "pebble_PID p = (case pt_cmd p of Some c \<Rightarrow> (case ec_Pid c of Some pid \<Rightarrow> pid | None \<Rightarrow> 0) | None \<Rightarrow> 0)"

text \<open>Stopping: \<open>executil.SignalAndWait\<close> sends the signals in turn, waiting after each for the process to end.\<close>

datatype signal = Interrupt | SIGINT | SIGKILL

definition EnsureStopped :: "(int \<Rightarrow> exec_Cmd option \<Rightarrow> signal list \<Rightarrow> ('e, unit) result) \<Rightarrow> pebble_T \<Rightarrow> int \<Rightarrow> ('e, unit) result" where
  "EnsureStopped signalAndWait p waitFor = signalAndWait waitFor (pt_cmd p) [Interrupt, SIGINT, SIGKILL]"

subsection \<open>Its output\<close>

text \<open>The first match of a regular expression \<open>pre(cls+)suf\<close>, leftmost, and what its group matched.\<close>

fun find_submatch :: "string \<Rightarrow> (char \<Rightarrow> bool) \<Rightarrow> string \<Rightarrow> string \<Rightarrow> string option" where
  "find_submatch pre cls suf line =
     (let rest = drop (length pre) line; word = takeWhile cls rest in
      if strings_HasPrefix line pre \<and> word \<noteq> [] \<and> strings_HasPrefix (dropWhile cls rest) suf then Some word
      else (case line of [] \<Rightarrow> None | _ # line \<Rightarrow> find_submatch pre cls suf line))"

declare find_submatch.simps [simp del]

definition issuedRE :: "bytes \<Rightarrow> string option" where
  "issuedRE = find_submatch ''Issued certificate serial '' (\<lambda>c. char_between CHR ''a'' CHR ''f'' c \<or> is_digit c) '' for order''"

definition orderAuthorizedRE :: "bytes \<Rightarrow> string option" where
  "orderAuthorizedRE = find_submatch ''Order '' (\<lambda>c. is_lower c \<or> is_upper c \<or> is_digit c \<or> c = CHR ''_'' \<or> c = CHR ''-'')
     '' is fully authorized. Processing finalization''"

definition acmeReadyRE :: "bytes \<Rightarrow> bool" where
  "acmeReadyRE line = strings_Contains line ''ACME directory available at:''"

definition mgmtReadyRE :: "bytes \<Rightarrow> bool" where
  "mgmtReadyRE line = strings_Contains line ''Root CA certificate available at:''"

definition saw :: "bytes \<Rightarrow> nat \<Rightarrow> nat" where
  "saw line seen =
     (let seen = (if acmeReadyRE line then seen + 1 else seen) in if mgmtReadyRE line then seen + 1 else seen)"

partial_function (option) WaitForReady :: "(nat \<Rightarrow> wait_event) \<Rightarrow> nat \<Rightarrow> nat \<Rightarrow> (wait_error, unit) result option" where
  "WaitForReady events n seen =
     (case events n of
        CtxDone err \<Rightarrow> Some (Inl err)
      | Line line \<Rightarrow> if saw line seen = 2 then Some (Inr ()) else WaitForReady events (Suc n) (saw line seen))"

partial_function (option) waitForRe ::
    "(bytes \<Rightarrow> string option) \<times> (nat \<Rightarrow> wait_event) \<Rightarrow> nat \<Rightarrow> (wait_error, string) result option" where
  "waitForRe re n =
     (case snd re n of
        CtxDone err \<Rightarrow> Some (Inl err)
      | Line line \<Rightarrow> (case fst re line of Some m \<Rightarrow> Some (Inr m) | None \<Rightarrow> waitForRe re (Suc n)))"

definition WaitForIssuedCertificateSerial :: "(nat \<Rightarrow> wait_event) \<Rightarrow> (wait_error, string) result option" where
  "WaitForIssuedCertificateSerial events = waitForRe (issuedRE, events) 0"

definition WaitForOrderAuthorized :: "(nat \<Rightarrow> wait_event) \<Rightarrow> (wait_error, string) result option" where
  "WaitForOrderAuthorized events = waitForRe (orderAuthorizedRE, events) 0"

subsection \<open>Configuration\<close>

text \<open>Objects are association lists with distinct keys.\<close>

datatype json = JString string | JFloat int | JInt int | JBool bool | JArray "json list" | JObject "(string \<times> json) list"

type_synonym json_object = "(string \<times> json) list"

definition parsedConfig :: "(string \<times> json_object) list" where
  "parsedConfig =
     [(''pebble'',
       [(''listenAddress'', JString ''0.0.0.0:18000''),
        (''managementListenAddress'', JString ''0.0.0.0:19000''),
        (''certificate'', JString ''test/certs/localhost/cert.pem''),
        (''privateKey'', JString ''test/certs/localhost/key.pem''),
        (''httpPort'', JFloat 5002),
        (''tlsPort'', JFloat 5001),
        (''ocspResponderURL'', JString []),
        (''externalAccountBindingRequired'', JBool False),
        (''domainBlocklist'', JArray [JString ''blocked-domain.example'']),
        (''retryAfter'', JObject [(''authz'', JFloat 3), (''order'', JFloat 5)]),
        (''keyAlgorithm'', JString ''ecdsa''),
        (''profiles'', JObject
          [(''default'', JObject [(''description'', JString ''The profile you know and love''), (''validityPeriod'', JFloat 7776000)]),
           (''shortlived'', JObject [(''description'', JString ''A short-lived cert profile, without actual enforcement''),
              (''validityPeriod'', JFloat 518400)])])])]"

record 'pool pebble_Config =
  pc_Address :: string
  pc_ManagementAddress :: string
  pc_HTTPPort :: int
  pc_TLSPort :: int
  pc_CertificateFile :: string
  pc_CAFile :: string
  pc_TestCertBase :: string
  pc_RootCertURL :: string
  pc_opts :: configOption
  pc_originalConfig :: "(string \<times> json_object) list"
  pc_pebbleCA :: "'pool option"

definition NewConfig :: "ConfigOption list \<Rightarrow> 'pool pebble_Config" where
  "NewConfig opt =
     (let opts = apply_options opt \<lparr>cf_validityPeriod = 0, cf_managementPort = 0, cf_serverPort = 0\<rparr>;
          addr = (if cf_serverPort opts \<noteq> 0 then ''localhost:'' @ strconv_Itoa (cf_serverPort opts) else ''localhost:18000'');
          mgmt = (if cf_managementPort opts \<noteq> 0 then ''localhost:'' @ strconv_Itoa (cf_managementPort opts) else ''localhost:19000'')
      in \<lparr>pc_Address = addr, pc_ManagementAddress = mgmt, pc_HTTPPort = 5002, pc_TLSPort = 5001, pc_CertificateFile = [],
          pc_CAFile = [], pc_TestCertBase = path_Join ''test'' ''certs'',
          pc_RootCertURL = URL_String (empty_URL\<lparr>url_Scheme := ''https'', url_Host := mgmt, url_Path := ''/roots/0''\<rparr>),
          pc_opts = opts, pc_originalConfig = parsedConfig, pc_pebbleCA = None\<rparr>)"

text \<open>Encoding and decoding JSON turns every number into a \<open>float64\<close> and copies the rest.\<close>

fun json_copy :: "json \<Rightarrow> json" where
  "json_copy (JInt n) = JFloat n"
| "json_copy (JArray xs) = JArray (map json_copy xs)"
| "json_copy (JObject kvs) = JObject (map (\<lambda>(k, v). (k, json_copy v)) kvs)"
| "json_copy j = j"

definition deepCopy :: "(string \<times> json_object) list \<Rightarrow> (string \<times> json_object) list" where
  "deepCopy m = map (\<lambda>(k, obj). (k, map (\<lambda>(f, v). (f, json_copy v)) obj)) m"

fun obj_set :: "string \<Rightarrow> 'v \<Rightarrow> (string \<times> 'v) list \<Rightarrow> (string \<times> 'v) list" where
  "obj_set k v [] = [(k, v)]"
| "obj_set k v ((k', v') # kvs) = (if k' = k then (k, v) # kvs else (k', v') # obj_set k v kvs)"

text \<open>The validity period of every profile; a failed type assertion panics.\<close>

fun set_periods :: "int \<Rightarrow> json_object \<Rightarrow> json_object option" where
  "set_periods secs [] = Some []"
| "set_periods secs ((name, JObject profile) # ps) =
     map_option (Cons (name, JObject (obj_set ''validityPeriod'' (JInt secs) profile))) (set_periods secs ps)"
| "set_periods secs (_ # ps) = None"

definition set_profiles :: "int \<Rightarrow> json_object \<Rightarrow> json_object option" where
  "set_profiles secs pebble =
     (case map_of pebble ''profiles'' of
        Some (JObject profiles) \<Rightarrow> map_option (\<lambda>ps. obj_set ''profiles'' (JObject ps) pebble) (set_periods secs profiles)
      | _ \<Rightarrow> None)"

definition pebble_settings :: "'pool pebble_Config \<Rightarrow> (string \<times> json) list" where
  "pebble_settings pc =
     [(''certificate'', JString (path_Join (path_Join (pc_TestCertBase pc) ''localhost'') ''cert.pem'')),
      (''privateKey'', JString (path_Join (path_Join (pc_TestCertBase pc) ''localhost'') ''key.pem'')),
      (''httpPort'', JInt (pc_HTTPPort pc)), (''tlsPort'', JInt (pc_TLSPort pc)),
      (''listenAddress'', JString (pc_Address pc)), (''managementListenAddress'', JString (pc_ManagementAddress pc))]"

text \<open>\<open>seconds\<close> is \<open>int(d.Seconds())\<close>. Writing to a missing \<^verbatim>\<open>pebble\<close> object, a nil map, panics.\<close>

definition updated_config :: "(64 word \<Rightarrow> int) \<Rightarrow> 'pool pebble_Config \<Rightarrow> (string \<times> json_object) list option" where
  "updated_config seconds pc =
     (let ncfg = deepCopy (pc_originalConfig pc) in
      case map_of ncfg ''pebble'' of
        None \<Rightarrow> None
      | Some pebble \<Rightarrow>
          (case (if cf_validityPeriod (pc_opts pc) \<noteq> 0 then set_profiles (seconds (cf_validityPeriod (pc_opts pc))) pebble
                 else Some pebble) of
             None \<Rightarrow> None
           | Some pebble \<Rightarrow> Some (obj_set ''pebble'' (fold (\<lambda>(k, v). obj_set k v) (pebble_settings pc) pebble) ncfg)))"

datatype create_error = MkdirFailed | MinicaMissing | MinicaFailed | WriteConfigFailed | SystemPool | ReadCAFailed | AppendCAFailed

record 'pool pebble_env =
  pe_mkdirAll :: "string \<Rightarrow> bool"
  pe_lookPath :: "string \<Rightarrow> string option"
  pe_minica :: "string \<Rightarrow> string \<Rightarrow> string list \<Rightarrow> fs_state \<Rightarrow> fs_state option" \<comment> \<open>by binary and directory\<close>
  pe_seconds :: "64 word \<Rightarrow> int"
  pe_marshal :: "(string \<times> json_object) list \<Rightarrow> bytes"
  pe_sysPool :: "'pool option"
  pe_append :: "bytes \<Rightarrow> 'pool \<Rightarrow> 'pool option"

definition minica_args :: "string list" where
  "minica_args = [''-ca-cert'', ''pebble.minica.pem'', ''-ca-key'', ''pebble.minica.key.pem'', ''-domains'', ''localhost,pebble'',
     ''-ip-addresses'', ''127.0.0.1'']"

text \<open>The outer \<open>None\<close> is a panic.\<close>

definition CreateCertsAndUpdateConfig ::
    "'pool pebble_env \<Rightarrow> string \<Rightarrow> 'pool pebble_Config \<Rightarrow> fs_state \<Rightarrow>
       ('pool pebble_Config \<times> fs_state \<times> (create_error, string) result) option" where
  "CreateCertsAndUpdateConfig pe outputDir pc s =
     (let certDir = path_Join outputDir (pc_TestCertBase pc) in
      if \<not> pe_mkdirAll pe certDir then Some (pc, s, Inl MkdirFailed)
      else
        (case pe_lookPath pe ''minica'' of
           None \<Rightarrow> Some (pc, s, Inl MinicaMissing)
         | Some minicaPath \<Rightarrow>
             (case pe_minica pe minicaPath certDir minica_args s of
                None \<Rightarrow> Some (pc, s, Inl MinicaFailed)
              | Some s \<Rightarrow>
                  (case updated_config (pe_seconds pe) pc of
                     None \<Rightarrow> None
                   | Some ncfg \<Rightarrow>
                       let cfgFile = path_Join outputDir ''pebble-config.json'' in
                       (case os_WriteFile cfgFile (pe_marshal pe ncfg) s of
                          (s, Inl _) \<Rightarrow> Some (pc, s, Inl WriteConfigFailed)
                        | (s, Inr _) \<Rightarrow>
                            (case pe_sysPool pe of
                               None \<Rightarrow> Some (pc, s, Inl SystemPool)
                             | Some sysPool \<Rightarrow>
                                 (case os_ReadFile (path_Join (path_Join outputDir (pc_TestCertBase pc)) ''pebble.minica.pem'') s of
                                    Inl _ \<Rightarrow> Some (pc, s, Inl ReadCAFailed)
                                  | Inr data \<Rightarrow>
                                      (case pe_append pe data sysPool of
                                         None \<Rightarrow> Some (pc, s, Inl AppendCAFailed)
                                       | Some pool \<Rightarrow>
                                           Some (pc\<lparr>pc_pebbleCA := Some pool,
                                                    pc_CertificateFile := path_Join (path_Join (pc_TestCertBase pc) ''localhost'') ''cert.pem'',
                                                    pc_CAFile := path_Join (pc_TestCertBase pc) ''pebble.minica.pem''\<rparr>,
                                                 s, Inr cfgFile)))))))))"

text \<open>
  The periods, in nanoseconds, of the profiles that have one; Go ranges over the profiles in any order. The
  configuration is always the literal above, whose periods are far below the range of a duration.
\<close>

definition profile_period :: "json \<Rightarrow> int list" where
  "profile_period profile =
     (case profile of
        JObject details \<Rightarrow> (case map_of details ''validityPeriod'' of Some (JFloat v) \<Rightarrow> [v * 1000000000] | _ \<Rightarrow> [])
      | _ \<Rightarrow> [])"

definition PossibleValidityPeriods :: "'pool pebble_Config \<Rightarrow> int list" where
  "PossibleValidityPeriods pc =
     (case map_of (pc_originalConfig pc) ''pebble'' of
        None \<Rightarrow> []
      | Some pebble \<Rightarrow>
          (case map_of pebble ''profiles'' of
             Some (JObject profiles) \<Rightarrow> concat (map (profile_period \<circ> snd) profiles)
           | _ \<Rightarrow> []))"

definition ensureScheme :: "string \<Rightarrow> string \<Rightarrow> string \<Rightarrow> string" where
  "ensureScheme scheme urlOrAddr path =
     (if strings_HasPrefix urlOrAddr (scheme @ ''://'') then urlOrAddr @ ''/'' @ path
      else scheme @ ''://'' @ urlOrAddr @ ''/'' @ path)"

definition pebble_DirectoryURL :: "'pool pebble_Config \<Rightarrow> string" where
  "pebble_DirectoryURL pc = ensureScheme ''https'' (pc_Address pc) ''dir''"

definition CARootsURL :: "'pool pebble_Config \<Rightarrow> int \<Rightarrow> string" where
  "CARootsURL pc i = ensureScheme ''https'' (pc_ManagementAddress pc) (''roots/'' @ strconv_Itoa i)"

subsection \<open>Certificates\<close>

datatype 'e issuing_error = RequestFailed 'e | NoIssuingCert | VerifyError

definition GetIssuingCert :: "('pool option \<Rightarrow> string \<Rightarrow> ('e, bytes) result) \<Rightarrow> 'pool pebble_Config \<Rightarrow> int \<Rightarrow> ('e issuing_error, bytes) result" where
  "GetIssuingCert get pc i =
     (case get (pc_pebbleCA pc) (CARootsURL pc i) of Inl e \<Rightarrow> Inl (RequestFailed e) | Inr d \<Rightarrow> Inr d)"

definition pebble_CA :: "'pool pebble_Config \<Rightarrow> 'pool option" where
  "pebble_CA pc = pc_pebbleCA pc"

definition GetIssuingCA ::
    "('pool option \<Rightarrow> string \<Rightarrow> ('e, bytes) result) \<Rightarrow> (bytes \<Rightarrow> 'pool option) \<Rightarrow> 'pool pebble_Config \<Rightarrow> int \<Rightarrow> ('e issuing_error, 'pool) result" where
  "GetIssuingCA get newPool pc i =
     (case GetIssuingCert get pc i of
        Inl e \<Rightarrow> Inl e
      | Inr data \<Rightarrow> (case newPool data of None \<Rightarrow> Inl NoIssuingCert | Some pool \<Rightarrow> Inr pool))"

definition ValidateCertificate ::
    "('pool option \<Rightarrow> string \<Rightarrow> ('e, bytes) result) \<Rightarrow> (bytes \<Rightarrow> 'pool option) \<Rightarrow> ('cert \<Rightarrow> 'im \<Rightarrow> 'pool \<Rightarrow> bool) \<Rightarrow>
       'pool pebble_Config \<Rightarrow> 'cert \<Rightarrow> 'im \<Rightarrow> ('e issuing_error, unit) result" where
  "ValidateCertificate get newPool verify pc cert intermediates =
     (case GetIssuingCA get newPool pc 0 of
        Inl e \<Rightarrow> Inl e
      | Inr issuingCA \<Rightarrow> if verify cert intermediates issuingCA then Inr () else Inl VerifyError)"

type_synonym ServerURL = string

definition ServerURL_Enabled :: "ServerURL \<Rightarrow> bool" where
  "ServerURL_Enabled p \<longleftrightarrow> p \<noteq> []"

definition ServerURL_RootURL :: "ServerURL \<Rightarrow> string" where
  "ServerURL_RootURL p = p @ ''/roots/0''"

definition ServerURL_IntermediateURL :: "ServerURL \<Rightarrow> string" where
  "ServerURL_IntermediateURL p = p @ ''/intermediates/0''"

subsection \<open>Facts about the output\<close>

text \<open>A match is found exactly if there is one, when the group cannot run into what follows it.\<close>

lemma find_submatch_Some:
  "find_submatch pre cls suf line = Some w \<Longrightarrow> \<exists>u v. line = u @ pre @ w @ suf @ v \<and> w \<noteq> [] \<and> list_all cls w"
proof (induction line)
  case Nil
  then show ?case by (subst (asm) find_submatch.simps) (auto simp: Let_def split: if_splits)
next
  case (Cons c line)
  let ?rest = "drop (length pre) (c # line)"
  show ?case
  proof (cases "strings_HasPrefix (c # line) pre \<and> takeWhile cls ?rest \<noteq> [] \<and> strings_HasPrefix (dropWhile cls ?rest) suf")
    case True
    then have w: "w = takeWhile cls ?rest" using Cons.prems by (subst (asm) find_submatch.simps) (simp add: Let_def)
    from True obtain r v where r: "c # line = pre @ r" and v: "dropWhile cls ?rest = suf @ v"
      by (auto simp: strings_HasPrefix_def prefix_def)
    then have "?rest = r" by simp
    then have "r = w @ suf @ v" using w v by (metis takeWhile_dropWhile_id)
    with r have "c # line = [] @ pre @ w @ suf @ v" by simp
    moreover have "list_all cls w" "w \<noteq> []" using w True by (auto simp: list_all_iff dest: set_takeWhileD)
    ultimately show ?thesis by blast
  next
    case False
    with Cons.prems have "find_submatch pre cls suf line = Some w"
      by (subst (asm) find_submatch.simps) (auto simp: Let_def split: if_splits)
    from Cons.IH [OF this] obtain u v where "line = u @ pre @ w @ suf @ v" "w \<noteq> []" "list_all cls w" by blast
    then have "c # line = (c # u) @ pre @ w @ suf @ v \<and> w \<noteq> [] \<and> list_all cls w" by simp
    then show ?thesis by blast
  qed
qed

lemma find_submatch_None:
  assumes "\<not> cls (hd suf)" and "suf \<noteq> []" and w: "w \<noteq> []" "list_all cls w"
  shows "find_submatch pre cls suf (u @ pre @ w @ suf @ v) \<noteq> None"
proof (induction u)
  case Nil
  have tw: "takeWhile cls (w @ suf @ v) = w" "dropWhile cls (w @ suf @ v) = suf @ v"
    using assms(1,2) w(2) by (cases suf; simp add: list_all_iff takeWhile_append2 dropWhile_append2)+
  show ?case
    by (subst find_submatch.simps) (simp add: Let_def tw w(1) strings_HasPrefix_def)
next
  case (Cons c u)
  then show ?case by (subst find_submatch.simps) (simp add: Let_def)
qed

definition re_round :: "(bytes \<Rightarrow> string option) \<times> (nat \<Rightarrow> wait_event) \<Rightarrow> nat \<Rightarrow> (wait_error, string) result option" where
  "re_round re n =
     (case snd re n of CtxDone err \<Rightarrow> Some (Inl err) | Line line \<Rightarrow> map_option Inr (fst re line))"

lemma waitForRe_unroll: "waitForRe re n = (case re_round re n of Some r \<Rightarrow> Some r | None \<Rightarrow> waitForRe re (Suc n))"
  by (subst waitForRe.simps) (auto simp: re_round_def split: wait_event.splits option.splits)

lemma waitForRe_decided: "waitForRe re n = Some r \<Longrightarrow> \<exists>m\<ge>n. re_round re m \<noteq> None"
proof (rule waitForRe.raw_induct [where P = "\<lambda>re n r. \<exists>m\<ge>n. re_round re m \<noteq> None"])
  fix loop :: "(bytes \<Rightarrow> string option) \<times> (nat \<Rightarrow> wait_event) \<Rightarrow> nat \<Rightarrow> (wait_error, string) result option" and re n r
  assume IH: "\<And>re n r. loop re n = Some r \<Longrightarrow> \<exists>m\<ge>n. re_round re m \<noteq> None"
    and round: "(case snd re n of CtxDone err \<Rightarrow> Some (Inl err)
      | Line line \<Rightarrow> (case fst re line of Some m \<Rightarrow> Some (Inr m) | None \<Rightarrow> loop re (Suc n))) = Some r"
  show "\<exists>m\<ge>n. re_round re m \<noteq> None"
  proof (cases "re_round re n")
    case None
    with round have "loop re (Suc n) = Some r" by (auto simp: re_round_def split: wait_event.splits option.splits)
    from IH [OF this] show ?thesis using Suc_leD by blast
  qed auto
qed

interpretation re_wait: polling_loop waitForRe re_round
  by unfold_locales (rule waitForRe_unroll, rule waitForRe_decided)

lemma waitForRe_first:
  "waitForRe (re, events) 0 = Some (Inr m) \<longleftrightarrow>
     (\<exists>k line. events k = Line line \<and> re line = Some m \<and> (\<forall>j<k. \<exists>l. events j = Line l \<and> re l = None))"
proof -
  have "re_round (re, events) k = Some (Inr m) \<longleftrightarrow> (\<exists>line. events k = Line line \<and> re line = Some m)" for k
    by (auto simp: re_round_def split: wait_event.splits option.splits)
  moreover have "re_round (re, events) k = None \<longleftrightarrow> (\<exists>l. events k = Line l \<and> re l = None)" for k
    by (auto simp: re_round_def split: wait_event.splits option.splits)
  ultimately show ?thesis by (auto simp: re_wait.returns_iff)
qed

text \<open>Waiting for readiness counts announcements.\<close>

definition ready_step :: "(nat \<Rightarrow> wait_event) \<Rightarrow> nat \<Rightarrow> nat \<Rightarrow> nat + (wait_error, unit) result" where
  "ready_step events n seen =
     (case events n of
        CtxDone err \<Rightarrow> Inr (Inl err)
      | Line line \<Rightarrow> if saw line seen = 2 then Inr (Inr ()) else Inl (saw line seen))"

lemma WaitForReady_unroll:
  "WaitForReady events n seen = (case ready_step events n seen of Inr r \<Rightarrow> Some r | Inl seen \<Rightarrow> WaitForReady events (Suc n) seen)"
  by (subst WaitForReady.simps) (auto simp: ready_step_def split: wait_event.splits)

lemma WaitForReady_decided:
  "WaitForReady events n seen = Some r \<Longrightarrow> \<exists>k. scan (ready_step events) n seen (Suc k) = None"
proof (rule WaitForReady.raw_induct [where P = "\<lambda>events n seen r. \<exists>k. scan (ready_step events) n seen (Suc k) = None"])
  fix loop :: "(nat \<Rightarrow> wait_event) \<Rightarrow> nat \<Rightarrow> nat \<Rightarrow> (wait_error, unit) result option" and events n seen r
  assume IH: "\<And>events n seen r. loop events n seen = Some r \<Longrightarrow> \<exists>k. scan (ready_step events) n seen (Suc k) = None"
    and round: "(case events n of CtxDone err \<Rightarrow> Some (Inl err)
      | Line line \<Rightarrow> if saw line seen = 2 then Some (Inr ()) else loop events (Suc n) (saw line seen)) = Some r"
  show "\<exists>k. scan (ready_step events) n seen (Suc k) = None"
  proof (cases "ready_step events n seen")
    case (Inl seen')
    with round have "loop events (Suc n) seen' = Some r" by (auto simp: ready_step_def split: wait_event.splits if_splits)
    from IH [OF this] obtain k where "scan (ready_step events) (Suc n) seen' (Suc k) = None" by blast
    with Inl have "scan (ready_step events) n seen (Suc (Suc k)) = None" by simp
    then show ?thesis by blast
  qed simp
qed

interpretation ready_wait: scanning_loop WaitForReady ready_step
  by unfold_locales (rule WaitForReady_unroll, rule WaitForReady_decided)

definition announcements :: "wait_event \<Rightarrow> nat" where
  "announcements e = (case e of Line line \<Rightarrow> saw line 0 | CtxDone _ \<Rightarrow> 0)"

definition announced :: "(nat \<Rightarrow> wait_event) \<Rightarrow> nat \<Rightarrow> nat" where
  "announced events n = (\<Sum>k<n. announcements (events k))"

lemma saw_add: "saw line seen = seen + saw line 0"
  by (simp add: saw_def)

lemma ready_scan:
  "scan (ready_step events) 0 0 k = Some seen \<longleftrightarrow> seen = announced events k \<and>
     (\<forall>j<k. (\<exists>l. events j = Line l) \<and> announced events (Suc j) \<noteq> 2)"
proof (induction k arbitrary: seen)
  case (Suc k)
  have step: "ready_step events k (announced events k) = Inl seen \<longleftrightarrow>
      (\<exists>l. events k = Line l) \<and> announced events (Suc k) \<noteq> 2 \<and> seen = announced events (Suc k)"
    using saw_add [of _ "announced events k"]
    by (auto simp: ready_step_def announced_def announcements_def split: wait_event.splits if_splits)
  have "scan (ready_step events) 0 0 (Suc k) = Some seen \<longleftrightarrow>
      (\<exists>s. scan (ready_step events) 0 0 k = Some s \<and> ready_step events k s = Inl seen)"
    unfolding scan_snoc by (auto split: option.splits sum.splits)
  also have "\<dots> \<longleftrightarrow> (\<forall>j<k. (\<exists>l. events j = Line l) \<and> announced events (Suc j) \<noteq> 2) \<and> ready_step events k (announced events k) = Inl seen"
    unfolding Suc.IH by auto
  also have "\<dots> \<longleftrightarrow> seen = announced events (Suc k) \<and> (\<forall>j<Suc k. (\<exists>l. events j = Line l) \<and> announced events (Suc j) \<noteq> 2)"
    unfolding step by (auto simp: less_Suc_eq)
  finally show ?case .
qed (auto simp: announced_def)

text \<open>
  C34. The wait for readiness returns success exactly if, while there was only output, the number of announcements of
  the directory and of the root certificate was exactly two at some point; a count that jumps over two never
  succeeds. The wait returns if the context ends.
\<close>

theorem WaitForReady_spec:
  "(WaitForReady events 0 0 = Some (Inr ()) \<longleftrightarrow> (\<exists>m. (\<forall>j<m. \<exists>l. events j = Line l) \<and> announced events m = 2)) \<and>
   ((\<exists>m err. events m = CtxDone err) \<longrightarrow> WaitForReady events 0 0 \<noteq> None)"
proof (intro conjI impI)
  have fin: "ready_step events k (announced events k) = Inr (Inr ()) \<longleftrightarrow> (\<exists>l. events k = Line l) \<and> announced events (Suc k) = 2" for k
    using saw_add [of _ "announced events k"]
    by (auto simp: ready_step_def announced_def announcements_def split: wait_event.splits if_splits)
  have iff: "WaitForReady events 0 0 = Some (Inr ()) \<longleftrightarrow>
      (\<exists>k. (\<forall>j<Suc k. \<exists>l. events j = Line l) \<and> (\<forall>j<k. announced events (Suc j) \<noteq> 2) \<and> announced events (Suc k) = 2)"
    by (auto simp: ready_wait.scan_returns_iff ready_scan fin less_Suc_eq)
  show "WaitForReady events 0 0 = Some (Inr ()) \<longleftrightarrow> (\<exists>m. (\<forall>j<m. \<exists>l. events j = Line l) \<and> announced events m = 2)"
  proof
    assume "\<exists>m. (\<forall>j<m. \<exists>l. events j = Line l) \<and> announced events m = 2"
    then obtain m where m: "\<forall>j<m. \<exists>l. events j = Line l" "announced events m = 2" by blast
    define k where "k = (LEAST k. announced events k = 2)"
    have k: "announced events k = 2" "k \<le> m" "\<forall>j<k. announced events j \<noteq> 2"
      unfolding k_def using m(2) by (auto intro: LeastI Least_le dest: not_less_Least)
    then obtain i where i: "k = Suc i" by (cases k) (auto simp: announced_def)
    with k m(1) show "WaitForReady events 0 0 = Some (Inr ())" unfolding iff by (intro exI [of _ i]) auto
  qed (use iff in blast)
next
  assume "\<exists>m err. events m = CtxDone err"
  then obtain m err where "events m = CtxDone err" by blast
  then have "scan (ready_step events) 0 0 (Suc m) \<noteq> Some seen" for seen unfolding ready_scan by auto
  then have "scan (ready_step events) 0 0 (Suc m) = None" by blast
  then show "WaitForReady events 0 0 \<noteq> None" by (rule ready_wait.scan_returns_if_stops)
qed

definition ready_output :: "nat \<Rightarrow> wait_event" where
  "ready_output n = (if n = 0 then Line ''ACME directory available at: https://localhost:18000/dir''
     else if n = 1 then Line ''Root CA certificate available at: https://localhost:19000/roots/0'' else CtxDone WaitCanceled)"

theorem WaitForReady_spec_witness: "WaitForReady ready_output 0 0 = Some (Inr ())"
proof -
  have "saw ''ACME directory available at: https://localhost:18000/dir'' 0 = 1"
    "saw ''Root CA certificate available at: https://localhost:19000/roots/0'' 0 = 1" by code_simp+
  then have "announced ready_output 2 = 2"
    by (simp add: announced_def announcements_def ready_output_def numeral_2_eq_2)
  moreover have "\<forall>j<2. \<exists>l. ready_output j = Line l" by (auto simp: ready_output_def less_2_cases_iff)
  ultimately show ?thesis using WaitForReady_spec [of ready_output] by blast
qed

subsection \<open>Facts about the configuration\<close>

lemma map_of_obj_set: "map_of (obj_set k v kvs) k' = (if k' = k then Some v else map_of kvs k')"
  by (induction kvs) auto

lemma set_periods_Some:
  "list_all (\<lambda>(n, p). \<exists>d. p = JObject d) ps \<Longrightarrow>
     \<exists>ps'. set_periods secs ps = Some ps' \<and> map fst ps' = map fst ps \<and>
       list_all (\<lambda>(n, p). \<exists>d. p = JObject d \<and> map_of d ''validityPeriod'' = Some (JInt secs)) ps'"
  by (induction ps) (auto simp: map_of_obj_set)

text \<open>The addresses of a configuration are its own, and its root URL is the one its clients use.\<close>

lemma itoa_nat_digits: "c \<in> set (itoa_nat n) \<Longrightarrow> is_digit c"
proof (induction n rule: itoa_nat.induct)
  case (1 n)
  then show ?case
    by (subst (asm) (2) itoa_nat.simps)
      (auto simp: is_digit_def char_between_def digit_lower_def of_char_of split: if_splits)
qed

lemma Itoa_host_chars: "list_all host_char (strconv_Itoa i)"
proof -
  have "is_digit c \<Longrightarrow> host_char c" for c by (simp add: host_char_def shouldEscape_def is_alnum_def)
  moreover have "host_char CHR ''-''" by (simp add: host_char_def shouldEscape_def)
  ultimately show ?thesis by (auto simp: strconv_Itoa_def list_all_iff dest: itoa_nat_digits)
qed

lemma NewConfig_RootCertURL: "pc_RootCertURL (NewConfig opt :: 'pool pebble_Config) = CARootsURL (NewConfig opt :: 'pool pebble_Config) 0"
proof -
  let ?pc = "NewConfig opt :: 'pool pebble_Config"
  let ?m = "pc_ManagementAddress ?pc"
  have "list_all host_char ''localhost:''" "list_all host_char ''localhost:19000''"
    by (simp_all add: host_char_def shouldEscape_def is_alnum_def is_lower_def is_upper_def is_digit_def char_between_def)
  then have host: "url_escape encodeHost ?m = ?m"
    by (intro host_escape_id) (auto simp: NewConfig_def Let_def Itoa_host_chars)
  have "?m \<noteq> []" "\<not> strings_HasPrefix ?m ''https://''"
    by (auto simp: NewConfig_def Let_def strings_HasPrefix_def)
  moreover have "path_part (empty_URL\<lparr>url_Scheme := ''https'', url_Host := ?m, url_Path := ''/roots/0''\<rparr>) = ''/roots/0''"
    "query_part (empty_URL\<lparr>url_Scheme := ''https'', url_Host := ?m, url_Path := ''/roots/0''\<rparr>) = []"
    "strconv_Itoa 0 = ''0''"
    by (simp_all add: path_part_def query_part_def EscapedPath_def empty_URL_def url_escape_def shouldEscape_def is_alnum_def is_lower_def
        is_upper_def is_digit_def char_between_def strconv_Itoa_def itoa_nat.simps digit_lower_def) code_simp
  moreover have "pc_RootCertURL ?pc = URL_String (empty_URL\<lparr>url_Scheme := ''https'', url_Host := ?m, url_Path := ''/roots/0''\<rparr>)"
    by (simp add: NewConfig_def Let_def)
  ultimately show ?thesis by (simp add: URL_String_host empty_URL_def host CARootsURL_def ensureScheme_def)
qed

definition deep_pebble :: json_object where
  "deep_pebble = (case map_of (deepCopy parsedConfig) ''pebble'' of Some p \<Rightarrow> p | None \<Rightarrow> [])"

lemma deep_pebble: "map_of (deepCopy parsedConfig) ''pebble'' = Some deep_pebble"
  by (simp add: deep_pebble_def deepCopy_def parsedConfig_def)

definition deep_profiles :: json_object where
  "deep_profiles = (case map_of deep_pebble ''profiles'' of Some (JObject ps) \<Rightarrow> ps | _ \<Rightarrow> [])"

lemma deep_profiles:
  "map_of deep_pebble ''profiles'' = Some (JObject deep_profiles)" "map fst deep_profiles = [''default'', ''shortlived'']"
  "list_all (\<lambda>(n, p). \<exists>d. p = JObject d) deep_profiles"
  by (simp_all add: deep_profiles_def deep_pebble_def deepCopy_def parsedConfig_def)

lemma pebble_settings_lookup:
  "map_of (fold (\<lambda>(k, v). obj_set k v) (pebble_settings pc) p) ''listenAddress'' = Some (JString (pc_Address pc))"
  "map_of (fold (\<lambda>(k, v). obj_set k v) (pebble_settings pc) p) ''managementListenAddress'' = Some (JString (pc_ManagementAddress pc))"
  "map_of (fold (\<lambda>(k, v). obj_set k v) (pebble_settings pc) p) ''httpPort'' = Some (JInt (pc_HTTPPort pc))"
  "map_of (fold (\<lambda>(k, v). obj_set k v) (pebble_settings pc) p) ''tlsPort'' = Some (JInt (pc_TLSPort pc))"
  "map_of (fold (\<lambda>(k, v). obj_set k v) (pebble_settings pc) p) ''profiles'' = map_of p ''profiles''"
  by (simp_all add: pebble_settings_def map_of_obj_set)

text \<open>
  The configuration written for the server agrees with the one its clients use: the server is told to listen on the
  addresses from which the directory and root certificate URLs are made, with the challenge ports of the
  configuration, and every profile has the validity period that was asked for, if one was; the profiles the
  configuration reports as possible are still those of the built-in one.
\<close>

theorem NewConfig_written:
  fixes opt :: "ConfigOption list"
  defines "pc \<equiv> NewConfig opt :: 'pool pebble_Config"
  shows "\<exists>cfg pebble profiles. updated_config seconds pc = Some cfg \<and> map_of cfg ''pebble'' = Some pebble \<and>
    map_of pebble ''listenAddress'' = Some (JString (pc_Address pc)) \<and>
    map_of pebble ''managementListenAddress'' = Some (JString (pc_ManagementAddress pc)) \<and>
    map_of pebble ''httpPort'' = Some (JInt (pc_HTTPPort pc)) \<and> map_of pebble ''tlsPort'' = Some (JInt (pc_TLSPort pc)) \<and>
    map_of pebble ''profiles'' = Some (JObject profiles) \<and> map fst profiles = [''default'', ''shortlived''] \<and>
    (cf_validityPeriod (pc_opts pc) \<noteq> 0 \<longrightarrow>
       list_all (\<lambda>(n, p). \<exists>d. p = JObject d \<and>
         map_of d ''validityPeriod'' = Some (JInt (seconds (cf_validityPeriod (pc_opts pc))))) profiles) \<and>
    pebble_DirectoryURL pc = ''https://'' @ pc_Address pc @ ''/dir'' \<and> pc_RootCertURL pc = CARootsURL pc 0 \<and>
    PossibleValidityPeriods pc = [7776000 * 1000000000, 518400 * 1000000000]"
proof -
  have orig: "pc_originalConfig pc = parsedConfig" by (simp add: pc_def NewConfig_def Let_def)
  let ?secs = "seconds (cf_validityPeriod (pc_opts pc))"
  obtain ps where ps: "set_periods ?secs deep_profiles = Some ps" "map fst ps = [''default'', ''shortlived'']"
      "list_all (\<lambda>(n, p). \<exists>d. p = JObject d \<and> map_of d ''validityPeriod'' = Some (JInt ?secs)) ps"
    using set_periods_Some [OF deep_profiles(3), of ?secs] unfolding deep_profiles(2) by (elim exE conjE) (rule that)
  define profiles where "profiles = (if cf_validityPeriod (pc_opts pc) \<noteq> 0 then ps else deep_profiles)"
  define pebble where "pebble = (if cf_validityPeriod (pc_opts pc) \<noteq> 0 then obj_set ''profiles'' (JObject ps) deep_pebble else deep_pebble)"
  have set: "(if cf_validityPeriod (pc_opts pc) \<noteq> 0 then set_profiles ?secs deep_pebble else Some deep_pebble) = Some pebble"
    by (simp add: pebble_def set_profiles_def deep_profiles(1) ps(1))
  let ?peb = "fold (\<lambda>(k, v). obj_set k v) (pebble_settings pc) pebble"
  let ?cfg = "obj_set ''pebble'' ?peb (deepCopy parsedConfig)"
  have upd: "updated_config seconds pc = Some ?cfg"
    unfolding updated_config_def orig Let_def deep_pebble option.case set ..
  have look: "map_of ?cfg ''pebble'' = Some ?peb" by (simp add: map_of_obj_set)
  have prof: "map_of ?peb ''profiles'' = Some (JObject profiles)"
    unfolding pebble_settings_lookup by (simp add: pebble_def profiles_def map_of_obj_set deep_profiles(1))
  have names: "map fst profiles = [''default'', ''shortlived'']" by (simp add: profiles_def ps(2) deep_profiles(2))
  have period: "cf_validityPeriod (pc_opts pc) \<noteq> 0 \<longrightarrow>
      list_all (\<lambda>(n, p). \<exists>d. p = JObject d \<and> map_of d ''validityPeriod'' = Some (JInt ?secs)) profiles"
    using ps(3) by (simp add: profiles_def)
  have "\<not> strings_HasPrefix (pc_Address pc) ''https://''" by (auto simp: pc_def NewConfig_def Let_def strings_HasPrefix_def)
  then have dir: "pebble_DirectoryURL pc = ''https://'' @ pc_Address pc @ ''/dir''" by (simp add: pebble_DirectoryURL_def ensureScheme_def)
  have poss: "PossibleValidityPeriods pc = [7776000 * 1000000000, 518400 * 1000000000]"
    by (simp add: PossibleValidityPeriods_def orig parsedConfig_def profile_period_def)
  have root: "pc_RootCertURL pc = CARootsURL pc 0" unfolding pc_def by (rule NewConfig_RootCertURL)
  show ?thesis
    by (rule exI [of _ ?cfg], rule exI [of _ ?peb], rule exI [of _ profiles],
        intro conjI upd look pebble_settings_lookup(1-4) prof names period dir root poss)
qed

theorem NewConfig_written_witness:
  "\<exists>cfg pebble profiles. updated_config (\<lambda>d. sint d div 1000000000) (NewConfig [WithValidityPeriod 60] :: unit pebble_Config) = Some cfg \<and>
     map_of cfg ''pebble'' = Some pebble \<and> map_of pebble ''profiles'' = Some (JObject profiles) \<and>
     list_all (\<lambda>(n, p). \<exists>d. p = JObject d \<and> map_of d ''validityPeriod'' = Some (JInt 60)) profiles"
proof -
  have "cf_validityPeriod (pc_opts (NewConfig [WithValidityPeriod 60] :: unit pebble_Config)) = 60000000000"
    by (simp add: NewConfig_def Let_def WithValidityPeriod_def)
  moreover have "sint (60000000000 :: 64 word) div 1000000000 = 60" by simp
  ultimately show ?thesis
    using NewConfig_written [of "\<lambda>d. sint d div 1000000000" "[WithValidityPeriod 60]", where ?'pool = unit] by auto
qed

end
