(* ===== verification/PebbleTest.thy ===== *)
theory PebbleTest
  imports Pebble
begin

text \<open>
  \<^verbatim>\<open>webauth/acme/pebble/pebbletest/pebble_run.go\<close>: starting a pebble server in a test and waiting for connections and
  for new certificates. \<open>Fatalf\<close> ends the test: it is the result \<open>Inl\<close>. The ticks of a ticker and the end of the
  context are a sequence of events, each tick with what the file system or the network answers then. What is logged
  is left out.
\<close>

subsection \<open>The recorder\<close>

record Recorder =
  rc_buf :: bytes

definition Recorder_Close :: "Recorder \<Rightarrow> (string, unit) result" where
  "Recorder_Close r = Inr ()"

definition Recorder_Write :: "bytes \<Rightarrow> Recorder \<Rightarrow> Recorder \<times> nat" where
  "Recorder_Write p r = (r\<lparr>rc_buf := rc_buf r @ p\<rparr>, length p)"

definition Recorder_String :: "Recorder \<Rightarrow> string" where
  "Recorder_String r = rc_buf r"

subsection \<open>Options\<close>

record test_options =
  to_serverOpts :: "ServerOption list"
  to_configOpts :: "ConfigOption list"

type_synonym TestOption = "test_options \<Rightarrow> test_options"

definition WithServerOptions :: "ServerOption list \<Rightarrow> TestOption" where
  "WithServerOptions opts o1 = o1\<lparr>to_serverOpts := to_serverOpts o1 @ opts\<rparr>"

definition WithConfigOptions :: "ConfigOption list \<Rightarrow> TestOption" where
  "WithConfigOptions opts o1 = o1\<lparr>to_configOpts := to_configOpts o1 @ opts\<rparr>"

datatype fatal = CacheDirFailed | CertsFailed create_error | ServerFailed start_error | NotReady wait_error | ConnectTimeout
  | CertTimeout | StatFailed | CertUnreadable | NoLeafCert

subsection \<open>Waiting for a connection\<close>

text \<open>Each tick dials once.\<close>

datatype dial_event = DialCtxDone | DialTick bool

partial_function (option) WaitForConnection :: "(nat \<Rightarrow> dial_event) \<Rightarrow> nat \<Rightarrow> (fatal, unit) result option" where
  "WaitForConnection env n =
     (case env n of
        DialCtxDone \<Rightarrow> Some (Inl ConnectTimeout)
      | DialTick connected \<Rightarrow> if \<not> connected then WaitForConnection env (Suc n) else Some (Inr ()))"

subsection \<open>Certificates in a file\<close>

text \<open>
  The loop over the blocks of a file; the input's length is enough fuel. A pool holds each certificate once.
\<close>

definition AddCert :: "certificate \<Rightarrow> certificate list \<Rightarrow> certificate list" where
  "AddCert c pool = (if c \<in> set pool then pool else pool @ [c])"

fun cert_loop ::
    "pem_decode \<Rightarrow> (bytes \<Rightarrow> certificate option) \<Rightarrow> nat \<Rightarrow> bytes \<Rightarrow> certificate option \<Rightarrow> certificate list \<Rightarrow>
       (certificate option \<times> certificate list) option" where
  "cert_loop dec parse 0 certPEM leafCert intermediates = (if dec certPEM = None then Some (leafCert, intermediates) else None)"
| "cert_loop dec parse (Suc n) certPEM leafCert intermediates =
     (case dec certPEM of
        None \<Rightarrow> Some (leafCert, intermediates)
      | Some (block, certPEM) \<Rightarrow>
          if pb_Type block \<noteq> ''CERTIFICATE'' then cert_loop dec parse n certPEM leafCert intermediates
          else
            (case parse (pb_Bytes block) of
               None \<Rightarrow> cert_loop dec parse n certPEM leafCert intermediates
             | Some cert \<Rightarrow>
                 if \<not> ct_IsCA cert then cert_loop dec parse n certPEM (Some cert) intermediates
                 else cert_loop dec parse n certPEM leafCert (AddCert cert intermediates)))"

text \<open>\<open>file\<close> is what reading the file gives; the outer \<open>None\<close> would be a loop that does not end.\<close>

definition getCerts ::
    "pem_decode \<Rightarrow> (bytes \<Rightarrow> certificate option) \<Rightarrow> bytes option \<Rightarrow> (fatal, certificate \<times> certificate list) result option" where
  "getCerts dec parse file =
     (case file of
        None \<Rightarrow> Some (Inl CertUnreadable)
      | Some certPEM \<Rightarrow>
          (case cert_loop dec parse (length certPEM) certPEM None [] of
             None \<Rightarrow> None
           | Some (None, _) \<Rightarrow> Some (Inl NoLeafCert)
           | Some (Some leafCert, intermediates) \<Rightarrow> Some (Inr (leafCert, intermediates))))"

subsection \<open>Waiting for a new certificate\<close>

datatype cert_event = CertCtxDone | StatMissing | StatError | CertFile "bytes option"

record cert_env =
  ce_events :: "nat \<Rightarrow> cert_event"
  ce_pem :: pem_decode
  ce_parse :: "bytes \<Rightarrow> certificate option"
  ce_previous :: string

partial_function (option) WaitForNewCert :: "cert_env \<Rightarrow> nat \<Rightarrow> (fatal, certificate \<times> certificate list) result option" where
  "WaitForNewCert env n =
     (case ce_events env n of
        CertCtxDone \<Rightarrow> Some (Inl CertTimeout)
      | StatMissing \<Rightarrow> WaitForNewCert env (Suc n)
      | StatError \<Rightarrow> Some (Inl StatFailed)
      | CertFile file \<Rightarrow>
          (case getCerts (ce_pem env) (ce_parse env) file of
             None \<Rightarrow> None
           | Some (Inl e) \<Rightarrow> Some (Inl e)
           | Some (Inr (leafCert, intermediates)) \<Rightarrow>
               let gotSerial = SerialNumberHex (ct_Serial leafCert) in
               if gotSerial \<noteq> ce_previous env then Some (Inr (leafCert, intermediates))
               else WaitForNewCert env (Suc n)))"

subsection \<open>Starting a server\<close>

text \<open>\<open>ts_forwarded\<close> are the writes of the server's output to the recorder until it returns.\<close>

record 'pool test_env =
  ts_pebble :: "'pool pebble_env"
  ts_environ :: "string list"
  ts_start :: "exec_Cmd \<Rightarrow> int option"
  ts_events :: "nat \<Rightarrow> wait_event"
  ts_dial :: "string \<Rightarrow> nat \<Rightarrow> dial_event"
  ts_forwarded :: "bytes list"

record 'pool started =
  sd_server :: pebble_T
  sd_cfg :: "'pool pebble_Config"
  sd_out :: Recorder
  sd_cacheDir :: string
  sd_testDir :: string
  sd_files :: fs_state

definition Start :: "'pool test_env \<Rightarrow> string \<Rightarrow> TestOption list \<Rightarrow> fs_state \<Rightarrow> (fatal, 'pool started) result option" where
  "Start ts tmpDir opts s =
     (let o1 = apply_options opts \<lparr>to_serverOpts = [], to_configOpts = []\<rparr>;
          pebbleCacheDir = path_Join tmpDir ''certcache''
      in if \<not> pe_mkdirAll (ts_pebble ts) pebbleCacheDir then Some (Inl CacheDirFailed)
         else
           let pebbleServer = pebble_New ''pebble'' (to_serverOpts o1);
               pebbleTestDir = path_Join tmpDir ''pebble-test'';
               cfg = NewConfig (to_configOpts o1)
           in case CreateCertsAndUpdateConfig (ts_pebble ts) pebbleTestDir cfg s of
                None \<Rightarrow> None
              | Some (cfg, s, Inl e) \<Rightarrow> Some (Inl (CertsFailed e))
              | Some (cfg, s, Inr pebbleCfg) \<Rightarrow>
                  (case pebble_Start (pe_lookPath (ts_pebble ts)) (ts_environ ts) (ts_start ts) pebbleTestDir pebbleCfg pebbleServer of
                     (pebbleServer, Inl e) \<Rightarrow> Some (Inl (ServerFailed e))
                   | (pebbleServer, Inr _) \<Rightarrow>
                       (case WaitForReady (ts_events ts) 0 0 of
                          None \<Rightarrow> None
                        | Some (Inl e) \<Rightarrow> Some (Inl (NotReady e))
                        | Some (Inr _) \<Rightarrow>
                            (case WaitForConnection (ts_dial ts (pc_Address cfg)) 0 of
                               None \<Rightarrow> None
                             | Some (Inl e) \<Rightarrow> Some (Inl e)
                             | Some (Inr _) \<Rightarrow>
                                 Some (Inr \<lparr>sd_server = pebbleServer, sd_cfg = cfg,
                                            sd_out = fold (\<lambda>p r. fst (Recorder_Write p r)) (ts_forwarded ts) \<lparr>rc_buf = []\<rparr>,
                                            sd_cacheDir = pebbleCacheDir, sd_testDir = pebbleTestDir, sd_files = s\<rparr>)))))"

subsection \<open>Facts about certificates in a file\<close>

definition add_block :: "(bytes \<Rightarrow> certificate option) \<Rightarrow> pem_block \<Rightarrow> certificate option \<times> certificate list \<Rightarrow> certificate option \<times> certificate list" where
  "add_block parse b acc =
     (case parse (pb_Bytes b) of
        None \<Rightarrow> acc
      | Some c \<Rightarrow> if \<not> ct_IsCA c then (Some c, snd acc) else (fst acc, AddCert c (snd acc)))"

definition parsed_certs :: "(bytes \<Rightarrow> certificate option) \<Rightarrow> pem_block list \<Rightarrow> certificate list" where
  "parsed_certs parse bs = List.map_filter (\<lambda>b. parse (pb_Bytes b)) bs"

text \<open>The loop sees the certificate blocks \<^verbatim>\<open>ParsePEM\<close> finds, in their order.\<close>

lemma cert_loop_pem_loop:
  "pem_loop dec n rest p = Some p' \<Longrightarrow>
     \<exists>bs. pp_certs p' = pp_certs p @ bs \<and> cert_loop dec parse n rest leaf ints = Some (fold (add_block parse) bs (leaf, ints))"
proof (induction n arbitrary: rest p leaf ints)
  case 0
  then show ?case by (auto split: if_splits option.splits)
next
  case (Suc n)
  show ?case
  proof (cases "dec rest")
    case None
    with Suc.prems show ?thesis by simp
  next
    case (Some br)
    obtain b rest' where br: "br = (b, rest')" by force
    let ?cert = "pb_Type b = ''CERTIFICATE''"
    let ?acc = "if ?cert then add_block parse b (leaf, ints) else (leaf, ints)"
    from Suc.prems Some br have l: "pem_loop dec n rest' (classify_block b p) = Some p'" by simp
    from Suc.IH [OF l, of "fst ?acc" "snd ?acc"] obtain bs where
      bs: "pp_certs p' = pp_certs (classify_block b p) @ bs" "cert_loop dec parse n rest' (fst ?acc) (snd ?acc) = Some (fold (add_block parse) bs ?acc)"
      by auto
    have step: "cert_loop dec parse (Suc n) rest leaf ints = cert_loop dec parse n rest' (fst ?acc) (snd ?acc)"
      using Some br by (simp add: add_block_def split: option.splits)
    show ?thesis
      by (rule exI [of _ "(if ?cert then [b] else []) @ bs"]) (use bs in \<open>simp add: step classify_block_def del: cert_loop.simps\<close>)
  qed
qed

lemma fold_add_block:
  "fold (add_block parse) bs (leaf, ints) =
     (case filter (\<lambda>c. \<not> ct_IsCA c) (parsed_certs parse bs) of [] \<Rightarrow> leaf | cs \<Rightarrow> Some (last cs),
      fold AddCert (filter ct_IsCA (parsed_certs parse bs)) ints)"
  by (induction bs arbitrary: leaf ints)
    (auto simp: parsed_certs_def List.map_filter_simps add_block_def split: option.splits list.splits)

lemma AddCert_pool: "set (fold AddCert cs pool) = set pool \<union> set cs \<and> (distinct pool \<longrightarrow> distinct (fold AddCert cs pool))"
  by (induction cs arbitrary: pool) (auto simp: AddCert_def)

text \<open>
  The certificates of a file: the leaf is the last certificate that is not a CA's, the pool holds those that are, each
  once; blocks of other types and certificates that do not parse are skipped.
\<close>

lemma getCerts_spec:
  assumes "pem_laws dec"
  shows "\<exists>p. ParsePEM dec d = Some p \<and>
    getCerts dec parse (Some d) =
      Some (case filter (\<lambda>c. \<not> ct_IsCA c) (parsed_certs parse (pp_certs p)) of
              [] \<Rightarrow> Inl NoLeafCert
            | cs \<Rightarrow> Inr (last cs, fold AddCert (filter ct_IsCA (parsed_certs parse (pp_certs p))) []))"
proof -
  let ?p0 = "\<lparr>pp_privateKeys = [], pp_publicKeys = [], pp_certs = []\<rparr>"
  obtain p where p: "pem_loop dec (length d) d ?p0 = Some p"
    using pem_loop_enough [OF assms, of d "length d" ?p0] by blast
  obtain bs where "pp_certs p = bs" "cert_loop dec parse (length d) d None [] = Some (fold (add_block parse) bs (None, []))"
    using cert_loop_pem_loop [OF p, of parse None "[]"] by auto
  then show ?thesis using p
    by (auto simp: getCerts_def ParsePEM_def fold_add_block split: list.splits)
qed

lemma getCerts_total:
  assumes "pem_laws dec"
  shows "getCerts dec parse contents \<noteq> None"
proof (cases contents)
  case (Some d)
  with getCerts_spec [OF assms, of d parse] show ?thesis by auto
qed (simp add: getCerts_def)

lemma getCerts_leaf:
  assumes laws: "pem_laws dec" and got: "getCerts dec parse (Some d) = Some (Inr (leaf, ints))"
  shows "\<not> ct_IsCA leaf" and "list_all ct_IsCA ints"
proof -
  obtain p :: pem_parts where p: "getCerts dec parse (Some d) =
      Some (case filter (\<lambda>c. \<not> ct_IsCA c) (parsed_certs parse (pp_certs p)) of [] \<Rightarrow> Inl NoLeafCert
            | cs \<Rightarrow> Inr (last cs, fold AddCert (filter ct_IsCA (parsed_certs parse (pp_certs p))) []))"
    using getCerts_spec [OF laws, of d parse] by (elim exE conjE) (rule that, assumption)
  define ls where "ls = filter (\<lambda>c. \<not> ct_IsCA c) (parsed_certs parse (pp_certs p))"
  define cas where "cas = filter ct_IsCA (parsed_certs parse (pp_certs p))"
  have "(case ls of [] \<Rightarrow> Inl NoLeafCert | cs \<Rightarrow> Inr (last cs, fold AddCert cas [])) = Inr (leaf, ints)"
    using got unfolding p ls_def cas_def by (simp only: option.inject)
  then have l: "ls \<noteq> []" "leaf = last ls" and i: "ints = fold AddCert cas []" by (cases ls; simp)+
  from l have "leaf \<in> set ls" by simp
  then show "\<not> ct_IsCA leaf" by (simp add: ls_def)
  show "list_all ct_IsCA ints" using AddCert_pool [of cas "[]"] by (simp add: i cas_def list_all_iff)
qed

subsection \<open>Facts about the waits\<close>

definition connect_attempt :: "(nat \<Rightarrow> dial_event) \<Rightarrow> nat \<Rightarrow> (fatal, unit) result option" where
  "connect_attempt env n =
     (case env n of DialCtxDone \<Rightarrow> Some (Inl ConnectTimeout) | DialTick connected \<Rightarrow> if connected then Some (Inr ()) else None)"

lemma WaitForConnection_unroll:
  "WaitForConnection env n = (case connect_attempt env n of Some r \<Rightarrow> Some r | None \<Rightarrow> WaitForConnection env (Suc n))"
  by (subst WaitForConnection.simps) (auto simp: connect_attempt_def split: dial_event.splits)

lemma WaitForConnection_decided: "WaitForConnection env n = Some r \<Longrightarrow> \<exists>m\<ge>n. connect_attempt env m \<noteq> None"
proof (rule WaitForConnection.raw_induct [where P = "\<lambda>env n r. \<exists>m\<ge>n. connect_attempt env m \<noteq> None"])
  fix loop :: "(nat \<Rightarrow> dial_event) \<Rightarrow> nat \<Rightarrow> (fatal, unit) result option" and env n r
  assume IH: "\<And>env n r. loop env n = Some r \<Longrightarrow> \<exists>m\<ge>n. connect_attempt env m \<noteq> None"
    and round: "(case env n of DialCtxDone \<Rightarrow> Some (Inl ConnectTimeout)
      | DialTick connected \<Rightarrow> if \<not> connected then loop env (Suc n) else Some (Inr ())) = Some r"
  show "\<exists>m\<ge>n. connect_attempt env m \<noteq> None"
  proof (cases "connect_attempt env n")
    case None
    with round have "loop env (Suc n) = Some r" by (auto simp: connect_attempt_def split: dial_event.splits if_splits)
    from IH [OF this] show ?thesis using Suc_leD by blast
  qed auto
qed

interpretation connection_wait: polling_loop WaitForConnection connect_attempt
  by unfold_locales (rule WaitForConnection_unroll, rule WaitForConnection_decided)

lemma WaitForConnection_iff:
  "WaitForConnection env 0 = Some (Inr ()) \<longleftrightarrow> (\<exists>m. env m = DialTick True \<and> (\<forall>k<m. env k = DialTick False))"
proof -
  have "connect_attempt env k = Some (Inr ()) \<longleftrightarrow> env k = DialTick True" "connect_attempt env k = None \<longleftrightarrow> env k = DialTick False" for k
    by (auto simp: connect_attempt_def split: dial_event.splits)
  then show ?thesis by (simp add: connection_wait.returns_iff)
qed

text \<open>A tick that finds a file without a new certificate goes round again.\<close>

definition cert_attempt :: "cert_env \<Rightarrow> nat \<Rightarrow> (fatal, certificate \<times> certificate list) result option" where
  "cert_attempt env n =
     (case ce_events env n of
        CertCtxDone \<Rightarrow> Some (Inl CertTimeout)
      | StatMissing \<Rightarrow> None
      | StatError \<Rightarrow> Some (Inl StatFailed)
      | CertFile file \<Rightarrow>
          (case getCerts (ce_pem env) (ce_parse env) file of
             Some (Inr (leaf, ints)) \<Rightarrow> if SerialNumberHex (ct_Serial leaf) \<noteq> ce_previous env then Some (Inr (leaf, ints)) else None
           | r \<Rightarrow> r))"

lemma WaitForNewCert_unroll:
  assumes "pem_laws (ce_pem env)"
  shows "WaitForNewCert env n = (case cert_attempt env n of Some r \<Rightarrow> Some r | None \<Rightarrow> WaitForNewCert env (Suc n))"
  by (subst WaitForNewCert.simps) (auto simp: cert_attempt_def Let_def getCerts_total [OF assms] split: cert_event.splits option.splits sum.splits)

lemma WaitForNewCert_decided: "WaitForNewCert env n = Some r \<Longrightarrow> \<exists>m\<ge>n. cert_attempt env m \<noteq> None"
proof (rule WaitForNewCert.raw_induct [where P = "\<lambda>env n r. \<exists>m\<ge>n. cert_attempt env m \<noteq> None"])
  fix loop :: "cert_env \<Rightarrow> nat \<Rightarrow> (fatal, certificate \<times> certificate list) result option" and env n r
  assume IH: "\<And>env n r. loop env n = Some r \<Longrightarrow> \<exists>m\<ge>n. cert_attempt env m \<noteq> None"
    and round: "(case ce_events env n of CertCtxDone \<Rightarrow> Some (Inl CertTimeout) | StatMissing \<Rightarrow> loop env (Suc n)
      | StatError \<Rightarrow> Some (Inl StatFailed)
      | CertFile file \<Rightarrow>
          (case getCerts (ce_pem env) (ce_parse env) file of None \<Rightarrow> None | Some (Inl e) \<Rightarrow> Some (Inl e)
           | Some (Inr (leafCert, intermediates)) \<Rightarrow>
               let gotSerial = SerialNumberHex (ct_Serial leafCert) in
               if gotSerial \<noteq> ce_previous env then Some (Inr (leafCert, intermediates)) else loop env (Suc n))) = Some r"
  show "\<exists>m\<ge>n. cert_attempt env m \<noteq> None"
  proof (cases "cert_attempt env n")
    case None
    with round have "loop env (Suc n) = Some r"
      by (auto simp: cert_attempt_def Let_def split: cert_event.splits option.splits sum.splits prod.splits if_splits)
    from IH [OF this] show ?thesis using Suc_leD by blast
  qed auto
qed

interpretation new_cert_wait: polling_loop
  "\<lambda>env n. if pem_laws (ce_pem env) then WaitForNewCert env n else None"
  "\<lambda>env n. if pem_laws (ce_pem env) then cert_attempt env n else None"
proof
  show "(if pem_laws (ce_pem env) then WaitForNewCert env n else None) =
      (case if pem_laws (ce_pem env) then cert_attempt env n else None of Some r \<Rightarrow> Some r
       | None \<Rightarrow> if pem_laws (ce_pem env) then WaitForNewCert env (Suc n) else None)" for env n
    using WaitForNewCert_unroll [of env n] by simp
next
  show "\<exists>m\<ge>n. (if pem_laws (ce_pem env) then cert_attempt env m else None) \<noteq> None"
    if "(if pem_laws (ce_pem env) then WaitForNewCert env n else None) = Some r" for env n r
    using that WaitForNewCert_decided [of env n r] by (simp split: if_splits)
qed

lemma cert_attempt_found:
  "cert_attempt env k = Some (Inr (leaf, ints)) \<longleftrightarrow>
     (\<exists>d. ce_events env k = CertFile (Some d) \<and> getCerts (ce_pem env) (ce_parse env) (Some d) = Some (Inr (leaf, ints)) \<and>
        SerialNumberHex (ct_Serial leaf) \<noteq> ce_previous env)"
proof (cases "ce_events env k")
  case (CertFile contents)
  show ?thesis
  proof (cases contents)
    case (Some d)
    with CertFile show ?thesis by (auto simp: cert_attempt_def split: option.splits sum.splits if_splits)
  qed (simp add: CertFile cert_attempt_def getCerts_def)
qed (simp_all add: cert_attempt_def)

lemma cert_attempt_again:
  assumes "pem_laws (ce_pem env)"
  shows "cert_attempt env k = None \<longleftrightarrow> ce_events env k = StatMissing \<or>
    (\<exists>d l i. ce_events env k = CertFile (Some d) \<and> getCerts (ce_pem env) (ce_parse env) (Some d) = Some (Inr (l, i)) \<and>
       SerialNumberHex (ct_Serial l) = ce_previous env)"
proof (cases "ce_events env k")
  case (CertFile contents)
  show ?thesis
  proof (cases contents)
    case (Some d)
    with CertFile getCerts_total [OF assms, of "ce_parse env" "Some d"] show ?thesis
      by (auto simp: cert_attempt_def split: option.splits sum.splits if_splits)
  qed (simp add: CertFile cert_attempt_def getCerts_def)
qed (simp_all add: cert_attempt_def)

text \<open>
  The wait for a new certificate returns a certificate exactly if, at the first tick that finds a readable file
  whose leaf has another serial number, it is that leaf with the CA certificates of the file; before it the file was
  missing or had the previous leaf. The leaf is not a CA's. The wait returns if the context ends.
\<close>

theorem WaitForNewCert_spec:
  assumes laws: "pem_laws (ce_pem env)"
  shows "(WaitForNewCert env 0 = Some (Inr (leaf, ints)) \<longleftrightarrow>
      (\<exists>m d. ce_events env m = CertFile (Some d) \<and> getCerts (ce_pem env) (ce_parse env) (Some d) = Some (Inr (leaf, ints)) \<and>
         SerialNumberHex (ct_Serial leaf) \<noteq> ce_previous env \<and>
         (\<forall>k<m. ce_events env k = StatMissing \<or>
            (\<exists>d l i. ce_events env k = CertFile (Some d) \<and> getCerts (ce_pem env) (ce_parse env) (Some d) = Some (Inr (l, i)) \<and>
               SerialNumberHex (ct_Serial l) = ce_previous env)))) \<and>
    (WaitForNewCert env 0 = Some (Inr (leaf, ints)) \<longrightarrow> \<not> ct_IsCA leaf \<and> list_all ct_IsCA ints) \<and>
    ((\<exists>m. ce_events env m = CertCtxDone) \<longrightarrow> WaitForNewCert env 0 \<noteq> None)"
proof (intro conjI impI)
  note found = cert_attempt_found [of env _ leaf ints] and again = cert_attempt_again [OF laws]
  show iff: "WaitForNewCert env 0 = Some (Inr (leaf, ints)) \<longleftrightarrow>
      (\<exists>m d. ce_events env m = CertFile (Some d) \<and> getCerts (ce_pem env) (ce_parse env) (Some d) = Some (Inr (leaf, ints)) \<and>
         SerialNumberHex (ct_Serial leaf) \<noteq> ce_previous env \<and>
         (\<forall>k<m. ce_events env k = StatMissing \<or>
            (\<exists>d l i. ce_events env k = CertFile (Some d) \<and> getCerts (ce_pem env) (ce_parse env) (Some d) = Some (Inr (l, i)) \<and>
               SerialNumberHex (ct_Serial l) = ce_previous env)))"
    using new_cert_wait.returns_iff [of env "Inr (leaf, ints)"] laws by (simp add: found again) blast
  assume "WaitForNewCert env 0 = Some (Inr (leaf, ints))"
  with iff obtain d where d: "getCerts (ce_pem env) (ce_parse env) (Some d) = Some (Inr (leaf, ints))" by blast
  from getCerts_leaf [OF laws d] show "\<not> ct_IsCA leaf" and "list_all ct_IsCA ints" .
next
  assume "\<exists>m. ce_events env m = CertCtxDone"
  then obtain m where "ce_events env m = CertCtxDone" ..
  then have "cert_attempt env m \<noteq> None" by (simp add: cert_attempt_def)
  with new_cert_wait.returns_if_decided [of env m] laws show "WaitForNewCert env 0 \<noteq> None" by simp
qed

subsection \<open>Facts about starting a server\<close>

lemma CreateCerts_ok:
  fixes pe :: "'pool pebble_env"
  assumes "CreateCertsAndUpdateConfig pe dir pc s = Some (pc', s', Inr cfgFile)"
  obtains ncfg pool where "updated_config (pe_seconds pe) pc = Some ncfg" and "cfgFile = path_Join dir ''pebble-config.json''"
    and "fs_files s' cfgFile = Some (pe_marshal pe ncfg)" and "pc_pebbleCA pc' = Some pool"
    and "pc_Address pc' = pc_Address pc" and "pc_ManagementAddress pc' = pc_ManagementAddress pc" and "pc_RootCertURL pc' = pc_RootCertURL pc"
  using assms
  by (auto simp: CreateCertsAndUpdateConfig_def os_WriteFile_def Let_def split: if_splits option.splits sum.splits prod.splits)

lemma Recorder_String_writes: "Recorder_String (fold (\<lambda>p r. fst (Recorder_Write p r)) ps r) = Recorder_String r @ concat ps"
  by (induction ps arbitrary: r) (simp_all add: Recorder_Write_def Recorder_String_def)

lemma pebble_Start_ok:
  assumes "pebble_Start lookPath environ start dir cfg p = (p', Inr u)"
  shows "\<exists>cmd pid. pt_cmd p' = Some cmd \<and> ec_Pid cmd = Some pid \<and> ec_Args cmd = [''-config'', cfg] \<and> ec_Dir cmd = dir \<and>
    lookPath (pt_binary p) = Some (ec_Path cmd)"
  using assms by (auto simp: pebble_Start_def Let_def split: option.splits)

lemma Start_ok:
  assumes "Start ts tmpDir opts s = Some (Inr st)"
  obtains o1 pebbleCfg where
    "o1 = apply_options opts \<lparr>to_serverOpts = [], to_configOpts = []\<rparr>"
    and "CreateCertsAndUpdateConfig (ts_pebble ts) (sd_testDir st) (NewConfig (to_configOpts o1)) s = Some (sd_cfg st, sd_files st, Inr pebbleCfg)"
    and "pebble_Start (pe_lookPath (ts_pebble ts)) (ts_environ ts) (ts_start ts) (sd_testDir st) pebbleCfg
           (pebble_New ''pebble'' (to_serverOpts o1)) = (sd_server st, Inr ())"
    and "WaitForReady (ts_events ts) 0 0 = Some (Inr ())"
    and "WaitForConnection (ts_dial ts (pc_Address (sd_cfg st))) 0 = Some (Inr ())"
    and "sd_out st = fold (\<lambda>p r. fst (Recorder_Write p r)) (ts_forwarded ts) \<lparr>rc_buf = []\<rparr>"
    and "sd_testDir st = path_Join tmpDir ''pebble-test''"
  using assms
  by (auto simp: Start_def Let_def split: if_splits option.splits prod.splits sum.splits)

text \<open>
  When \<^verbatim>\<open>Start\<close> returns, the server is usable: its process runs the \<^verbatim>\<open>pebble\<close> binary in the test directory with a
  configuration file that holds what \<^verbatim>\<open>updated_config\<close> made of the options, its certificate pool is set, its output
  announced readiness, it was reached at the address of the configuration it returns, the one it was told to listen on,
  and the recorder holds its output.
\<close>

theorem Start_ready:
  fixes ts :: "'pool test_env"
  defines "o1 opts \<equiv> apply_options opts \<lparr>to_serverOpts = [], to_configOpts = []\<rparr>"
  assumes "Start ts tmpDir opts s = Some (Inr st)"
  shows "\<exists>cmd pid ncfg pool m k. pt_cmd (sd_server st) = Some cmd \<and> ec_Pid cmd = Some pid \<and>
    ec_Dir cmd = path_Join tmpDir ''pebble-test'' \<and> pe_lookPath (ts_pebble ts) ''pebble'' = Some (ec_Path cmd) \<and>
    updated_config (pe_seconds (ts_pebble ts)) (NewConfig (to_configOpts (o1 opts)) :: 'pool pebble_Config) = Some ncfg \<and>
    (\<exists>cfgFile. ec_Args cmd = [''-config'', cfgFile] \<and> fs_files (sd_files st) cfgFile = Some (pe_marshal (ts_pebble ts) ncfg)) \<and>
    pc_pebbleCA (sd_cfg st) = Some pool \<and>
    pc_Address (sd_cfg st) = pc_Address (NewConfig (to_configOpts (o1 opts)) :: 'pool pebble_Config) \<and>
    announced (ts_events ts) m = 2 \<and> ts_dial ts (pc_Address (sd_cfg st)) k = DialTick True \<and>
    Recorder_String (sd_out st) = concat (ts_forwarded ts)"
proof (rule Start_ok [OF assms(2)], goal_cases)
  case (1 o' pebbleCfg)
  obtain ncfg pool where c: "updated_config (pe_seconds (ts_pebble ts)) (NewConfig (to_configOpts o') :: 'pool pebble_Config) = Some ncfg"
      "fs_files (sd_files st) pebbleCfg = Some (pe_marshal (ts_pebble ts) ncfg)" "pc_pebbleCA (sd_cfg st) = Some pool"
      "pc_Address (sd_cfg st) = pc_Address (NewConfig (to_configOpts o') :: 'pool pebble_Config)"
    by (rule CreateCerts_ok [OF 1(2)])
  obtain cmd pid where p: "pt_cmd (sd_server st) = Some cmd" "ec_Pid cmd = Some pid" "ec_Args cmd = [''-config'', pebbleCfg]"
      "ec_Dir cmd = sd_testDir st" "pe_lookPath (ts_pebble ts) (pt_binary (pebble_New ''pebble'' (to_serverOpts o'))) = Some (ec_Path cmd)"
    using pebble_Start_ok [OF 1(3)] by (elim exE conjE) (rule that)
  obtain m where m: "announced (ts_events ts) m = 2" using 1(4) WaitForReady_spec [of "ts_events ts"] by blast
  obtain k where k: "ts_dial ts (pc_Address (sd_cfg st)) k = DialTick True"
    using 1(5) unfolding WaitForConnection_iff by blast
  have out: "Recorder_String (sd_out st) = concat (ts_forwarded ts)"
    unfolding 1(6) Recorder_String_writes by (simp add: Recorder_String_def)
  have o: "o' = o1 opts" by (simp add: 1(1) o1_def)
  show ?case
    by (rule exI [of _ cmd], rule exI [of _ pid], rule exI [of _ ncfg], rule exI [of _ pool], rule exI [of _ m], rule exI [of _ k])
      (use c p m k out 1(7) in \<open>simp add: o pebble_New_def\<close>)
qed

end
