(* ===== verification/AcmeCmd.thy ===== *)
theory AcmeCmd
  imports CertCache TlsTest Acme
begin

text \<open>
  \<^verbatim>\<open>cmd/acme\<close>: the commands that store, validate and revoke certificates, composed of the certificate store, the
  certificate parsers, the pools of \<^verbatim>\<open>devtest\<close>, the validator and the HTTP client. Each store of a caching store has
  a state of its own; the local backing store lives in a subdirectory of the local cache. AWS, the ACME
  protocol and \<open>regexp.Compile\<close> are arguments. A result \<open>None\<close> is a panic; what is printed is left out.
\<close>

subsection \<open>certs.go\<close>

record TLSCertStoreFlags =
  cf_UseAWSSecretsManager :: bool
  cf_LocalCacheDir :: string

record ('l, 'b) store_env =
  se_AWS :: bool \<comment> \<open>the AWS flag\<close>
  se_loadAWS :: bool \<comment> \<open>the AWS configuration loads\<close>
  se_mkdir :: "string \<Rightarrow> bool"
  se_lock :: bool
  se_local :: "string \<Rightarrow> 'l store_ops" \<comment> \<open>the local cache, by directory\<close>
  se_backing :: "string \<Rightarrow> 'b store_ops" \<comment> \<open>a local backing store, by directory\<close>
  se_aws :: "bool \<Rightarrow> 'b store_ops" \<comment> \<open>AWS secrets, with or without creation and updates\<close>
  se_localState :: 'l
  se_backingState :: 'b

datatype store_error = AWSNotEnabled | NoLocalCacheDir | BackingDirFailed | AWSConfigFailed | StoreFailed cache_error

definition newCertStore ::
    "('l, 'b) store_env \<Rightarrow> TLSCertStoreFlags \<Rightarrow> CCOption list \<Rightarrow> (store_error, 'b store_ops \<times> ('l, 'b) CachingStore) result" where
  "newCertStore env cl opts =
     (if cf_UseAWSSecretsManager cl \<and> \<not> se_AWS env then Inl AWSNotEnabled
      else if cf_LocalCacheDir cl = [] then Inl NoLocalCacheDir
      else if \<not> cf_UseAWSSecretsManager cl \<or> \<not> se_AWS env then
        let dir = path_Join (cf_LocalCacheDir cl) ''certs'' in
        (case NewLocalStore (se_mkdir env dir) dir of
           Inl _ \<Rightarrow> Inl BackingDirFailed
         | Inr lb \<Rightarrow>
             (case NewCachingStore (se_mkdir env (cf_LocalCacheDir cl)) (se_lock env) (se_localState env) (se_backingState env) opts of
                Inl e \<Rightarrow> Inl (StoreFailed e)
              | Inr dc \<Rightarrow> Inr (se_backing env (lc_root lb), dc)))
      else if \<not> se_loadAWS env then Inl AWSConfigFailed
      else
        (case NewCachingStore (se_mkdir env (cf_LocalCacheDir cl)) (se_lock env) (se_localState env) (se_backingState env) opts of
           Inl e \<Rightarrow> Inl (StoreFailed e)
         | Inr dc \<Rightarrow> Inr (se_aws env (\<not> HasReadonlyOption opts), dc)))"

datatype cert_cmd_error = NewStoreFailed store_error | CacheFailed cache_error | ReadFailed

definition getCert ::
    "('l, 'b) store_env \<Rightarrow> TLSCertStoreFlags \<Rightarrow> string list \<Rightarrow> (('l, 'b) CachingStore option \<times> (cert_cmd_error, bytes) result) option" where
  "getCert env cl args =
     (case newCertStore env cl [WithReadonly True] of
        Inl e \<Rightarrow> Some (None, Inl (NewStoreFailed e))
      | Inr (bops, store) \<Rightarrow>
          (case args of
             [] \<Rightarrow> None
           | host # _ \<Rightarrow>
               (case Get (se_local env (cf_LocalCacheDir cl)) bops (se_lock env) host store of
                  (store, Inl e) \<Rightarrow> Some (Some store, Inl (CacheFailed e))
                | (store, Inr cert) \<Rightarrow> Some (Some store, Inr cert))))"

definition putCert ::
    "('l, 'b) store_env \<Rightarrow> (string \<Rightarrow> bytes option) \<Rightarrow> TLSCertStoreFlags \<Rightarrow> string list \<Rightarrow>
       (('l, 'b) CachingStore option \<times> (cert_cmd_error, unit) result) option" where
  "putCert env readFile cl args =
     (case newCertStore env cl [WithReadonly False] of
        Inl e \<Rightarrow> Some (None, Inl (NewStoreFailed e))
      | Inr (bops, store) \<Rightarrow>
          (case args of
             [] \<Rightarrow> None
           | file # _ \<Rightarrow>
               (case readFile file of
                  None \<Rightarrow> Some (Some store, Inl ReadFailed)
                | Some buf \<Rightarrow>
                    (case Put (se_local env (cf_LocalCacheDir cl)) bops (se_lock env) file buf store of
                       (store, Inl e) \<Rightarrow> Some (Some store, Inl (CacheFailed e))
                     | (store, Inr _) \<Rightarrow> Some (Some store, Inr ())))))"

subsection \<open>validate.go\<close>

record ValidateFlags =
  vf_TLSPort :: string
  vf_CustomROOTCA :: string
  vf_CheckSerialNumbers :: bool
  vf_ValidFor :: int
  vf_Issuer :: "string list"

record validateHostFlags = ValidateFlags +
  vf_AllHosts :: bool

datatype validate_error = BadRegexp string | RootPoolFailed pool_error | ValidatorFailed setup_error | HostInvalid "ErrValidator list"
  | PEMFailed cert_error

definition validateCerts ::
    "(string \<Rightarrow> (string \<Rightarrow> bool) option) \<Rightarrow> tls_world \<Rightarrow> validateHostFlags \<Rightarrow> string \<Rightarrow> (validate_error, unit) result option" where
  "validateCerts compile tw cl host =
     (case map_result (\<lambda>expr. case compile expr of None \<Rightarrow> Inl (BadRegexp expr) | Some re \<Rightarrow> Inr re) (vf_Issuer cl) of
        Inl e \<Rightarrow> Some (Inl e)
      | Inr regexps \<Rightarrow>
          let opts = [WithExpandDNSNames (vf_AllHosts cl), WithCheckSerialNumbers (vf_CheckSerialNumbers cl),
                      WithValidForAtLeast (vf_ValidFor cl), WithIssuerRegexps regexps] in
          (case (if length (vf_CustomROOTCA cl) > 0
                 then map_sum id (\<lambda>root. opts @ [WithRootCAs (Some root)])
                        (CertPoolForTesting (tw_sysPool tw) (tw_appendPEM tw) (tw_readFile tw) [vf_CustomROOTCA cl])
                 else Inr opts) of
             Inl e \<Rightarrow> Some (Inl (RootPoolFailed e))
           | Inr opts \<Rightarrow>
               (case Validate (tw_appendPEM tw) (tw_readFile tw) (tw_network tw) (tw_arrange tw) (tw_now tw) host (vf_TLSPort cl)
                       (NewValidator (tw_ensureHostPort tw) opts) of
                  None \<Rightarrow> None
                | Some (_, Inl e) \<Rightarrow> Some (Inl (ValidatorFailed e))
                | Some (_, Inr es) \<Rightarrow> Some (if es = [] then Inr () else Inl (HostInvalid es)))))"

text \<open>Hosts and files are checked in turn, until one fails.\<close>

fun validateHostCertificatesCmd ::
    "(string \<Rightarrow> (string \<Rightarrow> bool) option) \<Rightarrow> tls_world \<Rightarrow> validateHostFlags \<Rightarrow> string list \<Rightarrow> (validate_error, unit) result option" where
  "validateHostCertificatesCmd compile tw cl [] = Some (Inr ())"
| "validateHostCertificatesCmd compile tw cl (host # hosts) =
     (case validateCerts compile tw cl host of
        None \<Rightarrow> None
      | Some (Inl e) \<Rightarrow> Some (Inl e)
      | Some (Inr _) \<Rightarrow> validateHostCertificatesCmd compile tw cl hosts)"

definition validatePEMFile ::
    "pem_decode \<Rightarrow> (bytes \<Rightarrow> certificate option) \<Rightarrow> x509_verify \<Rightarrow> tls_world \<Rightarrow> string \<Rightarrow> string \<Rightarrow> (validate_error, unit) result option" where
  "validatePEMFile dec parse verify tw pemFile rootCA =
     (case ReadAndParseCertsPEM dec parse (tw_readFile tw) pemFile of
        None \<Rightarrow> None
      | Some (Inl e) \<Rightarrow> Some (Inl (PEMFailed e))
      | Some (Inr certs) \<Rightarrow>
          (case CertPoolForTesting (tw_sysPool tw) (tw_appendPEM tw) (tw_readFile tw) [rootCA] of
             Inl e \<Rightarrow> Some (Inl (RootPoolFailed e))
           | Inr root \<Rightarrow>
               (case VerifyCertChain verify [] certs (Some root) of
                  Inl e \<Rightarrow> Some (Inl (PEMFailed e))
                | Inr _ \<Rightarrow> Some (Inr ()))))"

fun validatePEMFilesCmd ::
    "pem_decode \<Rightarrow> (bytes \<Rightarrow> certificate option) \<Rightarrow> x509_verify \<Rightarrow> tls_world \<Rightarrow> ValidateFlags \<Rightarrow> string list \<Rightarrow> (validate_error, unit) result option" where
  "validatePEMFilesCmd dec parse verify tw cl [] = Some (Inr ())"
| "validatePEMFilesCmd dec parse verify tw cl (pemFile # pemFiles) =
     (case validatePEMFile dec parse verify tw pemFile (vf_CustomROOTCA cl) of
        None \<Rightarrow> None
      | Some (Inl e) \<Rightarrow> Some (Inl e)
      | Some (Inr _) \<Rightarrow> validatePEMFilesCmd dec parse verify tw cl pemFiles)"

subsection \<open>revoke.go\<close>

record revokeFlags =
  rf_Service :: ServiceFlags
  rf_TestingCAPEM :: string
  rf_AccountKeyAlias :: string
  rf_CertStore :: TLSCertStoreFlags
  rf_RevocationReason :: string
  rf_UseAccountKey :: bool

text \<open>The ACME client and the request it makes: the signing key (\<open>None\<close>: the account key), the certificate and the reason.\<close>

record ('k, 'tr) revoke_request =
  rr_DirectoryURL :: string
  rr_HTTPClient :: "'tr http_Client"
  rr_AccountKey :: 'k
  rr_Key :: "'k option"
  rr_Cert :: bytes
  rr_Reason :: CRLReasonCode

record ('k, 'tr) revoke_env =
  rv_pemDecode :: pem_decode
  rv_parseCert :: "bytes \<Rightarrow> certificate option"
  rv_keys :: "'k key_parsers"
  rv_appendPEM :: "bytes \<Rightarrow> bytes list \<Rightarrow> bytes list option"
  rv_readFile :: "string \<Rightarrow> bytes option"
  rv_revoke :: "('k, 'tr) revoke_request \<Rightarrow> bool"

datatype revoke_error = BadReason string | RevokeStoreFailed store_error | AccountKeyFailed key_error | HTTPClientFailed client_error
  | RevokeGetFailed cache_error | RevokeNoCerts | RevokeNoKeys | RevokeParseKey cert_error | RevokeNoLeaf cert_error | RevokeFailed

definition key_of_der :: "'k key_parsers \<Rightarrow> bytes \<Rightarrow> 'k option" where
  "key_of_der kp der = (case ParsePrivateKeyDER kp der of Inl _ \<Rightarrow> None | Inr k \<Rightarrow> Some k)"

definition first_block :: "pem_decode \<Rightarrow> bytes \<Rightarrow> (string \<times> bytes) option" where
  "first_block dec d = map_option (\<lambda>(b, _). (pb_Type b, pb_Bytes b)) (dec d)"

text \<open>The result: the state of the store, the request that was made, if any, and the outcome.\<close>

definition revokeUsingKey ::
    "('k, 'tr) revoke_env \<Rightarrow> ('l, 'b) store_env \<Rightarrow> revokeFlags \<Rightarrow> string list \<Rightarrow>
       (('l, 'b) CachingStore option \<times> ('k, 'tr) revoke_request option \<times> (revoke_error, unit) result) option" where
  "revokeUsingKey rv env cl args =
     (case args of
        [] \<Rightarrow> None
      | name # _ \<Rightarrow>
          (case ParseRevocationReason (rf_RevocationReason cl) of
             Inl e \<Rightarrow> Some (None, None, Inl (BadReason e))
           | Inr reason \<Rightarrow>
               (case newCertStore env (rf_CertStore cl) [WithSaveAccountKey (rf_AccountKeyAlias cl), WithReadonly True] of
                  Inl e \<Rightarrow> Some (None, None, Inl (RevokeStoreFailed e))
                | Inr (bops, cache) \<Rightarrow>
                    let lops = se_local env (cf_LocalCacheDir (rf_CertStore cl)) in
                    (case GetAccountKey (first_block (rv_pemDecode rv)) (key_of_der (rv_keys rv)) lops bops (se_lock env) cache of
                       (cache, Inl e) \<Rightarrow> Some (Some cache, None, Inl (AccountKeyFailed e))
                     | (cache, Inr accountKey) \<Rightarrow>
                         (case NewHTTPClient (rv_appendPEM rv) (rv_readFile rv) [WithCustomCAPEMFile (rf_TestingCAPEM cl)] of
                            Inl e \<Rightarrow> Some (Some cache, None, Inl (HTTPClientFailed e))
                          | Inr httpClient \<Rightarrow>
                              (case Get lops bops (se_lock env) name cache of
                                 (cache, Inl e) \<Rightarrow> Some (Some cache, None, Inl (RevokeGetFailed e))
                               | (cache, Inr certPEM) \<Rightarrow>
                                   (case ParsePEM (rv_pemDecode rv) certPEM of
                                      None \<Rightarrow> None
                                    | Some parts \<Rightarrow>
                                        if pp_certs parts = [] then Some (Some cache, None, Inl RevokeNoCerts)
                                        else
                                          (case pp_privateKeys parts of
                                             [] \<Rightarrow> Some (Some cache, None, Inl RevokeNoKeys)
                                           | k # _ \<Rightarrow>
                                               (case ParsePrivateKeyDER (rv_keys rv) (pb_Bytes k) of
                                                  Inl e \<Rightarrow> Some (Some cache, None, Inl (RevokeParseKey e))
                                                | Inr certKey \<Rightarrow>
                                                    (case FindLeafPEM (rv_parseCert rv) (pp_certs parts) of
                                                       Inl e \<Rightarrow> Some (Some cache, None, Inl (RevokeNoLeaf e))
                                                     | Inr (leafDER, _) \<Rightarrow>
                                                         let req = \<lparr>rr_DirectoryURL = DirectoryURL (ServiceFlags_AutocertConfig (rf_Service cl)),
                                                                    rr_HTTPClient = httpClient, rr_AccountKey = accountKey,
                                                                    rr_Key = (if rf_UseAccountKey cl then None else Some certKey),
                                                                    rr_Cert = leafDER, rr_Reason = reason\<rparr>
                                                         in Some (Some cache, Some req, if rv_revoke rv req then Inr () else Inl RevokeFailed)))))))))))"

subsection \<open>Stores\<close>

lemma newCertStore_ok:
  assumes "newCertStore env cl opts = Inr (bops, c)"
  shows "cs_localCache c = se_localState env \<and> cs_backingStore c = se_backingState env \<and>
    cs_opts c = apply_options opts zero_cc_options \<and> cs_metrics c = [] \<and> cf_LocalCacheDir cl \<noteq> [] \<and>
    bops = (if cf_UseAWSSecretsManager cl then se_aws env (\<not> HasReadonlyOption opts)
            else se_backing env (path_Join (cf_LocalCacheDir cl) ''certs''))"
  using assms
  by (auto simp: newCertStore_def NewLocalStore_def NewCachingStore_def Let_def split: if_splits sum.splits)

lemma account_key_loop_keeps:
  "cs_localCache (fst (account_key_loop lops bops lk kns dc)) = cs_localCache dc \<and>
   cs_backingStore (fst (account_key_loop lops bops lk kns dc)) = cs_backingStore dc \<and>
   cs_opts (fst (account_key_loop lops bops lk kns dc)) = cs_opts dc"
proof (induction kns arbitrary: dc)
  case Nil
  show ?case by simp
next
  case (Cons kn kns)
  obtain dc' r where g: "Get lops bops lk kn dc = (dc', r)" by force
  have "cs_localCache dc' = cs_localCache dc \<and> cs_backingStore dc' = cs_backingStore dc \<and> cs_opts dc' = cs_opts dc"
    using Get_keeps [of lops bops lk kn dc] g by simp
  then show ?case using Cons.IH [of dc'] g by (cases r) auto
qed

lemma GetAccountKey_keeps:
  assumes "GetAccountKey pd parse lops bops lk dc = (dc', r)"
  shows "cs_localCache dc' = cs_localCache dc \<and> cs_backingStore dc' = cs_backingStore dc \<and> cs_opts dc' = cs_opts dc"
proof -
  let ?l = "account_key_loop lops bops lk [''acme_account+key'', ''acme_account.key''] dc"
  have "dc' = fst ?l"
    using assms by (auto simp: GetAccountKey_def simp del: account_key_loop.simps split: prod.splits option.splits)
  then show ?thesis using account_key_loop_keeps by metis
qed

lemma Get_same_state:
  assumes "cs_localCache c = cs_localCache d" and "cs_backingStore c = cs_backingStore d" and "cs_opts c = cs_opts d"
  shows "snd (Get lops bops lk name c) = snd (Get lops bops lk name d)"
  unfolding Get_value assms ..

lemma FindLeafPEM_ok:
  "FindLeafPEM parse bs = Inr (der, cert) \<Longrightarrow> parse der = Some cert \<and> \<not> ct_IsCA cert \<and> (\<exists>b\<in>set bs. pb_Type b = ''CERTIFICATE'' \<and> pb_Bytes b = der)"
  by (induction bs) (auto split: if_splits option.splits)

text \<open>The store of a later command on the same flags: what the earlier one left.\<close>

definition after_cmd :: "('l, 'b) CachingStore \<Rightarrow> ('l, 'b) store_env \<Rightarrow> ('l, 'b) store_env" where
  "after_cmd c env = env\<lparr>se_localState := cs_localCache c, se_backingState := cs_backingStore c\<rparr>"

definition backing_ops :: "('l, 'b) store_env \<Rightarrow> TLSCertStoreFlags \<Rightarrow> bool \<Rightarrow> 'b store_ops" where
  "backing_ops env cl writable =
     (if cf_UseAWSSecretsManager cl then se_aws env writable else se_backing env (path_Join (cf_LocalCacheDir cl) ''certs''))"

lemma newCertStore_total_after:
  assumes "newCertStore env cl opts = Inr (bops, c0)" and "se_lock env"
  shows "newCertStore (after_cmd c env) cl opts' =
    Inr (backing_ops env cl (\<not> HasReadonlyOption opts'),
         \<lparr>cs_localCache = cs_localCache c, cs_backingStore = cs_backingStore c, cs_opts = apply_options opts' zero_cc_options, cs_metrics = []\<rparr>)"
  using assms
  by (auto simp: newCertStore_def NewLocalStore_def NewCachingStore_def after_cmd_def backing_ops_def Let_def split: if_splits sum.splits)


lemma useBackingStore_readonly: "useBackingStore (opts\<lparr>co_readonly := b\<rparr>) = useBackingStore opts"
  by (rule ext) (simp add: useBackingStore_def)

lemma putCert_ok:
  assumes "putCert env readFile cl (file # args) = Some (Some c, Inr ())"
  obtains buf c0 where "readFile file = Some buf" and "newCertStore env cl [WithReadonly False] = Inr (backing_ops env cl True, c0)"
    and "cs_opts c0 = zero_cc_options"
    and "Put (se_local env (cf_LocalCacheDir cl)) (backing_ops env cl True) (se_lock env) file buf c0 = (c, Inr ())"
proof -
  obtain bops c0 where n: "newCertStore env cl [WithReadonly False] = Inr (bops, c0)"
    using assms by (auto simp: putCert_def split: sum.splits)
  have b: "bops = backing_ops env cl True" and o: "cs_opts c0 = zero_cc_options"
    using newCertStore_ok [OF n] by (auto simp: backing_ops_def HasReadonlyOption_def WithReadonly_def zero_cc_options_def)
  obtain buf where r: "readFile file = Some buf"
    using assms n by (auto simp: putCert_def split: option.splits)
  have "Put (se_local env (cf_LocalCacheDir cl)) bops (se_lock env) file buf c0 = (c, Inr ())"
    using assms n r by (auto simp: putCert_def split: prod.splits sum.splits)
  then show ?thesis using that n r o unfolding b by blast
qed

text \<open>
  The store commands are a round trip: after a successful \<^verbatim>\<open>put\<close> of a file, \<^verbatim>\<open>get\<close> with the same flags and the
  same name prints the file's contents, for any local and backing stores that keep the store's contract, with
  AWS secrets reading alike whether or not creation and updates are allowed.
\<close>

theorem putCert_getCert:
  assumes "key_store (se_local env (cf_LocalCacheDir cl)) lok" and "key_store (backing_ops env cl True) bok"
    and alike: "st_Read (backing_ops env cl False) = st_Read (backing_ops env cl True)"
    and lk: "se_lock env" and u: "usable lok bok zero_cc_options file"
    and put: "putCert env readFile cl (file # args) = Some (Some c, Inr ())"
  shows "\<exists>buf c'. readFile file = Some buf \<and> getCert (after_cmd c env) cl (file # args') = Some (Some c', Inr buf)"
proof -
  let ?l = "se_local env (cf_LocalCacheDir cl)"
  obtain buf c0 where r: "readFile file = Some buf" and n: "newCertStore env cl [WithReadonly False] = Inr (backing_ops env cl True, c0)"
    and o: "cs_opts c0 = zero_cc_options" and p: "Put ?l (backing_ops env cl True) (se_lock env) file buf c0 = (c, Inr ())"
    by (rule putCert_ok [OF put])
  have g: "snd (Get ?l (backing_ops env cl True) True file c) = Inr buf"
    using caching_store.put_get [OF caching_store.intro [OF assms(1,2)] p] u o by simp
  let ?c1 = "\<lparr>cs_localCache = cs_localCache c, cs_backingStore = cs_backingStore c,
               cs_opts = apply_options [WithReadonly True] zero_cc_options, cs_metrics = []\<rparr>"
  have n': "newCertStore (after_cmd c env) cl [WithReadonly True] = Inr (backing_ops env cl False, ?c1)"
    using newCertStore_total_after [OF n lk, of c "[WithReadonly True]"] by (simp add: HasReadonlyOption_def WithReadonly_def)
  have "cs_opts c = zero_cc_options" using Put_ok [OF p] o by simp
  then have g': "snd (Get ?l (backing_ops env cl False) True file ?c1) = Inr buf"
    using g by (simp add: Get_value WithReadonly_def useBackingStore_readonly alike split: prod.splits if_splits)
  obtain c' where "Get ?l (backing_ops env cl False) True file ?c1 = (c', Inr buf)"
    using g' by (metis prod.collapse)
  then show ?thesis using r n' lk by (auto simp: getCert_def after_cmd_def)
qed


subsection \<open>Revocation\<close>

lemma result_pair_cases:
  obtains (Error) s e where "p = (s, Inl e)" | (Ok) s v where "p = (s, Inr v)"
  by (cases p; cases "snd p") auto

lemma revokeUsingKey_request:
  fixes rv :: "('k, 'tr) revoke_env"
  assumes "revokeUsingKey rv env cl (name # args) = Some (c, Some req, r)"
  obtains reason bops c0 c1 c2 key hc pem parts k ks ck der leaf where
    "ParseRevocationReason (rf_RevocationReason cl) = Inr reason"
    and "newCertStore env (rf_CertStore cl) [WithSaveAccountKey (rf_AccountKeyAlias cl), WithReadonly True] = Inr (bops, c0)"
    and "GetAccountKey (first_block (rv_pemDecode rv)) (key_of_der (rv_keys rv)) (se_local env (cf_LocalCacheDir (rf_CertStore cl))) bops (se_lock env) c0 = (c1, Inr key)"
    and "NewHTTPClient (rv_appendPEM rv) (rv_readFile rv) [WithCustomCAPEMFile (rf_TestingCAPEM cl)] = Inr hc"
    and "Get (se_local env (cf_LocalCacheDir (rf_CertStore cl))) bops (se_lock env) name c1 = (c2, Inr pem)"
    and "ParsePEM (rv_pemDecode rv) pem = Some parts" and "pp_privateKeys parts = k # ks"
    and "ParsePrivateKeyDER (rv_keys rv) (pb_Bytes k) = Inr ck" and "FindLeafPEM (rv_parseCert rv) (pp_certs parts) = Inr (der, leaf)"
    and "c = Some c2" and "r = (if rv_revoke rv req then Inr () else Inl RevokeFailed)"
    and "req = \<lparr>rr_DirectoryURL = DirectoryURL (ServiceFlags_AutocertConfig (rf_Service cl)), rr_HTTPClient = hc,
           rr_AccountKey = key, rr_Key = (if rf_UseAccountKey cl then None else Some ck), rr_Cert = der, rr_Reason = reason\<rparr>"
proof -
  let ?l = "se_local env (cf_LocalCacheDir (rf_CertStore cl))"
  let ?opts = "[WithSaveAccountKey (rf_AccountKeyAlias cl), WithReadonly True]"
  note d = assms [unfolded revokeUsingKey_def list.case Let_def]
  obtain reason where 1: "ParseRevocationReason (rf_RevocationReason cl) = Inr reason"
    using d by (cases "ParseRevocationReason (rf_RevocationReason cl)") simp_all
  note d = d [unfolded 1 sum.case]
  obtain bops c0 where 2: "newCertStore env (rf_CertStore cl) ?opts = Inr (bops, c0)"
    using d by (cases "newCertStore env (rf_CertStore cl) ?opts") auto
  note d = d [unfolded 2 sum.case prod.case]
  obtain c1 key where 3: "GetAccountKey (first_block (rv_pemDecode rv)) (key_of_der (rv_keys rv)) ?l bops (se_lock env) c0 = (c1, Inr key)"
    using d by (cases "GetAccountKey (first_block (rv_pemDecode rv)) (key_of_der (rv_keys rv)) ?l bops (se_lock env) c0" rule: result_pair_cases) simp_all
  note d = d [unfolded 3 sum.case prod.case]
  let ?h = "NewHTTPClient (rv_appendPEM rv) (rv_readFile rv) [WithCustomCAPEMFile (rf_TestingCAPEM cl)] :: (client_error, 'tr http_Client) result"
  obtain hc where 4: "?h = Inr hc" using d by (cases ?h) simp_all
  note d = d [unfolded 4 sum.case]
  obtain c2 pem where 5: "Get ?l bops (se_lock env) name c1 = (c2, Inr pem)"
    using d by (cases "Get ?l bops (se_lock env) name c1" rule: result_pair_cases) simp_all
  note d = d [unfolded 5 sum.case prod.case]
  obtain parts where 6: "ParsePEM (rv_pemDecode rv) pem = Some parts"
    using d by (cases "ParsePEM (rv_pemDecode rv) pem") simp_all
  note d = d [unfolded 6 option.case]
  obtain k ks where 7: "pp_privateKeys parts = k # ks"
    using d by (cases "pp_privateKeys parts") (simp_all split: if_splits)
  obtain ck where 8: "ParsePrivateKeyDER (rv_keys rv) (pb_Bytes k) = Inr ck"
    using d 7 by (cases "ParsePrivateKeyDER (rv_keys rv) (pb_Bytes k)") (simp_all split: if_splits)
  obtain der leaf where 9: "FindLeafPEM (rv_parseCert rv) (pp_certs parts) = Inr (der, leaf)"
    using d 7 8 by (cases "FindLeafPEM (rv_parseCert rv) (pp_certs parts)") (auto split: if_splits)
  show ?thesis
    by (rule that [OF 1 2 3 4 5 6 7 8 9]) (use d 7 8 9 in \<open>auto split: if_splits\<close>)
qed

text \<open>
  C35. \<^verbatim>\<open>acme certs revoke\<close> only ever asks for the revocation of the right certificate in the right way: any request it
  makes is for a certificate that is stored under the name given, is not a CA's, and is signed with the
  account key when asked to and with the first private key stored beside the certificate otherwise; it goes to the
  directory of the configured service, gives the reason that was asked for and leaves both stores as they were. The
  command succeeds exactly when the request does.
\<close>

theorem revokeUsingKey_sound:
  fixes rv :: "('k, 'tr) revoke_env"
  assumes "revokeUsingKey rv env cl (name # args) = Some (c, Some req, r)"
  shows "\<exists>bops c0 c' pem parts k ck leaf.
    newCertStore env (rf_CertStore cl) [WithSaveAccountKey (rf_AccountKeyAlias cl), WithReadonly True] = Inr (bops, c0) \<and>
    snd (Get (se_local env (cf_LocalCacheDir (rf_CertStore cl))) bops (se_lock env) name c0) = Inr pem \<and>
    ParsePEM (rv_pemDecode rv) pem = Some parts \<and>
    (\<exists>b\<in>set (pp_certs parts). pb_Type b = ''CERTIFICATE'' \<and> pb_Bytes b = rr_Cert req) \<and>
    rv_parseCert rv (rr_Cert req) = Some leaf \<and> \<not> ct_IsCA leaf \<and>
    k = hd (pp_privateKeys parts) \<and> k \<in> set (pp_privateKeys parts) \<and> ParsePrivateKeyDER (rv_keys rv) (pb_Bytes k) = Inr ck \<and>
    rr_Key req = (if rf_UseAccountKey cl then None else Some ck) \<and>
    rr_DirectoryURL req = DirectoryURL (ServiceFlags_AutocertConfig (rf_Service cl)) \<and>
    ParseRevocationReason (rf_RevocationReason cl) = Inr (rr_Reason req) \<and>
    c = Some c' \<and> cs_localCache c' = se_localState env \<and> cs_backingStore c' = se_backingState env \<and>
    (r = Inr () \<longleftrightarrow> rv_revoke rv req)"
proof (rule revokeUsingKey_request [OF assms], goal_cases)
  case (1 reason bops c0 c1 c2 key hc pem parts k ks ck der leaf)
  let ?l = "se_local env (cf_LocalCacheDir (rf_CertStore cl))"
  note s0 = newCertStore_ok [OF 1(2)] and s1 = GetAccountKey_keeps [OF 1(3)] and s2 = Get_keeps [of ?l bops "se_lock env" name c1]
  have get: "snd (Get ?l bops (se_lock env) name c0) = Inr pem"
    using Get_same_state [of c0 c1 ?l bops "se_lock env" name] s1 1(5) by simp
  show ?case
    using 1 get s0 s1 s2 FindLeafPEM_ok [OF 1(9)]
    by (intro exI [of _ bops] exI [of _ c0] exI [of _ c2] exI [of _ pem] exI [of _ parts] exI [of _ k] exI [of _ ck] exI [of _ leaf])
      (simp split: if_splits)
qed

definition map_store :: "(string \<Rightarrow> bytes option) store_ops" where
  "map_store = \<lparr>st_Read = \<lambda>k m. (case m k of None \<Rightarrow> Inl NotExist | Some d \<Rightarrow> Inr d),
     st_Write = \<lambda>k d m. (m(k \<mapsto> d), Inr ()), st_Delete = \<lambda>k m. (m(k := None), Inr ())\<rparr>"

interpretation maps: key_store map_store "\<lambda>_. True"
  by unfold_locales (auto simp: map_store_def)

definition demo_stores :: "(string \<Rightarrow> bytes option, string \<Rightarrow> bytes option) store_env" where
  "demo_stores = \<lparr>se_AWS = False, se_loadAWS = False, se_mkdir = (\<lambda>_. True), se_lock = True, se_local = (\<lambda>_. map_store),
     se_backing = (\<lambda>_. map_store), se_aws = (\<lambda>_. map_store), se_localState = Map.empty,
     se_backingState = [''acct'' \<mapsto> ''A'', ''a.com'' \<mapsto> ''BCD'']\<rparr>"

definition demo_blocks :: pem_decode where
  "demo_blocks d =
     (if d = ''A'' then Some (\<lparr>pb_Type = ''EC PRIVATE KEY'', pb_Bytes = ''ak''\<rparr>, [])
      else if d = ''BCD'' then Some (\<lparr>pb_Type = ''EC PRIVATE KEY'', pb_Bytes = ''ck''\<rparr>, ''CD'')
      else if d = ''CD'' then Some (\<lparr>pb_Type = ''CERTIFICATE'', pb_Bytes = ''der''\<rparr>, [])
      else None)"

theorem putCert_getCert_witness:
  "\<exists>c. putCert demo_stores (\<lambda>_. Some ''PEM'') \<lparr>cf_UseAWSSecretsManager = False, cf_LocalCacheDir = ''/d''\<rparr> [''b.com''] = Some (Some c, Inr ()) \<and>
     (\<exists>c'. getCert (after_cmd c demo_stores) \<lparr>cf_UseAWSSecretsManager = False, cf_LocalCacheDir = ''/d''\<rparr> [''b.com''] = Some (Some c', Inr ''PEM''))"
proof -
  let ?cl = "\<lparr>cf_UseAWSSecretsManager = False, cf_LocalCacheDir = ''/d''\<rparr>"
  obtain c where p: "putCert demo_stores (\<lambda>_. Some ''PEM'') ?cl [''b.com''] = Some (Some c, Inr ())"
    by (simp add: putCert_def newCertStore_def NewLocalStore_def NewCachingStore_def demo_stores_def store_eval map_store_def)
  have "key_store (se_local demo_stores (cf_LocalCacheDir ?cl)) (\<lambda>_. True)" "key_store (backing_ops demo_stores ?cl True) (\<lambda>_. True)"
    "st_Read (backing_ops demo_stores ?cl False) = st_Read (backing_ops demo_stores ?cl True)" "se_lock demo_stores"
    "usable (\<lambda>_. True) (\<lambda>_. True) zero_cc_options ''b.com''"
    by (simp_all add: demo_stores_def backing_ops_def usable_def maps.key_store_axioms)
  from putCert_getCert [OF this p, of "[]"] p show ?thesis by auto
qed

definition demo_revoke :: "(bytes, unit) revoke_env" where
  "demo_revoke = \<lparr>rv_pemDecode = demo_blocks,
     rv_parseCert = (\<lambda>d. Some \<lparr>ct_IsCA = False, ct_Raw = d, ct_DNSNames = [], ct_Issuer = [], ct_Serial = None, ct_NotBefore = 0,
       ct_NotAfter = 0, ct_PublicKey = [], ct_SigAlg = 0\<rparr>),
     rv_keys = \<lparr>kp_PKCS1 = Some, kp_PKCS8 = (\<lambda>_. None), kp_EC = (\<lambda>_. None)\<rparr>, rv_appendPEM = (\<lambda>_ _. None), rv_readFile = (\<lambda>_. None),
     rv_revoke = (\<lambda>_. True)\<rparr>"

definition demo_revokeFlags :: revokeFlags where
  "demo_revokeFlags = \<lparr>rf_Service = \<lparr>sf_Provider = ''https://acme/dir'', sf_RenewBefore = 0, sf_Email = [], sf_UserAgent = []\<rparr>,
     rf_TestingCAPEM = [], rf_AccountKeyAlias = ''acct'', rf_CertStore = \<lparr>cf_UseAWSSecretsManager = False, cf_LocalCacheDir = ''/d''\<rparr>,
     rf_RevocationReason = ''superseded'', rf_UseAccountKey = False\<rparr>"

lemma demo_ParsePEM:
  "ParsePEM demo_blocks ''BCD'' = Some \<lparr>pp_privateKeys = [\<lparr>pb_Type = ''EC PRIVATE KEY'', pb_Bytes = ''ck''\<rparr>], pp_publicKeys = [],
     pp_certs = [\<lparr>pb_Type = ''CERTIFICATE'', pb_Bytes = ''der''\<rparr>]\<rparr>"
  by (simp add: ParsePEM_def demo_blocks_def classify_block_def strings_HasSuffix_eval numeral_3_eq_3)

lemma demo_GetAccountKey:
  "\<exists>c. GetAccountKey (first_block demo_blocks) (key_of_der (rv_keys demo_revoke)) map_store map_store True
     \<lparr>cs_localCache = Map.empty, cs_backingStore = [''acct'' \<mapsto> ''A'', ''a.com'' \<mapsto> ''BCD''],
      cs_opts = \<lparr>co_readonly = True, co_saveAccountKeyName = ''acct'', co_allowRSAKeys = False\<rparr>, cs_metrics = []\<rparr> = (c, Inr ''ak'')"
  by (simp add: GetAccountKey_def Get_def store_eval map_store_def first_block_def demo_blocks_def key_of_der_def ParsePrivateKeyDER_def
      demo_revoke_def)

theorem revokeUsingKey_sound_witness:
  "\<exists>c req r leaf. revokeUsingKey demo_revoke demo_stores demo_revokeFlags [''a.com''] = Some (c, Some req, r) \<and>
     rv_parseCert demo_revoke (rr_Cert req) = Some leaf \<and> rr_Key req \<noteq> None"
proof -
  obtain c where g: "GetAccountKey (first_block demo_blocks) (key_of_der (rv_keys demo_revoke)) map_store map_store True
     \<lparr>cs_localCache = Map.empty, cs_backingStore = [''acct'' \<mapsto> ''A'', ''a.com'' \<mapsto> ''BCD''],
      cs_opts = \<lparr>co_readonly = True, co_saveAccountKeyName = ''acct'', co_allowRSAKeys = False\<rparr>, cs_metrics = []\<rparr> = (c, Inr ''ak'')"
    using demo_GetAccountKey by (rule exE)
  note c = GetAccountKey_keeps [OF g]
  have "snd (Get map_store map_store True ''a.com'' c) = Inr ''BCD''"
    using c by (simp add: Get_value useBackingStore_def IsLocalName_def IsAcmeAccountKey_def strings_HasSuffix_eval strings_Contains_def
        reads_def map_store_def)
  then obtain c2 where get: "Get map_store map_store True ''a.com'' c = (c2, Inr ''BCD'')" by (metis prod.collapse)
  obtain c' req r where run: "revokeUsingKey demo_revoke demo_stores demo_revokeFlags [''a.com''] = Some (c', Some req, r)"
    using g get
    by (simp add: revokeUsingKey_def demo_revoke_def demo_revokeFlags_def demo_stores_def ParseRevocationReason_def newCertStore_def
        NewLocalStore_def NewCachingStore_def WithSaveAccountKey_def WithReadonly_def zero_cc_options_def NewHTTPClient_def
        WithCustomCAPEMFile_def Let_def demo_ParsePEM ParsePrivateKeyDER_def)
  show ?thesis
    using revokeUsingKey_sound [OF run] run
    by (elim exE conjE, intro exI [of _ c'] exI [of _ req] exI [of _ r]) (auto simp: demo_revokeFlags_def)
qed

text \<open>
  Without \<^verbatim>\<open>--custom-root-ca\<close> the pool that PEM files are verified against is empty, not the system's, since an empty
  file name is skipped: with a verifier that accepts nothing for an empty pool, every file is rejected.
\<close>

theorem validatePEMFile_no_root:
  assumes "\<And>leaf opts. vo_Roots opts = Some [] \<Longrightarrow> \<exists>e. verify leaf opts = Inl e"
  shows "validatePEMFile dec parse verify tw pemFile [] \<noteq> Some (Inr ())"
proof -
  have "\<exists>e. VerifyCertChain verify [] certs (Some []) = Inl e" for certs
    using assms by (auto simp: VerifyCertChain_def verifyCertChainOpts_def split: sum.splits option.splits)
  then show ?thesis
    by (auto simp: validatePEMFile_def CertPoolForTesting_def certPoolForTesting_def split: option.splits sum.splits)
      (metis Inl_Inr_False)
qed

end
