(* ===== verification/DevJs.thy ===== *)
theory DevJs
  imports JsonApi
begin

text \<open>
  \<^verbatim>\<open>devtest/ts.go\<close> and \<^verbatim>\<open>devtest/js.go\<close>: TypeScript sources that are compiled when they have changed, and a handler
  that serves a page of scripts after compiling them. Files, the compiler and the HTML template are arguments; a
  time is a number of nanoseconds since Go's zero time.
\<close>

subsection \<open>ts.go\<close>

record typescriptOptions =
  to_compiler :: string
  to_target :: string

type_synonym TypescriptOption = "typescriptOptions \<Rightarrow> typescriptOptions"

definition WithTypescriptCompiler :: "string \<Rightarrow> TypescriptOption" where
  "WithTypescriptCompiler compiler opts = opts\<lparr>to_compiler := compiler\<rparr>"

definition WithTypescriptTarget :: "string \<Rightarrow> TypescriptOption" where
  "WithTypescriptTarget target opts = opts\<lparr>to_target := target\<rparr>"

text \<open>\<open>ts_fs\<close> is the directory of the file system, \<open>None\<close> for nil.\<close>

record TypescriptSources =
  ts_options :: typescriptOptions
  ts_dir :: string
  ts_fs :: "string option"
  ts_files :: "string list"
  ts_last :: int

definition NewTypescriptSources :: "TypescriptOption list \<Rightarrow> TypescriptSources" where
  "NewTypescriptSources opts =
     (let o1 = apply_options opts \<lparr>to_compiler = [], to_target = []\<rparr>;
          o1 = (if to_target o1 = [] then o1\<lparr>to_target := ''es2015''\<rparr> else o1);
          o1 = (if to_compiler o1 = [] then o1\<lparr>to_compiler := ''tsc''\<rparr> else o1)
      in \<lparr>ts_options = o1, ts_dir = [], ts_fs = None, ts_files = [], ts_last = 0\<rparr>)"

definition SetDirAndFiles :: "string \<Rightarrow> string list \<Rightarrow> TypescriptSources \<Rightarrow> TypescriptSources" where
  "SetDirAndFiles dir files ts = ts\<lparr>ts_dir := dir, ts_fs := Some dir, ts_files := files\<rparr>"

record compiler_cmd =
  cc_Path :: string
  cc_Args :: "string list"
  cc_Dir :: string

text \<open>The surroundings of one compilation: modification times, the path, the outcome of the compiler and the time after it.\<close>

record compile_env =
  ce_stat :: "string \<Rightarrow> string \<Rightarrow> int option" \<comment> \<open>by directory and file\<close>
  ce_lookPath :: "string \<Rightarrow> string option"
  ce_run :: "compiler_cmd \<Rightarrow> bool"
  ce_now :: int

datatype compile_error = NoFS | NoFiles | StatFailed string | CompilerNotFound string | CompileFailed compiler_cmd

fun modified_loop :: "(string \<Rightarrow> int option) \<Rightarrow> int \<Rightarrow> string list \<Rightarrow> string list \<Rightarrow> (compile_error, string list) result" where
  "modified_loop stat last1 [] modified = Inr modified"
| "modified_loop stat last1 (candidate # files) modified =
     (case stat candidate of
        None \<Rightarrow> Inl (StatFailed candidate)
      | Some modTime \<Rightarrow> modified_loop stat last1 files (if modTime > last1 then modified @ [candidate] else modified))"

text \<open>The result: the sources, the command that ran, if any, and the error.\<close>

definition Compile :: "compile_env \<Rightarrow> TypescriptSources \<Rightarrow> TypescriptSources \<times> compiler_cmd option \<times> (compile_error, unit) result" where
  "Compile env ts =
     (case ts_fs ts of
        None \<Rightarrow> (ts, None, Inl NoFS)
      | Some fsys \<Rightarrow>
          if length (ts_files ts) = 0 then (ts, None, Inl NoFiles)
          else
            (case modified_loop (ce_stat env fsys) (ts_last ts) (ts_files ts) [] of
               Inl e \<Rightarrow> (ts, None, Inl e)
             | Inr modified \<Rightarrow>
                 if length modified = 0 then (ts, None, Inr ())
                 else
                   (case ce_lookPath env (to_compiler (ts_options ts)) of
                      None \<Rightarrow> (ts, None, Inl (CompilerNotFound (to_compiler (ts_options ts))))
                    | Some compilerPath \<Rightarrow>
                        let args = [''--target'', to_target (ts_options ts)] @ modified;
                            cmd = \<lparr>cc_Path = compilerPath, cc_Args = args, cc_Dir = ts_dir ts\<rparr>
                        in if \<not> ce_run env cmd then (ts, Some cmd, Inl (CompileFailed cmd))
                           else (ts\<lparr>ts_last := ce_now env\<rparr>, Some cmd, Inr ()))))"

subsection \<open>js.go\<close>

record JSServer =
  js_title :: string
  js_jsScripts :: "string list"
  js_ts :: "TypescriptSources option"

definition NewJSServer :: "string \<Rightarrow> TypescriptSources option \<Rightarrow> string list \<Rightarrow> JSServer" where
  "NewJSServer title ts jsScripts = \<lparr>js_title = title, js_jsScripts = jsScripts, js_ts = ts\<rparr>"

definition JSServer_writeError :: "response \<Rightarrow> int \<Rightarrow> string \<Rightarrow> response" where
  "JSServer_writeError rw status err =
     (let rw = rw_Set rw ''Content-Type'' ''application/json'';
          rw = WriteHeader rw status
      in Write rw (json_string err @ [CHR 0x0A]))"

text \<open>
  \<open>execute\<close> is the execution of the page's template: what it writes, and its error, if any. \<open>errText\<close> gives the
  text of the compilation's errors.
\<close>

definition ServeJS ::
    "(string \<Rightarrow> string list \<Rightarrow> bytes \<times> string option) \<Rightarrow> (compile_error \<Rightarrow> string) \<Rightarrow> compile_env \<Rightarrow> JSServer \<Rightarrow> response \<Rightarrow> JSServer \<times> response" where
  "ServeJS execute errText env jss rw =
     (case (case js_ts jss of
              None \<Rightarrow> (jss, Inr ())
            | Some ts \<Rightarrow> (case Compile env ts of (ts, _, r) \<Rightarrow> (jss\<lparr>js_ts := Some ts\<rparr>, r))) of
        (jss, Inl err) \<Rightarrow> (jss, JSServer_writeError rw StatusInternalServerError (errText err))
      | (jss, Inr _) \<Rightarrow>
          let rw = rw_Set rw ''Content-Type'' ''text/html; charset=utf-8'';
              (written, err) = execute (js_title jss) (js_jsScripts jss);
              rw = (if written = [] then rw else Write rw written)
          in (jss, case err of None \<Rightarrow> rw | Some e \<Rightarrow> JSServer_writeError rw StatusInternalServerError e))"

subsection \<open>Facts\<close>

definition newer :: "(string \<Rightarrow> int option) \<Rightarrow> int \<Rightarrow> string \<Rightarrow> bool" where
  "newer stat last1 f \<longleftrightarrow> (case stat f of None \<Rightarrow> False | Some t \<Rightarrow> t > last1)"

lemma modified_loop_eq:
  "modified_loop stat last1 files modified =
     (case find (\<lambda>f. stat f = None) files of
        Some f \<Rightarrow> Inl (StatFailed f)
      | None \<Rightarrow> Inr (modified @ filter (newer stat last1) files))"
  by (induction files arbitrary: modified) (auto simp: newer_def split: option.splits)

lemma Compile_ok:
  assumes "Compile env ts = (ts', cmd, Inr ())"
  obtains fsys where "ts_fs ts = Some fsys" and "ts_files ts \<noteq> []" and "\<forall>f\<in>set (ts_files ts). ce_stat env fsys f \<noteq> None"
    and "filter (newer (ce_stat env fsys) (ts_last ts)) (ts_files ts) = [] \<and> ts' = ts \<and> cmd = None \<or>
         filter (newer (ce_stat env fsys) (ts_last ts)) (ts_files ts) \<noteq> [] \<and> ts' = ts\<lparr>ts_last := ce_now env\<rparr> \<and>
         (\<exists>path. ce_lookPath env (to_compiler (ts_options ts)) = Some path \<and>
           cmd = Some \<lparr>cc_Path = path, cc_Args = ''--target'' # to_target (ts_options ts) #
             filter (newer (ce_stat env fsys) (ts_last ts)) (ts_files ts), cc_Dir = ts_dir ts\<rparr>)"
  using assms
  by (auto simp: Compile_def modified_loop_eq Let_def find_None_iff split: option.splits if_splits)

lemma Compile_error_keeps: "Compile env ts = (ts', cmd, Inl e) \<Longrightarrow> ts' = ts"
  by (auto simp: Compile_def Let_def split: option.splits sum.splits if_splits)

lemma Compile_nothing_newer:
  assumes "ts_fs ts = Some fsys" and "ts_files ts \<noteq> []"
    and "\<forall>f\<in>set (ts_files ts). \<exists>t. ce_stat env fsys f = Some t \<and> t \<le> ts_last ts"
  shows "Compile env ts = (ts, None, Inr ())"
proof -
  have "find (\<lambda>f. ce_stat env fsys f = None) (ts_files ts) = None" using assms(3) by (auto simp: find_None_iff)
  moreover have "filter (newer (ce_stat env fsys) (ts_last ts)) (ts_files ts) = []"
    using assms(3) by (fastforce simp: newer_def filter_empty_conv)
  ultimately show ?thesis using assms(1,2) by (simp add: Compile_def modified_loop_eq)
qed

text \<open>
  Compilation is incremental: when it succeeds the compiler was run, with the configured target, on exactly the files
  that were modified after the last compilation, in their order, and not at all if there are none; a failed
  compilation leaves the sources as they were, so that the same files are compiled by the next. After a successful
  one that ran the compiler, files that were last modified before it ended are not compiled again.
\<close>

theorem Compile_incremental:
  assumes run: "Compile env ts = (ts', cmd, r)"
  shows "(r = Inr () \<longrightarrow> (\<exists>fsys. ts_fs ts = Some fsys \<and>
      (case cmd of
         None \<Rightarrow> ts' = ts \<and> (\<forall>f\<in>set (ts_files ts). \<not> newer (ce_stat env fsys) (ts_last ts) f)
       | Some c \<Rightarrow> ts' = ts\<lparr>ts_last := ce_now env\<rparr> \<and> cc_Dir c = ts_dir ts \<and>
           cc_Args c = [''--target'', to_target (ts_options ts)] @ filter (newer (ce_stat env fsys) (ts_last ts)) (ts_files ts) \<and>
           (\<forall>env'. (\<forall>f\<in>set (ts_files ts). \<exists>t. ce_stat env' fsys f = Some t \<and> t \<le> ce_now env) \<longrightarrow> Compile env' ts' = (ts', None, Inr ()))))) \<and>
    (r \<noteq> Inr () \<longrightarrow> ts' = ts)"
proof (intro conjI impI)
  assume "r = Inr ()"
  with run have ok: "Compile env ts = (ts', cmd, Inr ())" by simp
  obtain fsys where f: "ts_fs ts = Some fsys" "ts_files ts \<noteq> []"
    and c: "filter (newer (ce_stat env fsys) (ts_last ts)) (ts_files ts) = [] \<and> ts' = ts \<and> cmd = None \<or>
         filter (newer (ce_stat env fsys) (ts_last ts)) (ts_files ts) \<noteq> [] \<and> ts' = ts\<lparr>ts_last := ce_now env\<rparr> \<and>
         (\<exists>path. ce_lookPath env (to_compiler (ts_options ts)) = Some path \<and>
           cmd = Some \<lparr>cc_Path = path, cc_Args = ''--target'' # to_target (ts_options ts) #
             filter (newer (ce_stat env fsys) (ts_last ts)) (ts_files ts), cc_Dir = ts_dir ts\<rparr>)"
    by (rule Compile_ok [OF ok])
  have again: "Compile env' (ts\<lparr>ts_last := ce_now env\<rparr>) = (ts\<lparr>ts_last := ce_now env\<rparr>, None, Inr ())"
    if "\<forall>f\<in>set (ts_files ts). \<exists>t. ce_stat env' fsys f = Some t \<and> t \<le> ce_now env" for env'
    by (rule Compile_nothing_newer) (use f that in simp_all)
  show "\<exists>fsys. ts_fs ts = Some fsys \<and>
      (case cmd of
         None \<Rightarrow> ts' = ts \<and> (\<forall>f\<in>set (ts_files ts). \<not> newer (ce_stat env fsys) (ts_last ts) f)
       | Some c \<Rightarrow> ts' = ts\<lparr>ts_last := ce_now env\<rparr> \<and> cc_Dir c = ts_dir ts \<and>
           cc_Args c = [''--target'', to_target (ts_options ts)] @ filter (newer (ce_stat env fsys) (ts_last ts)) (ts_files ts) \<and>
           (\<forall>env'. (\<forall>f\<in>set (ts_files ts). \<exists>t. ce_stat env' fsys f = Some t \<and> t \<le> ce_now env) \<longrightarrow> Compile env' ts' = (ts', None, Inr ())))"
    using c again f(1) by (intro exI [of _ fsys]) (auto simp: filter_empty_conv)
next
  assume "r \<noteq> Inr ()"
  then obtain e where "r = Inl e" by (cases r) auto
  with run show "ts' = ts" using Compile_error_keeps by blast
qed

definition demo_compile :: "int \<Rightarrow> compile_env" where
  "demo_compile now = \<lparr>ce_stat = (\<lambda>_ f. if f = ''a.ts'' then Some 5 else Some 2), ce_lookPath = (\<lambda>_. Some ''/bin/tsc''), ce_run = (\<lambda>_. True), ce_now = now\<rparr>"

definition demo_sources :: TypescriptSources where
  "demo_sources = (SetDirAndFiles ''/d'' [''a.ts'', ''b.ts''] (NewTypescriptSources []))\<lparr>ts_last := 3\<rparr>"

theorem Compile_incremental_witness:
  "\<exists>ts' c. Compile (demo_compile 9) demo_sources = (ts', Some c, Inr ()) \<and> cc_Args c = [''--target'', ''es2015'', ''a.ts''] \<and>
     Compile (demo_compile 10) ts' = (ts', None, Inr ())"
proof -
  obtain ts' c where run: "Compile (demo_compile 9) demo_sources = (ts', Some c, Inr ())"
    by (simp add: Compile_def demo_compile_def demo_sources_def SetDirAndFiles_def NewTypescriptSources_def)
  have src: "ts_fs demo_sources = Some ''/d''" "ts_files demo_sources = [''a.ts'', ''b.ts'']" "ts_last demo_sources = 3"
      "to_target (ts_options demo_sources) = ''es2015''"
    by (simp_all add: demo_sources_def SetDirAndFiles_def NewTypescriptSources_def)
  have stat: "\<forall>f\<in>set (ts_files demo_sources). \<exists>t. ce_stat (demo_compile 10) ''/d'' f = Some t \<and> t \<le> ce_now (demo_compile 9)"
    by (simp add: src demo_compile_def)
  have spec: "cc_Args c = [''--target'', to_target (ts_options demo_sources)] @
        filter (newer (ce_stat (demo_compile 9) ''/d'') (ts_last demo_sources)) (ts_files demo_sources)"
      "\<forall>env'. (\<forall>f\<in>set (ts_files demo_sources). \<exists>t. ce_stat env' ''/d'' f = Some t \<and> t \<le> ce_now (demo_compile 9)) \<longrightarrow>
        Compile env' ts' = (ts', None, Inr ())"
    using Compile_incremental [OF run] src(1) by auto
  have "cc_Args c = [''--target'', ''es2015'', ''a.ts'']" using spec(1) by (simp add: src newer_def demo_compile_def)
  with run spec(2) stat show ?thesis by blast
qed

text \<open>
  The sources remember when they were compiled, not which: after a change to other files, those that are older than the
  last compilation of the previous ones are taken to be compiled already.
\<close>

lemma SetDirAndFiles_stale:
  assumes "files \<noteq> []" and "\<forall>f\<in>set files. \<exists>t. ce_stat env dir f = Some t \<and> t \<le> ts_last ts"
  shows "snd (Compile env (SetDirAndFiles dir files ts)) = (None, Inr ())"
  using Compile_nothing_newer [of "SetDirAndFiles dir files ts" dir env] assms by (simp add: SetDirAndFiles_def)

text \<open>The handler answers a page only after a successful compilation, and an error as JSON otherwise.\<close>

lemma ServeJS_ok:
  assumes "js_ts jss = Some ts" and "Compile env ts = (ts', cmd, r)" and "fresh rw"
    and "snd (execute (js_title jss) (js_jsScripts jss)) = None" and "fst (execute (js_title jss) (js_jsScripts jss)) \<noteq> []"
  shows "js_ts (fst (ServeJS execute errText env jss rw)) = Some ts' \<and>
    sent_status (snd (ServeJS execute errText env jss rw)) = (if r = Inr () then StatusOK else StatusInternalServerError)"
  using assms
  by (cases r) (auto simp: ServeJS_def JSServer_writeError_def Let_def Write_def WriteHeader_def rw_Set_def fresh_def sent_status_def
      StatusOK_def split: prod.splits option.splits)

end
