(* ===== verification/ChromeDp.thy ===== *)
theory ChromeDp
  imports GoEncoding Certs
begin

text \<open>
  \<^verbatim>\<open>devtest/chromedputil/util.go\<close>: helpers for driving a browser with \<^verbatim>\<open>chromedp\<close>. The browser is a state that the
  library's calls change: the record \<open>chrome\<close> holds those calls. The options given to the library are data; the JSON
  decoders, SHA-256, the environment and the embedded script are arguments. A result \<open>None\<close> is a panic. Logging is
  left out.
\<close>

subsection \<open>Remote objects\<close>

record RemoteObject =
  ro_Type :: string
  ro_ClassName :: string
  ro_Value :: "bytes option"
  ro_ObjectID :: string

text \<open>
  \<open>ch_connect\<close> is what \<open>chromedp.Run\<close> does before its actions, \<open>ch_Evaluate\<close> the action of that name, with
  whether to await a promise and the JSON of the result, \<open>ch_runtimeEvaluate\<close> and \<open>ch_CallFunctionOn\<close> the calls of
  \<^verbatim>\<open>cdproto/runtime\<close>, with the object and the text of the exception, if any; \<open>True\<close> asks for deep serialization.
\<close>

record ('s, 'e) chrome =
  ch_connect :: "'s \<Rightarrow> 's \<times> 'e option"
  ch_Evaluate :: "string \<Rightarrow> bool \<Rightarrow> 's \<Rightarrow> 's \<times> ('e, bytes) result"
  ch_runtimeEvaluate :: "string \<Rightarrow> 's \<Rightarrow> 's \<times> ('e, RemoteObject option \<times> string option) result"
  ch_CallFunctionOn :: "string \<Rightarrow> string \<Rightarrow> bool \<Rightarrow> 's \<Rightarrow> 's \<times> ('e, RemoteObject option \<times> string option) result"

datatype 'e cdp_error = LibraryError 'e | JSException string | NoRemoteObject string | MissingObjectID | LoadFailed string | DecodeFailed

definition ListGlobalFunctions ::
    "('s, 'e) chrome \<Rightarrow> (bytes \<Rightarrow> string list option) \<Rightarrow> 's \<Rightarrow> 's \<times> ('e cdp_error, string list) result" where
  "ListGlobalFunctions ch decode s =
     (case ch_connect ch s of
        (s, Some e) \<Rightarrow> (s, Inl (LibraryError e))
      | (s, None) \<Rightarrow>
          (case ch_Evaluate ch
                  (''Object.getOwnPropertyNames(window).filter('' @ [CHR 0x0A] @ [CHR 0x09, CHR 0x09, CHR 0x09] @
                   ''key => typeof window[key] === '' @ [CHR 0x27] @ ''function'' @ [CHR 0x27, CHR 0x0A] @ [CHR 0x09, CHR 0x09] @ '');'')
                  False s of
             (s, Inl e) \<Rightarrow> (s, Inl (LibraryError e))
           | (s, Inr d) \<Rightarrow> (case decode d of None \<Rightarrow> (s, Inl DecodeFailed) | Some defined \<Rightarrow> (s, Inr defined))))"

text \<open>\<open>text/template\<close> inserts the script's name as it is.\<close>

definition loadTpl :: "string \<Rightarrow> string" where
  "loadTpl script =
     [CHR 0x0A] @ ''(async () => {'' @ [CHR 0x0A] @ ''  let r = await chromedp_utils.loadScript('' @ [CHR 0x22] @ script @ [CHR 0x22] @ '');'' @ [CHR 0x0A] @
     ''  console.log('' @ [CHR 0x22] @ ''Script load result:'' @ [CHR 0x22] @ '', r);'' @ [CHR 0x0A] @ ''  return r;'' @ [CHR 0x0A] @ ''})();''"

definition SourceScript ::
    "('s, 'e) chrome \<Rightarrow> string \<Rightarrow> (bytes \<Rightarrow> (bool \<times> string) option) \<Rightarrow> string \<Rightarrow> 's \<Rightarrow> 's \<times> ('e cdp_error, unit) result" where
  "SourceScript ch javascriptFunctions decode script s =
     (case ch_connect ch s of
        (s, Some e) \<Rightarrow> (s, Inl (LibraryError e))
      | (s, None) \<Rightarrow>
          (case ch_Evaluate ch javascriptFunctions False s of
             (s, Inl e) \<Rightarrow> (s, Inl (LibraryError e))
           | (s, Inr _) \<Rightarrow>
               (case ch_Evaluate ch (loadTpl script) True s of
                  (s, Inl e) \<Rightarrow> (s, Inl (LibraryError e))
                | (s, Inr d) \<Rightarrow>
                    (case decode d of
                       None \<Rightarrow> (s, Inl DecodeFailed)
                     | Some (success, err) \<Rightarrow> if \<not> success then (s, Inl (LoadFailed err)) else (s, Inr ())))))"

definition cdp_evaluate :: "('s, 'e) chrome \<Rightarrow> string \<Rightarrow> 's \<Rightarrow> 's \<times> ('e cdp_error, RemoteObject) result" where
  "cdp_evaluate ch expr s =
     (case ch_runtimeEvaluate ch expr s of
        (s, Inl e) \<Rightarrow> (s, Inl (LibraryError e))
      | (s, Inr (ro, exp)) \<Rightarrow>
          (case exp of
             Some x \<Rightarrow> (s, Inl (JSException x))
           | None \<Rightarrow> (case ro of None \<Rightarrow> (s, Inl (NoRemoteObject expr)) | Some ro \<Rightarrow> (s, Inr ro))))"

definition GetRemoteObjectRef :: "('s, 'e) chrome \<Rightarrow> string \<Rightarrow> 's \<Rightarrow> 's \<times> ('e cdp_error, RemoteObject) result" where
  "GetRemoteObjectRef ch name s =
     (case ch_connect ch s of
        (s, Some e) \<Rightarrow> (s, Inl (LibraryError e))
      | (s, None) \<Rightarrow> cdp_evaluate ch name s)"

definition callon ::
    "('s, 'e) chrome \<Rightarrow> string \<Rightarrow> string \<Rightarrow> bool \<Rightarrow> 's \<Rightarrow> 's \<times> ('e cdp_error, RemoteObject option) result" where
  "callon ch fn objectID deep s =
     (if objectID = [] then (s, Inl MissingObjectID)
      else
        (case ch_CallFunctionOn ch fn objectID deep s of
           (s, Inl e) \<Rightarrow> (s, Inl (LibraryError e))
         | (s, Inr (res, exp)) \<Rightarrow> (case exp of Some x \<Rightarrow> (s, Inl (JSException x)) | None \<Rightarrow> (s, Inr res))))"

text \<open>\<open>platformInfo\<close> decodes the \<^verbatim>\<open>_type\<close> and \<^verbatim>\<open>className\<close> of a JSON object; a nil value decodes like no bytes.\<close>

definition value_bytes :: "RemoteObject \<Rightarrow> bytes" where
  "value_bytes obj = (case ro_Value obj of None \<Rightarrow> [] | Some d \<Rightarrow> d)"

definition safeClone ::
    "('s, 'e) chrome \<Rightarrow> string \<Rightarrow> (bytes \<Rightarrow> (string \<times> string) option) \<Rightarrow> string \<Rightarrow> 's \<Rightarrow>
       ('s \<times> ('e cdp_error, RemoteObject \<times> bytes option) result) option" where
  "safeClone ch javascriptFunctions platformInfo objectID s =
     (case ch_connect ch s of
        (s, Some e) \<Rightarrow> Some (s, Inl (LibraryError e))
      | (s, None) \<Rightarrow>
          (case ch_Evaluate ch javascriptFunctions False s of
             (s, Inl e) \<Rightarrow> Some (s, Inl (LibraryError e))
           | (s, Inr _) \<Rightarrow>
               (case callon ch ''function() { return chromedp_utils.safeClone(this); }'' objectID False s of
                  (s, Inl e) \<Rightarrow> Some (s, Inl e)
                | (s, Inr None) \<Rightarrow> None
                | (s, Inr (Some obj)) \<Rightarrow>
                    if ro_Type obj \<noteq> [] \<and> ro_ClassName obj \<noteq> [] then Some (s, Inr (obj, ro_Value obj))
                    else
                      (case platformInfo (value_bytes obj) of
                         None \<Rightarrow> Some (s, Inr (obj, ro_Value obj))
                       | Some (typ, className) \<Rightarrow>
                           let obj = (if typ \<noteq> [] then obj\<lparr>ro_ClassName := className\<rparr> else obj)
                           in Some (s, Inr (obj, ro_Value obj))))))"

definition GetRemoteObjectValueJSON ::
    "('s, 'e) chrome \<Rightarrow> string \<Rightarrow> (bytes \<Rightarrow> (string \<times> string) option) \<Rightarrow> RemoteObject \<Rightarrow> 's \<Rightarrow>
       ('s \<times> ('e cdp_error, RemoteObject \<times> bytes option) result) option" where
  "GetRemoteObjectValueJSON ch javascriptFunctions platformInfo object s =
     (if ro_Value object \<noteq> None then Some (s, Inr (object, ro_Value object))
      else if ro_Type object = ''undefined'' then
        let object = object\<lparr>ro_Value := Some ([CHR 0x22] @ ''undefined'' @ [CHR 0x22])\<rparr>
        in Some (s, Inr (object, ro_Value object))
      else safeClone ch javascriptFunctions platformInfo (ro_ObjectID object) s)"

text \<open>An error is its text, \<open>None\<close> for nil.\<close>

definition IsPlatformObjectError :: "string option \<Rightarrow> bool" where
  "IsPlatformObjectError err =
     (case err of None \<Rightarrow> False | Some t \<Rightarrow> strings_Contains t ''unknown DeepSerializedValueType value: platformobject'')"

definition IsPlatformObject :: "(bytes \<Rightarrow> (string \<times> string) option) \<Rightarrow> RemoteObject option \<Rightarrow> bool" where
  "IsPlatformObject platformInfo obj =
     (case obj of
        None \<Rightarrow> False
      | Some obj \<Rightarrow> (case platformInfo (value_bytes obj) of None \<Rightarrow> False | Some (typ, _) \<Rightarrow> typ \<noteq> []))"

subsection \<open>Options for the browser\<close>

text \<open>The field \<open>ct_PublicKey\<close> of a certificate is its \<open>RawSubjectPublicKeyInfo\<close>.\<close>

datatype flag_value = FBool bool | FString string

datatype 'x ExecAllocatorOption = NoFirstRun | NoDefaultBrowserCheck | DisableGPU | NoSandbox | ExecFlag string flag_value
  | ExecPath string | UserDataDir string | ModifyCmdFunc | CombinedOutput | OtherAlloc 'x

text \<open>\<open>base64.StdEncoding\<close>: the standard alphabet with padding.\<close>

definition StdEncoding :: "bytes \<Rightarrow> string" where
  "StdEncoding bs =
     (let r = map (\<lambda>c. if c = CHR ''-'' then CHR ''+'' else if c = CHR ''_'' then CHR ''/'' else c) (RawURLEncoding bs)
      in r @ replicate ((4 - length r mod 4) mod 4) CHR ''='')"

text \<open>The slice of fingerprints is made with one empty string for each certificate before the fingerprints are appended.\<close>

fun spki_loop :: "(bytes \<Rightarrow> bytes) \<Rightarrow> certificate option list \<Rightarrow> string list \<Rightarrow> string list" where
  "spki_loop sha256 [] hashes = hashes"
| "spki_loop sha256 (None # certs) hashes = spki_loop sha256 certs hashes"
| "spki_loop sha256 (Some cert # certs) hashes = spki_loop sha256 certs (hashes @ [StdEncoding (sha256 (ct_PublicKey cert))])"

definition CertPoolAllocatorOption :: "(bytes \<Rightarrow> bytes) \<Rightarrow> certificate option list \<Rightarrow> 'x ExecAllocatorOption" where
  "CertPoolAllocatorOption sha256 certs =
     (let hashes = spki_loop sha256 certs (replicate (length certs) [])
      in ExecFlag ''ignore-certificate-errors-spki-list'' (FString (strings_Join hashes '','')))"

definition UserDataDirOnCI :: "(string \<Rightarrow> string) \<Rightarrow> string" where
  "UserDataDirOnCI getenv = getenv ''CHROME_USER_DATA_DIR''"

definition ChromeBinPathOnCI :: "(string \<Rightarrow> string) \<Rightarrow> string" where
  "ChromeBinPathOnCI getenv = getenv ''CHROME_BIN_PATH''"

definition AllocatorOptsForCI :: "'x ExecAllocatorOption list" where
  "AllocatorOptsForCI =
     [NoFirstRun, NoDefaultBrowserCheck, ExecFlag ''headless'' (FString ''new''),
      ExecFlag ''disable-background-networking'' (FBool True),
      ExecFlag ''disable-background-timer-throttling'' (FBool True),
      ExecFlag ''disable-backgrounding-occluded-windows'' (FBool True),
      ExecFlag ''disable-breakpad'' (FBool True),
      ExecFlag ''disable-client-side-phishing-detection'' (FBool True),
      ExecFlag ''disable-default-apps'' (FBool True),
      ExecFlag ''disable-dev-shm-usage'' (FBool True),
      ExecFlag ''disable-extensions'' (FBool True),
      ExecFlag ''disable-features'' (FString ''site-per-process,Translate,BlinkGenPropertyTrees''),
      ExecFlag ''disable-hang-monitor'' (FBool True),
      ExecFlag ''disable-ipc-flooding-protection'' (FBool True),
      ExecFlag ''disable-popup-blocking'' (FBool True),
      ExecFlag ''disable-prompt-on-repost'' (FBool True),
      ExecFlag ''disable-renderer-backgrounding'' (FBool True),
      ExecFlag ''disable-sync'' (FBool True),
      ExecFlag ''force-color-profile'' (FString ''srgb''),
      ExecFlag ''metrics-recording-only'' (FBool True),
      ExecFlag ''safebrowsing-disable-auto-update'' (FBool True),
      ExecFlag ''enable-automation'' (FBool True),
      ExecFlag ''password-store'' (FString ''basic''),
      ExecFlag ''use-mock-keychain'' (FBool True),
      DisableGPU, NoSandbox,
      ExecFlag ''disable-setuid-sandbox'' (FBool True),
      ExecFlag ''headless'' (FString ''new''),
      ExecFlag ''disable-breakpad'' (FBool True),
      ExecFlag ''disable-crash-reporter'' (FBool True),
      ExecFlag ''disable-component-update'' (FBool True),
      ExecFlag ''disable-features'' (FString ''MetricsReporting,UserMetrics'')]"

text \<open>\<open>newExecAllocator\<close> and \<open>newContext\<close> are the library's; \<open>defaults\<close> its \<open>DefaultExecAllocatorOptions\<close>. A cancel function is its name.\<close>

definition WithExecAllocatorForCI ::
    "(string \<Rightarrow> string) \<Rightarrow> 'x ExecAllocatorOption list \<Rightarrow> ('c \<Rightarrow> 'x ExecAllocatorOption list \<Rightarrow> 'c \<times> 'k) \<Rightarrow> 'c \<Rightarrow> string \<Rightarrow>
       'x ExecAllocatorOption list \<Rightarrow> 'c \<times> 'k" where
  "WithExecAllocatorForCI getenv defaults newExecAllocator ctx userDataDir extraExecAllocOpts =
     (let chromeBin = ChromeBinPathOnCI getenv in
      if length chromeBin = 0 then newExecAllocator ctx (defaults @ extraExecAllocOpts @ [ModifyCmdFunc])
      else
        let userDataDir = (if length userDataDir = 0 then UserDataDirOnCI getenv else userDataDir);
            allOpts = [ExecPath chromeBin];
            allOpts = (if length userDataDir > 0 then allOpts @ [UserDataDir userDataDir] else allOpts);
            allOpts = allOpts @ AllocatorOptsForCI;
            allOpts = allOpts @ extraExecAllocOpts;
            allOpts = allOpts @ [ModifyCmdFunc]
        in newExecAllocator ctx allOpts)"

definition AllocatorLoggingWithLevel :: "int \<Rightarrow> 'x ExecAllocatorOption list" where
  "AllocatorLoggingWithLevel level = [ExecFlag ''enable-logging'' (FString ''stderr''), ExecFlag ''v'' (FString (strconv_Itoa level))]"

text \<open>The cancel functions the returned function calls, in their order.\<close>

definition WithContextForCI ::
    "(string \<Rightarrow> string) \<Rightarrow> 'x ExecAllocatorOption list \<Rightarrow> ('c \<Rightarrow> 'x ExecAllocatorOption list \<Rightarrow> 'c \<times> 'k) \<Rightarrow> ('c \<Rightarrow> 'o list \<Rightarrow> 'c \<times> 'k) \<Rightarrow>
       'c \<Rightarrow> string \<Rightarrow> 'x ExecAllocatorOption list \<Rightarrow> 'o list \<Rightarrow> 'c \<times> 'k list" where
  "WithContextForCI getenv defaults newExecAllocator newContext ctx userDataDir extraExecAllocOpts opts =
     (let (ctx, cancelA) = WithExecAllocatorForCI getenv defaults newExecAllocator ctx userDataDir extraExecAllocOpts;
          (ctx, cancelB) = newContext ctx opts
      in (ctx, [cancelB, cancelA]))"

text \<open>\<open>write\<close> is the writer that is wrapped: how much of its argument it wrote, and its error.\<close>

definition chromeWriter_Write :: "(bytes \<Rightarrow> nat \<times> 'e option) \<Rightarrow> bytes \<Rightarrow> bytes \<times> nat \<times> 'e option" where
  "chromeWriter_Write write p =
     (let out = ''chrome(output): '';
          lp = length out;
          out = out @ p;
          (nw, err) = write out
      in (out, if nw > lp then nw - lp else 0, err))"

definition DebuggingExecOpts :: "int \<Rightarrow> bool \<Rightarrow> 'x ExecAllocatorOption list" where
  "DebuggingExecOpts level debug = (if debug then [CombinedOutput] @ AllocatorLoggingWithLevel level else [])"

datatype BrowserOption = WithBrowserDebugf | WithBrowserLogf | WithBrowserErrorf

datatype ContextOption = WithBrowserOption "BrowserOption list" | WithLogf | WithDebugf | WithErrorf

definition DebuggingCtxOpts :: "bool \<Rightarrow> ContextOption list" where
  "DebuggingCtxOpts debug =
     (if debug then [WithBrowserOption [WithBrowserDebugf, WithBrowserLogf, WithBrowserErrorf], WithLogf, WithDebugf, WithErrorf] else [])"

subsection \<open>Facts\<close>

lemma b64_char_no_comma: "b64_char n \<noteq> CHR '',''"
proof
  assume "b64_char n = CHR '',''"
  then have "(of_char (b64_char n) :: nat) = 44" by simp
  then show False by (auto simp: b64_char_def of_char_of split: if_splits)
qed

lemma RawURLEncoding_no_comma: "CHR '','' \<notin> set (RawURLEncoding bs)"
  by (induction bs rule: RawURLEncoding.induct) (simp_all add: b64_char_no_comma [symmetric])

lemma StdEncoding_no_comma: "CHR '','' \<notin> set (StdEncoding bs)"
  using RawURLEncoding_no_comma [of bs] by (auto simp: StdEncoding_def Let_def split: if_splits)

lemma spki_loop_eq:
  "spki_loop sha256 certs hashes =
     hashes @ map (\<lambda>c. StdEncoding (sha256 (ct_PublicKey c))) (List.map_filter id certs)"
  by (induction sha256 certs hashes rule: spki_loop.induct) (simp_all add: List.map_filter_simps)

text \<open>
  The list of fingerprints Chrome is given holds the fingerprint of every certificate, in their order, but begins with
  an empty entry for each certificate that was passed, nil ones included.
\<close>

theorem CertPoolAllocatorOption_entries:
  assumes "certs \<noteq> []"
  shows "\<exists>v. CertPoolAllocatorOption sha256 certs = (ExecFlag ''ignore-certificate-errors-spki-list'' (FString v) :: 'x ExecAllocatorOption) \<and>
    strings_Split v '','' = replicate (length certs) [] @
      map (\<lambda>c. StdEncoding (sha256 (ct_PublicKey c))) (List.map_filter id certs)"
proof -
  let ?hs = "spki_loop sha256 certs (replicate (length certs) [])"
  have "\<forall>h\<in>set ?hs. CHR '','' \<notin> set h" by (auto simp: spki_loop_eq StdEncoding_no_comma)
  moreover have "?hs \<noteq> []" using assms by (simp add: spki_loop_eq)
  ultimately have "strings_Split (strings_Join ?hs '','') '','' = ?hs"
    by (simp add: strings_Split_char split_on_strings_Join)
  then show ?thesis by (simp add: CertPoolAllocatorOption_def Let_def spki_loop_eq)
qed

theorem CertPoolAllocatorOption_entries_witness:
  "\<exists>v. CertPoolAllocatorOption id [None] = (ExecFlag ''ignore-certificate-errors-spki-list'' (FString v) :: unit ExecAllocatorOption) \<and>
     strings_Split v '','' = [[]]"
  using CertPoolAllocatorOption_entries [of "[None]" id, where ?'x = unit] by (simp add: List.map_filter_simps)

text \<open>
  A wrapped writer keeps the contract of \<open>io.Writer\<close>: if the writer below reports at most what it was given, and an
  error whenever it is less, then so does the wrapper, which counts the bytes of its own argument only.
\<close>

lemma chromeWriter_contract:
  assumes "\<And>d n err. write d = (n, err) \<Longrightarrow> n \<le> length d \<and> (n < length d \<longrightarrow> err \<noteq> None)"
    and "chromeWriter_Write write p = (out, n, err)"
  shows "n \<le> length p \<and> (n < length p \<longrightarrow> err \<noteq> None)"
proof -
  obtain nw err' where w: "write (''chrome(output): '' @ p) = (nw, err')" by force
  have len: "length ''chrome(output): '' = 16" by simp
  have "nw \<le> 16 + length p" "nw < 16 + length p \<longrightarrow> err' \<noteq> None" using assms(1) [OF w] by simp_all
  moreover have "n = (if nw > 16 then nw - 16 else 0)" "err = err'"
    using assms(2) unfolding chromeWriter_Write_def Let_def w prod.case len by simp_all
  ultimately show ?thesis by (cases p) auto
qed

text \<open>The flag that disables features is given twice, with different values.\<close>

lemma AllocatorOptsForCI_conflict:
  "ExecFlag ''disable-features'' (FString ''site-per-process,Translate,BlinkGenPropertyTrees'') \<in> set AllocatorOptsForCI \<and>
   last (AllocatorOptsForCI :: 'x ExecAllocatorOption list) = ExecFlag ''disable-features'' (FString ''MetricsReporting,UserMetrics'')"
  by (simp add: AllocatorOptsForCI_def)

text \<open>
  A value that is there already is returned as it is, an undefined one as a JSON string, without using the browser; an
  object without an identifier cannot be looked up.
\<close>

lemma GetRemoteObjectValueJSON_local:
  "ro_Value obj = Some v \<Longrightarrow> GetRemoteObjectValueJSON ch js info obj s = Some (s, Inr (obj, Some v))"
  "ro_Value obj = None \<Longrightarrow> ro_Type obj = ''undefined'' \<Longrightarrow>
     \<exists>obj' v. GetRemoteObjectValueJSON ch js info obj s = Some (s, Inr (obj', Some v)) \<and> ro_Value obj' = Some v"
  by (simp_all add: GetRemoteObjectValueJSON_def Let_def)

lemma safeClone_ok:
  assumes "safeClone ch js info oid s = Some (s', Inr (obj, v))"
  shows "oid \<noteq> [] \<and> v = ro_Value obj"
  using assms
  by (auto simp: safeClone_def callon_def Let_def split: prod.splits option.splits sum.splits if_splits)

lemma WithExecAllocatorForCI_sandbox:
  assumes "getenv ''CHROME_BIN_PATH'' \<noteq> []"
  shows "\<exists>opts. WithExecAllocatorForCI getenv defaults alloc ctx dir extra = alloc ctx opts \<and> NoSandbox \<in> set opts \<and>
    hd opts = ExecPath (getenv ''CHROME_BIN_PATH'') \<and> set extra \<subseteq> set opts"
  using assms by (auto simp: WithExecAllocatorForCI_def ChromeBinPathOnCI_def AllocatorOptsForCI_def Let_def)

end
