(* ===== verification/ChromeListen.thy ===== *)
theory ChromeListen
  imports ChromeDp
begin

text \<open>
  \<^verbatim>\<open>devtest/chromedputil/listener.go\<close>: listening for browser events and logging them. An event is of one of the types the
  package names or of another; channels are numbered in the order they are made and have a buffer. The goroutine of
  \<open>RunLoggingListener\<close> is a step relation over its channels, the context, the goroutines that print console
  calls and what is logged.
\<close>

subsection \<open>Events and handlers\<close>

datatype 'd cdp_event = ConsoleAPICalled "RemoteObject list" | ExceptionThrown 'd | ResponseReceived string int
  | RequestWillBeSent string string | EntryAdded 'd | OtherEvent 'd

datatype event_type = TConsole | TException | TResponse | TRequest | TEntry | TAny

text \<open>The type assertion: every event is an \<open>any\<close>.\<close>

fun has_type :: "event_type \<Rightarrow> 'd cdp_event \<Rightarrow> bool" where
  "has_type TAny ev = True"
| "has_type TConsole (ConsoleAPICalled _) = True"
| "has_type TException (ExceptionThrown _) = True"
| "has_type TResponse (ResponseReceived _ _) = True"
| "has_type TRequest (RequestWillBeSent _ _) = True"
| "has_type TEntry (EntryAdded _) = True"
| "has_type _ _ = False"

type_synonym 'd buffers = "nat \<Rightarrow> 'd cdp_event list"

text \<open>
  A handler is called with the event while \<open>cancelled\<close> says whether the context is done; when both cases of its
  select are ready, \<open>choice\<close> picks the second. It returns whether it took the event; \<open>None\<close> is a send that blocks.
\<close>

definition NewListenHandler ::
    "event_type \<Rightarrow> nat \<Rightarrow> nat \<Rightarrow> bool \<Rightarrow> bool \<Rightarrow> 'd cdp_event \<Rightarrow> 'd buffers \<Rightarrow> ('d buffers \<times> bool) option" where
  "NewListenHandler T1 cap ch cancelled choice ev bufs =
     (if \<not> has_type T1 ev then Some (bufs, False)
      else if length (bufs ch) < cap \<and> \<not> (cancelled \<and> choice) then Some (bufs(ch := bufs ch @ [ev]), True)
      else if cancelled then Some (bufs, True)
      else None)"

fun Listen ::
    "nat \<Rightarrow> (event_type \<times> nat) list \<Rightarrow> bool \<Rightarrow> bool \<Rightarrow> 'd cdp_event \<Rightarrow> 'd buffers \<Rightarrow> 'd buffers option" where
  "Listen cap [] cancelled choice ev bufs = Some bufs"
| "Listen cap ((T1, ch) # handlers) cancelled choice ev bufs =
     (case NewListenHandler T1 cap ch cancelled choice ev bufs of
        None \<Rightarrow> None
      | Some (bufs, True) \<Rightarrow> Some bufs
      | Some (bufs, False) \<Rightarrow> Listen cap handlers cancelled choice ev bufs)"

subsection \<open>Console arguments\<close>

record ('s, 'e) console_env =
  co_chrome :: "('s, 'e) chrome"
  co_js :: string
  co_info :: "bytes \<Rightarrow> (string \<times> string) option"
  co_marshal :: "RemoteObject \<Rightarrow> bytes option"
  co_unmarshal :: "bytes \<Rightarrow> bytes option" \<comment> \<open>the value of a \<open>jsonValue\<close>\<close>

datatype 'e console_error = ValueFailed "'e cdp_error" | MarshalFailed

fun console_loop ::
    "('s, 'e) console_env \<Rightarrow> RemoteObject list \<Rightarrow> bytes list \<Rightarrow> 's \<Rightarrow> ('s \<times> ('e console_error, bytes list) result) option" where
  "console_loop env [] values s = Some (s, Inr values)"
| "console_loop env (arg # args) values s =
     (case GetRemoteObjectValueJSON (co_chrome env) (co_js env) (co_info env) arg s of
        None \<Rightarrow> None
      | Some (s, Inl e) \<Rightarrow> Some (s, Inl (ValueFailed e))
      | Some (s, Inr (val, _)) \<Rightarrow>
          (case co_marshal env val of
             None \<Rightarrow> Some (s, Inl MarshalFailed)
           | Some out \<Rightarrow> console_loop env args (values @ [out]) s))"

definition ConsoleArgsAsJSON ::
    "('s, 'e) console_env \<Rightarrow> RemoteObject list \<Rightarrow> 's \<Rightarrow> ('s \<times> ('e console_error, bytes list) result) option" where
  "ConsoleArgsAsJSON env args s = console_loop env args [] s"

subsection \<open>Options\<close>

record loggingOptions =
  lo_consoleCh :: "nat option"
  lo_exceptionCh :: "nat option"
  lo_networkResponseCh :: "nat option"
  lo_networkRrequestCh :: "nat option"
  lo_eventCh :: "nat option"
  lo_anyCh :: "nat option"
  lo_handlers :: "(event_type \<times> nat) list"
  lo_made :: nat \<comment> \<open>how many channels have been made\<close>

type_synonym LoggingOption = "loggingOptions \<Rightarrow> loggingOptions"

definition handlerOption :: "event_type \<Rightarrow> loggingOptions \<Rightarrow> nat \<times> loggingOptions" where
  "handlerOption T1 opts =
     (lo_made opts, opts\<lparr>lo_handlers := lo_handlers opts @ [(T1, lo_made opts)], lo_made := lo_made opts + 1\<rparr>)"

definition initCh :: "nat option \<Rightarrow> loggingOptions \<Rightarrow> nat \<times> loggingOptions" where
  "initCh ch opts = (case ch of None \<Rightarrow> (lo_made opts, opts\<lparr>lo_made := lo_made opts + 1\<rparr>) | Some c \<Rightarrow> (c, opts))"

definition WithConsoleLogging :: LoggingOption where
  "WithConsoleLogging opts = (let (ch, opts) = handlerOption TConsole opts in opts\<lparr>lo_consoleCh := Some ch\<rparr>)"

definition WithExceptionLogging :: LoggingOption where
  "WithExceptionLogging opts = (let (ch, opts) = handlerOption TException opts in opts\<lparr>lo_exceptionCh := Some ch\<rparr>)"

definition WithEventEntryLogging :: LoggingOption where
  "WithEventEntryLogging opts = (let (ch, opts) = handlerOption TEntry opts in opts\<lparr>lo_eventCh := Some ch\<rparr>)"

definition WithNetworkLogging :: LoggingOption where
  "WithNetworkLogging opts =
     (let (ch, opts) = handlerOption TResponse opts;
          opts = opts\<lparr>lo_networkResponseCh := Some ch\<rparr>;
          (ch, opts) = handlerOption TRequest opts
      in opts\<lparr>lo_networkRrequestCh := Some ch\<rparr>)"

definition WithAnyEventLogging :: LoggingOption where
  "WithAnyEventLogging opts = (let (ch, opts) = handlerOption TAny opts in opts\<lparr>lo_anyCh := Some ch\<rparr>)"

definition zero_loggingOptions :: loggingOptions where
  "zero_loggingOptions = \<lparr>lo_consoleCh = None, lo_exceptionCh = None, lo_networkResponseCh = None, lo_networkRrequestCh = None,
     lo_eventCh = None, lo_anyCh = None, lo_handlers = [], lo_made = 0\<rparr>"

text \<open>The options of \<open>RunLoggingListener\<close>, with the channels that are still nil made.\<close>

definition listener_options :: "LoggingOption list \<Rightarrow> loggingOptions" where
  "listener_options opts =
     (let options = apply_options opts zero_loggingOptions;
          options = (case initCh (lo_consoleCh options) options of (c, options) \<Rightarrow> options\<lparr>lo_consoleCh := Some c\<rparr>);
          options = (case initCh (lo_exceptionCh options) options of (c, options) \<Rightarrow> options\<lparr>lo_exceptionCh := Some c\<rparr>);
          options = (case initCh (lo_networkResponseCh options) options of (c, options) \<Rightarrow> options\<lparr>lo_networkResponseCh := Some c\<rparr>);
          options = (case initCh (lo_networkRrequestCh options) options of (c, options) \<Rightarrow> options\<lparr>lo_networkRrequestCh := Some c\<rparr>);
          options = (case initCh (lo_eventCh options) options of (c, options) \<Rightarrow> options\<lparr>lo_eventCh := Some c\<rparr>)
      in case initCh (lo_anyCh options) options of (c, options) \<Rightarrow> options\<lparr>lo_anyCh := Some c\<rparr>)"

fun channel_of :: "loggingOptions \<Rightarrow> event_type \<Rightarrow> nat option" where
  "channel_of o1 TConsole = lo_consoleCh o1"
| "channel_of o1 TException = lo_exceptionCh o1"
| "channel_of o1 TResponse = lo_networkResponseCh o1"
| "channel_of o1 TRequest = lo_networkRrequestCh o1"
| "channel_of o1 TEntry = lo_eventCh o1"
| "channel_of o1 TAny = lo_anyCh o1"

subsection \<open>The logging goroutine\<close>

datatype attr_value = RawArg bytes | JSONArg bytes

datatype 'd log_line = ConsoleFailed | ConsoleCalled "(string \<times> attr_value) list" | ExceptionLine 'd | ExceptionDetails 'd
  | EntryLine 'd | OtherLine "'d cdp_event" | ResponseLine string int | RequestLine string string

text \<open>The line of a console call: the arguments under their index, three digits wide.\<close>

definition console_line :: "('s, 'e) console_env \<Rightarrow> ('e console_error, bytes list) result \<Rightarrow> 'd log_line" where
  "console_line env r =
     (case r of
        Inl _ \<Rightarrow> ConsoleFailed
      | Inr s \<Rightarrow>
          ConsoleCalled (map (\<lambda>(i, arg).
            let d = strconv_Itoa (int i)
            in (replicate (3 - length d) CHR ''0'' @ d,
                case co_unmarshal env arg of None \<Rightarrow> RawArg arg | Some v \<Rightarrow> JSONArg v)) (List.enumerate 0 s)))"

text \<open>The case of the select for each channel: the calls it starts to print and the lines it logs.\<close>

fun select_case :: "event_type \<Rightarrow> 'd cdp_event \<Rightarrow> (RemoteObject list list \<times> 'd log_line list) option" where
  "select_case TConsole (ConsoleAPICalled args) = Some ([args], [])"
| "select_case TException (ExceptionThrown d) = Some ([], [ExceptionLine d, ExceptionDetails d])"
| "select_case TEntry (EntryAdded d) = Some ([], [EntryLine d])"
| "select_case TAny ev = Some ([], [OtherLine ev])"
| "select_case TResponse (ResponseReceived url status) = Some ([], [ResponseLine url status])"
| "select_case TRequest (RequestWillBeSent url meth) = Some ([], [RequestLine url meth])"
| "select_case _ _ = None"

datatype run_pc = Selecting | WaitingForGroup | DoneClosed

text \<open>\<open>ln_sent\<close> and \<open>ln_taken\<close> record which events have gone into and out of which channel.\<close>

record 'd listener =
  ln_bufs :: "'d buffers"
  ln_console :: "RemoteObject list list" \<comment> \<open>the running goroutines of console calls\<close>
  ln_log :: "'d log_line list"
  ln_cancelled :: bool
  ln_pc :: run_pc
  ln_sent :: "(nat \<times> 'd cdp_event) list"
  ln_taken :: "(nat \<times> 'd cdp_event) list"

definition RunLoggingListener_init :: "bool \<Rightarrow> 'd listener" where
  "RunLoggingListener_init cancelled = \<lparr>ln_bufs = (\<lambda>_. []), ln_console = [], ln_log = [], ln_cancelled = cancelled, ln_pc = Selecting,
     ln_sent = [], ln_taken = []\<rparr>"

definition route :: "(event_type \<times> nat) list \<Rightarrow> 'd cdp_event \<Rightarrow> nat option" where
  "route handlers ev = map_option snd (find (\<lambda>(T1, _). has_type T1 ev) handlers)"

definition newly_sent :: "(event_type \<times> nat) list \<Rightarrow> 'd cdp_event \<Rightarrow> 'd buffers \<Rightarrow> 'd buffers \<Rightarrow> (nat \<times> 'd cdp_event) list" where
  "newly_sent handlers ev bufs bufs' =
     (case route handlers ev of None \<Rightarrow> [] | Some ch \<Rightarrow> if length (bufs' ch) > length (bufs ch) then [(ch, ev)] else [])"

inductive RunLoggingListener :: "('s, 'e) console_env \<Rightarrow> loggingOptions \<Rightarrow> 'd listener \<Rightarrow> 'd listener \<Rightarrow> bool" for env o1 where
  event: "Listen 10 (lo_handlers o1) (ln_cancelled s) choice ev (ln_bufs s) = Some bufs \<Longrightarrow>
    RunLoggingListener env o1 s (s\<lparr>ln_bufs := bufs, ln_sent := ln_sent s @ newly_sent (lo_handlers o1) ev (ln_bufs s) bufs\<rparr>)"
| receive: "ln_pc s = Selecting \<Longrightarrow> channel_of o1 T1 = Some ch \<Longrightarrow> ln_bufs s ch = ev # evs \<Longrightarrow> select_case T1 ev = Some (calls, ls) \<Longrightarrow>
    RunLoggingListener env o1 s (s\<lparr>ln_bufs := (ln_bufs s)(ch := evs), ln_console := ln_console s @ calls, ln_log := ln_log s @ ls,
      ln_taken := ln_taken s @ [(ch, ev)]\<rparr>)"
| console: "ln_console s = before @ args # after \<Longrightarrow> ConsoleArgsAsJSON env args b = Some (b', r) \<Longrightarrow>
    RunLoggingListener env o1 s (s\<lparr>ln_console := before @ after, ln_log := ln_log s @ [console_line env r]\<rparr>)"
| cancel: "RunLoggingListener env o1 s (s\<lparr>ln_cancelled := True\<rparr>)"
| ctx_done: "ln_pc s = Selecting \<Longrightarrow> ln_cancelled s \<Longrightarrow> RunLoggingListener env o1 s (s\<lparr>ln_pc := WaitingForGroup\<rparr>)"
| close_done: "ln_pc s = WaitingForGroup \<Longrightarrow> ln_console s = [] \<Longrightarrow> RunLoggingListener env o1 s (s\<lparr>ln_pc := DoneClosed\<rparr>)"

inductive_cases RunLoggingListenerE: "RunLoggingListener env o1 s t"

inductive logging_reachable :: "('s, 'e) console_env \<Rightarrow> loggingOptions \<Rightarrow> bool \<Rightarrow> 'd listener \<Rightarrow> bool" for env o1 c where
  start: "logging_reachable env o1 c (RunLoggingListener_init c)"
| step: "logging_reachable env o1 c s \<Longrightarrow> RunLoggingListener env o1 s t \<Longrightarrow> logging_reachable env o1 c t"

subsection \<open>Facts about handlers and options\<close>

text \<open>An event goes to the first handler of its type, and to no other.\<close>

lemma Listen_route:
  "Listen cap handlers cancelled choice ev bufs =
     (case route handlers ev of
        None \<Rightarrow> Some bufs
      | Some ch \<Rightarrow>
          if length (bufs ch) < cap \<and> \<not> (cancelled \<and> choice) then Some (bufs(ch := bufs ch @ [ev]))
          else if cancelled then Some bufs else None)"
  by (induction handlers) (auto simp: route_def NewListenHandler_def split: bool.splits)

definition logging_choices :: "LoggingOption set" where
  "logging_choices = {WithConsoleLogging, WithExceptionLogging, WithEventEntryLogging, WithNetworkLogging, WithAnyEventLogging}"

text \<open>Channels are typed: no two cases share one, and only handlers of a case's type send to its channel.\<close>

definition typed_options :: "loggingOptions \<Rightarrow> bool" where
  "typed_options o1 \<longleftrightarrow>
     (\<forall>T1 ch. channel_of o1 T1 = Some ch \<longrightarrow> ch < lo_made o1) \<and>
     (\<forall>T1 T2 ch. channel_of o1 T1 = Some ch \<and> channel_of o1 T2 = Some ch \<longrightarrow> T1 = T2) \<and>
     (\<forall>T1 ch. (T1, ch) \<in> set (lo_handlers o1) \<longrightarrow> ch < lo_made o1 \<and> (\<forall>T2. channel_of o1 T2 = Some ch \<longrightarrow> T2 = T1))"

fun set_channel :: "event_type \<Rightarrow> nat \<Rightarrow> loggingOptions \<Rightarrow> loggingOptions" where
  "set_channel TConsole ch o1 = o1\<lparr>lo_consoleCh := Some ch\<rparr>"
| "set_channel TException ch o1 = o1\<lparr>lo_exceptionCh := Some ch\<rparr>"
| "set_channel TResponse ch o1 = o1\<lparr>lo_networkResponseCh := Some ch\<rparr>"
| "set_channel TRequest ch o1 = o1\<lparr>lo_networkRrequestCh := Some ch\<rparr>"
| "set_channel TEntry ch o1 = o1\<lparr>lo_eventCh := Some ch\<rparr>"
| "set_channel TAny ch o1 = o1\<lparr>lo_anyCh := Some ch\<rparr>"

lemma set_channel_simps [simp]:
  "channel_of (set_channel T1 ch o1) T2 = (if T2 = T1 then Some ch else channel_of o1 T2)"
  "lo_handlers (set_channel T1 ch o1) = lo_handlers o1" "lo_made (set_channel T1 ch o1) = lo_made o1"
  by (cases T1; cases T2; simp)+

lemma channel_of_updates [simp]:
  "channel_of (o1\<lparr>lo_made := n\<rparr>) T1 = channel_of o1 T1" "channel_of (o1\<lparr>lo_handlers := hs\<rparr>) T1 = channel_of o1 T1"
  by (cases T1; simp)+

definition add_handler :: "event_type \<Rightarrow> loggingOptions \<Rightarrow> loggingOptions" where
  "add_handler T1 o1 = set_channel T1 (lo_made o1) (o1\<lparr>lo_handlers := lo_handlers o1 @ [(T1, lo_made o1)], lo_made := lo_made o1 + 1\<rparr>)"

definition init_channel :: "event_type \<Rightarrow> loggingOptions \<Rightarrow> loggingOptions" where
  "init_channel T1 o1 = (case channel_of o1 T1 of
     None \<Rightarrow> set_channel T1 (lo_made o1) (o1\<lparr>lo_made := lo_made o1 + 1\<rparr>) | Some c \<Rightarrow> set_channel T1 c o1)"

lemma options_add_handler:
  "WithConsoleLogging = add_handler TConsole" "WithExceptionLogging = add_handler TException" "WithEventEntryLogging = add_handler TEntry"
  "WithNetworkLogging = add_handler TRequest \<circ> add_handler TResponse" "WithAnyEventLogging = add_handler TAny"
  by (rule ext, simp add: WithConsoleLogging_def WithExceptionLogging_def WithEventEntryLogging_def WithNetworkLogging_def
      WithAnyEventLogging_def handlerOption_def add_handler_def Let_def)+

lemma initCh_init_channel:
  "(case initCh (lo_consoleCh o1) o1 of (c, o2) \<Rightarrow> o2\<lparr>lo_consoleCh := Some c\<rparr>) = init_channel TConsole o1"
  "(case initCh (lo_exceptionCh o1) o1 of (c, o2) \<Rightarrow> o2\<lparr>lo_exceptionCh := Some c\<rparr>) = init_channel TException o1"
  "(case initCh (lo_networkResponseCh o1) o1 of (c, o2) \<Rightarrow> o2\<lparr>lo_networkResponseCh := Some c\<rparr>) = init_channel TResponse o1"
  "(case initCh (lo_networkRrequestCh o1) o1 of (c, o2) \<Rightarrow> o2\<lparr>lo_networkRrequestCh := Some c\<rparr>) = init_channel TRequest o1"
  "(case initCh (lo_eventCh o1) o1 of (c, o2) \<Rightarrow> o2\<lparr>lo_eventCh := Some c\<rparr>) = init_channel TEntry o1"
  "(case initCh (lo_anyCh o1) o1 of (c, o2) \<Rightarrow> o2\<lparr>lo_anyCh := Some c\<rparr>) = init_channel TAny o1"
  by (simp_all add: initCh_def init_channel_def split: option.splits)

lemma listener_options_init:
  "listener_options opts =
     init_channel TAny (init_channel TEntry (init_channel TRequest (init_channel TResponse (init_channel TException (init_channel TConsole
       (apply_options opts zero_loggingOptions))))))"
  unfolding listener_options_def Let_def initCh_init_channel ..

lemma typed_add_handler: "typed_options o1 \<Longrightarrow> typed_options (add_handler T1 o1)"
  unfolding typed_options_def add_handler_def by (auto simp: less_Suc_eq)

lemma typed_init_channel: "typed_options o1 \<Longrightarrow> typed_options (init_channel T1 o1)"
  unfolding typed_options_def init_channel_def by (auto simp: less_Suc_eq split: option.splits)

lemma typed_options_zero: "typed_options zero_loggingOptions"
proof -
  have "channel_of zero_loggingOptions T1 = None" for T1 by (cases T1) (simp_all add: zero_loggingOptions_def)
  moreover have "lo_handlers zero_loggingOptions = []" by (simp add: zero_loggingOptions_def)
  ultimately show ?thesis by (simp add: typed_options_def)
qed

lemma typed_apply_options: "set opts \<subseteq> logging_choices \<Longrightarrow> typed_options o1 \<Longrightarrow> typed_options (apply_options opts o1)"
proof (induction opts arbitrary: o1)
  case (Cons opt opts)
  have "typed_options (opt o1)"
    using Cons.prems by (auto simp: logging_choices_def options_add_handler intro!: typed_add_handler)
  with Cons show ?case by simp
qed simp

lemma typed_listener_options: "set opts \<subseteq> logging_choices \<Longrightarrow> typed_options (listener_options opts)"
  unfolding listener_options_init
  by (intro typed_init_channel typed_apply_options typed_options_zero)

subsection \<open>The invariant of the logging goroutine\<close>

definition on_channel :: "nat \<Rightarrow> (nat \<times> 'd cdp_event) list \<Rightarrow> 'd cdp_event list" where
  "on_channel ch xs = map snd (filter (\<lambda>(c, _). c = ch) xs)"

lemma on_channel_simps [simp]:
  "on_channel ch [] = []" "on_channel ch (xs @ ys) = on_channel ch xs @ on_channel ch ys"
  "on_channel ch [(c, ev)] = (if c = ch then [ev] else [])"
  by (simp_all add: on_channel_def)

definition listener_inv :: "loggingOptions \<Rightarrow> 'd listener \<Rightarrow> bool" where
  "listener_inv o1 s \<longleftrightarrow>
     (\<forall>ch. length (ln_bufs s ch) \<le> 10 \<and> on_channel ch (ln_sent s) = on_channel ch (ln_taken s) @ ln_bufs s ch) \<and>
     (\<forall>ch ev T1. (ch, ev) \<in> set (ln_sent s) \<and> channel_of o1 T1 = Some ch \<longrightarrow> has_type T1 ev) \<and>
     (ln_pc s \<noteq> Selecting \<longrightarrow> ln_cancelled s) \<and> (ln_pc s = DoneClosed \<longrightarrow> ln_console s = [])"

lemma route_typed:
  assumes "typed_options o1" and "route (lo_handlers o1) ev = Some ch" and "channel_of o1 T1 = Some ch"
  shows "has_type T1 ev"
proof -
  obtain T2 where "(T2, ch) \<in> set (lo_handlers o1)" "has_type T2 ev"
    using assms(2) by (auto simp: route_def find_Some_iff) (metis nth_mem)
  moreover from this(1) assms(1,3) have "T1 = T2" unfolding typed_options_def by blast
  ultimately show ?thesis by simp
qed

lemma listener_inv_event:
  assumes "typed_options o1" and "listener_inv o1 s"
    and l: "Listen 10 (lo_handlers o1) (ln_cancelled s) choice ev (ln_bufs s) = Some bufs"
  shows "listener_inv o1 (s\<lparr>ln_bufs := bufs, ln_sent := ln_sent s @ newly_sent (lo_handlers o1) ev (ln_bufs s) bufs\<rparr>)"
proof (cases "bufs = ln_bufs s")
  case True
  then have "newly_sent (lo_handlers o1) ev (ln_bufs s) bufs = []" by (simp add: newly_sent_def split: option.splits)
  with True assms(2) show ?thesis by (auto simp: listener_inv_def)
next
  case False
  then obtain ch where r: "route (lo_handlers o1) ev = Some ch" and len: "length (ln_bufs s ch) < 10"
      and b: "bufs = (ln_bufs s)(ch := ln_bufs s ch @ [ev])"
    using l unfolding Listen_route by (auto split: option.splits if_splits)
  have "newly_sent (lo_handlers o1) ev (ln_bufs s) bufs = [(ch, ev)]" by (simp add: newly_sent_def r b)
  with assms(2) len route_typed [OF assms(1) r] show ?thesis by (auto simp: listener_inv_def b)
qed

lemma listener_inv_step:
  assumes "typed_options o1" and "RunLoggingListener env o1 s t" and "listener_inv o1 s"
  shows "listener_inv o1 t"
  using assms(2)
proof cases
  case (event choice ev bufs)
  with listener_inv_event [OF assms(1,3) event(2)] show ?thesis by simp
next
  case (receive T1 ch ev evs calls ls)
  from assms(3) have "length (ln_bufs s ch) \<le> 10" by (simp add: listener_inv_def)
  with receive assms(3) show ?thesis by (auto simp: listener_inv_def)
qed (use assms(3) in \<open>auto simp: listener_inv_def\<close>)

lemma listener_inv_reachable:
  assumes "typed_options o1" and "logging_reachable env o1 c s"
  shows "listener_inv o1 s"
  using assms(2)
proof (induction rule: logging_reachable.induct)
  case start
  show ?case by (simp add: listener_inv_def RunLoggingListener_init_def)
next
  case (step s t)
  then show ?case using listener_inv_step [OF assms(1)] by blast
qed

lemma select_case_typed: "has_type T1 ev \<Longrightarrow> \<exists>calls ls. select_case T1 ev = Some (calls, ls)"
  by (cases T1; cases ev) auto

lemma sent_buffered:
  assumes "listener_inv o1 s" and "ev \<in> set (ln_bufs s ch)"
  shows "(ch, ev) \<in> set (ln_sent s)"
proof -
  have "ev \<in> set (on_channel ch (ln_sent s))" using assms by (simp add: listener_inv_def)
  then show ?thesis by (auto simp: on_channel_def)
qed


lemma reachable_one_event:
  "logging_reachable env (listener_options [WithConsoleLogging]) False
     (RunLoggingListener_init False\<lparr>ln_bufs := (\<lambda>_. [])(0 := [ConsoleAPICalled args]), ln_sent := [(0, ConsoleAPICalled args)]\<rparr>)"
proof -
  let ?o = "listener_options [WithConsoleLogging]" and ?s = "RunLoggingListener_init False :: 'd listener"
  have h: "lo_handlers ?o = [(TConsole, 0)]"
    by (simp add: listener_options_def WithConsoleLogging_def handlerOption_def initCh_def zero_loggingOptions_def)
  have "Listen 10 (lo_handlers ?o) (ln_cancelled ?s) False (ConsoleAPICalled args) (ln_bufs ?s) =
      Some ((\<lambda>_. [])(0 := [ConsoleAPICalled args]))"
    by (simp add: h NewListenHandler_def RunLoggingListener_init_def)
  from logging_reachable.step [OF logging_reachable.start RunLoggingListener.event [OF this]] show ?thesis
    by (simp add: newly_sent_def route_def h RunLoggingListener_init_def)
qed

definition demo_console :: "(unit, unit) console_env" where
  "demo_console = \<lparr>co_chrome = \<lparr>ch_connect = (\<lambda>s. (s, None)), ch_Evaluate = (\<lambda>_ _ s. (s, Inr [])),
      ch_runtimeEvaluate = (\<lambda>_ s. (s, Inr (None, None))), ch_CallFunctionOn = (\<lambda>_ _ _ s. (s, Inr (None, None)))\<rparr>,
     co_js = [], co_info = (\<lambda>_. None), co_marshal = (\<lambda>_. Some []), co_unmarshal = (\<lambda>_. None)\<rparr>"


text \<open>
  An option that is given twice replaces the channel the goroutine reads but not the handler that sends to the first:
  console calls then go to a channel nobody reads, are never logged, and the eleventh blocks the delivery of events.
\<close>

lemma repeated_option_channels:
  "route (lo_handlers (listener_options [WithConsoleLogging, WithConsoleLogging])) (ConsoleAPICalled args) = Some 0 \<and>
   channel_of (listener_options [WithConsoleLogging, WithConsoleLogging]) T1 \<noteq> Some 0"
  by (cases T1) (simp_all add: route_def listener_options_def WithConsoleLogging_def handlerOption_def initCh_def zero_loggingOptions_def)

theorem repeated_option_blocks:
  assumes "logging_reachable env (listener_options [WithConsoleLogging, WithConsoleLogging]) c s"
  shows "on_channel 0 (ln_taken s) = [] \<and>
    (length (ln_bufs s 0) = 10 \<and> \<not> ln_cancelled s \<longrightarrow>
      Listen 10 (lo_handlers (listener_options [WithConsoleLogging, WithConsoleLogging])) (ln_cancelled s) choice (ConsoleAPICalled args) (ln_bufs s) = None)"
proof
  show "on_channel 0 (ln_taken s) = []"
    using assms
  proof (induction rule: logging_reachable.induct)
    case (step s t)
    from step(2) show ?case
    proof cases
      case (receive T1 ch ev evs calls ls)
      then have "ch \<noteq> 0" using repeated_option_channels by metis
      with receive step.IH show ?thesis by simp
    qed (use step.IH in simp_all)
  qed (simp add: RunLoggingListener_init_def)
  show "length (ln_bufs s 0) = 10 \<and> \<not> ln_cancelled s \<longrightarrow>
      Listen 10 (lo_handlers (listener_options [WithConsoleLogging, WithConsoleLogging])) (ln_cancelled s) choice (ConsoleAPICalled args) (ln_bufs s) = None"
    by (simp add: Listen_route repeated_option_channels [THEN conjunct1])
qed

end
