(* ===== verification/NavTest.thy ===== *)
theory NavTest
  imports ChromeDp TestWebapp
begin

text \<open>
  \<^verbatim>\<open>testwebapp/test_click.go\<close>: navigation tests, which open a page in a browser and wait for its elements or act on
  them. The browser is an argument: what navigating and running actions return. A test cleans up its temporary
  directory and its browser when it ends; \<open>errgroup\<close> is that of \<open>TestWebapp\<close>. The YAML form of a specification, used in
  messages only, and logging are left out.
\<close>

subsection \<open>Selector actions\<close>

datatype navigate_err = ErrNavigateUnexpectedError | ErrNavigateElementNotFound

type_synonym SelectorAction = string

definition SelectorActionNone :: SelectorAction where "SelectorActionNone = []"
definition SelectorActionClick :: SelectorAction where "SelectorActionClick = ''click''"
definition SelectorActionDoubleClick :: SelectorAction where "SelectorActionDoubleClick = ''double_click''"

definition SelectorAction_MarshalYAML :: "SelectorAction \<Rightarrow> string" where
  "SelectorAction_MarshalYAML a = a"

datatype 'e action_error = DecodeError 'e | UnknownAction string

text \<open>\<open>decoded\<close> is what the node decodes to.\<close>

definition SelectorAction_UnmarshalYAML :: "('e, string) result \<Rightarrow> ('e action_error, SelectorAction) result" where
  "SelectorAction_UnmarshalYAML decoded =
     (case decoded of
        Inl e \<Rightarrow> Inl (DecodeError e)
      | Inr s \<Rightarrow>
          if s = SelectorActionNone \<or> s = SelectorActionClick \<or> s = SelectorActionDoubleClick then Inr s else Inl (UnknownAction s))"

datatype 'a chrome_action = WaitVisible string | Click string | DoubleClick string | CustomAction 'a

definition chromedpActions :: "SelectorAction \<Rightarrow> string \<Rightarrow> 'a chrome_action list" where
  "chromedpActions a selector =
     (if a = SelectorActionClick then [Click selector]
      else if a = SelectorActionDoubleClick then [DoubleClick selector]
      else [])"

subsection \<open>Tests\<close>

record NavigationSpec =
  nv_URL :: string
  nv_Selectors :: "string list"
  nv_Action :: SelectorAction
  nv_SequentialActions :: bool

record ('a, 'x, 'o) navigateTestOptions =
  no_timeout :: int
  no_elementTimeout :: int
  no_extraExecAllocOpts :: "'x ExecAllocatorOption list"
  no_ctxOpts :: "'o list"
  no_userDataDir :: string
  no_selectorActions :: "string \<rightharpoonup> 'a chrome_action list"

type_synonym ('a, 'x, 'o) NavigateOption = "('a, 'x, 'o) navigateTestOptions \<Rightarrow> ('a, 'x, 'o) navigateTestOptions"

definition nav_WithTimeout :: "int \<Rightarrow> ('a, 'x, 'o) NavigateOption" where
  "nav_WithTimeout timeout o1 = o1\<lparr>no_timeout := timeout\<rparr>"

definition WithElementTimeout :: "int \<Rightarrow> ('a, 'x, 'o) NavigateOption" where
  "WithElementTimeout timeout o1 = o1\<lparr>no_elementTimeout := timeout\<rparr>"

definition WithExecAllocatorOptions :: "'x ExecAllocatorOption list \<Rightarrow> ('a, 'x, 'o) NavigateOption" where
  "WithExecAllocatorOptions opts o1 = o1\<lparr>no_extraExecAllocOpts := no_extraExecAllocOpts o1 @ opts\<rparr>"

definition WithContextOptions :: "'o list \<Rightarrow> ('a, 'x, 'o) NavigateOption" where
  "WithContextOptions opts o1 = o1\<lparr>no_ctxOpts := no_ctxOpts o1 @ opts\<rparr>"

definition WithUserDataDir :: "string \<Rightarrow> ('a, 'x, 'o) NavigateOption" where
  "WithUserDataDir dir o1 = o1\<lparr>no_userDataDir := dir\<rparr>"

definition WithSuppressedCertErrorsFor :: "(bytes \<Rightarrow> bytes) \<Rightarrow> certificate option list \<Rightarrow> ('a, 'x, 'o) NavigateOption" where
  "WithSuppressedCertErrorsFor sha256 certs = WithExecAllocatorOptions [CertPoolAllocatorOption sha256 certs]"

definition WithSelectorActions :: "string \<Rightarrow> 'a chrome_action list \<Rightarrow> ('a, 'x, 'o) NavigateOption" where
  "WithSelectorActions selector actions o1 = o1\<lparr>no_selectorActions := (no_selectorActions o1)(selector \<mapsto> actions)\<rparr>"

record ('a, 'x, 'o) NavigationTest =
  nt_specs :: "NavigationSpec list"
  nt_opts :: "('a, 'x, 'o) navigateTestOptions"

definition NewNavigationTest :: "NavigationSpec list \<Rightarrow> ('a, 'x, 'o) NavigateOption list \<Rightarrow> ('a, 'x, 'o) NavigationTest" where
  "NewNavigationTest specs opts =
     (let o1 = apply_options opts \<lparr>no_timeout = 0, no_elementTimeout = 0, no_extraExecAllocOpts = [], no_ctxOpts = [],
                                   no_userDataDir = [], no_selectorActions = Map.empty\<rparr>;
          o1 = (if no_timeout o1 = 0 then o1\<lparr>no_timeout := 30 * 1000000000\<rparr> else o1);
          o1 = (if no_elementTimeout o1 = 0 then o1\<lparr>no_elementTimeout := 5 * 1000000000\<rparr> else o1)
      in \<lparr>nt_specs = specs, nt_opts = o1\<rparr>)"

subsection \<open>Running a test\<close>

datatype 'e run_error = DeadlineExceeded | RunError 'e

datatype cleanup = ChromeCancelled | DirRemoved string

text \<open>
  The surroundings of one specification: the temporary directory that is made, what the library makes of the context
  with the timeout of the test, for a directory and options, and the browser: navigating, running actions under a timeout, and running several lists of
  actions concurrently, each under the timeout, with their errors.
\<close>

record ('a, 'x, 'o, 's, 'e) nav_env =
  ne_mkdirTemp :: "string option"
  ne_context :: "int \<Rightarrow> string \<Rightarrow> 'x ExecAllocatorOption list \<Rightarrow> 'o list \<Rightarrow> 's"
  ne_navigate :: "string \<Rightarrow> 's \<Rightarrow> 's \<times> 'e run_error option"
  ne_run :: "int \<Rightarrow> 'a chrome_action list \<Rightarrow> 's \<Rightarrow> 's \<times> 'e run_error option"
  ne_parallel :: "int \<Rightarrow> 'a chrome_action list list \<Rightarrow> 's \<Rightarrow> 'e run_error option list"

definition selector_actions :: "('a, 'x, 'o) navigateTestOptions \<Rightarrow> NavigationSpec \<Rightarrow> string \<Rightarrow> 'a chrome_action list" where
  "selector_actions o1 spec selector =
     (let actions = [WaitVisible selector] in
      case no_selectorActions o1 selector of
        Some extra \<Rightarrow> actions @ extra
      | None \<Rightarrow>
          let specActions = chromedpActions (nv_Action spec) selector
          in if length specActions > 0 then actions @ specActions else actions)"

definition selector_result :: "string \<Rightarrow> 'e run_error option \<Rightarrow> (string \<times> navigate_err, unit) result" where
  "selector_result selector err =
     (case err of
        None \<Rightarrow> Inr ()
      | Some DeadlineExceeded \<Rightarrow> Inl (selector, ErrNavigateElementNotFound)
      | Some (RunError _) \<Rightarrow> Inl (selector, ErrNavigateUnexpectedError))"

definition runSelector ::
    "('a, 'x, 'o, 's, 'e) nav_env \<Rightarrow> ('a, 'x, 'o) NavigationTest \<Rightarrow> NavigationSpec \<Rightarrow> string \<Rightarrow> 's \<Rightarrow> 's \<times> (string \<times> navigate_err, unit) result" where
  "runSelector env c spec selector s =
     (let actions = selector_actions (nt_opts c) spec selector;
          (s, err) = ne_run env (no_elementTimeout (nt_opts c)) actions s
      in (s, selector_result selector err))"

fun sequential_loop ::
    "('a, 'x, 'o, 's, 'e) nav_env \<Rightarrow> ('a, 'x, 'o) NavigationTest \<Rightarrow> NavigationSpec \<Rightarrow> string list \<Rightarrow> 's \<Rightarrow> (string \<times> navigate_err, unit) result" where
  "sequential_loop env c spec [] s = Inr ()"
| "sequential_loop env c spec (selector # selectors) s =
     (case runSelector env c spec selector s of
        (s, Inl e) \<Rightarrow> Inl e
      | (s, Inr _) \<Rightarrow> sequential_loop env c spec selectors s)"

type_synonym nav_outcome = "(string \<times> navigate_err) outcome"

text \<open>The deferred calls run in the reverse order; the result is what was cleaned up, in order, and the outcome.\<close>

definition NavigationTest_verify ::
    "(nav_outcome list \<Rightarrow> nav_outcome) \<Rightarrow> ('a, 'x, 'o, 's, 'e) nav_env \<Rightarrow> ('a, 'x, 'o) NavigationTest \<Rightarrow> NavigationSpec \<Rightarrow> cleanup list \<times> nav_outcome" where
  "NavigationTest_verify grp env c spec =
     (case (if length (no_userDataDir (nt_opts c)) = 0
            then (case ne_mkdirTemp env of None \<Rightarrow> None | Some tempDir \<Rightarrow> Some (tempDir, [DirRemoved tempDir]))
            else Some (no_userDataDir (nt_opts c), [])) of
        None \<Rightarrow> ([], Some (Inl ([], ErrNavigateUnexpectedError)))
      | Some (userDataDir, removals) \<Rightarrow>
          let s = ne_context env (no_timeout (nt_opts c)) userDataDir (no_extraExecAllocOpts (nt_opts c)) (no_ctxOpts (nt_opts c));
              deferred = ChromeCancelled # removals
          in (case ne_navigate env (nv_URL spec) s of
                (_, Some _) \<Rightarrow> (deferred, Some (Inl (nv_URL spec, ErrNavigateUnexpectedError)))
              | (s, None) \<Rightarrow>
                  if nv_SequentialActions spec then (deferred, Some (sequential_loop env c spec (nv_Selectors spec) s))
                  else
                    (deferred,
                     grp (map2 (\<lambda>selector err. Some (selector_result selector err)) (nv_Selectors spec)
                            (ne_parallel env (no_elementTimeout (nt_opts c))
                               (map (selector_actions (nt_opts c) spec) (nv_Selectors spec)) s)))))"

definition NavigationTest_Run ::
    "(nav_outcome list \<Rightarrow> nav_outcome) \<Rightarrow> ((NavigationSpec \<times> string \<times> navigate_err) outcome list \<Rightarrow> (NavigationSpec \<times> string \<times> navigate_err) outcome) \<Rightarrow>
       (nat \<Rightarrow> ('a, 'x, 'o, 's, 'e) nav_env) \<Rightarrow> ('a, 'x, 'o) NavigationTest \<Rightarrow> (NavigationSpec \<times> string \<times> navigate_err) outcome" where
  "NavigationTest_Run grp grp' envs c =
     (if length (nt_specs c) = 0 then Some (Inr ())
      else grp' (map (\<lambda>(i, spec). tag_error spec (snd (NavigationTest_verify grp (envs i) c spec))) (List.enumerate 0 (nt_specs c))))"

subsection \<open>Facts\<close>

text \<open>
  The actions a specification can be read with are the three that are declared, each is read back from its YAML form,
  and the browser is asked to do exactly what the action says; nothing else is accepted.
\<close>

lemma SelectorAction_typed:
  "SelectorAction_UnmarshalYAML (Inr s :: ('e, string) result) = Inr a \<longleftrightarrow>
     s = a \<and> a \<in> {SelectorActionNone, SelectorActionClick, SelectorActionDoubleClick}"
  "a \<in> {SelectorActionNone, SelectorActionClick, SelectorActionDoubleClick} \<Longrightarrow>
     SelectorAction_UnmarshalYAML (Inr (SelectorAction_MarshalYAML a) :: ('e, string) result) = Inr a \<and>
     (chromedpActions a sel = ([] :: 'a chrome_action list) \<longleftrightarrow> a = SelectorActionNone)"
  by (auto simp: SelectorAction_UnmarshalYAML_def SelectorAction_MarshalYAML_def chromedpActions_def SelectorActionNone_def
      SelectorActionClick_def SelectorActionDoubleClick_def)

text \<open>The actions of a selector: those registered for it or else those of the specification, once it is visible.\<close>

definition wanted_actions :: "('a, 'x, 'o) navigateTestOptions \<Rightarrow> NavigationSpec \<Rightarrow> string \<Rightarrow> 'a chrome_action list" where
  "wanted_actions o1 spec sel =
     WaitVisible sel # (case no_selectorActions o1 sel of Some extra \<Rightarrow> extra | None \<Rightarrow> chromedpActions (nv_Action spec) sel)"

lemma selector_actions_wanted [simp]: "selector_actions o1 spec = wanted_actions o1 spec"
  by (rule ext) (simp add: selector_actions_def wanted_actions_def Let_def split: option.splits)

definition state_after ::
    "('a, 'x, 'o, 's, 'e) nav_env \<Rightarrow> ('a, 'x, 'o) NavigationTest \<Rightarrow> NavigationSpec \<Rightarrow> string list \<Rightarrow> 's \<Rightarrow> 's" where
  "state_after env c spec sels s =
     fold (\<lambda>sel s. fst (ne_run env (no_elementTimeout (nt_opts c)) (wanted_actions (nt_opts c) spec sel) s)) sels s"

definition run_at ::
    "('a, 'x, 'o, 's, 'e) nav_env \<Rightarrow> ('a, 'x, 'o) NavigationTest \<Rightarrow> NavigationSpec \<Rightarrow> 's \<Rightarrow> nat \<Rightarrow> 'e run_error option" where
  "run_at env c spec s i =
     snd (ne_run env (no_elementTimeout (nt_opts c)) (wanted_actions (nt_opts c) spec (nv_Selectors spec ! i))
            (state_after env c spec (take i (nv_Selectors spec)) s))"

lemma selector_result_ok [simp]: "selector_result sel err = Inr () \<longleftrightarrow> err = None"
  by (auto simp: selector_result_def split: option.splits run_error.splits)

lemma sequential_loop_ok:
  "sequential_loop env c spec sels s = Inr () \<longleftrightarrow>
     (\<forall>i<length sels. snd (ne_run env (no_elementTimeout (nt_opts c)) (wanted_actions (nt_opts c) spec (sels ! i))
        (state_after env c spec (take i sels) s)) = None)"
proof (induction sels arbitrary: s)
  case (Cons sel sels)
  let ?run = "ne_run env (no_elementTimeout (nt_opts c)) (wanted_actions (nt_opts c) spec sel) s"
  obtain s' err where r: "?run = (s', err)" by force
  have "sequential_loop env c spec (sel # sels) s = Inr () \<longleftrightarrow> err = None \<and> sequential_loop env c spec sels s' = Inr ()"
    by (auto simp: runSelector_def Let_def r selector_result_def split: option.splits run_error.splits)
  also have "\<dots> \<longleftrightarrow> (\<forall>i<length (sel # sels). snd (ne_run env (no_elementTimeout (nt_opts c))
      (wanted_actions (nt_opts c) spec ((sel # sels) ! i)) (state_after env c spec (take i (sel # sels)) s)) = None)"
    unfolding Cons.IH by (auto simp: All_less_Suc2 state_after_def r)
  finally show ?case .
qed simp

definition nav_dir :: "('a, 'x, 'o, 's, 'e) nav_env \<Rightarrow> ('a, 'x, 'o) NavigationTest \<Rightarrow> string option" where
  "nav_dir env c = (if no_userDataDir (nt_opts c) = [] then ne_mkdirTemp env else Some (no_userDataDir (nt_opts c)))"

definition nav_start :: "('a, 'x, 'o, 's, 'e) nav_env \<Rightarrow> ('a, 'x, 'o) NavigationTest \<Rightarrow> string \<Rightarrow> 's" where
  "nav_start env c dir = ne_context env (no_timeout (nt_opts c)) dir (no_extraExecAllocOpts (nt_opts c)) (no_ctxOpts (nt_opts c))"

text \<open>What a specification asks for: a directory, the page, and every selector's actions without an error.\<close>

definition spec_holds :: "('a, 'x, 'o, 's, 'e) nav_env \<Rightarrow> ('a, 'x, 'o) NavigationTest \<Rightarrow> NavigationSpec \<Rightarrow> bool" where
  "spec_holds env c spec \<longleftrightarrow>
     (\<exists>dir s. nav_dir env c = Some dir \<and> ne_navigate env (nv_URL spec) (nav_start env c dir) = (s, None) \<and>
       (if nv_SequentialActions spec then \<forall>i<length (nv_Selectors spec). run_at env c spec s i = None
        else \<forall>err\<in>set (ne_parallel env (no_elementTimeout (nt_opts c)) (map (wanted_actions (nt_opts c) spec) (nv_Selectors spec)) s). err = None))"

text \<open>The library reports one outcome for each list of actions it is asked to run concurrently.\<close>

definition parallel_laws :: "('a, 'x, 'o, 's, 'e) nav_env \<Rightarrow> bool" where
  "parallel_laws env \<longleftrightarrow> (\<forall>t as s. length (ne_parallel env t as s) = length as)"

lemma parallel_group:
  assumes "group_laws grp" and "length errs = length sels"
  shows "grp (map2 (\<lambda>sel err. Some (selector_result sel err)) sels errs) = Some (Inr ()) \<longleftrightarrow> (\<forall>err\<in>set errs. err = None)"
    and "grp (map2 (\<lambda>sel err. Some (selector_result sel err)) sels errs) \<noteq> None"
proof -
  have "map snd (zip sels errs) = errs" using assms(2) by simp
  then have "set errs = snd ` set (zip sels errs)" by (metis list.set_map)
  then have "(\<forall>(sel, err)\<in>set (zip sels errs). err = None) \<longleftrightarrow> (\<forall>err\<in>set errs. err = None)" by auto
  then show "grp (map2 (\<lambda>sel err. Some (selector_result sel err)) sels errs) = Some (Inr ()) \<longleftrightarrow> (\<forall>err\<in>set errs. err = None)"
    using assms(1) by (auto simp: group_laws_def list_all_iff)
  have "None \<notin> set (map2 (\<lambda>sel err. Some (selector_result sel err)) sels errs)" by auto
  with assms(1) show "grp (map2 (\<lambda>sel err. Some (selector_result sel err)) sels errs) \<noteq> None"
    unfolding group_laws_def by blast
qed

lemma verify_outcome:
  assumes "group_laws grp" and "parallel_laws env"
  shows "snd (NavigationTest_verify grp env c spec) = Some (Inr ()) \<longleftrightarrow> spec_holds env c spec"
    and "snd (NavigationTest_verify grp env c spec) \<noteq> None"
proof -
  let ?grp = "\<lambda>s. grp (map2 (\<lambda>sel err. Some (selector_result sel err)) (nv_Selectors spec)
      (ne_parallel env (no_elementTimeout (nt_opts c)) (map (wanted_actions (nt_opts c) spec) (nv_Selectors spec)) s))"
  have len: "length (ne_parallel env t (map f (nv_Selectors spec)) s) = length (nv_Selectors spec)" for t f s
    using assms(2) by (simp add: parallel_laws_def)
  note g = parallel_group [OF assms(1) len]
  have v: "snd (NavigationTest_verify grp env c spec) =
      (case nav_dir env c of
         None \<Rightarrow> Some (Inl ([], ErrNavigateUnexpectedError))
       | Some dir \<Rightarrow>
           (case ne_navigate env (nv_URL spec) (nav_start env c dir) of
              (_, Some _) \<Rightarrow> Some (Inl (nv_URL spec, ErrNavigateUnexpectedError))
            | (s, None) \<Rightarrow> if nv_SequentialActions spec then Some (sequential_loop env c spec (nv_Selectors spec) s) else ?grp s))"
    by (simp add: NavigationTest_verify_def nav_dir_def nav_start_def Let_def split: option.splits prod.splits)
  show "snd (NavigationTest_verify grp env c spec) = Some (Inr ()) \<longleftrightarrow> spec_holds env c spec"
    unfolding v spec_holds_def
    by (auto simp: sequential_loop_ok run_at_def g split: option.splits prod.splits)
  show "snd (NavigationTest_verify grp env c spec) \<noteq> None"
    unfolding v using g(2) by (simp split: option.splits prod.splits)
qed

lemma tag_error_ok [simp]: "tag_error spec r = Some (Inr ()) \<longleftrightarrow> r = Some (Inr ())" "tag_error spec r = None \<longleftrightarrow> r = None"
  "None = tag_error spec r \<longleftrightarrow> r = None"
  by (cases r; cases "the r"; simp add: tag_error_def)+


text \<open>Whatever the outcome, the browser is cancelled and then the temporary directory removed, if one was made.\<close>

lemma NavigationTest_verify_cleanup:
  "fst (NavigationTest_verify grp env c spec) =
     (case nav_dir env c of
        None \<Rightarrow> []
      | Some dir \<Rightarrow> ChromeCancelled # (if no_userDataDir (nt_opts c) = [] then [DirRemoved dir] else []))"
  by (simp add: NavigationTest_verify_def nav_dir_def Let_def split: option.splits prod.splits)

definition demo_nav :: "(unit, unit, unit, unit, unit) nav_env" where
  "demo_nav = \<lparr>ne_mkdirTemp = Some ''/tmp/d'', ne_context = (\<lambda>_ _ _ _. ()), ne_navigate = (\<lambda>_ s. (s, None)),
     ne_run = (\<lambda>_ _ s. (s, None)), ne_parallel = (\<lambda>_ as _. map (\<lambda>_. None) as)\<rparr>"


end
