(* ===== verification/AcmeServers.thy ===== *)
theory AcmeServers
  imports AcmeCmd Redirect
begin

text \<open>
  \<^verbatim>\<open>cmd/acme\<close>: the servers. \<^verbatim>\<open>cert_manager.go\<close> obtains and refreshes certificates and answers ACME challenges,
  \<^verbatim>\<open>redirect.go\<close> shows how other services send challenges to it. Both are composed of the certificate store, the
  manager and refreshing client, the HTTP client, the redirects and the servers. The libraries are arguments. Logging and
  the syntax of the flags are left out.
\<close>

subsection \<open>cert_manager.go\<close>

record certManagerFlags =
  mf_ClientHost :: string
  mf_Service :: ServiceFlags
  mf_TestingCAPEM :: string
  mf_CertStore :: TLSCertStoreFlags
  mf_AccountKeyAlias :: string
  mf_HTTPPort :: int
  mf_RefreshInterval :: int
  mf_Trace :: bool

text \<open>A host policy accepts a host or returns an error. The manager is used through its address: what is set after it is made counts.\<close>

type_synonym 'e policy = "string \<Rightarrow> ('e, unit) result"
type_synonym handler = "url_request \<Rightarrow> response \<Rightarrow> response"

text \<open>
  The libraries: \<open>autocert\<close> with its white list, certificates and challenge handler, the tracing wrapper, servers and
  listeners, and the surroundings of the waits, of the serving goroutine and of the refresh loops.
\<close>

record ('l, 'b, 'e, 'crt, 'tr, 'ap, 'ln, 'c) manage_env =
  mv_store :: "('l, 'b) store_env"
  mv_parse_ok :: "string \<Rightarrow> bool"
  mv_hostWhitelist :: "string list \<Rightarrow> 'e policy"
  mv_getCert :: "'tr http_Client option \<Rightarrow> (('l, 'b) CachingStore, 'e policy) autocert_Manager \<Rightarrow> ('e, 'crt) get_certificate"
  mv_HTTPHandler :: "'tr http_Client option \<Rightarrow> (('l, 'b) CachingStore, 'e policy) autocert_Manager \<Rightarrow> handler \<Rightarrow> handler"
  mv_appendPEM :: "bytes \<Rightarrow> bytes list \<Rightarrow> bytes list option"
  mv_readFile :: "string \<Rightarrow> bytes option"
  mv_traceOpts :: "'tr list"
  mv_traceHandler :: "handler \<Rightarrow> handler"
  mv_parseAddr :: "string \<Rightarrow> string \<Rightarrow> 'ap option"
  mv_serverAddr :: "'ap \<Rightarrow> string"
  mv_listen :: "string \<Rightarrow> 'ln option"
  mv_lnAddr :: "'ln \<Rightarrow> string"
  mv_wait :: "string \<Rightarrow> wait_env"
  mv_group :: "wait_result list \<Rightarrow> wait_result"
  mv_served :: "serve_err option" \<comment> \<open>what \<open>ServeWithShutdown\<close> returns at last\<close>
  mv_notAfter :: "'crt \<Rightarrow> int"
  mv_refresh :: "nat \<Rightarrow> ('e, 'crt) refresh_env"
  mv_inTime :: bool

datatype 'e manage_error = StoreError store_error | ManagerError "'e acme_error" | ClientError client_error
  | ServerError server_error | NotStarted wait_error

definition fallback :: handler where
  "fallback r w = WriteHeader w StatusForbidden"

text \<open>What runs, and the two errors of its end.\<close>

record ('l, 'b, 'e, 'crt, 'tr, 'ln, 'c) managed =
  mr_hosts :: "string list"
  mr_manager :: "(('l, 'b) CachingStore, 'e policy) autocert_Manager"
  mr_backing :: "'b store_ops"
  mr_client :: "(('l, 'b) CachingStore, 'e policy, 'e, 'crt) Client"
  mr_httpClient :: "'tr http_Client"
  mr_listener :: 'ln
  mr_server :: "(handler, unit, 'c) http_Server"
  mr_serveErr :: "serve_err option"
  mr_stopErr :: "('e stop_error, unit) result"

definition port_policy :: "int \<Rightarrow> 'e policy \<Rightarrow> 'e policy" where
  "port_policy port policy =
     (if port \<noteq> 80 then (\<lambda>host. case WrapHostPolicyNoPort policy host of Inl e \<Rightarrow> Inl e | Inr _ \<Rightarrow> Inr ()) else policy)"

definition manageCerts ::
    "('l, 'b, 'e, 'crt, 'tr, 'ap, 'ln, 'c) manage_env \<Rightarrow> 'c \<Rightarrow> certManagerFlags \<Rightarrow> string list \<Rightarrow>
       ('e manage_error, ('l, 'b, 'e, 'crt, 'tr, 'ln, 'c) managed) result option" where
  "manageCerts mv ctx cl args =
     (let hosts = [mf_ClientHost cl] @ args in
      case newCertStore (mv_store mv) (mf_CertStore cl) [WithReadonly False, WithSaveAccountKey (mf_AccountKeyAlias cl)] of
        Inl e \<Rightarrow> Some (Inl (StoreError e))
      | Inr (bops, cache) \<Rightarrow>
          let acmeCfg = ServiceFlags_AutocertConfig (mf_Service cl) in
          (case NewAutocertManager (mv_parse_ok mv) (mv_hostWhitelist mv) (mv_getCert mv None) (Some cache) acmeCfg hosts of
             Inl e \<Rightarrow> Some (Inl (ManagerError e))
           | Inr mgr \<Rightarrow>
               let am = (mg_Manager mgr)\<lparr>am_HostPolicy := port_policy (mf_HTTPPort cl) (am_HostPolicy (mg_Manager mgr))\<rparr>;
                   clientOpts = (if mf_Trace cl then [WithTracingTransport (mv_traceOpts mv)] else []) @ [WithCustomCAPEMFile (mf_TestingCAPEM cl)] in
               (case NewHTTPClient (mv_appendPEM mv) (mv_readFile mv) clientOpts of
                  Inl e \<Rightarrow> Some (Inl (ClientError e))
                | Inr httpClient \<Rightarrow>
                    let getCert = mv_getCert mv (Some httpClient) am;
                        mgr = \<lparr>mg_Manager = am, mg_getCertificate = (if ac_AllowRSACertificates acmeCfg then getCert else GetCertificateECDSAOnly getCert)\<rparr>;
                        httpHandler = mv_HTTPHandler mv (Some httpClient) am fallback;
                        httpHandler = (if mf_Trace cl then mv_traceHandler mv (mv_HTTPHandler mv (Some httpClient) am fallback) else httpHandler) in
                    (case NewHTTPServer (mv_parseAddr mv) (mv_serverAddr mv) (mv_listen mv) ctx ('':'' @ strconv_Itoa (mf_HTTPPort cl)) httpHandler of
                       Inl e \<Rightarrow> Some (Inl (ServerError e))
                     | Inr (httpListener, httpServer) \<Rightarrow>
                         (case WaitForServers (mv_group mv) (mv_wait mv) [mv_lnAddr mv httpListener] of
                            None \<Rightarrow> None
                          | Some (Inl e) \<Rightarrow> Some (Inl (NotStarted e))
                          | Some (Inr _) \<Rightarrow>
                              let acmeClient = NewClient mgr [WithRefreshInterval (mf_RefreshInterval cl)]
                              in Some (Inr \<lparr>mr_hosts = args, mr_manager = am, mr_backing = bops, mr_client = acmeClient, mr_httpClient = httpClient,
                                            mr_listener = httpListener, mr_server = httpServer, mr_serveErr = mv_served mv,
                                            mr_stopErr = Client_Start (mv_notAfter mv) (mv_refresh mv) acmeClient args (mv_inTime mv)\<rparr>)))))
     )"

subsection \<open>redirect.go\<close>

record testRedirectFlags =
  rt_CertStore :: TLSCertStoreFlags
  rt_Server :: HTTPServerFlags
  rt_AcmeClientHost :: string

datatype redirect_cmd_error = NoClientHost | RedirectFailed server_error | RedirectStoreError store_error | TLSServerError server_error

definition hello_handler :: handler where
  "hello_handler r w = Write w (''hello'' @ [CHR 0x0A])"

text \<open>The port 80 server, the TLS server and the state its serving starts in.\<close>

definition redirect_cmd ::
    "(string \<Rightarrow> string \<Rightarrow> 'ap option) \<Rightarrow> ('ap \<Rightarrow> string) \<Rightarrow> (string \<Rightarrow> 'ln option) \<Rightarrow> ('c \<Rightarrow> bool) \<Rightarrow> url_parser \<Rightarrow>
       (string \<Rightarrow> handler \<Rightarrow> 'mux \<Rightarrow> 'mux) \<Rightarrow> 'mux \<Rightarrow> ('l, 'b) store_env \<Rightarrow> 'c \<Rightarrow> testRedirectFlags \<Rightarrow>
       (redirect_cmd_error, ('ln \<times> ('mux, 't tls_Config, 'c) http_Server \<times> serve_state) \<times>
                            ('ln \<times> ('mux, 't tls_Config, 'c) http_Server \<times> serve_state)) result" where
  "redirect_cmd parseAddr serverAddr listen is_done parse handle mux env ctx cl =
     (if length (rt_AcmeClientHost cl) = 0 then Inl NoClientHost
      else
        let cfg = HTTPServerFlags_HTTPServerConfig (rt_Server cl) in
        (case RedirectPort80 parseAddr serverAddr listen is_done parse handle mux ctx
                [\<lparr>p80_Pattern = ACMEHTTP01Prefix, p80_Redirect = RedirectAcmeHTTP01 (rt_AcmeClientHost cl)\<rparr>,
                 \<lparr>p80_Pattern = ''/'', p80_Redirect = RedirectToHTTPSPort (hsc_Address cfg)\<rparr>] of
           Inl e \<Rightarrow> Inl (RedirectFailed e)
         | Inr port80 \<Rightarrow>
             (case newCertStore env (rt_CertStore cl) [WithReadonly False] of
                Inl e \<Rightarrow> Inl (RedirectStoreError e)
              | Inr _ \<Rightarrow>
                  let tlsCfg = TLSConfigUsingCertStore [];
                      mux = handle ''/'' hello_handler mux in
                  (case NewTLSServer parseAddr serverAddr listen ctx (hsf_Address (rt_Server cl)) mux (Some tlsCfg) of
                     Inl e \<Rightarrow> Inl (TLSServerError e)
                   | Inr (ln, srv) \<Rightarrow>
                       (case ServeTLSWithShutdown is_done ctx (srv\<lparr>hs_TLSConfig := Some tlsCfg\<rparr>) of
                          Inl e \<Rightarrow> Inl (TLSServerError e)
                        | Inr (srv, st) \<Rightarrow> Inr (port80, (ln, srv, st)))))))"

subsection \<open>Facts\<close>

definition without_port :: "string \<Rightarrow> string" where
  "without_port host = (case SplitHostPort host of Some (h, _) \<Rightarrow> h | None \<Rightarrow> host)"

lemma port_policy_iff:
  "port_policy port policy host = Inr () \<longleftrightarrow> policy (if port \<noteq> 80 then without_port host else host) = Inr ()"
  by (auto simp: port_policy_def WrapHostPolicyNoPort_def without_port_def Let_def split: sum.splits option.splits)

lemma manageCerts_ok:
  fixes mv :: "('l, 'b, 'e, 'crt, 'tr, 'ap, 'ln, 'c) manage_env"
  assumes "manageCerts mv ctx cl args = Some (Inr r)"
  obtains cache mgr where
    "newCertStore (mv_store mv) (mf_CertStore cl) [WithReadonly False, WithSaveAccountKey (mf_AccountKeyAlias cl)] = Inr (mr_backing r, cache)"
    and "NewAutocertManager (mv_parse_ok mv) (mv_hostWhitelist mv) (mv_getCert mv None) (Some cache)
           (ServiceFlags_AutocertConfig (mf_Service cl)) ([mf_ClientHost cl] @ args) = Inr mgr"
    and "mr_manager r = (mg_Manager mgr)\<lparr>am_HostPolicy := port_policy (mf_HTTPPort cl) (am_HostPolicy (mg_Manager mgr))\<rparr>"
    and "WaitForServers (mv_group mv) (mv_wait mv) [mv_lnAddr mv (mr_listener r)] = Some (Inr ())"
    and "mr_client r = NewClient \<lparr>mg_Manager = mr_manager r,
           mg_getCertificate = GetCertificateECDSAOnly (mv_getCert mv (Some (mr_httpClient r)) (mr_manager r))\<rparr>
           [WithRefreshInterval (mf_RefreshInterval cl)]"
    and "mr_stopErr r = Client_Start (mv_notAfter mv) (mv_refresh mv) (mr_client r) args (mv_inTime mv)" and "mr_hosts r = args"
proof -
  let ?s = "newCertStore (mv_store mv) (mf_CertStore cl) [WithReadonly False, WithSaveAccountKey (mf_AccountKeyAlias cl)]"
  note d = assms [unfolded manageCerts_def Let_def]
  obtain bops cache where 1: "?s = Inr (bops, cache)" using d by (cases ?s) auto
  note d = d [unfolded 1 sum.case prod.case]
  let ?m = "NewAutocertManager (mv_parse_ok mv) (mv_hostWhitelist mv) (mv_getCert mv None) (Some cache)
    (ServiceFlags_AutocertConfig (mf_Service cl)) ([mf_ClientHost cl] @ args)"
  obtain mgr where 2: "?m = Inr mgr" using d by (cases ?m) auto
  note d = d [unfolded 2 sum.case]
  have rsa: "\<not> ac_AllowRSACertificates (ServiceFlags_AutocertConfig (mf_Service cl))" by (simp add: ServiceFlags_AutocertConfig_def)
  show ?thesis
    by (rule that [OF _ 2]) (use d 1 rsa in \<open>auto split: sum.splits option.splits\<close>)
qed

lemma NewClient_mgr [simp]: "cn_mgr (NewClient mgr opts) = mgr"
  by (simp add: NewClient_def Let_def)


definition demo_manage ::
    "(string \<Rightarrow> bytes option, string \<Rightarrow> bytes option, string, unit, unit, unit, unit, unit) manage_env" where
  "demo_manage = \<lparr>mv_store = demo_stores, mv_parse_ok = (\<lambda>_. True),
     mv_hostWhitelist = (\<lambda>hs h. if h \<in> set hs then Inr () else Inl ''host not configured''),
     mv_getCert = (\<lambda>_ _ _. Inr ()), mv_HTTPHandler = (\<lambda>_ _ h. h), mv_appendPEM = (\<lambda>_ _. None), mv_readFile = (\<lambda>_. None),
     mv_traceOpts = [], mv_traceHandler = id, mv_parseAddr = (\<lambda>_ _. Some ()), mv_serverAddr = (\<lambda>_. '':80''), mv_listen = (\<lambda>_. Some ()),
     mv_lnAddr = (\<lambda>_. '':80''), mv_wait = (\<lambda>_. second_try), mv_group = (\<lambda>_. Some (Inr ())), mv_served = None,
     mv_notAfter = (\<lambda>_. 0), mv_refresh = (\<lambda>_. \<lparr>re_getCert = (\<lambda>_ _. Inr ()), re_now = int, re_retry_done = (\<lambda>_. True), re_next_done = (\<lambda>_. True)\<rparr>),
     mv_inTime = True\<rparr>"

definition demo_managerFlags :: certManagerFlags where
  "demo_managerFlags = \<lparr>mf_ClientHost = ''certs.a.com'', mf_Service = \<lparr>sf_Provider = [], sf_RenewBefore = 0, sf_Email = [], sf_UserAgent = []\<rparr>,
     mf_TestingCAPEM = [], mf_CertStore = \<lparr>cf_UseAWSSecretsManager = False, cf_LocalCacheDir = ''/d''\<rparr>, mf_AccountKeyAlias = ''acct'',
     mf_HTTPPort = 80, mf_RefreshInterval = 0, mf_Trace = False\<rparr>"

lemma demo_ping: "ping second_try 0 = Some (Inr ())"
  unfolding server_poll.returns_iff by (intro exI [of _ 1]) (simp add: ping_attempt_def second_try_def)


text \<open>
  The redirecting server starts only with a host for challenges; on port 80 it routes challenges to that host and all
  else to https, and its TLS server takes certificates from the store.
\<close>

lemma redirect_cmd_ok:
  fixes port80 :: "'ln \<times> ('mux, 't tls_Config, 'c) http_Server \<times> serve_state"
  assumes "redirect_cmd parseAddr serverAddr listen is_done parse handle mux env ctx cl = Inr (port80, ln, srv, st)"
  shows "rt_AcmeClientHost cl \<noteq> [] \<and>
    hs_Handler (fst (snd port80)) =
      handle ''/'' (Redirect_Handler parse (RedirectToHTTPSPort (hsf_Address (rt_Server cl))))
        (handle ACMEHTTP01Prefix (Redirect_Handler parse (RedirectAcmeHTTP01 (rt_AcmeClientHost cl))) mux) \<and>
    hs_TLSConfig srv = Some (TLSConfigUsingCertStore []) \<and> hs_Handler srv = handle ''/'' hello_handler mux \<and> st = serve_init (is_done ctx)"
  using assms
  by (auto simp: redirect_cmd_def RedirectPort80_def NewHTTPServer_def NewTLSServer_def newServer_def NewHTTPServerOnly_def NewTLSServerOnly_def
      ServeWithShutdown_def ServeTLSWithShutdown_def HTTPServerFlags_HTTPServerConfig_def Let_def
      split: if_splits sum.splits option.splits)

end
