(* ===== verification/WebappCmd.thy ===== *)
theory WebappCmd
  imports DevServer WebAssets Redirect ServingCache
begin

text \<open>
  \<^verbatim>\<open>cmd/webapp/webapp.go\<close>: the example server, in production with embedded assets, and in development with a
  development server behind a proxy. The chi router is the list of what is registered with it; listeners, the
  processes and \<open>url.Parse\<close> are arguments. What is printed is left out.
\<close>

record WebpackFlags =
  wf_WebpackDir :: string
  wf_WebpackServer :: string

record ViteFlags =
  vf_ViteDir :: string
  vf_ViteServer :: string

record DevServerFlags =
  df_HTTP :: HTTPServerFlags
  df_Webpack :: WebpackFlags
  df_Vite :: ViteFlags
  df_Assets :: AssetsFlags

text \<open>Handlers: the greeting, files of a file system, and a reverse proxy.\<close>

datatype ('fs, 'u) web_handler = Hello | FileServer 'fs | ReverseProxy 'u

datatype 'h registration = RouteGet string 'h | RoutePost string 'h | RouteHandle string 'h | RouteNotFound 'h

type_synonym ('fs, 'u) chi_router = "('fs, 'u) web_handler registration list"

definition configureAPIEndpoints :: "('fs, 'u) chi_router \<Rightarrow> ('fs, 'u) chi_router" where
  "configureAPIEndpoints router = router @ [RouteGet ''/hello'' Hello]"

definition serveIndexHTML :: "('e, 'f) FS \<Rightarrow> (('e, 'f) FS, 'u) web_handler" where
  "serveIndexHTML fsys = FileServer (SameFile_Open (NewSameFileHTTPFilesystem fsys ''index.html''))"

definition serveContent ::
    "(string \<Rightarrow> string \<Rightarrow> ('e, 'f) FS \<Rightarrow> int \<Rightarrow> bool \<Rightarrow> ('e, 'f) FS) \<Rightarrow> ('e, 'f) FS \<Rightarrow> (('e, 'f) FS, 'u) chi_router \<Rightarrow> (('e, 'f) FS, 'u) chi_router" where
  "serveContent reload webpackedAssets router =
     (let assets = NewAssets reload ''webapp-sample/build/'' webpackedAssets []
      in router @ [RouteHandle ''/static/*'' (FileServer (http_FS assets)), RouteNotFound (serveIndexHTML assets)])"

definition routeToProxy :: "string \<Rightarrow> 'u \<Rightarrow> ('fs, 'u) chi_router \<Rightarrow> ('fs, 'u) chi_router" where
  "routeToProxy publicPath url router =
     (let proxy = ReverseProxy url
      in router @ [RouteGet ''/sockjs-node'' proxy, RoutePost ''/sockjs-node'' proxy, RouteGet ''/'' proxy, RouteNotFound proxy])"

text \<open>The surroundings: servers and listeners, key pairs, the assets, the processes and their output.\<close>

record ('e, 'f, 'u, 't, 'ap, 'ln, 'c, 'mux) web_env =
  wv_parseAddr :: "string \<Rightarrow> string \<Rightarrow> 'ap option"
  wv_serverAddr :: "'ap \<Rightarrow> string"
  wv_listen :: "string \<Rightarrow> 'ln option"
  wv_is_done :: "'c \<Rightarrow> bool"
  wv_load :: "string \<Rightarrow> string \<Rightarrow> 't option"
  wv_reload :: "string \<Rightarrow> string \<Rightarrow> ('e, 'f) FS \<Rightarrow> int \<Rightarrow> bool \<Rightarrow> ('e, 'f) FS"
  wv_assets :: "('e, 'f) FS"
  wv_urlParser :: url_parser
  wv_parseURL :: "string \<Rightarrow> 'u option"
  wv_handle :: "string \<Rightarrow> (url_request \<Rightarrow> response \<Rightarrow> response) \<Rightarrow> 'mux \<Rightarrow> 'mux"
  wv_mux :: 'mux
  wv_start :: "dev_cmd \<Rightarrow> ('e, unit) result"
  wv_output :: "dev_cmd \<Rightarrow> nat \<Rightarrow> wait_event"

datatype writer = Stdout

definition runWebpackDevServer :: "('e, 'f, 'u, 't, 'ap, 'ln, 'c, 'mux) web_env \<Rightarrow> string \<Rightarrow> ('e dev_error, 'u) result option" where
  "runWebpackDevServer wv webpackDir =
     (let wpsrv = NewServer webpackDir ''yarn'' [''start'']
      in snd (StartAndWaitForURL (\<lambda>_. ()) (wv_start wv) (wv_output wv) Stdout (NewWebpackURLExtractor (wv_parseURL wv) None) wpsrv))"

definition runViteDevServer :: "('e, 'f, 'u, 't, 'ap, 'ln, 'c, 'mux) web_env \<Rightarrow> string \<Rightarrow> ('e dev_error, 'u) result option" where
  "runViteDevServer wv viteDir =
     (let vitesrv = NewServer viteDir ''npm'' [''run'', ''dev'', ''--'', ''--host'']
      in snd (StartAndWaitForURL (\<lambda>_. ()) (wv_start wv) (wv_output wv) Stdout (NewViteURLExtractor (wv_parseURL wv) None) vitesrv))"

datatype 'e web_error = CertError flags_error | ListenError server_error | BadServerURL string | DevServerError "'e dev_error"

type_synonym ('fs, 'u, 't, 'ln, 'c) web_server = "'ln \<times> (('fs, 'u) chi_router, 't tls_Config, 'c) http_Server \<times> serve_state"

text \<open>The server's handler is the router, with all that is registered before it serves.\<close>

definition prodServe ::
    "('e, 'f, 'u, 't, 'ap, 'ln, 'c, 'mux) web_env \<Rightarrow> 'c \<Rightarrow> HTTPServerFlags \<Rightarrow>
       ('e web_error, (('e, 'f) FS, 'u, 't, 'ln, 'c) web_server \<times> ('ln \<times> ('mux, 't tls_Config, 'c) http_Server \<times> serve_state)) result" where
  "prodServe wv ctx cl =
     (let router = configureAPIEndpoints [];
          router = serveContent (wv_reload wv) (wv_assets wv) router in
      case HTTPServerConfig_TLSConfig (wv_load wv) (HTTPServerFlags_HTTPServerConfig cl) of
        Inl e \<Rightarrow> Inl (CertError e)
      | Inr cfg \<Rightarrow>
          (case NewTLSServer (wv_parseAddr wv) (wv_serverAddr wv) (wv_listen wv) ctx (hsf_Address cl) router (Some cfg) of
             Inl e \<Rightarrow> Inl (ListenError e)
           | Inr (ln, srv) \<Rightarrow>
               (case RedirectPort80 (wv_parseAddr wv) (wv_serverAddr wv) (wv_listen wv) (wv_is_done wv) (wv_urlParser wv) (wv_handle wv) (wv_mux wv) ctx
                       [\<lparr>p80_Pattern = ''/'', p80_Redirect = RedirectToHTTPSPort (hsf_Address cl)\<rparr>] of
                  Inl e \<Rightarrow> Inl (ListenError e)
                | Inr port80 \<Rightarrow>
                    (case ServeTLSWithShutdown (wv_is_done wv) ctx srv of
                       Inl e \<Rightarrow> Inl (ListenError e)
                     | Inr (srv, st) \<Rightarrow> Inr ((ln, srv, st), port80)))))"

text \<open>What the development server's flags make of the router: a proxy, or the embedded content.\<close>

definition dev_routes ::
    "('e, 'f, 'u, 't, 'ap, 'ln, 'c, 'mux) web_env \<Rightarrow> DevServerFlags \<Rightarrow> (('e, 'f) FS, 'u) chi_router \<Rightarrow>
       ('e web_error, (('e, 'f) FS, 'u) chi_router) result option" where
  "dev_routes wv cl router =
     (if length (wf_WebpackServer (df_Webpack cl)) > 0 then
        (case wv_parseURL wv (wf_WebpackServer (df_Webpack cl)) of
           None \<Rightarrow> Some (Inl (BadServerURL (wf_WebpackServer (df_Webpack cl))))
         | Some dsURL \<Rightarrow> Some (Inr (routeToProxy ''/build/'' dsURL router)))
      else if length (wf_WebpackDir (df_Webpack cl)) > 0 then
        (case runWebpackDevServer wv (wf_WebpackDir (df_Webpack cl)) of
           None \<Rightarrow> None
         | Some (Inl e) \<Rightarrow> Some (Inl (DevServerError e))
         | Some (Inr dsURL) \<Rightarrow> Some (Inr (routeToProxy ''/build/'' dsURL router)))
      else if length (vf_ViteServer (df_Vite cl)) > 0 then
        (case wv_parseURL wv (vf_ViteServer (df_Vite cl)) of
           None \<Rightarrow> Some (Inl (BadServerURL (vf_ViteServer (df_Vite cl))))
         | Some dsURL \<Rightarrow> Some (Inr (routeToProxy ''/build/'' dsURL router)))
      else if length (vf_ViteDir (df_Vite cl)) > 0 then
        (case runViteDevServer wv (vf_ViteDir (df_Vite cl)) of
           None \<Rightarrow> None
         | Some (Inl e) \<Rightarrow> Some (Inl (DevServerError e))
         | Some (Inr dsURL) \<Rightarrow> Some (Inr (routeToProxy ''/build/'' dsURL router)))
      else Some (Inr (serveContent (wv_reload wv) (wv_assets wv) router)))"

definition devServe ::
    "('e, 'f, 'u, 't, 'ap, 'ln, 'c, 'mux) web_env \<Rightarrow> 'c \<Rightarrow> DevServerFlags \<Rightarrow>
       ('e web_error, (('e, 'f) FS, 'u, 't, 'ln, 'c) web_server) result option" where
  "devServe wv ctx cl =
     (let router = configureAPIEndpoints [] in
      case HTTPServerConfig_TLSConfig (wv_load wv) (HTTPServerFlags_HTTPServerConfig (df_HTTP cl)) of
        Inl e \<Rightarrow> Some (Inl (CertError e))
      | Inr cfg \<Rightarrow>
          (case NewTLSServer (wv_parseAddr wv) (wv_serverAddr wv) (wv_listen wv) ctx (hsf_Address (df_HTTP cl)) router (Some cfg) of
             Inl e \<Rightarrow> Some (Inl (ListenError e))
           | Inr (ln, srv) \<Rightarrow>
               (case dev_routes wv cl router of
                  None \<Rightarrow> None
                | Some (Inl e) \<Rightarrow> Some (Inl e)
                | Some (Inr router) \<Rightarrow>
                    (case ServeTLSWithShutdown (wv_is_done wv) ctx (srv\<lparr>hs_Handler := router\<rparr>) of
                       Inl e \<Rightarrow> Some (Inl (ListenError e))
                     | Inr (srv, st) \<Rightarrow> Some (Inr (ln, srv, st))))))"

text \<open>
  \<^verbatim>\<open>init\<close>: the two commands, each with its operation and the number of arguments it takes. The \<open>subcmd\<close> library dispatches.
\<close>

datatype webapp_runner = ProdServe | DevServe

definition cmdSet :: "(string \<times> webapp_runner \<times> nat) list" where
  "cmdSet = [(''prod'', ProdServe, 0), (''dev'', DevServe, 0)]"

subsection \<open>Facts\<close>

lemma serve_parts:
  "NewTLSServer p sa l ctx addr h (Some cfg) = Inr (ln, srv) \<Longrightarrow> hs_Handler srv = h \<and> hs_TLSConfig srv = Some cfg \<and> hs_Addr srv = addr"
  "ServeTLSWithShutdown is_done ctx srv = Inr (srv', st) \<Longrightarrow>
     hs_Handler srv' = hs_Handler srv \<and> hs_TLSConfig srv' = hs_TLSConfig srv \<and> hs_Addr srv' = hs_Addr srv"
  by (auto simp: NewTLSServer_def newServer_def NewTLSServerOnly_def NewHTTPServerOnly_def ServeTLSWithShutdown_def ServeWithShutdown_def
      split: option.splits if_splits)

definition no_dev_server :: "DevServerFlags \<Rightarrow> bool" where
  "no_dev_server cl \<longleftrightarrow> wf_WebpackServer (df_Webpack cl) = [] \<and> wf_WebpackDir (df_Webpack cl) = [] \<and>
     vf_ViteServer (df_Vite cl) = [] \<and> vf_ViteDir (df_Vite cl) = []"

lemma dev_routes_cases:
  assumes "dev_routes wv cl r = Some (Inr router)"
  obtains (proxy) u where "router = routeToProxy ''/build/'' u r" and "\<not> no_dev_server cl"
    | (content) "router = serveContent (wv_reload wv) (wv_assets wv) r" and "no_dev_server cl"
  using assms by (auto simp: dev_routes_def no_dev_server_def split: if_splits option.splits sum.splits)

lemma proxy_not_content: "routeToProxy p u (configureAPIEndpoints []) \<noteq> serveContent f g (configureAPIEndpoints [])"
  by (simp add: routeToProxy_def serveContent_def configureAPIEndpoints_def Let_def)

text \<open>
  A development server that serves has the greeting and either the proxy to the one development server that the flags
  choose, in the order webpack server, webpack directory, vite server, vite directory, or the embedded content, exactly
  as in production.
\<close>

theorem devServe_routes:
  assumes "devServe wv ctx cl = Some (Inr (ln, srv, st))"
  shows "\<exists>router. dev_routes wv cl (configureAPIEndpoints []) = Some (Inr router) \<and> hs_Handler srv = router \<and> hd router = RouteGet ''/hello'' Hello \<and>
    ((\<exists>u. router = routeToProxy ''/build/'' u (configureAPIEndpoints [])) \<or>
     router = serveContent (wv_reload wv) (wv_assets wv) (configureAPIEndpoints [])) \<and>
    (no_dev_server cl \<longleftrightarrow>
     router = serveContent (wv_reload wv) (wv_assets wv) (configureAPIEndpoints []))"
proof -
  obtain cfg srv0 router where s: "NewTLSServer (wv_parseAddr wv) (wv_serverAddr wv) (wv_listen wv) ctx (hsf_Address (df_HTTP cl)) (configureAPIEndpoints []) (Some cfg) = Inr (ln, srv0)"
    and r: "dev_routes wv cl (configureAPIEndpoints []) = Some (Inr router)"
    and h: "ServeTLSWithShutdown (wv_is_done wv) ctx (srv0\<lparr>hs_Handler := router\<rparr>) = Inr (srv, st)"
    using assms by (auto simp: devServe_def Let_def split: sum.splits option.splits)
  have "hs_Handler srv = router" using serve_parts(2) [OF h] by simp
  moreover have "hd router = RouteGet ''/hello'' Hello"
    using r by (auto simp: dev_routes_def routeToProxy_def serveContent_def configureAPIEndpoints_def Let_def split: if_splits option.splits sum.splits)
  moreover have "((\<exists>u. router = routeToProxy ''/build/'' u (configureAPIEndpoints [])) \<or>
       router = serveContent (wv_reload wv) (wv_assets wv) (configureAPIEndpoints [])) \<and>
      (no_dev_server cl \<longleftrightarrow> router = serveContent (wv_reload wv) (wv_assets wv) (configureAPIEndpoints []))"
    using r
  proof (cases rule: dev_routes_cases)
    case (proxy u)
    have "router \<noteq> serveContent (wv_reload wv) (wv_assets wv) (configureAPIEndpoints [])"
      unfolding proxy(1) by (rule proxy_not_content)
    then show ?thesis using proxy by simp (rule exI [of _ u], rule refl)
  next
    case content
    then show ?thesis by simp
  qed
  ultimately show ?thesis using r by (intro exI [of _ router] conjI) simp_all
qed

text \<open>The flags for reloading assets are not used: the development server serves what it would without them.\<close>

lemma devServe_ignores_assets: "devServe wv ctx (cl\<lparr>df_Assets := a\<rparr>) = devServe wv ctx cl"
proof -
  have parts: "df_Webpack (cl\<lparr>df_Assets := a\<rparr>) = df_Webpack cl" "df_Vite (cl\<lparr>df_Assets := a\<rparr>) = df_Vite cl"
    "df_HTTP (cl\<lparr>df_Assets := a\<rparr>) = df_HTTP cl" by simp_all
  show ?thesis unfolding devServe_def dev_routes_def parts ..
qed

text \<open>In production every request to port 80 is redirected to https and the TLS server has the certificates of the flags.\<close>

lemma prodServe_ok:
  assumes "prodServe wv ctx cl = Inr ((ln, srv, st), port80)"
  shows "hs_Handler srv = serveContent (wv_reload wv) (wv_assets wv) (configureAPIEndpoints []) \<and>
    (\<exists>cfg. HTTPServerConfig_TLSConfig (wv_load wv) (HTTPServerFlags_HTTPServerConfig cl) = Inr cfg \<and> hs_TLSConfig srv = Some cfg) \<and>
    hs_Handler (fst (snd port80)) = wv_handle wv ''/'' (Redirect_Handler (wv_urlParser wv) (RedirectToHTTPSPort (hsf_Address cl))) (wv_mux wv)"
  using assms
  by (auto simp: prodServe_def RedirectPort80_def NewHTTPServer_def newServer_def NewHTTPServerOnly_def ServeWithShutdown_def Let_def
      dest!: serve_parts split: if_splits sum.splits option.splits)

end
