(* ===== verification/GoQuery.thy ===== *)
theory GoQuery
  imports GoUrl "HOL-Library.AList" "HOL-Library.List_Lexorder" "HOL-Library.Char_ord"
begin

text \<open>
  Queries of Go's \<open>net/url\<close>: escaping of keys and values, \<open>Values\<close> with its operations, \<open>ParseQuery\<close> as
  \<open>URL.Query\<close> uses it (what cannot be parsed is dropped) and \<open>Encode\<close>. A map of keys to lists of values is an association
  list with distinct keys. The limit on the number of parameters, 10000 unless the process sets another, is an argument.
\<close>

definition query_escape_char :: "char \<Rightarrow> string" where
  "query_escape_char c = (if c = CHR '' '' then ''+'' else if is_alnum c \<or> c \<in> set ''-_.~'' then [c] else percent_byte c)"

definition QueryEscape :: "string \<Rightarrow> string" where
  "QueryEscape s = concat (map query_escape_char s)"

fun QueryUnescape :: "string \<Rightarrow> string option" where
  "QueryUnescape [] = Some []"
| "QueryUnescape (c # cs) =
     (if c = CHR ''%'' then
        (case cs of
           a # b # rest \<Rightarrow>
             (case (hex_val a, hex_val b) of
                (Some x, Some y) \<Rightarrow> map_option (Cons (char_of (16 * x + y))) (QueryUnescape rest)
              | _ \<Rightarrow> None)
         | _ \<Rightarrow> None)
      else map_option (Cons (if c = CHR ''+'' then CHR '' '' else c)) (QueryUnescape cs))"

type_synonym Values = "(string \<times> string list) list"

definition values_of :: "Values \<Rightarrow> string \<Rightarrow> string list" where
  "values_of m k = (case map_of m k of None \<Rightarrow> [] | Some vs \<Rightarrow> vs)"

definition Values_Set :: "string \<Rightarrow> string \<Rightarrow> Values \<Rightarrow> Values" where
  "Values_Set k v m = AList.update k [v] m"

definition Values_Add :: "string \<Rightarrow> string \<Rightarrow> Values \<Rightarrow> Values" where
  "Values_Add k v m = AList.update k (values_of m k @ [v]) m"

definition Values_pairs :: "Values \<Rightarrow> (string \<times> string) list" where
  "Values_pairs m = concat (map (\<lambda>k. map (Pair k) (values_of m k)) (sort (map fst m)))"

definition query_pair :: "string \<times> string \<Rightarrow> string" where
  "query_pair p = QueryEscape (fst p) @ ''='' @ QueryEscape (snd p)"

definition Values_Encode :: "Values \<Rightarrow> string" where
  "Values_Encode m = strings_Join (map query_pair (Values_pairs m)) ''&''"

text \<open>One parameter: everything up to the first equals sign is the key.\<close>

definition add_parameter :: "string \<Rightarrow> Values \<Rightarrow> Values" where
  "add_parameter seg m =
     (if CHR '';'' \<in> set seg \<or> seg = [] then m
      else
        (case QueryUnescape (takeWhile (\<lambda>c. c \<noteq> CHR ''='') seg) of
           None \<Rightarrow> m
         | Some k \<Rightarrow>
             (case QueryUnescape (drop 1 (dropWhile (\<lambda>c. c \<noteq> CHR ''='') seg)) of
                None \<Rightarrow> m
              | Some v \<Rightarrow> Values_Add k v m)))"

definition URL_Query :: "nat \<Rightarrow> string \<Rightarrow> Values" where
  "URL_Query maxParams query =
     (if count_list query CHR ''&'' + 1 > maxParams then [] else fold add_parameter (split_on CHR ''&'' query) [])"

subsection \<open>Facts\<close>

lemma QueryUnescape_percent_byte: "QueryUnescape (percent_byte c @ s) = map_option (Cons c) (QueryUnescape s)"
proof -
  have "(of_char c :: nat) div 16 < 16" by (rule less_mult_imp_div_less) simp
  then have "hex_val (digit_upper (of_char c div 16)) = Some (of_char c div 16)"
    "hex_val (digit_upper (of_char c mod 16)) = Some (of_char c mod 16)" by simp_all
  then show ?thesis by (simp add: percent_byte_def)
qed

lemma query_safe: "is_alnum c \<or> c \<in> set ''-_.~'' \<Longrightarrow> c \<notin> set ''%+&=;''"
  by (auto simp: is_alnum_def is_lower_def is_upper_def is_digit_def char_between_def)

lemma QueryUnescape_escape_char: "QueryUnescape (query_escape_char c @ s) = map_option (Cons c) (QueryUnescape s)"
  using query_safe [of c] by (auto simp: query_escape_char_def QueryUnescape_percent_byte)

lemma QueryUnescape_escape [simp]: "QueryUnescape (QueryEscape s) = Some s"
  by (induction s) (simp_all add: QueryEscape_def QueryUnescape_escape_char)

lemma digit_upper_safe: "n < 16 \<Longrightarrow> is_alnum (digit_upper n)"
  by (simp add: digit_upper_def is_alnum_def is_upper_def is_digit_def char_between_def)

lemma QueryEscape_chars: "c \<in> set (QueryEscape s) \<Longrightarrow> c \<notin> set ''&=;''"
proof -
  have "d \<in> set (query_escape_char c') \<Longrightarrow> d \<notin> set ''&=;''" for c' d
  proof -
    have "(of_char c' :: nat) div 16 < 16" by (rule less_mult_imp_div_less) simp
    then have "is_alnum (digit_upper (of_char c' div 16))" "is_alnum (digit_upper (of_char c' mod 16))" by (simp_all add: digit_upper_safe)
    then show "d \<in> set (query_escape_char c') \<Longrightarrow> d \<notin> set ''&=;''"
      using query_safe [of d] by (auto simp: query_escape_char_def percent_byte_def split: if_splits)
  qed
  then show "c \<in> set (QueryEscape s) \<Longrightarrow> c \<notin> set ''&=;''" by (auto simp: QueryEscape_def)
qed

lemma add_parameter_pair: "add_parameter (query_pair (k, v)) m = Values_Add k v m"
proof -
  have k: "CHR ''='' \<notin> set (QueryEscape k)" "CHR '';'' \<notin> set (QueryEscape k)" "CHR '';'' \<notin> set (QueryEscape v)"
    using QueryEscape_chars by auto
  have "takeWhile (\<lambda>c. c \<noteq> CHR ''='') (query_pair (k, v)) = QueryEscape k"
    "dropWhile (\<lambda>c. c \<noteq> CHR ''='') (query_pair (k, v)) = ''='' @ QueryEscape v"
    unfolding query_pair_def fst_conv snd_conv
    by (subst takeWhile_append2 dropWhile_append2, use k(1) in \<open>auto\<close>)+
  then show ?thesis using k by (simp add: add_parameter_def) (simp add: query_pair_def)
qed

lemma query_pair_no_amp: "CHR ''&'' \<notin> set (query_pair p)"
  using QueryEscape_chars by (auto simp: query_pair_def)

lemma values_of_Add: "values_of (Values_Add k v m) k' = values_of m k' @ (if k' = k then [v] else [])"
  by (simp add: Values_Add_def values_of_def update_conv)

lemma values_of_Set: "values_of (Values_Set k v m) k' = (if k' = k then [v] else values_of m k')"
  by (simp add: Values_Set_def values_of_def update_conv)

lemma values_of_fold_Add:
  "values_of (fold (\<lambda>(k, v). Values_Add k v) ps m) k = values_of m k @ map snd (filter (\<lambda>p. fst p = k) ps)"
  by (induction ps arbitrary: m) (auto simp: values_of_Add)

lemma values_of_absent: "k \<notin> set (map fst m) \<Longrightarrow> values_of m k = []"
  using map_of_eq_None_iff [of m k] by (simp add: values_of_def)

lemma filter_pairs: "distinct ks \<Longrightarrow> map snd (filter (\<lambda>p. fst p = k) (concat (map (\<lambda>k. map (Pair k) (f k)) ks))) = (if k \<in> set ks then f k else [])"
proof (induction ks)
  case (Cons a ks)
  then show ?case by (cases "a = k") (auto simp: filter_map comp_def)
qed simp

lemma Values_pairs_of: "distinct (map fst m) \<Longrightarrow> map snd (filter (\<lambda>p. fst p = k) (Values_pairs m)) = values_of m k"
  using values_of_absent [of k m] by (simp add: Values_pairs_def filter_pairs)

lemma URL_Query_distinct: "distinct (map fst (URL_Query maxParams query))"
proof -
  have "distinct (map fst m) \<Longrightarrow> distinct (map fst (add_parameter seg m))" for seg m
    by (simp add: add_parameter_def Values_Add_def distinct_update split: option.splits)
  then have "distinct (map fst m) \<Longrightarrow> distinct (map fst (fold add_parameter segs m))" for segs m
    by (induction segs arbitrary: m) simp_all
  then show ?thesis by (simp add: URL_Query_def)
qed

text \<open>Encoding and parsing lose nothing within the limit.\<close>

lemma count_amp_Encode: "count_list (Values_Encode m) CHR ''&'' = length (Values_pairs m) - 1"
proof -
  have "count_list (strings_Join (map query_pair ps) ''&'') CHR ''&'' = length ps - 1" for ps
    by (induction ps rule: induct_list012) (use query_pair_no_amp in \<open>simp_all add: count_list_0_iff\<close>)
  then show ?thesis by (simp add: Values_Encode_def)
qed

theorem URL_Query_Encode:
  assumes "distinct (map fst m)" and "length (Values_pairs m) \<le> maxParams" and "0 < maxParams"
  shows "values_of (URL_Query maxParams (Values_Encode m)) k = values_of m k"
proof -
  have "fold add_parameter (split_on CHR ''&'' (Values_Encode m)) [] = fold (\<lambda>(k, v). Values_Add k v) (Values_pairs m) []"
  proof (cases "Values_pairs m = []")
    case False
    then have "split_on CHR ''&'' (Values_Encode m) = map query_pair (Values_pairs m)"
      unfolding Values_Encode_def by (intro split_on_strings_Join) (use query_pair_no_amp in auto)
    moreover have "fold add_parameter (map query_pair ps) m' = fold (\<lambda>(k, v). Values_Add k v) ps m'" for ps m'
      by (induction ps arbitrary: m') (auto simp: add_parameter_pair)
    ultimately show ?thesis by simp
  qed (simp add: Values_Encode_def add_parameter_def)
  moreover have "\<not> count_list (Values_Encode m) CHR ''&'' + 1 > maxParams" using assms(2,3) by (simp add: count_amp_Encode)
  ultimately have "values_of (URL_Query maxParams (Values_Encode m)) k = values_of [] k @ map snd (filter (\<lambda>p. fst p = k) (Values_pairs m))"
    unfolding URL_Query_def by (simp only: if_False values_of_fold_Add)
  then show ?thesis by (simp add: Values_pairs_of [OF assms(1)] values_of_absent)
qed

subsection \<open>The number of parameters\<close>

definition params :: "Values \<Rightarrow> nat" where
  "params m = (\<Sum>k\<in>fst ` set m. length (values_of m k))"

lemma params_superset: "finite K \<Longrightarrow> fst ` set m \<subseteq> K \<Longrightarrow> (\<Sum>k\<in>K. length (values_of m k)) = params m"
  unfolding params_def by (rule sum.mono_neutral_right) (auto simp: values_of_absent)

lemma length_Values_pairs: "distinct (map fst m) \<Longrightarrow> length (Values_pairs m) = params m"
  by (simp add: Values_pairs_def params_def length_concat comp_def sum_list_distinct_conv_sum_set)

lemma values_keys:
  "fst ` set (Values_Add k v m) = insert k (fst ` set m)" "fst ` set (Values_Set k v m) = insert k (fst ` set m)"
  by (simp_all add: Values_Add_def Values_Set_def dom_update)

lemma params_plus_one:
  "(\<Sum>k'\<in>insert k (fst ` set m). length (values_of m k') + (if k' = k then 1 else 0)) = params m + 1"
proof -
  have "(\<Sum>k'\<in>insert k (fst ` set m). length (values_of m k')) = params m" by (rule params_superset) auto
  then show ?thesis unfolding sum.distrib by (simp add: sum.delta)
qed

lemma params_Add: "params (Values_Add k v m) = params m + 1"
proof -
  have "params (Values_Add k v m) = (\<Sum>k'\<in>insert k (fst ` set m). length (values_of m k') + (if k' = k then 1 else 0))"
    unfolding params_def by (rule sum.cong) (simp_all add: values_keys values_of_Add)
  also have "\<dots> = params m + 1" by (rule params_plus_one)
  finally show ?thesis .
qed

lemma params_Set: "params (Values_Set k v m) \<le> params m + 1"
proof -
  have "params (Values_Set k v m) = (\<Sum>k'\<in>insert k (fst ` set m). if k' = k then 1 else length (values_of m k'))"
    unfolding params_def by (rule sum.cong) (simp_all add: values_keys values_of_Set)
  also have "\<dots> \<le> (\<Sum>k'\<in>insert k (fst ` set m). length (values_of m k') + (if k' = k then 1 else 0))" by (rule sum_mono) simp
  also have "\<dots> = params m + 1" by (rule params_plus_one)
  finally show ?thesis .
qed

lemma params_URL_Query: "params (URL_Query maxParams query) \<le> count_list query CHR ''&'' + 1"
proof -
  have "params (add_parameter seg m) \<le> params m + 1" for seg m
    by (simp add: add_parameter_def params_Add split: option.splits)
  then have "params (fold add_parameter segs m) \<le> params m + length segs" for segs m
    by (induction segs arbitrary: m) (simp, fastforce intro: order_trans)
  from this [of "split_on CHR ''&'' query" "[]"] show ?thesis by (simp add: URL_Query_def split_on_length params_def)
qed

end
