(* ===== verification/VerificationLink.thy ===== *)
theory VerificationLink
  imports JwtUtil GoQuery
begin

text \<open>
  \<^verbatim>\<open>VerificationURL\<close> of \<^verbatim>\<open>webauth/jwtutil/jwt_url.go\<close>: links that carry a verification token. \<open>url.Parse\<close> is an
  argument; it returns the URL and, separately, its escaped fragment, which \<open>String\<close> writes last.
\<close>

definition link_String :: "URL \<times> string \<Rightarrow> string" where
  "link_String uf = URL_String (fst uf) @ (if snd uf \<noteq> [] then CHR ''#'' # snd uf else [])"

definition VerificationURL ::
    "(string \<Rightarrow> ('e, URL \<times> string) result) \<Rightarrow> nat \<Rightarrow> string \<Rightarrow> bytes \<Rightarrow> ('e, string) result" where
  "VerificationURL parse maxParams baseURL tokenBytes =
     (case parse baseURL of
        Inl e \<Rightarrow> Inl e
      | Inr (u, fragment) \<Rightarrow>
          let q = URL_Query maxParams (url_RawQuery u);
              q = Values_Set ''token'' tokenBytes q;
              u = u\<lparr>url_RawQuery := Values_Encode q\<rparr>
          in Inr (link_String (u, fragment)))"

lemma VerificationURL_query:
  assumes "VerificationURL parse maxParams base tok = Inr s"
  obtains u fragment q where "parse base = Inr (u, fragment)" and "s = link_String (u\<lparr>url_RawQuery := q\<rparr>, fragment)"
    and "count_list (url_RawQuery u) CHR ''&'' + 2 \<le> maxParams \<Longrightarrow>
      \<forall>k. values_of (URL_Query maxParams q) k = (if k = ''token'' then [tok] else values_of (URL_Query maxParams (url_RawQuery u)) k)"
proof -
  from assms obtain u fragment where p: "parse base = Inr (u, fragment)"
    and s: "s = link_String (u\<lparr>url_RawQuery := Values_Encode (Values_Set ''token'' tok (URL_Query maxParams (url_RawQuery u)))\<rparr>, fragment)"
    by (auto simp: VerificationURL_def Let_def split: sum.splits)
  let ?m = "Values_Set ''token'' tok (URL_Query maxParams (url_RawQuery u))"
  have d: "distinct (map fst ?m)" by (simp add: Values_Set_def distinct_update URL_Query_distinct)
  have "values_of (URL_Query maxParams (Values_Encode ?m)) k = values_of ?m k" if "count_list (url_RawQuery u) CHR ''&'' + 2 \<le> maxParams" for k
  proof (rule URL_Query_Encode [OF d])
    show "length (Values_pairs ?m) \<le> maxParams"
      using that params_URL_Query [of maxParams "url_RawQuery u"] params_Set [of "''token''" tok "URL_Query maxParams (url_RawQuery u)"]
      by (simp add: length_Values_pairs [OF d])
  qed (use that in simp)
  then show ?thesis by (intro that [OF p s]) (simp add: values_of_Set)
qed


definition demo_link_parse :: "string \<Rightarrow> (unit, URL \<times> string) result" where
  "demo_link_parse _ = Inr (empty_URL\<lparr>url_Scheme := ''https'', url_Host := ''a.com'', url_Path := ''/verify'', url_RawQuery := ''lang=en''\<rparr>, [])"


end
