(* ===== verification/PebbleMock.thy ===== *)
theory PebbleMock
  imports Pebble
begin

text \<open>
  The stand-in for pebble of \<^verbatim>\<open>webauth/acme/pebble/testdata/pebble-mock\<close>: what it prints and how it exits. Reading
  the configuration is an argument, with the text of its error, and so is which of a signal and the timeout of ten
  minutes ends it.
\<close>

datatype mock_end = SignalReceived | TimeoutReached

definition mock_main :: "(string \<Rightarrow> (string, bytes) result) \<Rightarrow> string \<Rightarrow> mock_end \<Rightarrow> bytes list \<times> int" where
  "mock_main readFile config ended =
     (case readFile config of
        Inl err \<Rightarrow> ([''Failed to read config file: '' @ err], 1)
      | Inr _ \<Rightarrow>
          let out = [''ACME directory available at: https://0.0.0.0:14000/dir'',
                     ''Root CA certificate available at: https://0.0.0.0:15000/roots/0'',
                     ''Issued certificate serial 0123456789abcdef for order'']
          in (case ended of
                SignalReceived \<Rightarrow> (out @ [''Received signal, exiting''], 0)
              | TimeoutReached \<Rightarrow> (out @ [''Timeout reached, exiting''], 1)))"

text \<open>What a wait sees that has not read the first lines: the rest of the output and then the end of the context.\<close>

definition output_events :: "bytes list \<Rightarrow> wait_error \<Rightarrow> nat \<Rightarrow> wait_event" where
  "output_events out err n = (if n < length out then Line (out ! n) else CtxDone err)"

lemma mock_lines:
  "saw ''ACME directory available at: https://0.0.0.0:14000/dir'' 0 = 1"
  "saw ''Root CA certificate available at: https://0.0.0.0:15000/roots/0'' (Suc 0) = 2"
  "issuedRE ''Issued certificate serial 0123456789abcdef for order'' = Some ''0123456789abcdef''"
  by code_simp+

text \<open>
  The waits of \<^verbatim>\<open>pebble.go\<close> work on the stand-in as on pebble: with a configuration that can be read it becomes ready, and
  the next wait finds the serial number it prints, whatever ends it; it exits with 0 exactly for a signal.
\<close>

theorem mock_stands_in:
  assumes "readFile config = Inr d" and "mock_main readFile config ended = (out, code)"
  shows "WaitForReady (output_events out err) 0 0 = Some (Inr ()) \<and>
    WaitForIssuedCertificateSerial (output_events (drop 2 out) err) = Some (Inr ''0123456789abcdef'') \<and>
    (code = 0 \<longleftrightarrow> ended = SignalReceived)"
proof -
  obtain l where out: "out = [''ACME directory available at: https://0.0.0.0:14000/dir'',
      ''Root CA certificate available at: https://0.0.0.0:15000/roots/0'',
      ''Issued certificate serial 0123456789abcdef for order'', l]" and code: "code = 0 \<longleftrightarrow> ended = SignalReceived"
    using assms by (cases ended) (auto simp: mock_main_def)
  have "WaitForReady (output_events out err) 0 0 = Some (Inr ())"
    by (subst WaitForReady.simps, subst WaitForReady.simps) (simp add: output_events_def out mock_lines)
  moreover have "waitForRe (issuedRE, output_events (drop 2 out) err) 0 = Some (Inr ''0123456789abcdef'')"
    by (subst waitForRe.simps) (simp add: output_events_def out mock_lines)
  ultimately show ?thesis using code by (simp add: WaitForIssuedCertificateSerial_def)
qed

theorem mock_stands_in_witness:
  "WaitForReady (output_events (fst (mock_main (\<lambda>_. Inr []) ''c.json'' SignalReceived)) WaitCanceled) 0 0 = Some (Inr ())"
proof -
  obtain out code where m: "mock_main (\<lambda>_. Inr []) ''c.json'' SignalReceived = (out, code)" by force
  have r: "(\<lambda>_. Inr [] :: (string, bytes) result) ''c.json'' = Inr []" by simp
  from mock_stands_in [OF r m] show ?thesis by (simp add: m)
qed

end
