(* ===== verification/AcmeCli.thy ===== *)
theory AcmeCli
  imports AcmeServers
begin

text \<open>
  The command line of \<^verbatim>\<open>cmd/acme/main.go\<close>: the tree of commands that \<^verbatim>\<open>cmdSpecYAML\<close> declares, with the arguments each
  declares, and the operations that \<^verbatim>\<open>cli\<close> registers for them. Parsing, dispatch and help are the \<open>subcmd\<close> library's;
  summaries are left out.
\<close>

datatype command = Command (cmd_name: string) (cmd_args: "string list") (cmd_commands: "command list")

definition cmdSpecYAML :: command where
  "cmdSpecYAML =
     Command ''acme'' []
       [Command ''servers'' []
          [Command ''cert-manager'' [''<hosts>...''] [],
           Command ''redirect'' [] []],
        Command ''certs'' []
          [Command ''validate-hosts'' [''<hosts>+''] [],
           Command ''validate-pem-files'' [''<pem-files>...''] [],
           Command ''store'' []
             [Command ''put'' [] [],
              Command ''get'' [] []],
           Command ''revoke'' [''<name>''] []]]"

text \<open>The operations, each with the type of its flags.\<close>

datatype runner = ManageCerts | RedirectTest | ValidateHosts | ValidatePEMFiles | PutCert | GetCert | RevokeUsingKey

definition cli :: "(string list \<times> runner) list" where
  "cli =
     [([''servers'', ''cert-manager''], ManageCerts),
      ([''servers'', ''redirect''], RedirectTest),
      ([''certs'', ''validate-hosts''], ValidateHosts),
      ([''certs'', ''validate-pem-files''], ValidatePEMFiles),
      ([''certs'', ''store'', ''put''], PutCert),
      ([''certs'', ''store'', ''get''], GetCert),
      ([''certs'', ''revoke''], RevokeUsingKey)]"

text \<open>
  \<^verbatim>\<open>main\<close>: the error of the dispatch and the cause that the context was ended by are arguments, and so is the text of an
  error; the value is the message that the program exits with, \<^verbatim>\<open>None\<close> when it ends in order.
\<close>

definition main :: "'e \<Rightarrow> ('e \<Rightarrow> string) \<Rightarrow> 'e option \<Rightarrow> 'e option \<Rightarrow> string option" where
  "main ErrInterrupt errorText dispatch cause =
     (case dispatch of
        None \<Rightarrow> None
      | Some err \<Rightarrow> if cause = Some ErrInterrupt then Some (errorText ErrInterrupt) else Some (errorText err))"

subsection \<open>Facts\<close>

text \<open>The commands that can be run are the leaves of the tree, by their path below the root, with their arguments.\<close>

fun runnable :: "command \<Rightarrow> (string list \<times> string list) list" where
  "runnable (Command name args cmds) =
     (if cmds = [] then [([name], args)]
      else map (\<lambda>(path, as). (name # path, as)) (concat (map runnable cmds)))"

definition declared :: "(string list \<times> string list) list" where
  "declared = map (\<lambda>(path, as). (tl path, as)) (runnable cmdSpecYAML)"

text \<open>Every declared command is registered, every registration is for a declared command, and no two operations share one.\<close>

theorem cli_complete:
  "set (map fst cli) = set (map fst declared) \<and> distinct (map fst cli) \<and> distinct (map snd cli)"
  by (simp add: cli_def declared_def cmdSpecYAML_def insert_commute)

text \<open>
  The operations that read an argument without looking whether there is one: run as they are declared, without
  arguments, \<open>store put\<close> and \<open>store get\<close> panic as soon as the store can be opened, whatever the flags.
\<close>

theorem store_commands_panic:
  assumes "map_of declared [''certs'', ''store'', c] = Some args" and "c \<in> {''put'', ''get''}"
    and "\<And>ro. is_ok (newCertStore env cl [WithReadonly ro])"
  shows "args = [] \<and> getCert env cl args = None \<and> putCert env readFile cl args = None"
proof -
  have args: "args = []" using assms(1,2) by (auto simp: declared_def cmdSpecYAML_def)
  have "getCert env cl [] = None" using assms(3) [of True] by (auto simp: getCert_def is_ok_def split: sum.splits)
  moreover have "putCert env readFile cl [] = None" using assms(3) [of False] by (auto simp: putCert_def is_ok_def split: sum.splits)
  ultimately show ?thesis using args by simp
qed

end
