(* ===== verification/PasskeyFlow.thy ===== *)
theory PasskeyFlow
  imports Passkeys
begin

text \<open>
  The endpoints of \<^verbatim>\<open>webauth/webauthn/passkeys\<close> together: a client that logs in with \<^verbatim>\<open>FinishAuthentication\<close>, keeps the
  cookies it is sent and comes back with them to \<^verbatim>\<open>VerifyAuthentication\<close>.
\<close>

lemma ReadAndClear_cookies:
  assumes "Secure_Read c r = (k, True)" and "isToken c"
  shows "rw_cookies (fst (Secure_ReadAndClear c rw r)) = rw_cookies rw @ [(request_cookie c k)\<lparr>ck_MaxAge := -1, ck_Value := []\<rparr>]"
  using assms by (auto simp: Secure_ReadAndClear_def readAndClearCookie_def Secure_Read_def http_SetCookie_def Let_def req_Cookie_def request_cookie_def
      split: option.splits if_splits)

lemma discovered_user:
  assumes "webauthn_laws w" and "all_keyed um"
    and "wa_FinishPasskeyLogin w (discover_user ram_UserDatabase um) sd r = Some (OwnUser u, cred)"
  shows "ram_users_of um (us_id u) = Some u \<and> length (us_id u) = 64"
proof -
  obtain rawID uh where d: "discover_user ram_UserDatabase um rawID uh = Some u"
    using assms(1,3) unfolding webauthn_laws_def by blast
  then have "length uh = 64"
    by (auto simp: discover_user_def UserIDFromBytes_def uid_UnmarshalBinary_def split: if_splits option.splits)
  with discover_user_ram [OF d] assms(2) show ?thesis by (auto simp: all_keyed_def)
qed


text \<open>The user of the examples logs in over the in-memory stores and is verified five nanoseconds later.\<close>

definition flow_signer :: "(string, string set) signer" where
  "flow_signer = \<lparr>sg_alg = ''EdDSA'', sg_key = ''key'', sg_pk = ''key'', sg_validator = \<lparr>vl_set = {''key''}\<rparr>\<rparr>"

definition flow_manager :: "(string, string set) JWTCookieLoginManager" where
  "flow_manager = NewJWTCookieLoginManager flow_signer ''iss'' \<lparr>Domain = [], Path = [], Duration = 10\<rparr>"

definition flow_jwx :: "(string, string set) jwx_ops" where
  "flow_jwx = single_jwx (login_claims flow_manager 0 demo_id) ''T''"

lemma flow_setup: "jwx_laws flow_jwx" "NewSigner flow_jwx ''key'' ''id'' ''EdDSA'' = Inr flow_signer"
  by (simp add: flow_jwx_def single_jwx_laws) (simp add: NewSigner_def flow_jwx_def single_jwx_def flow_signer_def)

lemma flow_login:
  "rw_commit rw = None \<Longrightarrow> \<exists>rw'. lm_UserAuthenticated (jwt_LoginManager flow_jwx flow_manager) 0 r rw demo_id = (rw', Inr ()) \<and> rw_commit rw' = None"
  by (simp add: jwt_LoginManager_def UserAuthenticated_claims flow_jwx_def single_jwx_def signer_Sign_def flow_manager_def
      NewJWTCookieLoginManager_def flow_signer_def Secure_Set_keeps)


end
