(* ===== verification/CacheSpec.thy ===== *)
theory CacheSpec
  imports CertCache
begin

text \<open>
  What the caching store of \<^verbatim>\<open>webauth/acme/certcache\<close> promises, as an abstract machine, and that \<open>Put\<close>, \<open>Get\<close> and
  \<open>Delete\<close> implement it over any two stores that keep the contract \<open>key_store\<close>. The state of the machine says what a reader finds at
  each place, a name in the local cache or in the backing store; the operations change one place or none.
\<close>

datatype place = LocalPlace string | BackingPlace string

type_synonym contents = "place \<Rightarrow> (io_error, bytes) result"

definition place_of :: "cc_options \<Rightarrow> string \<Rightarrow> place" where
  "place_of opts name = (case useBackingStore opts name of (bname, backing) \<Rightarrow> if backing then BackingPlace bname else LocalPlace name)"

text \<open>\<open>Delete\<close> does not know the name that account keys are saved under.\<close>

definition delete_place :: "cc_options \<Rightarrow> string \<Rightarrow> place" where
  "delete_place opts name = (if IsLocalName name (co_allowRSAKeys opts) then LocalPlace name else BackingPlace name)"

fun place_errors :: "place \<Rightarrow> cache_error set" where
  "place_errors (LocalPlace _) = {ErrLocalOperation, ErrLockFailed}"
| "place_errors (BackingPlace _) = {ErrBackingOperation}"

fun read_error :: "place \<Rightarrow> cache_error" where
  "read_error (LocalPlace _) = ErrLocalOperation"
| "read_error (BackingPlace _) = ErrBackingOperation"

datatype cache_event = PutEvent string bytes | GetEvent string | DeleteEvent string

datatype cache_answer = Done "(cache_error, unit) result" | Data "(cache_error, bytes) result"

fun event_name :: "cache_event \<Rightarrow> string" where
  "event_name (PutEvent name _) = name"
| "event_name (GetEvent name) = name"
| "event_name (DeleteEvent name) = name"

inductive spec_step :: "cc_options \<Rightarrow> contents \<Rightarrow> cache_event \<Rightarrow> cache_answer \<Rightarrow> contents \<Rightarrow> bool" for opts where
  put: "isRSAKeyAllowed opts name \<Longrightarrow> \<not> co_readonly opts \<Longrightarrow>
    spec_step opts m (PutEvent name d) (Done (Inr ())) (m(place_of opts name := Inr d))"
| put_rsa: "\<not> isRSAKeyAllowed opts name \<Longrightarrow> spec_step opts m (PutEvent name d) (Done (Inl ErrBackingOperation)) m"
| put_readonly: "isRSAKeyAllowed opts name \<Longrightarrow> co_readonly opts \<Longrightarrow> spec_step opts m (PutEvent name d) (Done (Inl ErrReadonlyCache)) m"
| put_failed: "isRSAKeyAllowed opts name \<Longrightarrow> \<not> co_readonly opts \<Longrightarrow> e \<in> place_errors (place_of opts name) \<Longrightarrow>
    spec_step opts m (PutEvent name d) (Done (Inl e)) m"
| get: "spec_step opts m (GetEvent name) (Data (reads (read_error (place_of opts name)) (m (place_of opts name)))) m"
| get_unlocked: "place_of opts name = LocalPlace name \<Longrightarrow> spec_step opts m (GetEvent name) (Data (Inl ErrLockFailed)) m"
| delete: "\<not> co_readonly opts \<Longrightarrow>
    spec_step opts m (DeleteEvent name) (Done (Inr ())) (m(delete_place opts name := Inl NotExist))"
| delete_readonly: "co_readonly opts \<Longrightarrow> spec_step opts m (DeleteEvent name) (Done (Inl ErrReadonlyCache)) m"
| delete_failed: "\<not> co_readonly opts \<Longrightarrow> e \<in> place_errors (delete_place opts name) \<Longrightarrow>
    spec_step opts m (DeleteEvent name) (Done (Inl e)) m"

inductive spec_run :: "cc_options \<Rightarrow> contents \<Rightarrow> cache_event list \<Rightarrow> cache_answer list \<Rightarrow> contents \<Rightarrow> bool" for opts where
  stop: "spec_run opts m [] [] m"
| more: "spec_step opts m ev a m1 \<Longrightarrow> spec_run opts m1 evs as m2 \<Longrightarrow> spec_run opts m (ev # evs) (a # as) m2"

subsection \<open>The caching store as a machine\<close>

text \<open>An event comes with whether the lock can be taken when the operation wants it.\<close>

fun cache_step ::
    "'l store_ops \<Rightarrow> 'b store_ops \<Rightarrow> bool \<times> cache_event \<Rightarrow> ('l, 'b) CachingStore \<Rightarrow> ('l, 'b) CachingStore \<times> cache_answer" where
  "cache_step lops bops (lk, PutEvent name d) dc = (let (dc, r) = Put lops bops lk name d dc in (dc, Done r))"
| "cache_step lops bops (lk, GetEvent name) dc = (let (dc, r) = Get lops bops lk name dc in (dc, Data r))"
| "cache_step lops bops (lk, DeleteEvent name) dc = (let (dc, r) = Delete lops bops lk name dc in (dc, Done r))"

fun cache_run ::
    "'l store_ops \<Rightarrow> 'b store_ops \<Rightarrow> (bool \<times> cache_event) list \<Rightarrow> ('l, 'b) CachingStore \<Rightarrow> ('l, 'b) CachingStore \<times> cache_answer list" where
  "cache_run lops bops [] dc = (dc, [])"
| "cache_run lops bops (ev # evs) dc =
     (let (dc, a) = cache_step lops bops ev dc; (dc, as) = cache_run lops bops evs dc in (dc, a # as))"

text \<open>What a reader finds, for the names that the stores keep their contract for.\<close>

fun contents_of :: "'l store_ops \<Rightarrow> (string \<Rightarrow> bool) \<Rightarrow> 'b store_ops \<Rightarrow> (string \<Rightarrow> bool) \<Rightarrow> ('l, 'b) CachingStore \<Rightarrow> contents" where
  "contents_of lops lok bops bok dc (LocalPlace n) = (if lok n then st_Read lops n (cs_localCache dc) else Inl NotExist)"
| "contents_of lops lok bops bok dc (BackingPlace n) = (if bok n then st_Read bops n (cs_backingStore dc) else Inl NotExist)"

lemma place_of_cases:
  "place_of opts name = LocalPlace name \<and> useBackingStore opts name = (name, False) \<or>
   (\<exists>b. place_of opts name = BackingPlace b \<and> useBackingStore opts name = (b, True))"
  by (cases "useBackingStore opts name") (auto simp: place_of_def useBackingStore_def split: if_splits)

lemma contents_of_metric [simp]: "contents_of lops lok bops bok (metric a b dc) = contents_of lops lok bops bok dc"
  by (rule ext, case_tac x) (simp_all add: metric_def)

context caching_store
begin

abbreviation contents where "contents \<equiv> contents_of lops lok bops bok"

lemma contents_local:
  assumes "lok n" and "st_Read lops n l = x" and "\<And>k. lok k \<Longrightarrow> k \<noteq> n \<Longrightarrow> st_Read lops k l = st_Read lops k (cs_localCache dc)"
    and "cs_localCache dc' = l" and "cs_backingStore dc' = cs_backingStore dc"
  shows "contents dc' = (contents dc)(LocalPlace n := x)"
proof (rule ext)
  fix p show "contents dc' p = ((contents dc)(LocalPlace n := x)) p"
    using assms by (cases p) auto
qed

lemma contents_backing:
  assumes "bok n" and "st_Read bops n b = x" and "\<And>k. bok k \<Longrightarrow> k \<noteq> n \<Longrightarrow> st_Read bops k b = st_Read bops k (cs_backingStore dc)"
    and "cs_backingStore dc' = b" and "cs_localCache dc' = cs_localCache dc"
  shows "contents dc' = (contents dc)(BackingPlace n := x)"
proof (rule ext)
  fix p show "contents dc' p = ((contents dc)(BackingPlace n := x)) p"
    using assms by (cases p) auto
qed

lemma contents_same: "cs_localCache dc' = cs_localCache dc \<Longrightarrow> cs_backingStore dc' = cs_backingStore dc \<Longrightarrow> contents dc' = contents dc"
  by (rule ext, case_tac x) simp_all

lemma put_refines:
  assumes "usable lok bok (cs_opts dc) name" and put: "Put lops bops lk name d dc = (dc', r)"
  shows "spec_step (cs_opts dc) (contents dc) (PutEvent name d) (Done r) (contents dc') \<and> cs_opts dc' = cs_opts dc"
proof (cases r)
  case (Inr x)
  with put have p: "Put lops bops lk name d dc = (dc', Inr ())" by simp
  note ok = Put_ok [OF p]
  have "contents dc' = (contents dc)(place_of (cs_opts dc) name := Inr d)"
  proof (cases rule: disjE [OF place_of_cases [of "cs_opts dc" name]])
    case 1
    then have w: "st_Write lops name d (cs_localCache dc) = (cs_localCache dc', Inr ())" "cs_backingStore dc' = cs_backingStore dc" using ok by auto
    with assms(1) l.read_written [OF _ w(1)] l.write_frame [OF _ _ _ w(1)] 1 show ?thesis
      by (auto simp: usable_def intro!: contents_local)
  next
    case 2
    then obtain b where b: "place_of (cs_opts dc) name = BackingPlace b" "useBackingStore (cs_opts dc) name = (b, True)" by blast
    then have w: "st_Write bops b d (cs_backingStore dc) = (cs_backingStore dc', Inr ())" "cs_localCache dc' = cs_localCache dc" using ok by auto
    with assms(1) b.read_written [OF _ w(1)] b.write_frame [OF _ _ _ w(1)] b show ?thesis
      by (auto simp: usable_def intro!: contents_backing)
  qed
  then show ?thesis using ok Inr by (auto intro: spec_step.put)
next
  case (Inl e)
  have "cs_localCache dc' = cs_localCache dc" "cs_backingStore dc' = cs_backingStore dc" "cs_opts dc' = cs_opts dc"
    using put Inl l.write_failed b.write_failed
    by (auto simp: Put_def metric_def Let_def split: prod.splits if_splits sum.splits)
  moreover have "if \<not> isRSAKeyAllowed (cs_opts dc) name then e = ErrBackingOperation
      else if co_readonly (cs_opts dc) then e = ErrReadonlyCache else e \<in> place_errors (place_of (cs_opts dc) name)"
    using put Inl by (auto simp: Put_def metric_def Let_def place_of_def split: prod.splits if_splits sum.splits)
  ultimately show ?thesis
    using contents_same [of dc' dc] Inl by (auto intro: spec_step.intros split: if_splits)
qed

lemma delete_refines:
  assumes "usable lok bok (cs_opts dc) name" and del: "Delete lops bops lk name dc = (dc', r)"
  shows "spec_step (cs_opts dc) (contents dc) (DeleteEvent name) (Done r) (contents dc') \<and> cs_opts dc' = cs_opts dc"
proof (cases r)
  case (Inr x)
  with del have p: "Delete lops bops lk name dc = (dc', Inr ())" by simp
  note ok = Delete_ok [OF p]
  have "contents dc' = (contents dc)(delete_place (cs_opts dc) name := Inl NotExist)"
  proof (cases "IsLocalName name (co_allowRSAKeys (cs_opts dc))")
    case True
    then have w: "st_Delete lops name (cs_localCache dc) = (cs_localCache dc', Inr ())" "cs_backingStore dc' = cs_backingStore dc" using ok by auto
    with assms(1) l.read_deleted [OF _ w(1)] l.delete_frame [OF _ _ _ w(1)] True show ?thesis
      by (auto simp: usable_def delete_place_def intro!: contents_local)
  next
    case False
    then have w: "st_Delete bops name (cs_backingStore dc) = (cs_backingStore dc', Inr ())" "cs_localCache dc' = cs_localCache dc" using ok by auto
    from False assms(1) have "bok name" by (simp add: usable_def useBackingStore_def)
    with w b.read_deleted [OF _ w(1)] b.delete_frame [OF _ _ _ w(1)] False show ?thesis
      by (auto simp: delete_place_def intro!: contents_backing)
  qed
  then show ?thesis using ok Inr by (auto intro: spec_step.delete)
next
  case (Inl e)
  have "cs_localCache dc' = cs_localCache dc" "cs_backingStore dc' = cs_backingStore dc" "cs_opts dc' = cs_opts dc"
    using del Inl l.delete_failed b.delete_failed
    by (auto simp: Delete_def metric_def Let_def split: prod.splits if_splits sum.splits)
  moreover have "if co_readonly (cs_opts dc) then e = ErrReadonlyCache else e \<in> place_errors (delete_place (cs_opts dc) name)"
    using del Inl by (auto simp: Delete_def metric_def Let_def delete_place_def split: prod.splits if_splits sum.splits)
  ultimately show ?thesis
    using contents_same [of dc' dc] Inl by (auto intro: spec_step.intros split: if_splits)
qed

lemma get_refines:
  assumes "usable lok bok (cs_opts dc) name" and get: "Get lops bops lk name dc = (dc', r)"
  shows "spec_step (cs_opts dc) (contents dc) (GetEvent name) (Data r) (contents dc') \<and> cs_opts dc' = cs_opts dc"
proof -
  note k = Get_keeps [of lops bops lk name dc, unfolded get fst_conv]
  have r: "r = snd (Get lops bops lk name dc)" by (simp add: get)
  show ?thesis
  proof (cases rule: disjE [OF place_of_cases [of "cs_opts dc" name]])
    case 1
    show ?thesis
    proof (cases lk)
      case True
      with 1 r assms(1) have "r = reads (read_error (place_of (cs_opts dc) name)) (contents dc (place_of (cs_opts dc) name))"
        by (simp add: Get_value usable_def)
      with contents_same [OF k(1,2)] k(3) show ?thesis by (simp add: spec_step.get)
    next
      case False
      with 1 r have "r = Inl ErrLockFailed" by (simp add: Get_value)
      with 1 contents_same [OF k(1,2)] k(3) show ?thesis by (simp add: spec_step.get_unlocked)
    qed
  next
    case 2
    with r assms(1) have "r = reads (read_error (place_of (cs_opts dc) name)) (contents dc (place_of (cs_opts dc) name))"
      by (auto simp: Get_value usable_def)
    with contents_same [OF k(1,2)] k(3) show ?thesis by (simp add: spec_step.get)
  qed
qed

lemma step_refines:
  assumes "usable lok bok (cs_opts dc) (event_name (snd ev))" and "cache_step lops bops ev dc = (dc', a)"
  shows "spec_step (cs_opts dc) (contents dc) (snd ev) a (contents dc') \<and> cs_opts dc' = cs_opts dc"
proof -
  obtain lk e where ev: "ev = (lk, e)" by (cases ev)
  show ?thesis
  proof (cases e)
    case (PutEvent n d)
    obtain r where r: "Put lops bops lk n d dc = (dc', r)" "a = Done r"
      using assms(2) by (cases "Put lops bops lk n d dc") (simp add: ev PutEvent)
    from put_refines [OF _ r(1)] assms(1) show ?thesis by (simp add: ev PutEvent r(2))
  next
    case (GetEvent n)
    obtain r where r: "Get lops bops lk n dc = (dc', r)" "a = Data r"
      using assms(2) by (cases "Get lops bops lk n dc") (simp add: ev GetEvent)
    from get_refines [OF _ r(1)] assms(1) show ?thesis by (simp add: ev GetEvent r(2))
  next
    case (DeleteEvent n)
    obtain r where r: "Delete lops bops lk n dc = (dc', r)" "a = Done r"
      using assms(2) by (cases "Delete lops bops lk n dc") (simp add: ev DeleteEvent)
    from delete_refines [OF _ r(1)] assms(1) show ?thesis by (simp add: ev DeleteEvent r(2))
  qed
qed

lemma run_refines:
  assumes "\<forall>ev \<in> set evs. usable lok bok (cs_opts dc) (event_name (snd ev))" and "cache_run lops bops evs dc = (dc', as)"
  shows "spec_run (cs_opts dc) (contents dc) (map snd evs) as (contents dc') \<and> cs_opts dc' = cs_opts dc"
  using assms
proof (induction evs arbitrary: dc as)
  case Nil
  then show ?case by (simp add: spec_run.stop)
next
  case (Cons ev evs)
  obtain dc1 a where s: "cache_step lops bops ev dc = (dc1, a)" by force
  obtain as' where r: "cache_run lops bops evs dc1 = (dc', as')" "as = a # as'"
    using Cons.prems(2) s by (cases "cache_run lops bops evs dc1") simp
  have st: "spec_step (cs_opts dc) (contents dc) (snd ev) a (contents dc1)" "cs_opts dc1 = cs_opts dc"
    using step_refines [OF _ s] Cons.prems(1) by auto
  have "spec_run (cs_opts dc1) (contents dc1) (map snd evs) as' (contents dc') \<and> cs_opts dc' = cs_opts dc1"
    by (rule Cons.IH [OF _ r(1)]) (use Cons.prems(1) st(2) in simp)
  with st r(2) show ?case by (auto intro: spec_run.more)
qed

end

text \<open>
  C21. The caching store implements its specification: over any two stores that keep the contract of a store, and for names that
  they keep it for, every sequence of \<^verbatim>\<open>Put\<close>, \<^verbatim>\<open>Get\<close> and \<^verbatim>\<open>Delete\<close>, whether or not the lock can be taken each time, gives answers
  that the abstract machine allows, and leaves the contents that the machine is left with. In the machine a successful \<^verbatim>\<open>Put\<close>
  or \<^verbatim>\<open>Delete\<close> changes the one place that the name is kept at, \<^verbatim>\<open>Get\<close> answers what is there, a failed operation changes nothing,
  and which error is reported is fixed by the options and the place. The options are never changed.
\<close>

theorem cache_refines_spec:
  assumes "key_store lops lok" and "key_store bops bok"
    and "\<forall>ev \<in> set evs. usable lok bok (cs_opts dc) (event_name (snd ev))"
    and "cache_run lops bops evs dc = (dc', as)"
  shows "spec_run (cs_opts dc) (contents_of lops lok bops bok dc) (map snd evs) as (contents_of lops lok bops bok dc') \<and>
    cs_opts dc' = cs_opts dc"
  using caching_store.run_refines [OF caching_store.intro [OF assms(1,2)] assms(3,4)] .

theorem cache_refines_spec_witness:
  "let l = local_store \<lparr>lc_root = ''/l''\<rparr>; b = local_store \<lparr>lc_root = ''/b''\<rparr>;
       evs = [PutEvent ''example.com'' ''CERT'', GetEvent ''example.com'', DeleteEvent ''example.com'', GetEvent ''example.com''];
       (dc', as) = cache_run l b (map (Pair True) evs) (demo_store [])
   in as = [Done (Inr ()), Data (Inr ''CERT''), Done (Inr ()), Data (Inl ErrCacheMiss)] \<and>
      spec_run zero_cc_options (contents_of l plain_name b plain_name (demo_store [])) evs as (contents_of l plain_name b plain_name dc')"
proof -
  let ?l = "local_store \<lparr>lc_root = ''/l''\<rparr>" and ?b = "local_store \<lparr>lc_root = ''/b''\<rparr>"
  let ?evs = "[PutEvent ''example.com'' ''CERT'', GetEvent ''example.com'', DeleteEvent ''example.com'', GetEvent ''example.com'']"
  have u: "\<forall>ev \<in> set (map (Pair True) ?evs). usable plain_name plain_name (cs_opts (demo_store [])) (event_name (snd ev))"
    by (simp add: usable_def demo_store_def store_eval plain_name_def)
  obtain dc' as where r: "cache_run ?l ?b (map (Pair True) ?evs) (demo_store []) = (dc', as)" by force
  have as: "as = [Done (Inr ()), Data (Inr ''CERT''), Done (Inr ()), Data (Inl ErrCacheMiss)]"
    using r by (auto simp: demo_store_def store_eval empty_files_def Get_def localCache_ReadFileCtx_def os_ReadFile_def translateCacheMiss_def)
  have "spec_run (cs_opts (demo_store [])) (contents_of ?l plain_name ?b plain_name (demo_store [])) (map snd (map (Pair True) ?evs)) as
      (contents_of ?l plain_name ?b plain_name dc')"
    using cache_refines_spec [OF local_files.key_store_axioms local_files.key_store_axioms u r] by (rule conjunct1)
  moreover have "cs_opts (demo_store []) = zero_cc_options" by (simp add: demo_store_def)
  ultimately show ?thesis using as unfolding Let_def r by simp
qed

end
