(* ===== verification/Spec2Isabelle.thy ===== *)
theory Spec2Isabelle
  imports Permissions Cookies JsonApi IpAcl Passkeys TlsNames CertCache Redirect Webhooks Acme Auth0 CssUtil WebAssets DevServer TestWebapp TlsTest Pebble PebbleTest AcmeCmd DevJs ChromeListen NavTest AcmeServers WebappCmd VerificationLink PebbleMock AcmeCli PasskeyFlow CacheSpec
begin

text \<open>
  \<^bold>\<open>A verification development of the Go module \<close>\<^verbatim>\<open>cloudeng.io/webapp\<close> (the repository \<open>go.webapp\<close>).

  The module is a library for web servers and the tools around them: TLS certificates and their stores, an ACME client,
  servers with graceful shutdown and redirects, access control by address and by permission, passkey logins,
  JWTs, webhooks with a relay, checks that exercise a running web application, and commands and browser utilities built from
  these. The development translates them function by function into executable definitions and proves what each promises.
  This theory imports all others; the properties are in the theories of their components.

  \<^bold>\<open>How the code is modelled.\<close> A struct is a record, an enumeration or a set of errors a datatype, a method a function from
  the state to the new state and its result. A pair of a value and an error is the sum type \<^verbatim>\<open>result\<close> with the error on the left.
  A panic, or a nil dereference, is the value \<^verbatim>\<open>None\<close> where it can happen. A functional option is a function on the
  record of options. Handlers take a request and a response and return the response, whose status and headers are fixed at the first write
  as in \<^verbatim>\<open>net/http\<close>. Times and durations are integers of nanoseconds; machine integers
  are words where their width matters (addresses, TLS identifiers, ports, validity periods). What other goroutines, the network, the clock, processes and
  third-party packages do is an argument: a function, a record of functions, or a sequence of events. Where a property relies on such code, a
  predicate whose name ends in \<^verbatim>\<open>laws\<close> (or a named hypothesis) states its documented behaviour, and the witness of the property shows an instance.
  Concurrency is modelled where the code depends on it: serving and its shutdown, and the logging listener, are step relations; connections and tests that
  run in an error group may finish in any order. Log lines are left out; the calls of metric counters are recorded.

  \<^bold>\<open>The theories and the code.\<close>
  \<^item> Shared: \<^verbatim>\<open>Prelude\<close> (results, options, \<^verbatim>\<open>strings\<close> functions), \<^verbatim>\<open>Loops\<close> (loops that wait), \<^verbatim>\<open>GoHttp\<close>, \<^verbatim>\<open>HttpClient\<close> (headers,
    requests, responses, cookies, redirects of clients), \<^verbatim>\<open>GoEncoding\<close>, \<^verbatim>\<open>GoNet\<close>, \<^verbatim>\<open>GoPath\<close>, \<^verbatim>\<open>GoUrl\<close>, \<^verbatim>\<open>GoQuery\<close> (hexadecimal and base 64,
    addresses and prefixes, paths and files, URLs, queries): the parts of the standard library the sources use.
  \<^item> \<^verbatim>\<open>Permissions\<close>: \<^verbatim>\<open>webauth/permissions\<close> and its test utilities. \<^verbatim>\<open>Cookies\<close>: \<^verbatim>\<open>cookies\<close>. \<^verbatim>\<open>JsonApi\<close>: \<^verbatim>\<open>jsonapi\<close>. \<^verbatim>\<open>IpAcl\<close>: \<^verbatim>\<open>ipacl\<close>.
  \<^item> \<^verbatim>\<open>WebhookSignature\<close>, \<^verbatim>\<open>WebhookRelay\<close>, \<^verbatim>\<open>WebhookConfig\<close>: \<^verbatim>\<open>webhooks\<close>; \<^verbatim>\<open>RelaySpec\<close> is the abstract queue the relay
    refines, \<^verbatim>\<open>Webhooks\<close> the composition of sender, relay, configuration and client.
  \<^item> \<^verbatim>\<open>JwtUtil\<close>, \<^verbatim>\<open>VerificationLink\<close>: \<^verbatim>\<open>webauth/jwtutil\<close>. \<^verbatim>\<open>Auth0\<close>: \<^verbatim>\<open>webauth/auth0\<close>. \<^verbatim>\<open>PasskeyStore\<close>, \<^verbatim>\<open>Passkeys\<close>:
    \<^verbatim>\<open>webauth/webauthn/passkeys\<close> (users, sessions, logins; the endpoints over any stores); \<^verbatim>\<open>PasskeyFlow\<close> composes a login with its later verification.
  \<^item> \<^verbatim>\<open>TlsNames\<close>, \<^verbatim>\<open>Certs\<close>, \<^verbatim>\<open>ServingCache\<close>, \<^verbatim>\<open>Shutdown\<close>, \<^verbatim>\<open>Redirect\<close>, \<^verbatim>\<open>HttpUtil\<close>: the top-level package (\<^verbatim>\<open>cipher_suites.go\<close> and
    \<^verbatim>\<open>tls_capabilities.go\<close>; \<^verbatim>\<open>certs.go\<close>; \<^verbatim>\<open>servingcache.go\<close>, \<^verbatim>\<open>flags.go\<close> and \<^verbatim>\<open>client.go\<close>; \<^verbatim>\<open>shutdown.go\<close>; \<^verbatim>\<open>redirect.go\<close>; the small files).
  \<^item> \<^verbatim>\<open>CertCache\<close>, \<^verbatim>\<open>Acme\<close>, \<^verbatim>\<open>Pebble\<close>, \<^verbatim>\<open>PebbleTest\<close>: \<^verbatim>\<open>webauth/acme\<close> with its packages \<^verbatim>\<open>certcache\<close>, \<^verbatim>\<open>pebble\<close> and \<^verbatim>\<open>pebbletest\<close>; \<^verbatim>\<open>CacheSpec\<close> is
    the abstract map of places the caching store refines, \<^verbatim>\<open>PebbleMock\<close> the stand-in for pebble of the tests.
  \<^item> \<^verbatim>\<open>TlsValidate\<close>: \<^verbatim>\<open>tlsvalidate\<close>. \<^verbatim>\<open>TestWebapp\<close>, \<^verbatim>\<open>TlsTest\<close>, \<^verbatim>\<open>NavTest\<close>: \<^verbatim>\<open>testwebapp\<close>. \<^verbatim>\<open>DevTest\<close>, \<^verbatim>\<open>DevJs\<close>: \<^verbatim>\<open>devtest\<close>. \<^verbatim>\<open>ChromeDp\<close> and
    \<^verbatim>\<open>ChromeListen\<close>: \<^verbatim>\<open>devtest/chromedputil\<close>. \<^verbatim>\<open>DevServer\<close>: \<^verbatim>\<open>devserver\<close>. \<^verbatim>\<open>WebAssets\<close>, \<^verbatim>\<open>CssUtil\<close>, \<^verbatim>\<open>GoGet\<close>: the packages of these names.
  \<^item> \<^verbatim>\<open>AcmeCmd\<close>, \<^verbatim>\<open>AcmeServers\<close>, \<^verbatim>\<open>AcmeCli\<close>, \<^verbatim>\<open>WebappCmd\<close>: the operations and command tables of \<^verbatim>\<open>cmd/acme\<close> and \<^verbatim>\<open>cmd/webapp\<close>, which compose the above.

  \<^bold>\<open>Interfaces.\<close> Each interface of the code, or contract that several operations share, is a locale, interpreted on the
  model's own definitions: \<^verbatim>\<open>key_store\<close> and \<^verbatim>\<open>caching_store\<close> (what is read after a write or a deletion; the local file store, two of them under the caching
  store, and the maps of the commands), \<^verbatim>\<open>address_extractor\<close> (both extractors of \<^verbatim>\<open>ipacl\<close>), \<^verbatim>\<open>session_manager\<close>, \<^verbatim>\<open>user_database\<close> and
  \<^verbatim>\<open>passkey_stores\<close> (the in-memory ones, over which the endpoints are proved), \<^verbatim>\<open>name_list_codec\<close> (the five YAML codecs of
  TLS names), and \<^verbatim>\<open>scanning_loop\<close> with its sublocale \<^verbatim>\<open>polling_loop\<close> (nine loops that wait for servers, URLs, lines of output,
  webhooks, connections and certificates: when they return, and with what).

  \<^bold>\<open>What is proved.\<close>
  \<^item> Access: permission patterns match component-wise, granting is transitive; address lists admit exactly what they cover and the handler
    enforces them; private subnets; file names and served files stay in their directory; bodies stay within their limit.
  \<^item> Identity: login cookies and verification tokens are accepted exactly if signed, timely and for the expected claims, Auth0 tokens only then, and
    a client that logged in is recognised as its user until the login expires; passkey ceremonies store and log in the user that the library vouches for, and a key is good for one use.
  \<^item> Webhooks: exactly the signed payloads validate, only validated payloads are queued, a signed payload reaches the next poll unchanged, the relay answers every sequence of
    requests within its bound and refines the abstract queue.
  \<^item> Certificates: what is served was loaded and verified for its name within its time to live; the caching store refines an abstract map over any two lawful
    stores and keeps local data local; PEM chains are read back; a revocation is for the stored certificate and the reason given; a certificate manager answers for its hosts only.
  \<^item> Serving: in every interleaving the server returns nil only after it stopped, and a cancelled server returns; refresh loops end with their context.
  \<^item> Checks: a TLS validation passes only on what its rules say and passes on all of it that has serial numbers; a passing TLS, status or navigation test means what its specification says, and status and navigation tests always return.
  \<^item> Browser events: the channels of the logging listener stay typed and bounded and lose nothing.
  Where the code does not do what its comments say, a lemma or property states what it does.

  \<^bold>\<open>Loops, bounds and fuel.\<close> Loops over lists are structural recursion. Loops that consume a text have fuel that cannot run out: nine rounds for
  the at most eight groups of an IPv6 address, the length of the input for the blocks and certificates of a PEM file. Loops
  that wait (polling, refreshing, following redirects, draining) are partial functions over sequences of events, \<^verbatim>\<open>None\<close> being a loop that never returns; the properties
  state when they return. The channels of the listener hold ten events as in the code.

  \<^bold>\<open>Not modelled.\<close> Logging, help texts and the YAML forms used only in messages; the metric function types that nothing uses; \<^verbatim>\<open>passkeys/run_test_server.go\<close>, which is excluded from the
  build and does not match the signatures of the functions it calls, so that it has no behaviour to translate; the javascript that runs in the browser and the HTML templates, whose results are arguments; cryptography, X.509, JWT, WebAuthn, autocert,
  chromedp, AWS, YAML and JSON codecs, which are third-party or standard packages used through the arguments above.
\<close>

end
